(* ===== verification/Codes.thy ===== *)
theory Codes
  imports Main
begin

text \<open>
  Reason codes.  \<open>lumo/policy/engine.py\<close> and \<open>lumo/pipeline.py\<close> name the outcomes of
  the policy engine and of the guards by string constants; \<open>lumo/flow.py\<close> and
  \<open>lumo/chain/mapper.py\<close> add the codes of the audit rows they write.  The datatype has
  one constructor per constant, \<open>code_name\<close> is the constant's text.
\<close>

datatype code =
    OK
  | INJECTION_SUSPECTED
  | INVALID_AMOUNT
  | UNKNOWN_SUPPLIER
  | ADDRESS_MISMATCH
  | DUPLICATE_REQUEST
  | OVER_TX_CAP
  | OVER_DAILY_CAP
  | SIGNER_SUPPLIER_NOT_ALLOWED
  | SIGNER_OVER_CAP
  | ATTESTATION_MISSING
  | KOFN_UNMET
  | COSIGN_REQUIRED
  | POC_RECEIPT_INVALID
  | AMOUNT_MISMATCH
  | ESCROWED_ONCHAIN
  | CHAIN_FUNDED
  | CHAIN_REFUNDED

fun code_name :: "code \<Rightarrow> string" where
  "code_name OK = ''OK''"
| "code_name INJECTION_SUSPECTED = ''INJECTION_SUSPECTED''"
| "code_name INVALID_AMOUNT = ''INVALID_AMOUNT''"
| "code_name UNKNOWN_SUPPLIER = ''UNKNOWN_SUPPLIER''"
| "code_name ADDRESS_MISMATCH = ''ADDRESS_MISMATCH''"
| "code_name DUPLICATE_REQUEST = ''DUPLICATE_REQUEST''"
| "code_name OVER_TX_CAP = ''OVER_TX_CAP''"
| "code_name OVER_DAILY_CAP = ''OVER_DAILY_CAP''"
| "code_name SIGNER_SUPPLIER_NOT_ALLOWED = ''SIGNER_SUPPLIER_NOT_ALLOWED''"
| "code_name SIGNER_OVER_CAP = ''SIGNER_OVER_CAP''"
| "code_name ATTESTATION_MISSING = ''ATTESTATION_MISSING''"
| "code_name KOFN_UNMET = ''KOFN_UNMET''"
| "code_name COSIGN_REQUIRED = ''COSIGN_REQUIRED''"
| "code_name POC_RECEIPT_INVALID = ''POC_RECEIPT_INVALID''"
| "code_name AMOUNT_MISMATCH = ''AMOUNT_MISMATCH''"
| "code_name ESCROWED_ONCHAIN = ''ESCROWED_ONCHAIN''"
| "code_name CHAIN_FUNDED = ''CHAIN_FUNDED''"
| "code_name CHAIN_REFUNDED = ''CHAIN_REFUNDED''"

text \<open>Two constants never share a text, so comparing constructors is comparing strings.\<close>

lemma code_name_eq_iff [simp]: "code_name a = code_name b \<longleftrightarrow> a = b"
  by (cases a; cases b) simp_all

end
