(* ===== verification/Prelude.thy ===== *)
theory Prelude
  imports Codes
begin

text \<open>
  The vocabulary every component shares: Python text as a list of code points, Python
  exceptions as a datatype, statements that may raise and change a state as functions
  \<open>'w \<Rightarrow> (exn + 'a) \<times> 'w\<close>, and the locale \<open>frame_relation\<close>, which proves once how a
  reflexive and transitive relation between the state before and the state after is kept
  by sequencing, branching, loops and exception handlers.  An effect survives an
  exception, as in Python: the state is returned beside the error.
\<close>

section \<open>Text\<close>

type_synonym pystr = "int list"

definition asc :: "string \<Rightarrow> pystr" where
  "asc s = map of_char s"

lemma asc_eq_iff [simp]: "asc s = asc t \<longleftrightarrow> s = t"
proof
  assume "asc s = asc t"
  moreover have "inj (map (of_char :: char \<Rightarrow> int))"
    by (rule inj_mapI) (auto intro: injI)
  ultimately show "s = t"
    unfolding asc_def by (simp add: inj_eq)
qed simp

lemma asc_Nil [simp]: "asc [] = []" and asc_Cons: "asc (c # s) = of_char c # asc s"
  by (simp_all add: asc_def)

lemma asc_append: "asc (s @ t) = asc s @ asc t"
  by (simp add: asc_def)

lemma length_asc [simp]: "length (asc s) = length s"
  by (simp add: asc_def)

lemma asc_eq_Nil [simp]: "asc s = [] \<longleftrightarrow> s = []"
  by (simp add: asc_def)

section \<open>Exceptions\<close>

datatype exn =
    ValueError string
  | TypeError string
  | KeyError pystr
  | AttributeError string
  | OverflowError
  | UnicodeEncodeError
  | InvalidOperation
  | DecimalOverflow
  | DivisionByZero
  | IntegrityError string
  | OperationalError
  | NotImplementedError string
  | RuntimeError string
  | TimeoutExpired
  | ChainError string
  | SorobanError string
  | ChainSubmittedUnconfirmed "pystr option"
  | GuardRefused "code list"
  | WebhookURLError string
  | OtherException string

text \<open>\<open>SorobanError\<close> and \<open>ChainSubmittedUnconfirmed\<close> are subclasses of \<open>ChainError\<close>.\<close>

fun is_ChainError :: "exn \<Rightarrow> bool" where
  "is_ChainError (ChainError _) = True"
| "is_ChainError (SorobanError _) = True"
| "is_ChainError (ChainSubmittedUnconfirmed _) = True"
| "is_ChainError _ = False"

text \<open>\<open>InvalidOperation\<close>, \<open>Overflow\<close> and \<open>DivisionByZero\<close> of the decimal module and \<open>OverflowError\<close> are
  subclasses of \<open>ArithmeticError\<close>.\<close>

fun is_ArithmeticError :: "exn \<Rightarrow> bool" where
  "is_ArithmeticError InvalidOperation = True"
| "is_ArithmeticError DecimalOverflow = True"
| "is_ArithmeticError DivisionByZero = True"
| "is_ArithmeticError OverflowError = True"
| "is_ArithmeticError _ = False"

section \<open>Pure results\<close>

type_synonym 'a result = "exn + 'a"

definition rbind :: "'a result \<Rightarrow> ('a \<Rightarrow> 'b result) \<Rightarrow> 'b result" where
  "rbind r f = (case r of Inl e \<Rightarrow> Inl e | Inr x \<Rightarrow> f x)"

lemma rbind_simps [simp]: "rbind (Inl e) f = Inl e" "rbind (Inr x) f = f x"
  by (simp_all add: rbind_def)

lemma rbind_eq_Inr [simp]: "rbind r f = Inr y \<longleftrightarrow> (\<exists>x. r = Inr x \<and> f x = Inr y)"
  by (cases r) simp_all

text \<open>A list comprehension whose element expression may raise.\<close>

fun rmap :: "('a \<Rightarrow> 'b result) \<Rightarrow> 'a list \<Rightarrow> 'b list result" where
  "rmap f [] = Inr []"
| "rmap f (x # xs) = rbind (f x) (\<lambda>y. rbind (rmap f xs) (\<lambda>ys. Inr (y # ys)))"

lemma rmap_cong [fundef_cong]:
  "xs = ys \<Longrightarrow> (\<And>x. x \<in> set ys \<Longrightarrow> f x = g x) \<Longrightarrow> rmap f xs = rmap g ys"
proof (induction xs arbitrary: ys)
  case (Cons x xs)
  then show ?case by (cases ys) auto
qed simp

lemma rmap_InrD: "rmap f xs = Inr ys \<Longrightarrow> list_all2 (\<lambda>x y. f x = Inr y) xs ys"
  by (induction xs arbitrary: ys) auto

lemma rmap_Inr_map: "(\<And>x. x \<in> set xs \<Longrightarrow> f x = Inr (g x)) \<Longrightarrow> rmap f xs = Inr (map g xs)"
  by (induction xs) auto

section \<open>Statements with effects\<close>

type_synonym ('w, 'a) py = "'w \<Rightarrow> 'a result \<times> 'w"

definition py_ret :: "'a \<Rightarrow> ('w, 'a) py" where
  "py_ret x = (\<lambda>w. (Inr x, w))"

definition py_raise :: "exn \<Rightarrow> ('w, 'a) py" where
  "py_raise e = (\<lambda>w. (Inl e, w))"

definition py_lift :: "'a result \<Rightarrow> ('w, 'a) py" where
  "py_lift r = (\<lambda>w. (r, w))"

definition py_gets :: "('w \<Rightarrow> 'a) \<Rightarrow> ('w, 'a) py" where
  "py_gets f = (\<lambda>w. (Inr (f w), w))"

definition py_modify :: "('w \<Rightarrow> 'w) \<Rightarrow> ('w, unit) py" where
  "py_modify f = (\<lambda>w. (Inr (), f w))"

definition py_bind :: "('w, 'a) py \<Rightarrow> ('a \<Rightarrow> ('w, 'b) py) \<Rightarrow> ('w, 'b) py" where
  "py_bind m f = (\<lambda>w. case m w of (Inl e, w') \<Rightarrow> (Inl e, w') | (Inr x, w') \<Rightarrow> f x w')"

definition py_seq :: "('w, 'a) py \<Rightarrow> ('w, 'b) py \<Rightarrow> ('w, 'b) py" where
  "py_seq m n = py_bind m (\<lambda>_. n)"

text \<open>\<open>try: m except Exception as e: h e\<close>\<close>

definition py_except :: "('w, 'a) py \<Rightarrow> (exn \<Rightarrow> ('w, 'a) py) \<Rightarrow> ('w, 'a) py" where
  "py_except m h = (\<lambda>w. case m w of (Inl e, w') \<Rightarrow> h e w' | (Inr x, w') \<Rightarrow> (Inr x, w'))"

text \<open>\<open>for x in xs: f(x)\<close>\<close>

fun py_for :: "'a list \<Rightarrow> ('a \<Rightarrow> ('w, unit) py) \<Rightarrow> ('w, unit) py" where
  "py_for [] f = py_ret ()"
| "py_for (x # xs) f = py_seq (f x) (py_for xs f)"

definition py_when :: "bool \<Rightarrow> ('w, unit) py \<Rightarrow> ('w, unit) py" where
  "py_when b m = (if b then m else py_ret ())"

text \<open>Running a statement that touches one half of a pair of states.\<close>

definition on_fst :: "('v, 'a) py \<Rightarrow> ('v \<times> 'u, 'a) py" where
  "on_fst m = (\<lambda>(v, u). case m v of (r, v') \<Rightarrow> (r, (v', u)))"

definition on_snd :: "('u, 'a) py \<Rightarrow> ('v \<times> 'u, 'a) py" where
  "on_snd m = (\<lambda>(v, u). case m u of (r, u') \<Rightarrow> (r, (v, u')))"

named_theorems py_defs \<open>unfoldings of the statement combinators\<close>

lemmas [py_defs] = py_ret_def py_raise_def py_lift_def py_gets_def py_modify_def
  py_bind_def py_seq_def py_except_def py_when_def

lemma py_bind_Inr: "m w = (Inr x, w') \<Longrightarrow> py_bind m f w = f x w'"
  and py_bind_Inl: "m w = (Inl e, w') \<Longrightarrow> py_bind m f w = (Inl e, w')"
  by (simp_all add: py_bind_def)

lemma py_seq_Inr: "m w = (Inr x, w') \<Longrightarrow> py_seq m n w = n w'"
  and py_seq_Inl: "m w = (Inl e, w') \<Longrightarrow> py_seq m n w = (Inl e, w')"
  by (simp_all add: py_seq_def py_bind_def)

lemma py_ret_apply [simp]: "py_ret x w = (Inr x, w)"
  and py_raise_apply [simp]: "py_raise e w = (Inl e, w)"
  and py_lift_apply [simp]: "py_lift r w = (r, w)"
  and py_gets_apply [simp]: "py_gets f w = (Inr (f w), w)"
  and py_modify_apply [simp]: "py_modify g w = (Inr (), g w)"
  by (simp_all add: py_defs)

lemma py_bind_left [simp]:
  "py_bind (py_ret x) f w = f x w"
  "py_bind (py_raise e) f w = (Inl e, w)"
  "py_bind (py_lift (Inr x)) f w = f x w"
  "py_bind (py_lift (Inl e)) f w = (Inl e, w)"
  "py_bind (py_gets h) f w = f (h w) w"
  "py_bind (py_modify g) f' w = f' () (g w)"
  by (simp_all add: py_defs)

lemma py_bind_returns:
  "py_bind m f w = (Inr y, w'') \<longleftrightarrow> (\<exists>x w'. m w = (Inr x, w') \<and> f x w' = (Inr y, w''))"
  by (auto simp: py_bind_def split: prod.splits sum.splits)

lemma py_seq_returns:
  "py_seq m n w = (Inr y, w'') \<longleftrightarrow> (\<exists>x w'. m w = (Inr x, w') \<and> n w' = (Inr y, w''))"
  by (simp add: py_seq_def py_bind_returns)

lemma py_bind_raises:
  "py_bind m f w = (Inl e, w'') \<longleftrightarrow>
     m w = (Inl e, w'') \<or> (\<exists>x w'. m w = (Inr x, w') \<and> f x w' = (Inl e, w''))"
  by (auto simp: py_bind_def split: prod.splits sum.splits)

lemma on_fst_apply: "on_fst m (v, u) = (let (r, v') = m v in (r, (v', u)))"
  and on_snd_apply: "on_snd m' (v, u) = (let (r, u') = m' u in (r, (v, u')))"
  by (simp_all add: on_fst_def on_snd_def)

text \<open>Evaluation unfolds a statement only once its state is known.\<close>

lemma py_code [code]:
  "py_ret x w = (Inr x, w)" "py_raise e w = (Inl e, w)" "py_lift r w = (r, w)"
  "py_gets f w = (Inr (f w), w)" "py_modify g w = (Inr (), g w)"
  by simp_all

lemma py_bind_code [code]:
  "py_bind m f w = (case m w of (r, w') \<Rightarrow> (case r of Inl e \<Rightarrow> (Inl e, w') | Inr x \<Rightarrow> f x w'))"
  by (simp add: py_bind_def split: prod.split sum.split)

lemma py_seq_code [code]:
  "py_seq m n w = (case m w of (r, w') \<Rightarrow> (case r of Inl e \<Rightarrow> (Inl e, w') | Inr x \<Rightarrow> n w'))"
  by (simp add: py_seq_def py_bind_def split: prod.split sum.split)

lemma py_except_code [code]:
  "py_except m h w = (case m w of (r, w') \<Rightarrow> (case r of Inl e \<Rightarrow> h e w' | Inr x \<Rightarrow> (Inr x, w')))"
  by (simp add: py_except_def split: prod.split sum.split)

lemma py_when_code [code]: "py_when b m w = (if b then m w else (Inr (), w))"
  by (simp add: py_when_def)

section \<open>Relating the state before and after\<close>

definition evolves :: "('w \<Rightarrow> 'w \<Rightarrow> bool) \<Rightarrow> ('w, 'a) py \<Rightarrow> bool" where
  "evolves R m \<longleftrightarrow> (\<forall>w. R w (snd (m w)))"

lemma evolvesI: "(\<And>w. R w (snd (m w))) \<Longrightarrow> evolves R m"
  by (simp add: evolves_def)

lemma evolvesD: "evolves R m \<Longrightarrow> m w = (r, w') \<Longrightarrow> R w w'"
  unfolding evolves_def by (metis snd_conv)

locale frame_relation =
  fixes R :: "'w \<Rightarrow> 'w \<Rightarrow> bool"
  assumes frefl: "R w w"
    and ftrans: "R u v \<Longrightarrow> R v w \<Longrightarrow> R u w"
begin

lemma evo_pure:
  "evolves R (py_ret x)" "evolves R (py_raise e)" "evolves R (py_lift r)" "evolves R (py_gets f)"
  by (auto simp: evolves_def frefl)

lemma evo_bind:
  assumes m: "evolves R m" and f: "\<And>x. evolves R (f x)"
  shows "evolves R (py_bind m f)"
proof (rule evolvesI)
  fix w
  obtain r w' where mw: "m w = (r, w')" by (cases "m w")
  with m have "R w w'" by (rule evolvesD)
  moreover have "R w' (snd (f x w'))" for x
    using f by (simp add: evolves_def)
  ultimately show "R w (snd (py_bind m f w))"
    using mw by (auto simp: py_bind_def intro: ftrans split: sum.split)
qed

lemma evo_seq: "evolves R m \<Longrightarrow> evolves R n \<Longrightarrow> evolves R (py_seq m n)"
  by (simp add: py_seq_def evo_bind)

lemma evo_except:
  assumes m: "evolves R m" and h: "\<And>e. evolves R (h e)"
  shows "evolves R (py_except m h)"
proof (rule evolvesI)
  fix w
  obtain r w' where mw: "m w = (r, w')" by (cases "m w")
  with m have "R w w'" by (rule evolvesD)
  moreover have "R w' (snd (h e w'))" for e
    using h by (simp add: evolves_def)
  ultimately show "R w (snd (py_except m h w))"
    using mw by (auto simp: py_except_def intro: ftrans split: sum.split)
qed

lemma evo_when: "evolves R m \<Longrightarrow> evolves R (py_when b m)"
  by (simp add: py_when_def evo_pure)

lemma evo_for: "(\<And>x. x \<in> set xs \<Longrightarrow> evolves R (f x)) \<Longrightarrow> evolves R (py_for xs f)"
  by (induction xs) (auto intro: evo_pure evo_seq)

lemmas evo_intros = evo_pure evo_bind evo_seq evo_except evo_when evo_for

end

text \<open>Keeping a predicate is the instance every invariant uses.\<close>

definition keeps :: "('w \<Rightarrow> bool) \<Rightarrow> 'w \<Rightarrow> 'w \<Rightarrow> bool" where
  "keeps I w w' \<longleftrightarrow> (I w \<longrightarrow> I w')"

interpretation keep: frame_relation "keeps I" for I
  by unfold_locales (auto simp: keeps_def)

interpretation unchanged: frame_relation "(=)"
  by unfold_locales auto

section \<open>Lists\<close>

lemma find_Some_mem: "find P xs = Some x \<Longrightarrow> x \<in> set xs \<and> P x"
  by (auto simp: find_Some_iff)

lemma find_None_ball: "find P xs = None \<longleftrightarrow> (\<forall>x \<in> set xs. \<not> P x)"
  by (auto simp: find_None_iff)

lemma find_append: "find P (xs @ ys) = (case find P xs of None \<Rightarrow> find P ys | Some x \<Rightarrow> Some x)"
  by (induction xs) auto

text \<open>Rows whose key is unique are found by their key.\<close>

lemma find_key:
  assumes "distinct (map k xs)" and "x \<in> set xs"
  shows "find (\<lambda>y. k y = k x) xs = Some x"
  using assms by (induction xs) auto

lemma filter_key_length:
  assumes "distinct (map k xs)"
  shows "length (filter (\<lambda>y. k y = a) xs) = (if a \<in> k ` set xs then 1 else 0)"
  using assms by (induction xs) auto

end
