(* ===== verification/Py_Text.thy ===== *)
theory Py_Text
  imports Prelude "HOL-Library.Code_Target_Nat"
begin

text \<open>
  What the program uses of Python's text and integer conversions.  Text is a list of code
  points.  The Unicode tables and SHA-256 are no part of the repository and enter as the
  parameter \<open>runtime\<close>; on ASCII, classification and case are written out.
  \<open>str(int)\<close> and \<open>int(str)\<close> carry CPython's limit of 4300 decimal digits (the project
  requires Python 3.12), beyond which both raise \<open>ValueError\<close>.
\<close>

record runtime =
  rt_nfkc :: "pystr \<Rightarrow> pystr"
  rt_alnum :: "int \<Rightarrow> bool"
  rt_decimal :: "int \<Rightarrow> int option"
  rt_lower :: "pystr \<Rightarrow> pystr"
  rt_sha256 :: "int list \<Rightarrow> pystr"

text \<open>A runtime on which examples are evaluated: no character beyond ASCII is classified, and
  the digest of a text is the text itself.\<close>

definition plain_runtime :: runtime where
  "plain_runtime = \<lparr>rt_nfkc = (\<lambda>s. s), rt_alnum = (\<lambda>c. False), rt_decimal = (\<lambda>c. None),
     rt_lower = (\<lambda>s. s), rt_sha256 = (\<lambda>bs. bs)\<rparr>"

section \<open>Character classes\<close>

definition is_ascii_digit :: "int \<Rightarrow> bool" where
  "is_ascii_digit c \<longleftrightarrow> 48 \<le> c \<and> c \<le> 57"

definition is_ascii_upper :: "int \<Rightarrow> bool" where
  "is_ascii_upper c \<longleftrightarrow> 65 \<le> c \<and> c \<le> 90"

definition is_ascii_lower :: "int \<Rightarrow> bool" where
  "is_ascii_lower c \<longleftrightarrow> 97 \<le> c \<and> c \<le> 122"

text \<open>\<open>str.isspace\<close>, which \<open>\s\<close> and \<open>strip\<close> use.\<close>

definition is_space :: "int \<Rightarrow> bool" where
  "is_space c \<longleftrightarrow> (9 \<le> c \<and> c \<le> 13) \<or> (28 \<le> c \<and> c \<le> 32) \<or> c = 133 \<or> c = 160 \<or> c = 5760
     \<or> (8192 \<le> c \<and> c \<le> 8202) \<or> c = 8232 \<or> c = 8233 \<or> c = 8239 \<or> c = 8287 \<or> c = 12288"

definition is_word :: "runtime \<Rightarrow> int \<Rightarrow> bool" where
  "is_word rt c \<longleftrightarrow> is_ascii_digit c \<or> is_ascii_upper c \<or> is_ascii_lower c \<or> c = 95
     \<or> (128 \<le> c \<and> rt_alnum rt c)"

lemmas ascii_class_defs = is_ascii_digit_def is_ascii_upper_def is_ascii_lower_def

definition digit_value :: "runtime \<Rightarrow> int \<Rightarrow> int option" where
  "digit_value rt c =
     (if is_ascii_digit c then Some (c - 48) else if 128 \<le> c then rt_decimal rt c else None)"

section \<open>Case and trimming\<close>

definition ascii_lower :: "int \<Rightarrow> int" where
  "ascii_lower c = (if is_ascii_upper c then c + 32 else c)"

definition py_lower :: "runtime \<Rightarrow> pystr \<Rightarrow> pystr" where
  "py_lower rt s = (if list_all (\<lambda>c. c < 128) s then map ascii_lower s else rt_lower rt s)"

definition py_strip :: "pystr \<Rightarrow> pystr" where
  "py_strip s = rev (dropWhile is_space (rev (dropWhile is_space s)))"

text \<open>\<open>s.replace(c, "")\<close> for a single character.\<close>

definition py_remove :: "int \<Rightarrow> pystr \<Rightarrow> pystr" where
  "py_remove c s = filter (\<lambda>d. d \<noteq> c) s"

lemma py_strip_noop:
  assumes "s \<noteq> []" and "\<not> is_space (hd s)" and "\<not> is_space (last s)"
  shows "py_strip s = s"
proof -
  have "dropWhile is_space s = s" using assms by (cases s) auto
  moreover have "dropWhile is_space (rev s) = rev s"
    using assms by (cases s rule: rev_cases) auto
  ultimately show ?thesis by (simp add: py_strip_def)
qed

lemma set_py_strip: "set (py_strip s) \<subseteq> set s"
  unfolding py_strip_def by (metis set_dropWhileD set_rev subsetI)

section \<open>Integers as text\<close>

fun nat_digits :: "nat \<Rightarrow> pystr" where
  "nat_digits n =
     (if n < 10 then [48 + int n] else nat_digits (n div 10) @ [48 + int (n mod 10)])"

declare nat_digits.simps [simp del]

definition max_str_digits :: nat where
  "max_str_digits = 4300"

definition int_text :: "int \<Rightarrow> pystr" where
  "int_text n = (if n < 0 then 45 # nat_digits (nat (- n)) else nat_digits (nat n))"

definition py_str_int :: "int \<Rightarrow> pystr result" where
  "py_str_int n =
     (if max_str_digits < length (nat_digits (nat \<bar>n\<bar>)) then Inl (ValueError ''int too large for str'')
      else Inr (int_text n))"

fun int_tail :: "runtime \<Rightarrow> int \<Rightarrow> pystr \<Rightarrow> int option" where
  "int_tail rt acc [] = Some acc"
| "int_tail rt acc (c # cs) =
     (if c = 95 then
        (case cs of [] \<Rightarrow> None
         | d # ds \<Rightarrow> (case digit_value rt d of None \<Rightarrow> None
                     | Some v \<Rightarrow> int_tail rt (10 * acc + v) ds))
      else (case digit_value rt c of None \<Rightarrow> None | Some v \<Rightarrow> int_tail rt (10 * acc + v) cs))"

definition int_body :: "runtime \<Rightarrow> pystr \<Rightarrow> int option" where
  "int_body rt s =
     (case s of [] \<Rightarrow> None
      | c # cs \<Rightarrow> (case digit_value rt c of None \<Rightarrow> None | Some v \<Rightarrow> int_tail rt v cs))"

definition int_signed :: "runtime \<Rightarrow> pystr \<Rightarrow> int option" where
  "int_signed rt s =
     (case s of [] \<Rightarrow> None
      | c # cs \<Rightarrow> (if c = 45 then map_option uminus (int_body rt cs)
                  else if c = 43 then int_body rt cs else int_body rt s))"

definition py_int_of_str :: "runtime \<Rightarrow> pystr \<Rightarrow> int result" where
  "py_int_of_str rt s =
     (if max_str_digits < length (filter (\<lambda>c. digit_value rt c \<noteq> None) (py_strip s))
      then Inl (ValueError ''str too large for int'')
      else case int_signed rt (py_strip s) of
             None \<Rightarrow> Inl (ValueError ''invalid literal for int()'')
           | Some n \<Rightarrow> Inr n)"

lemma nat_digits_nonempty [simp]: "nat_digits n \<noteq> []"
  by (subst nat_digits.simps) simp

lemma nat_digits_ascii: "\<forall>c \<in> set (nat_digits n). is_ascii_digit c"
proof (induction n rule: nat_digits.induct)
  case (1 n)
  then show ?case by (subst nat_digits.simps) (auto simp: is_ascii_digit_def)
qed

lemma digit_value_ascii: "is_ascii_digit c \<Longrightarrow> digit_value rt c = Some (c - 48)"
  by (simp add: digit_value_def)

lemma ascii_digit_not_special:
  assumes "is_ascii_digit c"
  shows "\<not> is_space c" "c \<noteq> 95" "c \<noteq> 45" "c \<noteq> 43" "c \<noteq> 46"
  using assms by (auto simp: is_ascii_digit_def is_space_def)

lemma int_tail_append_digit:
  assumes "\<forall>c \<in> set s. is_ascii_digit c" and "is_ascii_digit d"
  shows "int_tail rt acc (s @ [d]) = map_option (\<lambda>n. 10 * n + (d - 48)) (int_tail rt acc s)"
  using assms
  by (induction s arbitrary: acc)
     (auto simp: digit_value_ascii ascii_digit_not_special)

lemma int_body_append_digit:
  assumes "\<forall>c \<in> set s. is_ascii_digit c" and "s \<noteq> []" and "is_ascii_digit d"
  shows "int_body rt (s @ [d]) = map_option (\<lambda>n. 10 * n + (d - 48)) (int_body rt s)"
  using assms by (cases s) (simp_all add: int_body_def digit_value_ascii int_tail_append_digit)

lemma int_body_nat_digits: "int_body rt (nat_digits n) = Some (int n)"
proof (induction n rule: nat_digits.induct)
  case (1 n)
  show ?case
  proof (cases "n < 10")
    case True
    then show ?thesis
      by (subst nat_digits.simps) (simp add: int_body_def digit_value_def is_ascii_digit_def)
  next
    case False
    have "is_ascii_digit (48 + int (n mod 10))"
      by (simp add: is_ascii_digit_def)
    with False 1 show ?thesis
      by (subst nat_digits.simps)
         (simp add: int_body_append_digit nat_digits_ascii zmod_int zdiv_int)
  qed
qed

lemma nat_digits_hd: "is_ascii_digit (hd (nat_digits n))"
  and nat_digits_last: "is_ascii_digit (last (nat_digits n))"
  using nat_digits_ascii [of n] by (metis hd_in_set last_in_set nat_digits_nonempty)+

lemma nat_digits_strip: "py_strip (nat_digits n) = nat_digits n"
  by (rule py_strip_noop)
     (simp_all add: nat_digits_hd nat_digits_last ascii_digit_not_special)

lemma int_signed_nat_digits: "int_signed rt (nat_digits n) = Some (int n)"
proof -
  obtain c cs where c: "nat_digits n = c # cs" by (cases "nat_digits n") auto
  with nat_digits_hd [of n] have "is_ascii_digit c" by simp
  with c show ?thesis
    using int_body_nat_digits [of rt n] by (simp add: int_signed_def ascii_digit_not_special)
qed

lemma int_text_strip: "py_strip (int_text n) = int_text n"
proof (cases "n < 0")
  case True
  have "\<not> is_space 45" by (simp add: is_space_def)
  with True show ?thesis
    by (intro py_strip_noop)
       (simp_all add: int_text_def nat_digits_last ascii_digit_not_special)
next
  case False
  then show ?thesis by (simp add: int_text_def nat_digits_strip)
qed

lemma int_signed_int_text: "int_signed rt (int_text n) = Some n"
proof (cases "n < 0")
  case True
  then show ?thesis by (simp add: int_text_def int_signed_def int_body_nat_digits)
next
  case False
  then show ?thesis by (simp add: int_text_def int_signed_nat_digits)
qed

lemma digits_of_int_text:
  "length (filter (\<lambda>c. digit_value rt c \<noteq> None) (int_text n)) = length (nat_digits (nat \<bar>n\<bar>))"
proof -
  have *: "filter (\<lambda>c. digit_value rt c \<noteq> None) (nat_digits k) = nat_digits k" for k
    using nat_digits_ascii [of k] by (auto simp: filter_id_conv digit_value_ascii)
  have "digit_value rt 45 = None" by (simp add: digit_value_def is_ascii_digit_def)
  then show ?thesis by (simp add: int_text_def * del: not_None_eq)
qed

text \<open>Reading back what was written gives the same integer.\<close>

lemma py_int_of_str_int:
  assumes "py_str_int n = Inr s"
  shows "py_int_of_str rt s = Inr n"
proof -
  from assms have s: "s = int_text n" and l: "length (nat_digits (nat \<bar>n\<bar>)) \<le> max_str_digits"
    by (auto simp: py_str_int_def split: if_splits)
  show ?thesis
    by (simp add: py_int_of_str_def s int_text_strip int_signed_int_text digits_of_int_text
        l linorder_not_less del: not_None_eq)
qed

lemma int_text_inj: "int_text m = int_text n \<Longrightarrow> m = n"
  using int_signed_int_text by (metis option.inject)

lemma nat_digits_length_le: "n < 10 ^ k \<Longrightarrow> 0 < k \<Longrightarrow> length (nat_digits n) \<le> k"
proof (induction n arbitrary: k rule: nat_digits.induct)
  case (1 n)
  show ?case
  proof (cases "n < 10")
    case True
    with "1.prems" show ?thesis by (subst nat_digits.simps) simp
  next
    case False
    then obtain j where k: "k = Suc j" "0 < j"
      using "1.prems" by (cases k; cases "k = 1") auto
    with "1.prems" have "n div 10 < 10 ^ j"
      by (simp add: less_mult_imp_div_less mult.commute)
    with "1.IH" [OF False this k(2)] False k show ?thesis
      by (subst nat_digits.simps) simp
  qed
qed

lemma nat_digits_length_gt: "10 ^ k \<le> n \<Longrightarrow> k < length (nat_digits n)"
proof (induction n arbitrary: k rule: nat_digits.induct)
  case (1 n)
  show ?case
  proof (cases "n < 10")
    case True
    with "1.prems" have "(10::nat) ^ k < 10 ^ 1" by simp
    then have "k < 1" by (rule power_less_imp_less_exp [rotated]) simp
    then show ?thesis by simp
  next
    case False
    show ?thesis
    proof (cases k)
      case 0
      then show ?thesis by simp
    next
      case (Suc j)
      with "1.prems" have "10 ^ j \<le> n div 10"
        by (metis div_le_mono nonzero_mult_div_cancel_left power_Suc zero_neq_numeral)
      with "1.IH" [OF False this] False Suc show ?thesis
        by (subst nat_digits.simps) simp
    qed
  qed
qed

lemma py_str_int_Inr: "\<bar>n\<bar> < 10 ^ max_str_digits \<Longrightarrow> py_str_int n = Inr (int_text n)"
proof -
  assume "\<bar>n\<bar> < 10 ^ max_str_digits"
  then have "nat \<bar>n\<bar> < 10 ^ max_str_digits"
    by (simp add: nat_less_iff)
  then have "length (nat_digits (nat \<bar>n\<bar>)) \<le> max_str_digits"
    by (rule nat_digits_length_le) (simp add: max_str_digits_def)
  then show ?thesis by (simp add: py_str_int_def)
qed

lemma py_str_int_Inl: "10 ^ max_str_digits \<le> \<bar>n\<bar> \<Longrightarrow>
    py_str_int n = Inl (ValueError ''int too large for str'')"
proof -
  assume "10 ^ max_str_digits \<le> \<bar>n\<bar>"
  then have "10 ^ max_str_digits \<le> nat \<bar>n\<bar>"
    by (metis nat_le_eq_zle nat_power_eq nat_numeral zero_le_numeral abs_ge_zero)
  then have "max_str_digits < length (nat_digits (nat \<bar>n\<bar>))"
    by (rule nat_digits_length_gt)
  then show ?thesis by (simp add: py_str_int_def)
qed

lemma py_str_int_text: "py_str_int n = Inr s \<Longrightarrow> s = int_text n"
  by (auto simp: py_str_int_def split: if_splits)

lemma py_str_int_numeral_bound:
  assumes "\<bar>n\<bar> < 10 ^ 100"
  shows "py_str_int n = Inr (int_text n)"
proof (rule py_str_int_Inr)
  have "(10::int) ^ 100 \<le> 10 ^ max_str_digits"
    by (rule power_increasing) (simp_all add: max_str_digits_def)
  with assms show "\<bar>n\<bar> < 10 ^ max_str_digits" by (rule less_le_trans)
qed

end
