(* ===== verification/Ulid.thy ===== *)
theory Ulid
  imports Py_Text "HOL-Library.List_Lexorder"
begin

text \<open>
  \<open>lumo/db/ulid.py\<close>: identifiers of 26 base-32 characters, 50 bits of millisecond
  timestamp above 80 random bits.  \<open>ulid_of ts r\<close> is \<open>new\<close> with the clock read and the
  random bytes given; \<open>timestamp_ms\<close> reads the timestamp back.
\<close>

unbundle bit_operations_syntax

definition alphabet :: pystr where
  "alphabet = asc ''0123456789ABCDEFGHJKMNPQRSTVWXYZ''"

definition ulid_value :: "int \<Rightarrow> int \<Rightarrow> int" where
  "ulid_value ts r = push_bit 80 ts OR r"

definition ulid_shifts :: "nat list" where
  "ulid_shifts = map (\<lambda>i. 125 - 5 * i) [0 ..< 26]"

definition ulid_of :: "int \<Rightarrow> int \<Rightarrow> pystr" where
  "ulid_of ts r =
     map (\<lambda>shift. alphabet ! nat (drop_bit shift (ulid_value ts r) AND 31)) ulid_shifts"

text \<open>\<open>ALPHABET.index(ch)\<close> raises \<open>ValueError\<close> for a foreign character.\<close>

fun index_of :: "int \<Rightarrow> pystr \<Rightarrow> int \<Rightarrow> int result" where
  "index_of c [] i = Inl (ValueError ''substring not found'')"
| "index_of c (x # xs) i = (if x = c then Inr i else index_of c xs (i + 1))"

fun ulid_read :: "pystr \<Rightarrow> int \<Rightarrow> int result" where
  "ulid_read [] v = Inr v"
| "ulid_read (c # cs) v =
     rbind (index_of c alphabet 0) (\<lambda>k. ulid_read cs (push_bit 5 v OR k))"

definition timestamp_ms :: "pystr \<Rightarrow> int result" where
  "timestamp_ms u = rbind (ulid_read u 0) (\<lambda>v. Inr (drop_bit 80 v))"

section \<open>Base 32\<close>

definition base32 :: "nat \<Rightarrow> int \<Rightarrow> int list" where
  "base32 k v = map (\<lambda>i. v div 32 ^ (k - 1 - i) mod 32) [0 ..< k]"

lemma base32_0 [simp]: "base32 0 v = []"
  by (simp add: base32_def)

lemma base32_Suc: "base32 (Suc k) v = base32 k (v div 32) @ [v mod 32]"
proof -
  have "v div 32 ^ (k - i) mod 32 = v div 32 div 32 ^ (k - 1 - i) mod 32" if "i < k" for i
  proof -
    have "k - i = Suc (k - 1 - i)" using that by simp
    then have "v div 32 ^ (k - i) = v div (32 * 32 ^ (k - 1 - i))" by simp
    then show ?thesis by (simp add: zdiv_zmult2_eq)
  qed
  then show ?thesis by (simp add: base32_def)
qed

lemma length_base32 [simp]: "length (base32 k v) = k"
  by (simp add: base32_def)

lemma base32_range: "d \<in> set (base32 k v) \<Longrightarrow> 0 \<le> d \<and> d < 32"
  by (auto simp: base32_def)

lemma base32_value: "0 \<le> v \<Longrightarrow> v < 32 ^ k \<Longrightarrow> foldl (\<lambda>a d. 32 * a + d) 0 (base32 k v) = v"
proof (induction k arbitrary: v)
  case (Suc k)
  then have "v div 32 < 32 ^ k" by (simp add: int_div_less_self div_less_iff_less_mult mult.commute)
  with Suc.IH [of "v div 32"] Suc.prems show ?case
    by (simp add: base32_Suc pos_imp_zdiv_nonneg_iff)
qed simp

lemma base32_less:
  "0 \<le> v \<Longrightarrow> v < w \<Longrightarrow> w < 32 ^ k \<Longrightarrow> base32 k v < base32 k w"
proof (induction k arbitrary: v w)
  case 0
  then show ?case by simp
next
  case (Suc k)
  have "v div 32 \<le> w div 32" using Suc.prems by (simp add: zdiv_mono1)
  then consider "v div 32 < w div 32" | "v div 32 = w div 32" by linarith
  then show ?case
  proof cases
    case 1
    moreover have "w div 32 < 32 ^ k"
      using Suc.prems by (simp add: div_less_iff_less_mult mult.commute)
    ultimately have "base32 k (v div 32) < base32 k (w div 32)"
      using Suc.prems(1) by (intro Suc.IH) (simp_all add: pos_imp_zdiv_nonneg_iff)
    then show ?thesis
      by (simp add: base32_Suc list_less_def lexord_append_left_rightI lexord_sufI
          lexord_same_pref_if_irrefl)
  next
    case 2
    moreover have "v mod 32 < w mod 32"
      using 2 Suc.prems(2) mult_div_mod_eq [of 32 v] mult_div_mod_eq [of 32 w] by linarith
    ultimately show ?thesis
      by (simp add: base32_Suc list_less_def lexord_append_leftI)
  qed
qed

lemma or_low_bits:
  assumes "0 \<le> r" and "r < 2 ^ n"
  shows "push_bit n v OR r = 2 ^ n * v + (r :: int)"
proof -
  have r: "take_bit n r = r" using assms by (simp add: take_bit_int_eq_self)
  have "push_bit n v AND take_bit n r = 0"
    by (rule bit_eqI) (auto simp: bit_and_iff bit_push_bit_iff bit_take_bit_iff)
  then have "push_bit n v + r = push_bit n v OR r"
    unfolding r by (rule disjunctive_add_eq_or)
  then show ?thesis by (simp add: push_bit_eq_mult mult.commute)
qed

lemma and_31: "(v::int) AND 31 = v mod 32"
proof -
  have "(31::int) = mask 5" by (simp add: mask_eq_exp_minus_1)
  then have "v AND 31 = take_bit 5 v" by (metis take_bit_eq_mask)
  then show ?thesis by (simp add: take_bit_eq_mod)
qed

lemma ulid_of_base32: "ulid_of ts r = map (\<lambda>d. alphabet ! nat d) (base32 26 (ulid_value ts r))"
proof -
  have "drop_bit (125 - 5 * i) v AND 31 = v div 32 ^ (26 - 1 - i) mod 32" if "i < 26" for i and v :: int
  proof -
    have "(2::int) ^ (125 - 5 * i) = (2 ^ 5) ^ (25 - i)"
      using that by (simp only: power_mult [symmetric]) (simp add: algebra_simps diff_mult_distrib2)
    then show ?thesis by (simp add: and_31 drop_bit_eq_div)
  qed
  then show ?thesis by (simp add: ulid_of_def ulid_shifts_def base32_def)
qed

lemma ulid_value_arith: "0 \<le> r \<Longrightarrow> r < 2 ^ 80 \<Longrightarrow> ulid_value ts r = 2 ^ 80 * ts + r"
  unfolding ulid_value_def by (rule or_low_bits)

lemma index_of_nth: "distinct xs \<Longrightarrow> i < length xs \<Longrightarrow> index_of (xs ! i) xs a = Inr (a + int i)"
proof (induction xs arbitrary: i a)
  case (Cons x xs)
  then show ?case by (cases i) auto
qed simp

lemma length_alphabet: "length alphabet = 32" and distinct_alphabet: "distinct alphabet"
  by (simp_all add: alphabet_def asc_def)

lemma sorted_alphabet: "i < j \<Longrightarrow> j < 32 \<Longrightarrow> alphabet ! i < alphabet ! j"
proof -
  assume "i < j" "j < 32"
  moreover have "sorted_wrt (<) alphabet" by (simp add: alphabet_def asc_def)
  ultimately show ?thesis by (simp add: sorted_wrt_iff_nth_less length_alphabet)
qed

lemma index_of_alphabet: "0 \<le> d \<Longrightarrow> d < 32 \<Longrightarrow> index_of (alphabet ! nat d) alphabet 0 = Inr d"
  by (simp add: index_of_nth distinct_alphabet length_alphabet)

lemma ulid_read_digits:
  "(\<And>d. d \<in> set ds \<Longrightarrow> 0 \<le> d \<and> d < 32) \<Longrightarrow>
     ulid_read (map (\<lambda>d. alphabet ! nat d) ds) v = Inr (foldl (\<lambda>a d. 32 * a + d) v ds)"
proof (induction ds arbitrary: v)
  case (Cons d ds)
  then have "push_bit 5 v OR d = 32 * v + d" by (simp add: or_low_bits)
  with Cons show ?case by (simp add: index_of_alphabet)
qed simp

section \<open>Round trip and order\<close>

lemma ulid_value_range:
  assumes "0 \<le> ts" "ts < 2 ^ 50" "0 \<le> r" "r < 2 ^ 80"
  shows "0 \<le> ulid_value ts r" "ulid_value ts r < 32 ^ 26"
  using assms by (simp_all add: ulid_value_arith)

text \<open>C33. An identifier carries its timestamp: \<open>timestamp_ms(new(ts)) = ts\<close> for every clock
  value below 2^50 ms (the year 37648) and all random bytes.\<close>

theorem ulid_timestamp_roundtrip:
  assumes "0 \<le> ts" and "ts < 2 ^ 50" and "0 \<le> r" and "r < 2 ^ 80"
  shows "timestamp_ms (ulid_of ts r) = Inr ts"
proof -
  note rng = ulid_value_range [OF assms]
  have "ulid_read (ulid_of ts r) 0 = Inr (foldl (\<lambda>a d. 32 * a + d) 0 (base32 26 (ulid_value ts r)))"
    unfolding ulid_of_base32 by (rule ulid_read_digits) (rule base32_range)
  also have "\<dots> = Inr (ulid_value ts r)" using rng by (simp add: base32_value)
  finally show ?thesis
    using assms by (simp add: timestamp_ms_def ulid_value_arith drop_bit_eq_div)
qed

theorem ulid_timestamp_roundtrip_witness:
  "timestamp_ms (ulid_of 1782672147000 12345) = Inr 1782672147000"
  by (rule ulid_timestamp_roundtrip) simp_all

lemma ulid_of_inj:
  assumes "0 \<le> ts" "ts < 2 ^ 50" "0 \<le> r" "r < 2 ^ 80" "0 \<le> ts'" "ts' < 2 ^ 50" "0 \<le> r'" "r' < 2 ^ 80"
    and "ulid_of ts r = ulid_of ts' r'"
  shows "ts = ts' \<and> r = r'"
proof -
  have rd: "ulid_read (ulid_of t q) 0 = Inr (ulid_value t q)"
    if "0 \<le> t" "t < 2 ^ 50" "0 \<le> q" "q < 2 ^ 80" for t q
    unfolding ulid_of_base32
    using ulid_read_digits [OF base32_range] base32_value ulid_value_range [OF that] by simp
  have "ulid_value ts r = ulid_value ts' r'"
    using rd [of ts r] rd [of ts' r'] assms by simp
  then have eq: "2 ^ 80 * ts + r = 2 ^ 80 * ts' + r'" using assms by (simp add: ulid_value_arith)
  with assms have "\<not> ts < ts'" "\<not> ts' < ts" by simp_all
  then have "ts = ts'" by simp
  with eq show ?thesis by simp
qed

lemma map_alphabet_less:
  assumes "xs < ys" and "length xs = length ys"
    and "\<And>d. d \<in> set xs \<union> set ys \<Longrightarrow> 0 \<le> d \<and> d < 32"
  shows "map (\<lambda>d. alphabet ! nat d) xs < map (\<lambda>d. alphabet ! nat d) ys"
  using assms
proof (induction xs arbitrary: ys)
  case (Cons x xs)
  then obtain y ys' where ys: "ys = y # ys'" by (cases ys) auto
  show ?case
  proof (cases "x = y")
    case True
    with Cons ys show ?thesis by simp
  next
    case False
    with Cons.prems ys have "x < y" by simp
    with Cons.prems(3) [of x] Cons.prems(3) [of y] ys
    have "alphabet ! nat x < alphabet ! nat y" by (intro sorted_alphabet) auto
    with ys show ?thesis by simp
  qed
qed simp

text \<open>C34. Identifiers sort by time: a later timestamp gives a lexicographically greater
  identifier, whatever the random bytes.\<close>

theorem ulid_order:
  assumes "0 \<le> ts" and "ts < ts'" and "ts' < 2 ^ 50"
    and "0 \<le> r" and "r < 2 ^ 80" and "0 \<le> r'" and "r' < 2 ^ 80"
  shows "ulid_of ts r < ulid_of ts' r'"
  unfolding ulid_of_base32
proof (rule map_alphabet_less)
  have "ulid_value ts r < ulid_value ts' r'" using assms by (simp add: ulid_value_arith)
  then show "base32 26 (ulid_value ts r) < base32 26 (ulid_value ts' r')"
    using assms ulid_value_range [of ts r] ulid_value_range [of ts' r'] by (intro base32_less) auto
qed (auto dest: base32_range)

theorem ulid_order_witness: "ulid_of 1782672147000 999 < ulid_of 1782672147001 0"
  by (rule ulid_order) simp_all

end
