(* ===== verification/Models.thy ===== *)
theory Models
  imports Prelude
begin

text \<open>
  The data classes of \<open>lumo/models.py\<close>: what the extractor returns, what the guards
  read, what the pipeline returns.  The status of a stored intent and the kind of a
  decision are Python string literals; \<open>OtherDecision\<close> stands for any other string a
  caller of \<open>record_decision\<close> might pass.  Amounts are Python integers (stroops).
\<close>

datatype status = Proposed | Held | Escrowed | Released | Reverted

datatype decision = D_proposed | D_held | D_approved | D_refused | D_reverted | OtherDecision pystr

datatype verdict = V_proposed | V_held | V_refused

record extracted_invoice =
  x_invoice_ref :: "pystr option"
  x_supplier_name :: "pystr option"
  x_payment_address :: "pystr option"
  x_amount :: "pystr option"
  x_currency :: "pystr option"

definition empty_extraction :: extracted_invoice where
  "empty_extraction = \<lparr>x_invoice_ref = None, x_supplier_name = None, x_payment_address = None,
     x_amount = None, x_currency = None\<rparr>"

record scan_result =
  sc_flags :: "string list"
  sc_text :: pystr
  sc_addresses :: "pystr list"

definition suspicious :: "scan_result \<Rightarrow> bool" where
  "suspicious s \<longleftrightarrow> sc_flags s \<noteq> []"

record prior_intent =
  pi_amount :: int
  pi_status :: status

record payment_request =
  pr_supplier_name :: "pystr option"
  pr_registry_address :: "pystr option"
  pr_invoice_address :: "pystr option"
  pr_amount_stroops :: "int option"
  pr_request_hash :: pystr
  pr_injection_flags :: "string list"

record policy_context =
  pc_cap_per_tx :: int
  pc_cap_daily :: int
  pc_prior_intents :: "prior_intent list"
  pc_known_hashes :: "pystr set"

record evaluation =
  ev_allowed :: bool
  ev_codes :: "code list"

record intent_draft =
  dr_supplier_id :: pystr
  dr_amount :: int
  dr_token :: pystr
  dr_deadline :: int
  dr_invoice_ref :: "pystr option"
  dr_request_hash :: pystr

record tx_args =
  ta_sme :: pystr
  ta_supplier :: pystr
  ta_token :: pystr
  ta_amount :: pystr
  ta_request_hash :: pystr
  ta_deadline :: int

record tx_plan =
  tp_function :: string
  tp_args :: tx_args

record pipeline_result =
  res_decision :: verdict
  res_codes :: "code list"
  res_flags :: "string list"
  res_request_hash :: pystr
  res_tx_plan :: "tx_plan option"
  res_intent_id :: "pystr option"

end
