(* ===== verification/Json.thy ===== *)
theory Json
  imports Py_Text "HOL-Library.List_Lexorder"
begin

text \<open>
  JSON values, \<open>canonical_json\<close> and \<open>request_hash\<close> (\<open>lumo/chain/request_hash.py\<close>), with
  the \<open>json.dumps\<close> and UTF-8 encoding they call.  A dict is the list of its entries.  The
  hash function is the parameter \<open>rt_sha256\<close>; what the repository adds to it is that the
  bytes hashed determine the payment, which \<open>Json_Parse\<close> proves by reading them back.
\<close>

datatype json =
    JNull
  | JBool bool
  | JInt int
  | JFloat pystr
  | JStr pystr
  | JArr "json list"
  | JObj "(pystr \<times> json) list"

abbreviation jkey :: "string \<Rightarrow> json \<Rightarrow> pystr \<times> json" where
  "jkey k v \<equiv> (asc k, v)"

text \<open>A float is kept as the literal it was read from.  No value the program builds contains one;
  \<open>json_text\<close> is only applied to those.\<close>

text \<open>\<open>d.get(k)\<close> and \<open>d[k]\<close>.\<close>

definition dict_get :: "(pystr \<times> 'v) list \<Rightarrow> string \<Rightarrow> 'v option" where
  "dict_get d k = map_of d (asc k)"

definition dict_item :: "(pystr \<times> 'v) list \<Rightarrow> string \<Rightarrow> 'v result" where
  "dict_item d k = (case map_of d (asc k) of None \<Rightarrow> Inl (KeyError (asc k)) | Some v \<Rightarrow> Inr v)"

text \<open>\<open>d[k] = v\<close> on an insertion-ordered dict.\<close>

fun dict_put :: "'k \<Rightarrow> 'v \<Rightarrow> ('k \<times> 'v) list \<Rightarrow> ('k \<times> 'v) list" where
  "dict_put k v [] = [(k, v)]"
| "dict_put k v ((k', v') # es) = (if k' = k then (k, v) # es else (k', v') # dict_put k v es)"

lemma dict_put_fresh: "k \<notin> fst ` set d \<Longrightarrow> dict_put k v d = d @ [(k, v)]"
  by (induction d) auto

lemma dict_put_keys: "map_of d k = Some v \<Longrightarrow> map fst (dict_put k w d) = map fst d"
  by (induction d) (auto split: if_splits)

lemma map_of_dict_put [simp]: "map_of (dict_put k v d) = (map_of d)(k \<mapsto> v)"
  by (induction d) auto

section \<open>Text of a value\<close>

definition hex_digit :: "int \<Rightarrow> int" where
  "hex_digit n = (if n < 10 then 48 + n else 87 + n)"

text \<open>\<open>ensure_ascii=False\<close>: only quote, backslash and the C0 controls are escaped.\<close>

definition esc_char :: "int \<Rightarrow> pystr" where
  "esc_char c =
     (if c = 34 then [92, 34]
      else if c = 92 then [92, 92]
      else if c = 10 then [92, 110]
      else if c = 13 then [92, 114]
      else if c = 9 then [92, 116]
      else if c = 12 then [92, 102]
      else if c = 8 then [92, 98]
      else if 0 \<le> c \<and> c < 32 then [92, 117, 48, 48, hex_digit (c div 16), hex_digit (c mod 16)]
      else [c])"

definition esc_str :: "pystr \<Rightarrow> pystr" where
  "esc_str s = concat (map esc_char s)"

definition quote_str :: "pystr \<Rightarrow> pystr" where
  "quote_str s = 34 # esc_str s @ [34]"

fun join_with :: "int \<Rightarrow> pystr list \<Rightarrow> pystr" where
  "join_with c [] = []"
| "join_with c [s] = s"
| "join_with c (s # ss) = s @ c # join_with c ss"

text \<open>\<open>json.dumps(v, sort_keys=True, separators=(",", ":"), ensure_ascii=False)\<close>.\<close>

function json_text :: "json \<Rightarrow> pystr result" where
  "json_text JNull = Inr (asc ''null'')"
| "json_text (JBool b) = Inr (asc (if b then ''true'' else ''false''))"
| "json_text (JInt n) = py_str_int n"
| "json_text (JFloat s) = Inr s"
| "json_text (JStr s) = Inr (quote_str s)"
| "json_text (JArr vs) =
     rbind (rmap json_text vs) (\<lambda>ts. Inr (91 # join_with 44 ts @ [93]))"
| "json_text (JObj es) =
     rbind (rmap (\<lambda>(k, v). rbind (json_text v) (\<lambda>t. Inr (quote_str k @ 58 # t)))
              (sort_key fst es))
       (\<lambda>ts. Inr (123 # join_with 44 ts @ [125]))"
  by pat_completeness auto

termination
proof (relation "measure size", simp_all)
  fix vs :: "json list" and v
  assume "v \<in> set vs"
  then show "size v < Suc (size_list size vs)"
    by (simp add: less_Suc_eq_le size_list_estimation')
next
  fix es :: "(pystr \<times> json) list" and e k v
  assume e: "e \<in> set es" "(k, v) = e"
  then have "size v \<le> size_prod (\<lambda>x. 0) size e" by auto
  with e(1) show "size v < Suc (size_list (size_prod (\<lambda>x. 0) size) es)"
    by (simp add: less_Suc_eq_le size_list_estimation')
qed

section \<open>UTF-8\<close>

definition is_scalar :: "int \<Rightarrow> bool" where
  "is_scalar c \<longleftrightarrow> (0 \<le> c \<and> c < 55296) \<or> (57344 \<le> c \<and> c < 1114112)"

definition utf8_char :: "int \<Rightarrow> int list" where
  "utf8_char c =
     (if c < 128 then [c]
      else if c < 2048 then [192 + c div 64, 128 + c mod 64]
      else if c < 65536 then [224 + c div 4096, 128 + c div 64 mod 64, 128 + c mod 64]
      else [240 + c div 262144, 128 + c div 4096 mod 64, 128 + c div 64 mod 64, 128 + c mod 64])"

text \<open>\<open>str.encode()\<close> raises on surrogates.\<close>

definition utf8_encode :: "pystr \<Rightarrow> int list result" where
  "utf8_encode s =
     (if list_all is_scalar s then Inr (concat (map utf8_char s)) else Inl UnicodeEncodeError)"

definition canonical_json :: "json \<Rightarrow> int list result" where
  "canonical_json obj = rbind (json_text obj) utf8_encode"

definition request_hash :: "runtime \<Rightarrow> json \<Rightarrow> pystr result" where
  "request_hash rt obj = rbind (canonical_json obj) (\<lambda>bs. Inr (rt_sha256 rt bs))"

section \<open>Reading one character back\<close>

text \<open>The lead byte of a UTF-8 sequence tells its length, the bytes the code point.\<close>

definition utf8_read :: "int list \<Rightarrow> (int \<times> int list) option" where
  "utf8_read bs =
     (case bs of [] \<Rightarrow> None
      | b0 # t0 \<Rightarrow>
          (if b0 < 128 then Some (b0, t0)
           else case t0 of [] \<Rightarrow> None
           | b1 # t1 \<Rightarrow>
               (if b0 < 224 then Some (64 * (b0 - 192) + (b1 - 128), t1)
                else case t1 of [] \<Rightarrow> None
                | b2 # t2 \<Rightarrow>
                    (if b0 < 240 then Some (64 * (64 * (b0 - 224) + (b1 - 128)) + (b2 - 128), t2)
                     else case t2 of [] \<Rightarrow> None
                     | b3 # t3 \<Rightarrow>
                         Some (64 * (64 * (64 * (b0 - 240) + (b1 - 128)) + (b2 - 128)) + (b3 - 128), t3)))))"

lemma div_64_64: "(c::int) div 4096 = c div 64 div 64" "(c::int) div 262144 = c div 64 div 64 div 64"
  using zdiv_zmult2_eq [of 64 c 64] zdiv_zmult2_eq [of 64 c 4096] zdiv_zmult2_eq [of 64 "c div 64" 64]
  by simp_all

lemma mult_div_64: "64 * ((c::int) div 64) + c mod 64 = c"
  by (rule mult_div_mod_eq)

lemma div_mono_bound: "(a::int) \<le> b \<Longrightarrow> 0 < n \<Longrightarrow> b div n \<le> k \<Longrightarrow> a div n \<le> k"
  using zdiv_mono1 [of a b n] by linarith

lemma utf8_read_char:
  assumes "is_scalar c"
  shows "utf8_read (utf8_char c @ r) = Some (c, r)"
proof -
  have c: "0 \<le> c" using assms by (auto simp: is_scalar_def)
  consider "c < 128" | "128 \<le> c" "c < 2048" | "2048 \<le> c" "c < 65536" | "65536 \<le> c"
    by linarith
  then show ?thesis
  proof cases
    case 1
    then show ?thesis by (simp add: utf8_read_def utf8_char_def)
  next
    case 2
    moreover have "0 \<le> c div 64" "c div 64 \<le> 31"
      using 2 div_mono_bound [of c 2047 64 31] by (simp_all add: pos_imp_zdiv_nonneg_iff)
    ultimately show ?thesis by (simp add: utf8_read_def utf8_char_def mult_div_64)
  next
    case 3
    moreover have "0 \<le> c div 4096" "c div 4096 \<le> 15"
      using 3 div_mono_bound [of c 65535 4096 15] by (simp_all add: pos_imp_zdiv_nonneg_iff)
    ultimately show ?thesis
      using mult_div_64 [of c] mult_div_64 [of "c div 64"] mult_div_64 [of "c div 64 div 64"]
      by (simp add: utf8_read_def utf8_char_def div_64_64)
  next
    case 4
    moreover have "0 \<le> c div 262144" using c by (simp add: pos_imp_zdiv_nonneg_iff)
    ultimately show ?thesis
      using mult_div_64 [of c] mult_div_64 [of "c div 64"] mult_div_64 [of "c div 64 div 64"]
      by (simp add: utf8_read_def utf8_char_def div_64_64)
  qed
qed

definition hex_value :: "int \<Rightarrow> int" where
  "hex_value h = (if h < 58 then h - 48 else h - 87)"

definition unesc_read :: "pystr \<Rightarrow> (int \<times> pystr) option" where
  "unesc_read s =
     (case s of [] \<Rightarrow> None
      | c # t \<Rightarrow>
          (if c \<noteq> 92 then Some (c, t)
           else case t of [] \<Rightarrow> None
           | d # u \<Rightarrow>
               (if d = 110 then Some (10, u) else if d = 114 then Some (13, u)
                else if d = 116 then Some (9, u) else if d = 102 then Some (12, u)
                else if d = 98 then Some (8, u)
                else if d = 117 then
                  Some (16 * hex_value (hd (drop 2 u)) + hex_value (hd (drop 3 u)), drop 4 u)
                else Some (d, u))))"

lemma hex_value_digit: "0 \<le> n \<Longrightarrow> n < 16 \<Longrightarrow> hex_value (hex_digit n) = n"
  by (simp add: hex_value_def hex_digit_def)

lemma unesc_read_char: "unesc_read (esc_char c @ r) = Some (c, r)"
proof (cases "0 \<le> c \<and> c < 32 \<and> c \<noteq> 10 \<and> c \<noteq> 13 \<and> c \<noteq> 9 \<and> c \<noteq> 12 \<and> c \<noteq> 8")
  case True
  then have "esc_char c = [92, 117, 48, 48, hex_digit (c div 16), hex_digit (c mod 16)]"
    by (simp add: esc_char_def)
  moreover have "hex_value (hex_digit (c div 16)) = c div 16"
    using True div_mono_bound [of c 31 16 15]
    by (intro hex_value_digit) (simp_all add: pos_imp_zdiv_nonneg_iff)
  moreover have "hex_value (hex_digit (c mod 16)) = c mod 16"
    by (intro hex_value_digit) simp_all
  ultimately show ?thesis by (simp add: unesc_read_def mult_div_mod_eq)
next
  case False
  then show ?thesis by (auto simp: unesc_read_def esc_char_def)
qed

section \<open>Encodings are injective\<close>

lemma utf8_char_prefix:
  assumes "is_scalar c" and "is_scalar d" and "utf8_char c @ r = utf8_char d @ r'"
  shows "c = d \<and> r = r'"
  by (metis assms utf8_read_char option.inject prod.inject)

lemma utf8_char_nonempty [simp]: "utf8_char c \<noteq> []"
  by (simp add: utf8_char_def)

lemma utf8_concat_inj:
  "list_all is_scalar s \<Longrightarrow> list_all is_scalar t \<Longrightarrow>
     concat (map utf8_char s) = concat (map utf8_char t) \<Longrightarrow> s = t"
proof (induction s arbitrary: t)
  case Nil
  then show ?case by (cases t) auto
next
  case (Cons c s)
  from Cons.prems(3) obtain d t' where t: "t = d # t'" by (cases t) auto
  with Cons.prems have "c = d \<and> concat (map utf8_char s) = concat (map utf8_char t')"
    by (intro utf8_char_prefix) auto
  moreover from Cons.prems t have "list_all is_scalar s" "list_all is_scalar t'" by simp_all
  ultimately show ?case using Cons.IH t by blast
qed

lemma utf8_encode_Inr:
  "utf8_encode s = Inr bs \<longleftrightarrow> list_all is_scalar s \<and> bs = concat (map utf8_char s)"
  by (simp add: utf8_encode_def eq_commute)

lemma utf8_encode_inj:
  assumes "utf8_encode s = Inr bs" and "utf8_encode t = Inr bs"
  shows "s = t"
proof (rule utf8_concat_inj)
  show "list_all is_scalar s" "list_all is_scalar t"
    using assms by (simp_all only: utf8_encode_Inr)
  show "concat (map utf8_char s) = concat (map utf8_char t)"
    using assms unfolding utf8_encode_Inr by metis
qed

lemma esc_char_prefix:
  assumes "esc_char c @ r = esc_char d @ r'"
  shows "c = d \<and> r = r'"
proof -
  have "Some (c, r) = Some (d, r')"
    unfolding unesc_read_char [symmetric] assms ..
  then show ?thesis by simp
qed

lemma esc_char_not_quote: "esc_char c @ r \<noteq> 34 # r'"
  by (simp add: esc_char_def)

text \<open>A quoted string is read back from any context.\<close>

lemma esc_str_prefix: "esc_str s @ 34 # r = esc_str t @ 34 # r' \<Longrightarrow> s = t \<and> r = r'"
proof (induction s arbitrary: t)
  case Nil
  then show ?case using esc_char_not_quote by (cases t) (auto simp: esc_str_def dest: sym)
next
  case (Cons c s)
  from Cons.prems obtain d t' where t: "t = d # t'"
    using esc_char_not_quote by (cases t) (auto simp: esc_str_def)
  with Cons.prems have "esc_char c @ esc_str s @ 34 # r = esc_char d @ esc_str t' @ 34 # r'"
    by (simp add: esc_str_def)
  from esc_char_prefix [OF this] have "c = d" "esc_str s @ 34 # r = esc_str t' @ 34 # r'"
    by auto
  with Cons.IH t show ?case by auto
qed

lemma quote_str_prefix: "quote_str s @ r = quote_str t @ r' \<Longrightarrow> s = t \<and> r = r'"
  using esc_str_prefix [of s r t r'] by (simp add: quote_str_def)

end
