(* ===== verification/Repo.thy ===== *)
theory Repo
  imports Ulid Models Json
begin

text \<open>
  \<open>lumo/db/repo.py\<close>, the store, with the schema of \<open>db/migrations\<close>, the event bus of
  \<open>lumo/monitor/events.py\<close> it publishes on, and \<open>db/seed.py\<close>.  The tables are lists of
  rows in insertion order; an insert checks the schema's PRIMARY KEY, UNIQUE, CHECK and
  FOREIGN KEY constraints and raises \<open>IntegrityError\<close>.

  Outside the repository, and therefore streams of the state: the clock (\<open>w_clock\<close>, one
  entry per reading), \<open>os.urandom\<close> (\<open>w_entropy\<close>) and whether SQLite refuses a write
  (\<open>w_fault\<close>, e.g. a lock held longer than the busy timeout); a refused write leaves the
  tables alone and raises \<open>OperationalError\<close>.  The subscribers of the bus are functions on
  a state \<open>'s\<close> of their own which may raise.
\<close>

section \<open>Rows and tables\<close>

record supplier =
  sp_id :: pystr
  sp_name :: pystr
  sp_address :: pystr

record intent_row =
  in_id :: pystr
  in_request_hash :: pystr
  in_supplier_id :: pystr
  in_amount :: pystr
  in_token :: pystr
  in_deadline :: int
  in_status :: status
  in_chain_id :: "int option"
  in_invoice_ref :: "pystr option"
  in_created_at :: int

record decision_row =
  de_id :: pystr
  de_decision :: decision
  de_codes :: "code list"
  de_request_hash :: pystr
  de_intent_id :: "pystr option"
  de_detail :: "pystr option"
  de_created_at :: int

record attestation_row =
  at_id :: pystr
  at_intent_id :: pystr
  at_oracle :: pystr
  at_kind :: pystr
  at_request_hash :: pystr
  at_created_at :: int

record chain_tx_row =
  ct_id :: pystr
  ct_intent_id :: pystr
  ct_action :: pystr
  ct_tx_hash :: "pystr option"
  ct_created_at :: int

record payout_row =
  ap_id :: pystr
  ap_intent_id :: pystr
  ap_ref :: pystr
  ap_amount :: pystr
  ap_address :: pystr
  ap_created_at :: int

record event_row =
  er_id :: pystr
  er_name :: string
  er_payload :: "(pystr \<times> json) list"
  er_created_at :: int

record tables =
  t_suppliers :: "supplier list"
  t_rules :: "(pystr \<times> pystr) list"
  t_intents :: "intent_row list"
  t_decisions :: "decision_row list"
  t_attestations :: "attestation_row list"
  t_chain_txs :: "chain_tx_row list"
  t_payouts :: "payout_row list"
  t_events :: "event_row list"

definition empty_tables :: tables where
  "empty_tables = \<lparr>t_suppliers = [], t_rules = [], t_intents = [], t_decisions = [],
     t_attestations = [], t_chain_txs = [], t_payouts = [], t_events = []\<rparr>"

section \<open>Inserts under the schema's constraints\<close>

definition unique_failed :: "string \<Rightarrow> exn" where
  "unique_failed c = IntegrityError (''UNIQUE constraint failed: '' @ c)"

definition foreign_key_failed :: exn where
  "foreign_key_failed = IntegrityError ''FOREIGN KEY constraint failed''"

definition has_intent :: "tables \<Rightarrow> pystr \<Rightarrow> bool" where
  "has_intent t i \<longleftrightarrow> i \<in> in_id ` set (t_intents t)"

definition ins_supplier :: "supplier \<Rightarrow> tables \<Rightarrow> tables result" where
  "ins_supplier r t =
     (if sp_id r \<in> sp_id ` set (t_suppliers t) then Inl (unique_failed ''suppliers.id'')
      else if sp_name r \<in> sp_name ` set (t_suppliers t) then Inl (unique_failed ''suppliers.name'')
      else Inr (t\<lparr>t_suppliers := t_suppliers t @ [r]\<rparr>))"

definition ins_intent :: "intent_row \<Rightarrow> tables \<Rightarrow> tables result" where
  "ins_intent r t =
     (if has_intent t (in_id r) then Inl (unique_failed ''intents.id'')
      else if in_request_hash r \<in> in_request_hash ` set (t_intents t)
      then Inl (unique_failed ''intents.request_hash'')
      else if in_supplier_id r \<notin> sp_id ` set (t_suppliers t) then Inl foreign_key_failed
      else Inr (t\<lparr>t_intents := t_intents t @ [r]\<rparr>))"

definition ins_decision :: "decision_row \<Rightarrow> tables \<Rightarrow> tables result" where
  "ins_decision r t =
     (if de_id r \<in> de_id ` set (t_decisions t) then Inl (unique_failed ''decisions.id'')
      else if (case de_intent_id r of None \<Rightarrow> False | Some i \<Rightarrow> \<not> has_intent t i)
      then Inl foreign_key_failed
      else Inr (t\<lparr>t_decisions := t_decisions t @ [r]\<rparr>))"

definition ins_attestation :: "attestation_row \<Rightarrow> tables \<Rightarrow> tables result" where
  "ins_attestation r t =
     (if at_kind r \<noteq> asc ''Shipped'' \<and> at_kind r \<noteq> asc ''Failed''
      then Inl (IntegrityError ''CHECK constraint failed'')
      else if at_id r \<in> at_id ` set (t_attestations t) then Inl (unique_failed ''attestations.id'')
      else if \<not> has_intent t (at_intent_id r) then Inl foreign_key_failed
      else Inr (t\<lparr>t_attestations := t_attestations t @ [r]\<rparr>))"

definition ins_chain_tx :: "chain_tx_row \<Rightarrow> tables \<Rightarrow> tables result" where
  "ins_chain_tx r t =
     (if ct_id r \<in> ct_id ` set (t_chain_txs t) then Inl (unique_failed ''chain_txs.id'')
      else if \<not> has_intent t (ct_intent_id r) then Inl foreign_key_failed
      else Inr (t\<lparr>t_chain_txs := t_chain_txs t @ [r]\<rparr>))"

definition ins_payout :: "payout_row \<Rightarrow> tables \<Rightarrow> tables result" where
  "ins_payout r t =
     (if ap_id r \<in> ap_id ` set (t_payouts t) then Inl (unique_failed ''anchor_payouts.id'')
      else if ap_ref r \<in> ap_ref ` set (t_payouts t) then Inl (unique_failed ''anchor_payouts.ref'')
      else if \<not> has_intent t (ap_intent_id r) then Inl foreign_key_failed
      else Inr (t\<lparr>t_payouts := t_payouts t @ [r]\<rparr>))"

definition ins_event :: "event_row \<Rightarrow> tables \<Rightarrow> tables result" where
  "ins_event r t =
     (if er_id r \<in> er_id ` set (t_events t) then Inl (unique_failed ''events.id'')
      else Inr (t\<lparr>t_events := t_events t @ [r]\<rparr>))"

text \<open>\<open>UPDATE intents SET ... WHERE p\<close>, with its row count.\<close>

definition upd_intents :: "(intent_row \<Rightarrow> bool) \<Rightarrow> (intent_row \<Rightarrow> intent_row) \<Rightarrow> tables \<Rightarrow> tables" where
  "upd_intents p f t = t\<lparr>t_intents := map (\<lambda>r. if p r then f r else r) (t_intents t)\<rparr>"

definition set_status :: "status \<Rightarrow> intent_row \<Rightarrow> intent_row" where
  "set_status s r = r\<lparr>in_status := s\<rparr>"

fun upsert :: "'k \<Rightarrow> 'v \<Rightarrow> ('k \<times> 'v) list \<Rightarrow> ('k \<times> 'v) list" where
  "upsert k v [] = [(k, v)]"
| "upsert k v ((k', v') # es) = (if k' = k then (k, v) # es else (k', v') # upsert k v es)"

text \<open>A SQLite integer has 64 bits; binding a larger Python integer raises.\<close>

definition sql_int :: "int \<Rightarrow> int result" where
  "sql_int n = (if - (2 ^ 63) \<le> n \<and> n < 2 ^ 63 then Inr n else Inl OverflowError)"

section \<open>Events\<close>

record event =
  ev_name :: string
  ev_payload :: "(pystr \<times> json) list"
  ev_at :: int

record 's world =
  w_db :: tables
  w_bus_enabled :: bool
  w_recent :: "event list"
  w_subscribers :: "(event \<Rightarrow> ('s, unit) py) list"
  w_subs :: 's
  w_clock :: "nat \<Rightarrow> int"
  w_ticks :: nat
  w_entropy :: "nat \<Rightarrow> int"
  w_draws :: nat
  w_fault :: "nat \<Rightarrow> bool"
  w_writes :: nat

definition on_subs :: "('s, 'a) py \<Rightarrow> ('s world, 'a) py" where
  "on_subs m = (\<lambda>w. case m (w_subs w) of (r, s') \<Rightarrow> (r, w\<lparr>w_subs := s'\<rparr>))"

text \<open>\<open>EventBus.publish\<close>: the deque keeps the last 200 events; a subscriber that raises
  ends the loop.\<close>

definition publish :: "event \<Rightarrow> ('s world, unit) py" where
  "publish e = (\<lambda>w.
     if \<not> w_bus_enabled w then (Inr (), w)
     else py_seq
       (py_modify (\<lambda>w. w\<lparr>w_recent := drop (length (w_recent w) - 199) (w_recent w) @ [e]\<rparr>))
       (py_for (w_subscribers w) (\<lambda>subscriber. on_subs (subscriber e))) w)"

section \<open>Clock, identifiers, statements\<close>

text \<open>\<open>time.time()\<close> and SQLite's \<open>now\<close>, in milliseconds.\<close>

definition read_clock :: "('s world, int) py" where
  "read_clock = (\<lambda>w. (Inr (w_clock w (w_ticks w)), w\<lparr>w_ticks := Suc (w_ticks w)\<rparr>))"

definition urandom80 :: "('s world, int) py" where
  "urandom80 = (\<lambda>w. (Inr (w_entropy w (w_draws w) mod 2 ^ 80), w\<lparr>w_draws := Suc (w_draws w)\<rparr>))"

definition ulid_new :: "('s world, pystr) py" where
  "ulid_new = py_bind read_clock (\<lambda>ts. py_bind urandom80 (\<lambda>r. py_ret (ulid_of ts r)))"

text \<open>A writing statement: SQLite may refuse it, a constraint may fail.\<close>

definition db_write :: "(tables \<Rightarrow> tables result) \<Rightarrow> ('s world, unit) py" where
  "db_write f = (\<lambda>w.
     let w1 = w\<lparr>w_writes := Suc (w_writes w)\<rparr>
     in if w_fault w (w_writes w) then (Inl OperationalError, w1)
        else case f (w_db w) of Inl e \<Rightarrow> (Inl e, w1) | Inr t \<Rightarrow> (Inr (), w1\<lparr>w_db := t\<rparr>))"

text \<open>\<open>with self.conn:\<close> rolls the tables back when its body raises.\<close>

definition transaction :: "('s world, 'a) py \<Rightarrow> ('s world, 'a) py" where
  "transaction m = (\<lambda>w. case m w of (Inl e, w') \<Rightarrow> (Inl e, w'\<lparr>w_db := w_db w\<rparr>) | (Inr x, w') \<Rightarrow> (Inr x, w'))"

definition db_read :: "(tables \<Rightarrow> 'a) \<Rightarrow> ('s world, 'a) py" where
  "db_read f = py_gets (\<lambda>w. f (w_db w))"

lemma world_code [code]:
  "read_clock w = (Inr (w_clock w (w_ticks w)), w\<lparr>w_ticks := Suc (w_ticks w)\<rparr>)"
  "urandom80 w = (Inr (w_entropy w (w_draws w) mod 2 ^ 80), w\<lparr>w_draws := Suc (w_draws w)\<rparr>)"
  "db_write f w = (let w1 = w\<lparr>w_writes := Suc (w_writes w)\<rparr>
     in if w_fault w (w_writes w) then (Inl OperationalError, w1)
        else case f (w_db w) of Inl e \<Rightarrow> (Inl e, w1) | Inr t \<Rightarrow> (Inr (), w1\<lparr>w_db := t\<rparr>))"
  "transaction m w = (case m w of (r, w') \<Rightarrow>
     (case r of Inl e \<Rightarrow> (Inl e, w'\<lparr>w_db := w_db w\<rparr>) | Inr x \<Rightarrow> (Inr x, w')))"
  "db_read g w = (Inr (g (w_db w)), w)"
  by (simp_all add: read_clock_def urandom80_def db_write_def transaction_def db_read_def
      split: prod.split sum.split)

section \<open>Operations\<close>

definition emit :: "string \<Rightarrow> (pystr \<times> json) list \<Rightarrow> ('s world, unit) py" where
  "emit name payload = py_bind (py_gets w_bus_enabled) (\<lambda>enabled.
     if \<not> enabled then py_ret ()
     else py_bind ulid_new (\<lambda>i. py_bind read_clock (\<lambda>now.
       py_seq (db_write (ins_event \<lparr>er_id = i, er_name = name, er_payload = payload,
                 er_created_at = now\<rparr>))
         (py_bind read_clock (\<lambda>at. publish \<lparr>ev_name = name, ev_payload = payload, ev_at = at\<rparr>)))))"

text \<open>\<open>events(limit)\<close>: the newest first.\<close>

definition recent_events :: "nat \<Rightarrow> tables \<Rightarrow> event_row list" where
  "recent_events limit t = take limit (rev (t_events t))"

definition add_supplier :: "pystr \<Rightarrow> pystr \<Rightarrow> ('s world, pystr) py" where
  "add_supplier name address = py_bind ulid_new (\<lambda>supplier_id.
     py_seq (db_write (ins_supplier \<lparr>sp_id = supplier_id, sp_name = name, sp_address = address\<rparr>))
       (py_ret supplier_id))"

definition supplier_by_name :: "pystr \<Rightarrow> tables \<Rightarrow> supplier option" where
  "supplier_by_name name t = find (\<lambda>r. sp_name r = name) (t_suppliers t)"

definition set_rule :: "pystr \<Rightarrow> pystr \<Rightarrow> ('s world, unit) py" where
  "set_rule key value = db_write (\<lambda>t. Inr (t\<lparr>t_rules := upsert key value (t_rules t)\<rparr>))"

definition rule_value :: "string \<Rightarrow> tables \<Rightarrow> pystr option" where
  "rule_value key t = dict_get (t_rules t) key"

definition rules :: "tables \<Rightarrow> (pystr \<times> pystr) list" where
  "rules t = t_rules t"

definition day_of :: "int \<Rightarrow> int" where
  "day_of ms = ms div 86400000"

text \<open>\<open>intents_today\<close>: \<open>date(created_at) = date('now')\<close>; \<open>int\<close> of an amount may raise.\<close>

definition intents_of_day :: "runtime \<Rightarrow> int \<Rightarrow> tables \<Rightarrow> prior_intent list result" where
  "intents_of_day rt now t =
     rmap (\<lambda>r. rbind (py_int_of_str rt (in_amount r))
             (\<lambda>n. Inr \<lparr>pi_amount = n, pi_status = in_status r\<rparr>))
       (filter (\<lambda>r. day_of (in_created_at r) = day_of now) (t_intents t))"

definition intents_today :: "runtime \<Rightarrow> ('s world, prior_intent list) py" where
  "intents_today rt = py_bind read_clock (\<lambda>now.
     py_bind (db_read (intents_of_day rt now)) py_lift)"

definition known_request_hashes :: "tables \<Rightarrow> pystr set" where
  "known_request_hashes t = in_request_hash ` set (t_intents t)"

definition intent :: "pystr \<Rightarrow> tables \<Rightarrow> intent_row option" where
  "intent i t = find (\<lambda>r. in_id r = i) (t_intents t)"

definition supplier_by_id :: "pystr \<Rightarrow> tables \<Rightarrow> supplier option" where
  "supplier_by_id i t = find (\<lambda>r. sp_id r = i) (t_suppliers t)"

definition claimable :: "pystr \<Rightarrow> intent_row \<Rightarrow> bool" where
  "claimable i r \<longleftrightarrow> in_id r = i \<and> in_status r = Proposed"

text \<open>The row count of the conditional UPDATE is the number of rows it matched.  A commit that fails is a
  fault of the write: leaving \<open>with self.conn\<close> by a failing commit rolls the UPDATE back and raises.\<close>

definition claim_escrow :: "pystr \<Rightarrow> ('s world, bool) py" where
  "claim_escrow i = py_bind (py_gets (\<lambda>w. length (filter (claimable i) (t_intents (w_db w)))))
     (\<lambda>rowcount. py_seq
        (transaction (db_write (\<lambda>t. Inr (upd_intents (claimable i) (set_status Escrowed) t))))
        (py_ret (rowcount = 1)))"

definition reopenable :: "pystr \<Rightarrow> intent_row \<Rightarrow> bool" where
  "reopenable i r \<longleftrightarrow> in_id r = i \<and> in_status r = Escrowed \<and> in_chain_id r = None"

definition release_escrow_claim :: "pystr \<Rightarrow> ('s world, unit) py" where
  "release_escrow_claim i =
     transaction (db_write (\<lambda>t. Inr (upd_intents (reopenable i) (set_status Proposed) t)))"

definition set_chain_intent :: "pystr \<Rightarrow> int \<Rightarrow> ('s world, unit) py" where
  "set_chain_intent i chain_id = db_write (\<lambda>t. rbind (sql_int chain_id) (\<lambda>n.
     Inr (upd_intents (\<lambda>r. in_id r = i) (\<lambda>r. r\<lparr>in_chain_id := Some n\<rparr>) t)))"

definition mark_released :: "pystr \<Rightarrow> ('s world, unit) py" where
  "mark_released i = py_seq
     (db_write (\<lambda>t. Inr (upd_intents (\<lambda>r. in_id r = i) (set_status Released) t)))
     (emit ''intent.released'' [jkey ''intent_id'' (JStr i)])"

definition add_chain_tx :: "pystr \<Rightarrow> pystr \<Rightarrow> pystr option \<Rightarrow> ('s world, unit) py" where
  "add_chain_tx i action tx_hash = py_bind ulid_new (\<lambda>u. py_bind read_clock (\<lambda>now.
     db_write (ins_chain_tx \<lparr>ct_id = u, ct_intent_id = i, ct_action = action,
       ct_tx_hash = tx_hash, ct_created_at = now\<rparr>)))"

definition chain_txs :: "pystr \<Rightarrow> tables \<Rightarrow> chain_tx_row list" where
  "chain_txs i t = sort_key ct_created_at (filter (\<lambda>r. ct_intent_id r = i) (t_chain_txs t))"

definition add_anchor_payout :: "pystr \<Rightarrow> pystr \<Rightarrow> pystr \<Rightarrow> pystr \<Rightarrow> ('s world, unit) py" where
  "add_anchor_payout i ref amount address = py_bind ulid_new (\<lambda>u. py_bind read_clock (\<lambda>now.
     db_write (ins_payout \<lparr>ap_id = u, ap_intent_id = i, ap_ref = ref, ap_amount = amount,
       ap_address = address, ap_created_at = now\<rparr>)))"

definition anchor_payouts :: "tables \<Rightarrow> payout_row list" where
  "anchor_payouts t = sort_key ap_created_at (t_payouts t)"

definition supplier_addresses :: "tables \<Rightarrow> pystr set" where
  "supplier_addresses t = sp_address ` set (t_suppliers t)"

definition add_attestation :: "pystr \<Rightarrow> pystr \<Rightarrow> pystr \<Rightarrow> pystr \<Rightarrow> ('s world, unit) py" where
  "add_attestation i oracle kind rhash = py_bind ulid_new (\<lambda>u. py_bind read_clock (\<lambda>now.
     db_write (ins_attestation \<lparr>at_id = u, at_intent_id = i, at_oracle = oracle,
       at_kind = kind, at_request_hash = rhash, at_created_at = now\<rparr>)))"

definition attestations :: "pystr \<Rightarrow> tables \<Rightarrow> attestation_row list" where
  "attestations i t = sort_key at_created_at (filter (\<lambda>r. at_intent_id r = i) (t_attestations t))"

definition intent_count :: "tables \<Rightarrow> nat" where
  "intent_count t = length (t_intents t)"

definition decision_rows :: "tables \<Rightarrow> decision_row list" where
  "decision_rows t = sort_key de_created_at (t_decisions t)"

section \<open>\<open>record_decision\<close>\<close>

record decision_outcome =
  do_decision_id :: pystr
  do_intent_id :: "pystr option"

definition known_decision :: "decision \<Rightarrow> bool" where
  "known_decision d \<longleftrightarrow> d \<in> {D_proposed, D_held, D_approved, D_refused, D_reverted}"

text \<open>The argument checks, in the source's order.\<close>

definition decision_args :: "decision \<Rightarrow> intent_draft option \<Rightarrow> pystr option \<Rightarrow> unit result" where
  "decision_args d draft intent_id =
     (if \<not> known_decision d then Inl (ValueError ''unknown decision'')
      else if (d = D_proposed \<or> d = D_held) \<and> draft = None
      then Inl (ValueError ''requires an intent draft'')
      else if (d = D_approved \<or> d = D_reverted) \<and> intent_id = None
      then Inl (ValueError ''requires an intent_id'')
      else if d = D_refused \<and> (draft \<noteq> None \<or> intent_id \<noteq> None)
      then Inl (ValueError ''refused must not carry an intent'')
      else Inr ())"

definition draft_row :: "pystr \<Rightarrow> intent_draft \<Rightarrow> pystr \<Rightarrow> int \<Rightarrow> status \<Rightarrow> int \<Rightarrow> intent_row" where
  "draft_row i dr amount deadline st now = \<lparr>in_id = i, in_request_hash = dr_request_hash dr,
     in_supplier_id = dr_supplier_id dr, in_amount = amount, in_token = dr_token dr,
     in_deadline = deadline, in_status = st, in_chain_id = None,
     in_invoice_ref = dr_invoice_ref dr, in_created_at = now\<rparr>"

definition insert_draft :: "intent_draft \<Rightarrow> status \<Rightarrow> ('s world, pystr) py" where
  "insert_draft dr st = py_bind ulid_new (\<lambda>i.
     py_bind (py_lift (py_str_int (dr_amount dr))) (\<lambda>amount.
     py_bind (py_lift (sql_int (dr_deadline dr))) (\<lambda>deadline.
     py_bind read_clock (\<lambda>now.
     py_seq (db_write (ins_intent (draft_row i dr amount deadline st now))) (py_ret i)))))"

definition update_status :: "pystr option \<Rightarrow> status \<Rightarrow> ('s world, unit) py" where
  "update_status intent_id st =
     db_write (\<lambda>t. Inr (upd_intents (\<lambda>r. Some (in_id r) = intent_id) (set_status st) t))"

definition decision_effect ::
    "decision \<Rightarrow> intent_draft option \<Rightarrow> pystr option \<Rightarrow> ('s world, pystr option) py" where
  "decision_effect d draft intent_id =
     (case (d, draft) of
        (D_proposed, Some dr) \<Rightarrow> py_bind (insert_draft dr Proposed) (\<lambda>i. py_ret (Some i))
      | (D_held, Some dr) \<Rightarrow> py_bind (insert_draft dr Held) (\<lambda>i. py_ret (Some i))
      | (D_approved, _) \<Rightarrow> py_seq (update_status intent_id Escrowed) (py_ret intent_id)
      | (D_reverted, _) \<Rightarrow> py_seq (update_status intent_id Reverted) (py_ret intent_id)
      | _ \<Rightarrow> py_ret intent_id)"

definition decision_tx ::
    "decision \<Rightarrow> code list \<Rightarrow> pystr \<Rightarrow> intent_draft option \<Rightarrow> pystr option \<Rightarrow> pystr option \<Rightarrow> pystr
      \<Rightarrow> ('s world, pystr option) py" where
  "decision_tx d codes rhash draft intent_id detail decision_id =
     py_bind (decision_effect d draft intent_id) (\<lambda>iid. py_bind read_clock (\<lambda>now.
       py_seq (db_write (ins_decision \<lparr>de_id = decision_id, de_decision = d, de_codes = codes,
                 de_request_hash = rhash, de_intent_id = iid, de_detail = detail,
                 de_created_at = now\<rparr>))
         (py_ret iid)))"

text \<open>\<open>DECISION_EVENTS\<close>; other strings were refused by the argument checks.\<close>

fun decision_event :: "decision \<Rightarrow> string" where
  "decision_event D_proposed = ''intent.proposed''"
| "decision_event D_held = ''intent.held''"
| "decision_event D_refused = ''intent.refused''"
| "decision_event D_approved = ''intent.escrowed''"
| "decision_event D_reverted = ''intent.reverted''"
| "decision_event (OtherDecision _) = []"

definition json_opt :: "pystr option \<Rightarrow> json" where
  "json_opt s = (case s of None \<Rightarrow> JNull | Some x \<Rightarrow> JStr x)"

definition json_codes :: "code list \<Rightarrow> json" where
  "json_codes codes = JArr (map (\<lambda>c. JStr (asc (code_name c))) codes)"

definition record_decision ::
    "decision \<Rightarrow> code list \<Rightarrow> pystr \<Rightarrow> intent_draft option \<Rightarrow> pystr option \<Rightarrow> pystr option
      \<Rightarrow> ('s world, decision_outcome) py" where
  "record_decision d codes rhash draft intent_id detail =
     py_seq (py_lift (decision_args d draft intent_id))
       (py_bind ulid_new (\<lambda>decision_id.
        py_bind (transaction (decision_tx d codes rhash draft intent_id detail decision_id)) (\<lambda>iid.
        py_seq (emit (decision_event d)
                  [jkey ''decision_id'' (JStr decision_id), jkey ''intent_id'' (json_opt iid),
                   jkey ''request_hash'' (JStr rhash), jkey ''codes'' (json_codes codes)])
          (py_ret \<lparr>do_decision_id = decision_id, do_intent_id = iid\<rparr>))))"

section \<open>\<open>seed\<close>\<close>

definition demo_sme_address :: pystr where
  "demo_sme_address = asc ''GBUSARIYWABHQJ7BYCIY6F6Y4ZFWOASDFGFOHBGWCT2DTKBAFFN2DWLR''"

definition demo_token_address :: pystr where
  "demo_token_address = asc ''CUSDCR3LOBHARLAPU3ASFXKBMSZPJKLZVXW3AOO24DRILTVEHSWW3G3T''"

definition demo_suppliers :: "(pystr \<times> pystr) list" where
  "demo_suppliers =
     [(asc ''CV Batik Nusantara'', asc ''GBATIKYLX7IEOR2YJMNTPMKZCIWXT2PAX635P7ZDGB3DTLQLS263VNS3''),
      (asc ''PT Kain Jaya Textiles'', asc ''GKAING2HW25HBZSUAASSYDDENT4D5WTH3OCLLBMZM6DP2VJBW63ESO63'')]"

definition demo_rules :: "(pystr \<times> pystr) list" where
  "demo_rules =
     [(asc ''sme_address'', demo_sme_address), (asc ''token_address'', demo_token_address),
      (asc ''cap_per_tx'', int_text (2000 * 10000000)), (asc ''cap_daily'', int_text (5000 * 10000000))]"

text \<open>\<open>INSERT OR IGNORE\<close>: a row that breaks a UNIQUE constraint is skipped.\<close>

definition ins_or_ignore_supplier :: "supplier \<Rightarrow> tables \<Rightarrow> tables result" where
  "ins_or_ignore_supplier r t = Inr (case ins_supplier r t of Inl _ \<Rightarrow> t | Inr t' \<Rightarrow> t')"

definition seed :: "('s world, unit) py" where
  "seed = transaction (py_seq
     (py_for demo_suppliers (\<lambda>(name, address). py_bind ulid_new (\<lambda>i.
        db_write (ins_or_ignore_supplier \<lparr>sp_id = i, sp_name = name, sp_address = address\<rparr>))))
     (py_for demo_rules (\<lambda>(key, value). set_rule key value)))"

end
