(* ===== verification/Repo_Frames.thy ===== *)
theory Repo_Frames
  imports Repo "HOL-Library.Sublist"
begin

text \<open>
  How the store's operations change the tables.  The locale \<open>db_relation\<close> lifts a
  reflexive and transitive relation between tables to statements; \<open>repo_relation\<close> adds
  what each kind of committed change must satisfy and derives the relation for every
  operation of \<open>Repo\<close>, whatever fails on the way.  Its instances are the schema
  invariant \<open>db_ok\<close>, the audit trail \<open>audit_le\<close> and \<open>audited\<close>.
\<close>

section \<open>Statements that leave the tables alone\<close>

lemma read_clock_db [simp]: "w_db (snd (read_clock w)) = w_db w"
  by (simp add: read_clock_def)

lemma urandom80_db [simp]: "w_db (snd (urandom80 w)) = w_db w"
  by (simp add: urandom80_def)

definition same_db :: "'s world \<Rightarrow> 's world \<Rightarrow> bool" where
  "same_db w w' \<longleftrightarrow> w_db w' = w_db w"

interpretation sdb: frame_relation same_db
  by unfold_locales (simp_all add: same_db_def)

lemma same_db_draws: "evolves same_db read_clock" "evolves same_db urandom80"
  by (rule evolvesI, simp add: same_db_def)+

lemma same_db_ulid: "evolves same_db ulid_new"
  unfolding ulid_new_def by (intro sdb.evo_intros same_db_draws)

lemma same_db_on_subs: "evolves same_db (on_subs m)"
  by (rule evolvesI) (simp add: on_subs_def same_db_def split: prod.split)

lemma same_db_publish: "evolves same_db (publish e)"
proof (rule evolvesI)
  fix w :: "'a world"
  have mod: "evolves same_db (py_modify (\<lambda>w. w\<lparr>w_recent := r w\<rparr>))" for r :: "'a world \<Rightarrow> event list"
    by (rule evolvesI) (simp add: same_db_def)
  have "evolves same_db (py_seq (py_modify (\<lambda>w. w\<lparr>w_recent := drop (length (w_recent w) - 199) (w_recent w) @ [e]\<rparr>))
      (py_for (w_subscribers w) (\<lambda>subscriber. on_subs (subscriber e))))"
    by (intro sdb.evo_intros mod same_db_on_subs)
  then show "same_db w (snd (publish e w))"
    by (simp add: publish_def evolves_def same_db_def)
qed

lemma ulid_new_db: "ulid_new w = (r, w') \<Longrightarrow> w_db w' = w_db w"
  using evolvesD [OF same_db_ulid] by (force simp: same_db_def)

lemma read_clock_step: "read_clock w = (r, w') \<Longrightarrow> w_db w' = w_db w"
  by (auto simp: read_clock_def)

lemma ulid_new_Inr: "\<exists>u w'. ulid_new w = (Inr u, w') \<and> w_db w' = w_db w"
  by (simp add: ulid_new_def py_bind_def read_clock_def urandom80_def)

lemma read_clock_Inr: "\<exists>n w'. read_clock w = (Inr n, w') \<and> w_db w' = w_db w"
  by (simp add: read_clock_def)

section \<open>What a returning statement did\<close>

lemma db_write_Inr: "db_write f w = (Inr x, w') \<Longrightarrow> f (w_db w) = Inr (w_db w')"
  by (auto simp: db_write_def Let_def split: if_splits sum.splits)

lemma db_write_Inl: "db_write f w = (Inl e, w') \<Longrightarrow> w_db w' = w_db w"
  by (auto simp: db_write_def Let_def split: if_splits sum.splits)

lemma transaction_Inr [simp]: "transaction m w = (Inr x, w') \<longleftrightarrow> m w = (Inr x, w')"
  by (auto simp: transaction_def split: prod.splits sum.splits)

lemma transaction_Inl: "transaction m w = (Inl e, w') \<Longrightarrow> w_db w' = w_db w"
  by (auto simp: transaction_def split: prod.splits sum.splits)

lemma insert_draft_Inr:
  assumes "insert_draft dr st w = (Inr i, w')"
  shows "\<exists>amount deadline now. py_str_int (dr_amount dr) = Inr amount \<and>
     ins_intent (draft_row i dr amount deadline st now) (w_db w) = Inr (w_db w') \<and>
     deadline = dr_deadline dr"
  using assms unfolding insert_draft_def
  by (auto simp: py_bind_returns py_seq_returns sql_int_def split: if_splits
      dest!: ulid_new_db read_clock_step db_write_Inr)

lemma update_status_Inr:
  "update_status i st w = (Inr x, w') \<Longrightarrow>
     w_db w' = upd_intents (\<lambda>r. Some (in_id r) = i) (set_status st) (w_db w)"
  unfolding update_status_def by (auto dest: db_write_Inr)

text \<open>The committed effect of a decision: a new intent with its decision row, or a decision
  row on top of at most a status change.\<close>

lemma decision_tx_draft:
  assumes "decision_tx d codes rhash (Some dr) intent_id detail decision_id w = (Inr iid, w')"
    and "d = D_proposed \<and> st = Proposed \<or> d = D_held \<and> st = Held"
  shows "\<exists>i amount now u row. iid = Some i \<and> py_str_int (dr_amount dr) = Inr amount \<and>
     ins_intent (draft_row i dr amount (dr_deadline dr) st now) (w_db w) = Inr u \<and>
     ins_decision row u = Inr (w_db w') \<and> de_id row = decision_id \<and> de_decision row = d \<and>
     de_codes row = codes \<and> de_request_hash row = rhash \<and> de_intent_id row = Some i \<and>
     de_detail row = detail"
proof -
  from assms obtain i w1 now w2 where ins: "insert_draft dr st w = (Inr i, w1)" and iid: "iid = Some i"
    and "read_clock w1 = (Inr now, w2)"
    and dec: "db_write (ins_decision \<lparr>de_id = decision_id, de_decision = d, de_codes = codes,
                 de_request_hash = rhash, de_intent_id = iid, de_detail = detail,
                 de_created_at = now\<rparr>) w2 = (Inr (), w')"
    by (auto simp: decision_tx_def decision_effect_def py_bind_returns py_seq_returns)
  then have "w_db w2 = w_db w1" by (simp add: read_clock_step)
  with insert_draft_Inr [OF ins] db_write_Inr [OF dec] iid show ?thesis by fastforce
qed

lemma decision_tx_other:
  assumes "decision_tx d codes rhash draft intent_id detail decision_id w = (Inr iid, w')"
    and "d \<noteq> D_proposed" and "d \<noteq> D_held"
  shows "\<exists>t row. iid = intent_id \<and> ins_decision row t = Inr (w_db w') \<and> de_id row = decision_id \<and>
     de_decision row = d \<and> de_codes row = codes \<and> de_request_hash row = rhash \<and>
     de_intent_id row = intent_id \<and> de_detail row = detail \<and>
     t = (if d = D_approved then upd_intents (\<lambda>r. Some (in_id r) = intent_id) (set_status Escrowed) (w_db w)
          else if d = D_reverted then upd_intents (\<lambda>r. Some (in_id r) = intent_id) (set_status Reverted) (w_db w)
          else w_db w)"
proof -
  from assms obtain w1 now w2 where eff: "decision_effect d draft intent_id w = (Inr iid, w1)"
    and clk: "read_clock w1 = (Inr now, w2)"
    and dec: "db_write (ins_decision \<lparr>de_id = decision_id, de_decision = d, de_codes = codes,
                 de_request_hash = rhash, de_intent_id = iid, de_detail = detail,
                 de_created_at = now\<rparr>) w2 = (Inr (), w')"
    by (auto simp: decision_tx_def py_bind_returns py_seq_returns)
  let ?t = "if d = D_approved then upd_intents (\<lambda>r. Some (in_id r) = intent_id) (set_status Escrowed) (w_db w)
          else if d = D_reverted then upd_intents (\<lambda>r. Some (in_id r) = intent_id) (set_status Reverted) (w_db w)
          else w_db w"
  from eff assms(2,3) have "iid = intent_id \<and> w_db w1 = ?t"
    by (cases d; cases draft)
      (auto simp: decision_effect_def py_seq_returns dest: update_status_Inr)
  with db_write_Inr [OF dec] read_clock_step [OF clk] show ?thesis by fastforce
qed

lemma record_decision_Inr:
  assumes "record_decision d codes rhash draft iid detail w = (Inr out, w')"
  shows "decision_args d draft iid = Inr () \<and>
    (\<exists>w1 w2. w_db w1 = w_db w \<and>
      decision_tx d codes rhash draft iid detail (do_decision_id out) w1 = (Inr (do_intent_id out), w2) \<and>
      (\<exists>p w3. emit (decision_event d) p w2 = (Inr (), w3) \<and> w' = w3))"
proof -
  from assms have args: "decision_args d draft iid = Inr ()"
    by (cases "decision_args d draft iid") (auto simp: record_decision_def py_seq_def)
  with assms obtain did w1 i w2 p where "ulid_new w = (Inr did, w1)"
    "decision_tx d codes rhash draft iid detail did w1 = (Inr i, w2)"
    "emit (decision_event d) p w2 = (Inr (), w')" "out = \<lparr>do_decision_id = did, do_intent_id = i\<rparr>"
    by (auto simp: record_decision_def py_bind_returns py_seq_returns)
  with args show ?thesis by (fastforce dest: ulid_new_db)
qed

section \<open>Relations between tables\<close>

locale db_relation =
  fixes D :: "tables \<Rightarrow> tables \<Rightarrow> bool"
  assumes drefl: "D t t"
    and dtrans: "D t u \<Longrightarrow> D u v \<Longrightarrow> D t v"
begin

definition W :: "'s world \<Rightarrow> 's world \<Rightarrow> bool" where
  "W w w' \<longleftrightarrow> D (w_db w) (w_db w')"

sublocale wr: frame_relation W
  by unfold_locales (auto simp: W_def intro: drefl dtrans)

lemma W_same_db: "evolves same_db m \<Longrightarrow> evolves W m"
  by (simp add: evolves_def same_db_def W_def drefl)

lemmas W_pure = W_same_db [OF same_db_draws(1)] W_same_db [OF same_db_draws(2)]
  W_same_db [OF same_db_ulid] W_same_db [OF same_db_publish]

lemma W_read: "evolves W (db_read f)"
  unfolding db_read_def by (rule wr.evo_pure)

lemma W_write: "(\<And>t t'. f t = Inr t' \<Longrightarrow> D t t') \<Longrightarrow> evolves W (db_write f)"
  by (auto simp: evolves_def W_def db_write_def Let_def drefl split: sum.split)

text \<open>A transaction shows its effect only when it returns.\<close>

lemma W_transaction:
  assumes "\<And>w x w'. m w = (Inr x, w') \<Longrightarrow> D (w_db w) (w_db w')"
  shows "evolves W (transaction m)"
proof (rule evolvesI)
  fix w
  obtain r w' where mw: "m w = (r, w')" by (cases "m w")
  show "W w (snd (transaction m w))"
    using assms mw by (cases r) (simp_all add: transaction_def W_def drefl)
qed

lemma W_transaction_evolves: "evolves W m \<Longrightarrow> evolves W (transaction m)"
  by (rule W_transaction) (auto dest: evolvesD simp: W_def)

end

section \<open>Relations every operation keeps\<close>

text \<open>What an UPDATE of this program never touches.\<close>

definition same_terms :: "intent_row \<Rightarrow> intent_row \<Rightarrow> bool" where
  "same_terms r r' \<longleftrightarrow> in_id r' = in_id r \<and> in_request_hash r' = in_request_hash r \<and>
     in_supplier_id r' = in_supplier_id r \<and> in_amount r' = in_amount r \<and>
     in_token r' = in_token r \<and> in_deadline r' = in_deadline r \<and>
     in_invoice_ref r' = in_invoice_ref r \<and> in_created_at r' = in_created_at r"

lemma same_terms_refl [simp]: "same_terms r r"
  and same_terms_status [simp]: "same_terms r (set_status s r)"
  and same_terms_chain [simp]: "same_terms r (r\<lparr>in_chain_id := c\<rparr>)"
  by (simp_all add: same_terms_def set_status_def)

lemma same_terms_supplier: "same_terms r r' \<Longrightarrow> in_supplier_id r' = in_supplier_id r"
  and same_terms_amount: "same_terms r r' \<Longrightarrow> in_amount r' = in_amount r"
  by (simp_all add: same_terms_def)

text \<open>An update that never puts a payment back to \<open>proposed\<close> or \<open>held\<close>.\<close>

definition advances :: "intent_row \<Rightarrow> intent_row \<Rightarrow> bool" where
  "advances r r' \<longleftrightarrow> same_terms r r' \<and>
     (in_status r' = in_status r \<or> in_status r' = Escrowed \<or> in_status r' = Released \<or>
      in_status r' = Reverted)"

lemma advances_updates [simp]:
  "advances r (set_status Escrowed r)" "advances r (set_status Released r)"
  "advances r (set_status Reverted r)" "advances r (r\<lparr>in_chain_id := c\<rparr>)"
  by (simp_all add: advances_def set_status_def same_terms_def)

locale step_relation = db_relation +
  assumes D_event: "ins_event e t = Inr t' \<Longrightarrow> D t t'"
    and D_supplier: "ins_supplier s t = Inr t' \<Longrightarrow> D t t'"
    and D_rules: "D t (t\<lparr>t_rules := rs\<rparr>)"
    and D_attestation: "ins_attestation a t = Inr t' \<Longrightarrow> D t t'"
    and D_chain_tx: "ins_chain_tx c t = Inr t' \<Longrightarrow> D t t'"
    and D_payout: "ins_payout p t = Inr t' \<Longrightarrow> D t t'"
    and D_update: "(\<And>r. advances r (g r)) \<Longrightarrow> D t (upd_intents q g t)"
    and D_decision: "ins_decision d t = Inr t' \<Longrightarrow> de_decision d \<noteq> D_proposed \<Longrightarrow>
      de_decision d \<noteq> D_held \<Longrightarrow> D t t'"
    and D_draft: "ins_intent r t = Inr u \<Longrightarrow> ins_decision d u = Inr v \<Longrightarrow>
      de_intent_id d = Some (in_id r) \<Longrightarrow>
      (de_decision d = D_proposed \<and> in_status r = Proposed \<or>
       de_decision d = D_held \<and> in_status r = Held) \<Longrightarrow>
      in_chain_id r = None \<Longrightarrow> py_str_int n = Inr (in_amount r) \<Longrightarrow> D t v"
begin

lemma W_emit: "evolves W (emit n p)"
  unfolding emit_def by (auto intro!: wr.evo_intros W_pure W_write D_event)

lemma W_add_supplier: "evolves W (add_supplier n a)"
  unfolding add_supplier_def by (auto intro!: wr.evo_intros W_pure W_write D_supplier)

lemma W_set_rule: "evolves W (set_rule k v)"
  unfolding set_rule_def by (auto intro!: W_write D_rules)

lemma W_intents_today: "evolves W (intents_today rt)"
  unfolding intents_today_def by (intro wr.evo_intros W_pure W_read)

lemma W_claim_escrow: "evolves W (claim_escrow i)"
  unfolding claim_escrow_def
  by (auto intro!: wr.evo_intros W_transaction_evolves W_write D_update)

lemma W_set_chain_intent: "evolves W (set_chain_intent i c)"
  unfolding set_chain_intent_def by (auto intro!: W_write D_update)

lemma W_mark_released: "evolves W (mark_released i)"
  unfolding mark_released_def by (auto intro!: wr.evo_intros W_write D_update W_emit)

lemma W_add_chain_tx: "evolves W (add_chain_tx i a h)"
  unfolding add_chain_tx_def by (auto intro!: wr.evo_intros W_pure W_write D_chain_tx)

lemma W_add_anchor_payout: "evolves W (add_anchor_payout i r a d)"
  unfolding add_anchor_payout_def by (auto intro!: wr.evo_intros W_pure W_write D_payout)

lemma W_add_attestation: "evolves W (add_attestation i ora k h)"
  unfolding add_attestation_def by (auto intro!: wr.evo_intros W_pure W_write D_attestation)

lemma W_ins_or_ignore: "evolves W (db_write (ins_or_ignore_supplier r))"
  by (rule W_write) (auto simp: ins_or_ignore_supplier_def intro: D_supplier drefl split: sum.splits)

lemma W_seed: "evolves W seed"
  unfolding seed_def
  by (intro W_transaction_evolves wr.evo_seq wr.evo_for)
    (auto intro!: wr.evo_intros W_pure W_ins_or_ignore W_set_rule split: prod.split)

lemma W_decision_tx:
  assumes "decision_tx d codes rhash draft intent_id detail decision_id w = (Inr iid, w')"
    and "decision_args d draft intent_id = Inr ()"
  shows "D (w_db w) (w_db w')"
proof (cases "d = D_proposed \<or> d = D_held")
  case True
  with assms(2) obtain dr where "draft = Some dr" by (auto simp: decision_args_def split: if_splits)
  moreover obtain st where "d = D_proposed \<and> st = Proposed \<or> d = D_held \<and> st = Held"
    using True by blast
  ultimately show ?thesis
    using assms(1) by (auto dest!: decision_tx_draft intro: D_draft simp: draft_row_def)
next
  case False
  then have "d \<noteq> D_proposed" "d \<noteq> D_held" by auto
  from decision_tx_other [OF assms(1) this] obtain t row where ins: "ins_decision row t = Inr (w_db w')"
    and k: "de_decision row = d" and t: "t = (if d = D_approved then upd_intents (\<lambda>r. Some (in_id r) = intent_id) (set_status Escrowed) (w_db w)
          else if d = D_reverted then upd_intents (\<lambda>r. Some (in_id r) = intent_id) (set_status Reverted) (w_db w)
          else w_db w)"
    by blast
  have "D (w_db w) t" unfolding t by (auto intro: D_update drefl)
  with D_decision [OF ins] k False show ?thesis by (auto intro: dtrans)
qed

lemma W_record_decision: "evolves W (record_decision d codes rhash draft intent_id detail)"
proof (cases "decision_args d draft intent_id")
  case (Inl e)
  show ?thesis
    by (rule evolvesI) (simp add: record_decision_def Inl py_seq_def W_def drefl)
next
  case (Inr u)
  then have "evolves W (transaction (decision_tx d codes rhash draft intent_id detail did))" for did
    by (intro W_transaction) (auto dest: W_decision_tx)
  then show ?thesis
    unfolding record_decision_def by (intro wr.evo_intros W_pure W_emit)
qed

lemmas W_step = W_emit W_add_supplier W_set_rule W_intents_today W_claim_escrow
  W_set_chain_intent W_mark_released W_add_chain_tx W_add_anchor_payout
  W_add_attestation W_seed W_record_decision W_read W_pure wr.evo_intros

end

text \<open>The one update that reopens a payment is the release of a claim.\<close>

locale repo_relation = step_relation +
  assumes D_reopen: "D t (upd_intents (reopenable i) (set_status Proposed) t)"
begin

lemma W_release_escrow_claim: "evolves W (release_escrow_claim i)"
  unfolding release_escrow_claim_def
  by (auto intro!: W_transaction_evolves W_write D_reopen)

end

section \<open>The schema invariant\<close>

definition db_ok :: "tables \<Rightarrow> bool" where
  "db_ok t \<longleftrightarrow>
     distinct (map sp_id (t_suppliers t)) \<and> distinct (map sp_name (t_suppliers t)) \<and>
     distinct (map in_id (t_intents t)) \<and> distinct (map in_request_hash (t_intents t)) \<and>
     (\<forall>r \<in> set (t_intents t). in_supplier_id r \<in> sp_id ` set (t_suppliers t)) \<and>
     distinct (map de_id (t_decisions t)) \<and>
     (\<forall>d \<in> set (t_decisions t). \<forall>i. de_intent_id d = Some i \<longrightarrow> has_intent t i) \<and>
     distinct (map at_id (t_attestations t)) \<and>
     (\<forall>a \<in> set (t_attestations t). has_intent t (at_intent_id a) \<and>
        (at_kind a = asc ''Shipped'' \<or> at_kind a = asc ''Failed'')) \<and>
     distinct (map ct_id (t_chain_txs t)) \<and>
     (\<forall>c \<in> set (t_chain_txs t). has_intent t (ct_intent_id c)) \<and>
     distinct (map ap_id (t_payouts t)) \<and> distinct (map ap_ref (t_payouts t)) \<and>
     (\<forall>p \<in> set (t_payouts t). has_intent t (ap_intent_id p)) \<and>
     distinct (map er_id (t_events t))"

lemma map_upd_intents:
  assumes "\<And>r. same_terms r (g r)"
  shows "map in_id (t_intents (upd_intents q g t)) = map in_id (t_intents t)"
    and "map in_request_hash (t_intents (upd_intents q g t)) = map in_request_hash (t_intents t)"
    and "map in_supplier_id (t_intents (upd_intents q g t)) = map in_supplier_id (t_intents t)"
  using assms by (simp_all add: upd_intents_def same_terms_def)

lemma has_intent_upd [simp]:
  assumes "\<And>r. same_terms r (g r)"
  shows "has_intent (upd_intents q g t) i = has_intent t i"
  using map_upd_intents(1) [OF assms, of q t] unfolding has_intent_def
  by (metis list.set_map)

lemma ball_upd:
  assumes "\<And>r. f (g r) = f r"
  shows "(\<forall>r \<in> set (t_intents (upd_intents q g t)). P (f r)) \<longleftrightarrow>
         (\<forall>r \<in> set (t_intents t). P (f r))"
proof -
  have eq: "(\<forall>r \<in> set rs. P (f r)) \<longleftrightarrow> list_all P (map f rs)" for rs
    by (simp add: list_all_iff)
  have "map f (t_intents (upd_intents q g t)) = map f (t_intents t)"
    using assms by (simp add: upd_intents_def)
  then show ?thesis unfolding eq by simp
qed

lemma upd_intents_frame [simp]:
  "t_suppliers (upd_intents q g t) = t_suppliers t" "t_rules (upd_intents q g t) = t_rules t"
  "t_decisions (upd_intents q g t) = t_decisions t" "t_attestations (upd_intents q g t) = t_attestations t"
  "t_chain_txs (upd_intents q g t) = t_chain_txs t" "t_payouts (upd_intents q g t) = t_payouts t"
  "t_events (upd_intents q g t) = t_events t"
  by (simp_all add: upd_intents_def)

lemmas ins_defs = ins_event_def ins_supplier_def ins_intent_def ins_decision_def ins_attestation_def
  ins_chain_tx_def ins_payout_def

definition keeps_ok :: "tables \<Rightarrow> tables \<Rightarrow> bool" where
  "keeps_ok t t' \<longleftrightarrow> (db_ok t \<longrightarrow> db_ok t')"

lemma db_ok_ins_intent: "ins_intent r t = Inr t' \<Longrightarrow> db_ok t \<Longrightarrow> db_ok t'"
  by (auto simp: ins_intent_def db_ok_def has_intent_def split: if_splits)

lemma db_ok_ins_decision: "ins_decision d t = Inr t' \<Longrightarrow> db_ok t \<Longrightarrow> db_ok t'"
  by (auto simp: ins_decision_def db_ok_def has_intent_def split: if_splits option.splits)

lemma keeps_ok_update:
  assumes g: "\<And>r. same_terms r (g r)"
  shows "keeps_ok t (upd_intents q g t)"
  by (simp add: keeps_ok_def db_ok_def g map_upd_intents [OF g] 
        ball_upd [where f = in_supplier_id and g = g and P = "\<lambda>x. x \<in> sp_id ` set (t_suppliers t)"]
        same_terms_supplier [OF g])

interpretation ok: repo_relation keeps_ok
proof unfold_locales
  fix q g t assume "\<And>r. advances r (g r)"
  then show "keeps_ok t (upd_intents q g t)" by (intro keeps_ok_update) (simp add: advances_def)
next
  fix i t
  show "keeps_ok t (upd_intents (reopenable i) (set_status Proposed) t)"
    by (rule keeps_ok_update) simp
next
  fix r t u d v assume "ins_intent r t = Inr u" "ins_decision d u = Inr v"
  then show "keeps_ok t v" by (simp add: keeps_ok_def db_ok_ins_intent db_ok_ins_decision)
qed (auto simp: keeps_ok_def db_ok_ins_decision;
    auto simp: ins_defs db_ok_def has_intent_def split: if_splits)+

section \<open>The audit trail\<close>

text \<open>Nothing is deleted and no term of a stored payment is changed: every table but the
  rules only grows, and the rows of \<open>intents\<close> keep everything except status and chain id.\<close>

definition terms_le :: "intent_row list \<Rightarrow> intent_row list \<Rightarrow> bool" where
  "terms_le rs rs' \<longleftrightarrow>
     length rs \<le> length rs' \<and> (\<forall>k < length rs. same_terms (rs ! k) (rs' ! k))"

definition audit_le :: "tables \<Rightarrow> tables \<Rightarrow> bool" where
  "audit_le t t' \<longleftrightarrow> terms_le (t_intents t) (t_intents t') \<and>
     prefix (t_suppliers t) (t_suppliers t') \<and> prefix (t_decisions t) (t_decisions t') \<and>
     prefix (t_attestations t) (t_attestations t') \<and> prefix (t_chain_txs t) (t_chain_txs t') \<and>
     prefix (t_payouts t) (t_payouts t') \<and> prefix (t_events t) (t_events t')"

lemma terms_le_refl [simp]: "terms_le rs rs"
  by (simp add: terms_le_def)

lemma same_terms_trans: "same_terms a b \<Longrightarrow> same_terms b c \<Longrightarrow> same_terms a c"
  by (simp add: same_terms_def)

lemma terms_le_trans: "terms_le a b \<Longrightarrow> terms_le b c \<Longrightarrow> terms_le a c"
  unfolding terms_le_def by (auto intro: same_terms_trans)

lemma terms_le_append [simp]: "terms_le rs (rs @ ss)"
  by (simp add: terms_le_def nth_append)

lemma terms_le_upd: "(\<And>r. same_terms r (g r)) \<Longrightarrow> terms_le (t_intents t) (t_intents (upd_intents q g t))"
  by (simp add: terms_le_def upd_intents_def)

lemma audit_le_update:
  assumes g: "\<And>r. same_terms r (g r)"
  shows "audit_le t (upd_intents q g t)"
  using g by (simp add: audit_le_def terms_le_upd)

interpretation audit: repo_relation audit_le
proof unfold_locales
  fix t u v assume "audit_le t u" "audit_le u v"
  then show "audit_le t v"
    unfolding audit_le_def by (auto intro: terms_le_trans prefix_order.trans)
next
  fix q g t assume "\<And>r. advances r (g r)"
  then show "audit_le t (upd_intents q g t)" by (intro audit_le_update) (simp add: advances_def)
next
  fix i t
  show "audit_le t (upd_intents (reopenable i) (set_status Proposed) t)"
    by (rule audit_le_update) simp
qed (auto simp: audit_le_def ins_defs split: if_splits)

text \<open>Every stored payment has the decision row that created it.\<close>

definition audited :: "tables \<Rightarrow> bool" where
  "audited t \<longleftrightarrow> (\<forall>i. has_intent t i \<longrightarrow>
     (\<exists>d \<in> set (t_decisions t). de_intent_id d = Some i \<and>
        (de_decision d = D_proposed \<or> de_decision d = D_held)))"

definition keeps_audited :: "tables \<Rightarrow> tables \<Rightarrow> bool" where
  "keeps_audited t t' \<longleftrightarrow> (audited t \<longrightarrow> audited t')"

lemma audited_more:
  assumes "\<And>i. has_intent t' i = has_intent t i" and "set (t_decisions t) \<subseteq> set (t_decisions t')"
  shows "keeps_audited t t'"
  using assms unfolding keeps_audited_def audited_def by (metis subsetD)

lemma keeps_audited_update:
  assumes g: "\<And>r. same_terms r (g r)"
  shows "keeps_audited t (upd_intents q g t)"
  by (rule audited_more) (simp_all add: has_intent_upd [OF g])

interpretation aud: repo_relation keeps_audited
proof unfold_locales
  fix t u v assume "keeps_audited t u" "keeps_audited u v"
  then show "keeps_audited t v" by (simp add: keeps_audited_def)
next
  fix q g t assume "\<And>r. advances r (g r)"
  then show "keeps_audited t (upd_intents q g t)" by (intro keeps_audited_update) (simp add: advances_def)
next
  fix i t
  show "keeps_audited t (upd_intents (reopenable i) (set_status Proposed) t)"
    by (rule keeps_audited_update) simp
next
  fix r t u d v
  assume r: "ins_intent r t = Inr u" and d: "ins_decision d u = Inr v"
    and i: "de_intent_id d = Some (in_id r)"
    and k: "de_decision d = D_proposed \<and> in_status r = Proposed \<or>
       de_decision d = D_held \<and> in_status r = Held"
  have "has_intent v j \<longleftrightarrow> has_intent t j \<or> j = in_id r" for j
    using r d by (auto simp: ins_intent_def ins_decision_def has_intent_def split: if_splits)
  moreover have "set (t_decisions v) = insert d (set (t_decisions t))"
    using r d by (auto simp: ins_intent_def ins_decision_def split: if_splits)
  ultimately show "keeps_audited t v"
    using i k by (auto simp: keeps_audited_def audited_def)
qed (auto intro!: audited_more simp: ins_defs has_intent_def split: if_splits)

text \<open>Stored amounts are numerals \<open>str\<close> produced, so reading them back never raises.\<close>

definition amounts_ok :: "tables \<Rightarrow> bool" where
  "amounts_ok t \<longleftrightarrow> (\<forall>r \<in> set (t_intents t). \<exists>n. py_str_int n = Inr (in_amount r))"

lemma amounts_upd:
  assumes "\<And>r. same_terms r (g r)"
  shows "amounts_ok (upd_intents q g t) = amounts_ok t"
  unfolding amounts_ok_def using same_terms_amount [OF assms] by (rule ball_upd)

definition keeps_amounts :: "tables \<Rightarrow> tables \<Rightarrow> bool" where
  "keeps_amounts t t' \<longleftrightarrow> (amounts_ok t \<longrightarrow> amounts_ok t')"

lemma keeps_amounts_update:
  assumes g: "\<And>r. same_terms r (g r)"
  shows "keeps_amounts t (upd_intents q g t)"
  by (simp add: keeps_amounts_def amounts_upd [OF g])

interpretation amt: repo_relation keeps_amounts
proof unfold_locales
  fix q g t assume "\<And>r. advances r (g r)"
  then show "keeps_amounts t (upd_intents q g t)" by (intro keeps_amounts_update) (simp add: advances_def)
next
  fix i t
  show "keeps_amounts t (upd_intents (reopenable i) (set_status Proposed) t)"
    by (rule keeps_amounts_update) simp
next
  fix r t u d v n
  assume "ins_intent r t = Inr u" "ins_decision d u = Inr v" "py_str_int n = Inr (in_amount r)"
  then show "keeps_amounts t v"
    by (auto simp: keeps_amounts_def amounts_ok_def ins_intent_def ins_decision_def split: if_splits)
qed (auto simp: keeps_amounts_def amounts_ok_def ins_defs split: if_splits)

end
