(* ===== verification/Config.thy ===== *)
theory Config
  imports Py_Text
begin

text \<open>
  \<open>lumo/config.py\<close>: the configuration record, its validation \<open>__post_init__\<close>, the three
  profiles and the environment overlay.  TOML parsing is a library: \<open>from_env\<close> takes what
  \<open>from_file\<close> gave, if the file exists.  A field table stands for \<open>dataclasses.fields\<close>.
\<close>

record config =
  cf_db_path :: pystr
  cf_provider :: pystr
  cf_mock_mode :: pystr
  cf_llama_url :: pystr
  cf_deadline_secs :: int
  cf_escrow_id :: pystr
  cf_network :: pystr
  cf_sme_source :: pystr
  cf_sme_smart_account :: pystr
  cf_oracle_source :: pystr
  cf_oracle_address :: pystr
  cf_chain_adapter :: pystr
  cf_anchor_adapter :: pystr
  cf_oracle_adapter :: pystr
  cf_oracle_signers :: pystr
  cf_injection_scan :: bool
  cf_policy_engine :: bool
  cf_policy_signer :: bool
  cf_require_attestation :: bool
  cf_k_of_n :: int
  cf_human_cosign_threshold :: int
  cf_proof_of_compute :: bool
  cf_dry_run :: bool
  cf_monitoring :: bool
  cf_webhook_urls :: pystr
  cf_api_host :: pystr
  cf_api_port :: int

definition default_config :: config where
  "default_config = \<lparr>
     cf_db_path = asc ''lumo.db'', cf_provider = asc ''mock'', cf_mock_mode = asc ''honest'',
     cf_llama_url = asc ''http://127.0.0.1:8080'', cf_deadline_secs = 3600, cf_escrow_id = [],
     cf_network = asc ''local'', cf_sme_source = asc ''lumo-sme'', cf_sme_smart_account = [],
     cf_oracle_source = asc ''lumo-oracle'', cf_oracle_address = [],
     cf_chain_adapter = asc ''soroban'', cf_anchor_adapter = asc ''mock'',
     cf_oracle_adapter = [], cf_oracle_signers = [], cf_injection_scan = True,
     cf_policy_engine = True, cf_policy_signer = True, cf_require_attestation = False,
     cf_k_of_n = 1, cf_human_cosign_threshold = 0, cf_proof_of_compute = False,
     cf_dry_run = False, cf_monitoring = True, cf_webhook_urls = [],
     cf_api_host = asc ''127.0.0.1'', cf_api_port = 8788\<rparr>"

definition post_init :: "config \<Rightarrow> config result" where
  "post_init c =
     (if cf_chain_adapter c \<noteq> asc ''soroban'' \<and> cf_chain_adapter c \<noteq> asc ''mock'' \<and>
         cf_chain_adapter c \<noteq> asc ''evm''
      then Inl (ValueError ''unknown chain_adapter'')
      else if \<not> (1 \<le> cf_api_port c \<and> cf_api_port c \<le> 65535)
      then Inl (ValueError ''api_port out of range'')
      else if cf_k_of_n c < 1 then Inl (ValueError ''k_of_n must be >= 1'')
      else if cf_deadline_secs c \<le> 0 then Inl (ValueError ''deadline_secs must be > 0'')
      else if cf_mock_mode c \<noteq> asc ''honest'' \<and> cf_mock_mode c \<noteq> asc ''compromised''
      then Inl (ValueError ''unknown mock_mode'')
      else Inr (c\<lparr>cf_sme_smart_account := py_strip (cf_sme_smart_account c)\<rparr>))"

section \<open>Profiles\<close>

definition profile_strict :: "config \<Rightarrow> config" where
  "profile_strict c = c\<lparr>cf_injection_scan := True, cf_policy_engine := True,
     cf_policy_signer := True, cf_require_attestation := True, cf_k_of_n := 3,
     cf_human_cosign_threshold := 1000000000, cf_proof_of_compute := True\<rparr>"

definition profile_balanced :: "config \<Rightarrow> config" where
  "profile_balanced c = c\<lparr>cf_injection_scan := True, cf_policy_engine := True,
     cf_policy_signer := True, cf_require_attestation := True, cf_k_of_n := 1,
     cf_human_cosign_threshold := 0, cf_proof_of_compute := False\<rparr>"

definition profile_fast :: "config \<Rightarrow> config" where
  "profile_fast c = c\<lparr>cf_injection_scan := True, cf_policy_engine := True,
     cf_policy_signer := False, cf_require_attestation := False, cf_k_of_n := 1,
     cf_human_cosign_threshold := 0, cf_proof_of_compute := False\<rparr>"

definition profiles :: "(string \<times> (config \<Rightarrow> config)) list" where
  "profiles = [(''strict'', profile_strict), (''balanced'', profile_balanced), (''fast'', profile_fast)]"

text \<open>\<open>Config.profile(name, **overrides)\<close>: the overrides replace fields of the profile.\<close>

definition profile :: "string \<Rightarrow> (config \<Rightarrow> config) \<Rightarrow> config result" where
  "profile name overrides =
     (case map_of profiles name of None \<Rightarrow> Inl (ValueError ''unknown profile'')
      | Some f \<Rightarrow> post_init (overrides (f default_config)))"

section \<open>The environment overlay\<close>

datatype field_value = FStr pystr | FBool bool | FInt int

type_synonym field_entry = "string \<times> (config \<Rightarrow> field_value) \<times> (field_value \<Rightarrow> config \<Rightarrow> config)"

definition str_field :: "string \<Rightarrow> (config \<Rightarrow> pystr) \<Rightarrow> (pystr \<Rightarrow> config \<Rightarrow> config) \<Rightarrow> field_entry" where
  "str_field n get put = (n, \<lambda>c. FStr (get c), \<lambda>v c. case v of FStr s \<Rightarrow> put s c | _ \<Rightarrow> c)"

definition bool_field :: "string \<Rightarrow> (config \<Rightarrow> bool) \<Rightarrow> (bool \<Rightarrow> config \<Rightarrow> config) \<Rightarrow> field_entry" where
  "bool_field n get put = (n, \<lambda>c. FBool (get c), \<lambda>v c. case v of FBool b \<Rightarrow> put b c | _ \<Rightarrow> c)"

definition int_field :: "string \<Rightarrow> (config \<Rightarrow> int) \<Rightarrow> (int \<Rightarrow> config \<Rightarrow> config) \<Rightarrow> field_entry" where
  "int_field n get put = (n, \<lambda>c. FInt (get c), \<lambda>v c. case v of FInt k \<Rightarrow> put k c | _ \<Rightarrow> c)"

definition config_fields :: "field_entry list" where
  "config_fields =
     [str_field ''db_path'' cf_db_path (\<lambda>v c. c\<lparr>cf_db_path := v\<rparr>),
      str_field ''provider'' cf_provider (\<lambda>v c. c\<lparr>cf_provider := v\<rparr>),
      str_field ''mock_mode'' cf_mock_mode (\<lambda>v c. c\<lparr>cf_mock_mode := v\<rparr>),
      str_field ''llama_url'' cf_llama_url (\<lambda>v c. c\<lparr>cf_llama_url := v\<rparr>),
      int_field ''deadline_secs'' cf_deadline_secs (\<lambda>v c. c\<lparr>cf_deadline_secs := v\<rparr>),
      str_field ''escrow_id'' cf_escrow_id (\<lambda>v c. c\<lparr>cf_escrow_id := v\<rparr>),
      str_field ''network'' cf_network (\<lambda>v c. c\<lparr>cf_network := v\<rparr>),
      str_field ''sme_source'' cf_sme_source (\<lambda>v c. c\<lparr>cf_sme_source := v\<rparr>),
      str_field ''sme_smart_account'' cf_sme_smart_account (\<lambda>v c. c\<lparr>cf_sme_smart_account := v\<rparr>),
      str_field ''oracle_source'' cf_oracle_source (\<lambda>v c. c\<lparr>cf_oracle_source := v\<rparr>),
      str_field ''oracle_address'' cf_oracle_address (\<lambda>v c. c\<lparr>cf_oracle_address := v\<rparr>),
      str_field ''chain_adapter'' cf_chain_adapter (\<lambda>v c. c\<lparr>cf_chain_adapter := v\<rparr>),
      str_field ''anchor_adapter'' cf_anchor_adapter (\<lambda>v c. c\<lparr>cf_anchor_adapter := v\<rparr>),
      str_field ''oracle_adapter'' cf_oracle_adapter (\<lambda>v c. c\<lparr>cf_oracle_adapter := v\<rparr>),
      str_field ''oracle_signers'' cf_oracle_signers (\<lambda>v c. c\<lparr>cf_oracle_signers := v\<rparr>),
      bool_field ''injection_scan'' cf_injection_scan (\<lambda>v c. c\<lparr>cf_injection_scan := v\<rparr>),
      bool_field ''policy_engine'' cf_policy_engine (\<lambda>v c. c\<lparr>cf_policy_engine := v\<rparr>),
      bool_field ''policy_signer'' cf_policy_signer (\<lambda>v c. c\<lparr>cf_policy_signer := v\<rparr>),
      bool_field ''require_attestation'' cf_require_attestation (\<lambda>v c. c\<lparr>cf_require_attestation := v\<rparr>),
      int_field ''k_of_n'' cf_k_of_n (\<lambda>v c. c\<lparr>cf_k_of_n := v\<rparr>),
      int_field ''human_cosign_threshold'' cf_human_cosign_threshold
        (\<lambda>v c. c\<lparr>cf_human_cosign_threshold := v\<rparr>),
      bool_field ''proof_of_compute'' cf_proof_of_compute (\<lambda>v c. c\<lparr>cf_proof_of_compute := v\<rparr>),
      bool_field ''dry_run'' cf_dry_run (\<lambda>v c. c\<lparr>cf_dry_run := v\<rparr>),
      bool_field ''monitoring'' cf_monitoring (\<lambda>v c. c\<lparr>cf_monitoring := v\<rparr>),
      str_field ''webhook_urls'' cf_webhook_urls (\<lambda>v c. c\<lparr>cf_webhook_urls := v\<rparr>),
      str_field ''api_host'' cf_api_host (\<lambda>v c. c\<lparr>cf_api_host := v\<rparr>),
      int_field ''api_port'' cf_api_port (\<lambda>v c. c\<lparr>cf_api_port := v\<rparr>)]"

definition env_name :: "string \<Rightarrow> pystr" where
  "env_name n = (if n = ''db_path'' then asc ''LUMO_DB''
     else asc ''LUMO_'' @ map (\<lambda>c. if is_ascii_lower c then c - 32 else c) (asc n))"

definition truthy :: "runtime \<Rightarrow> pystr \<Rightarrow> bool" where
  "truthy rt raw \<longleftrightarrow>
     py_lower rt raw \<in> {asc ''1'', asc ''true'', asc ''yes'', asc ''on''}"

definition env_value :: "runtime \<Rightarrow> (pystr \<Rightarrow> pystr option) \<Rightarrow> string \<Rightarrow> field_value \<Rightarrow> field_value result" where
  "env_value rt env n current =
     (case env (env_name n) of None \<Rightarrow> Inr current
      | Some raw \<Rightarrow>
          (case current of
             FBool _ \<Rightarrow> Inr (FBool (truthy rt raw))
           | FInt _ \<Rightarrow> rbind (py_int_of_str rt raw) (\<lambda>k. Inr (FInt k))
           | FStr _ \<Rightarrow> Inr (FStr raw)))"

fun overlay :: "runtime \<Rightarrow> (pystr \<Rightarrow> pystr option) \<Rightarrow> config \<Rightarrow> field_entry list \<Rightarrow> config \<Rightarrow> config result" where
  "overlay rt env base [] acc = Inr acc"
| "overlay rt env base ((n, get, put) # fs) acc =
     rbind (env_value rt env n (get base)) (\<lambda>v. overlay rt env base fs (put v acc))"

text \<open>\<open>file = None\<close>: the configuration file does not exist, and \<open>cls()\<close> is the base.\<close>

definition from_env :: "runtime \<Rightarrow> (pystr \<Rightarrow> pystr option) \<Rightarrow> config result option \<Rightarrow> config result" where
  "from_env rt env file =
     rbind (case file of Some r \<Rightarrow> r | None \<Rightarrow> post_init default_config) (\<lambda>base.
     rbind (overlay rt env base config_fields base) post_init)"

section \<open>What validation gives\<close>

definition config_ok :: "config \<Rightarrow> bool" where
  "config_ok c \<longleftrightarrow> cf_chain_adapter c \<in> {asc ''soroban'', asc ''mock'', asc ''evm''} \<and>
     1 \<le> cf_api_port c \<and> cf_api_port c \<le> 65535 \<and> 1 \<le> cf_k_of_n c \<and> 0 < cf_deadline_secs c \<and>
     cf_mock_mode c \<in> {asc ''honest'', asc ''compromised''} \<and>
     py_strip (cf_sme_smart_account c) = cf_sme_smart_account c"

lemma dropWhile_idem: "dropWhile P (dropWhile P xs) = dropWhile P xs"
  by (induction xs) auto

lemma last_dropWhile: "dropWhile P xs \<noteq> [] \<Longrightarrow> last (dropWhile P xs) = last xs"
  by (induction xs) (auto split: if_splits)

lemma py_strip_idem [simp]: "py_strip (py_strip s) = py_strip s"
proof (cases "py_strip s = []")
  case True
  then show ?thesis by (simp only: True) (simp add: py_strip_def)
next
  case False
  define m where "m = dropWhile is_space (rev (dropWhile is_space s))"
  have m: "py_strip s = rev m" "m \<noteq> []" using False by (simp_all add: py_strip_def m_def)
  have "\<not> is_space (hd m)" using m(2) unfolding m_def by (rule hd_dropWhile)
  moreover have "dropWhile is_space s \<noteq> []" using m(2) by (auto simp: m_def dest: set_dropWhileD)
  then have "last m = hd (dropWhile is_space s)" and "\<not> is_space (hd (dropWhile is_space s))"
    using m(2) last_dropWhile [of is_space "rev (dropWhile is_space s)"]
    unfolding m_def by (simp_all only: last_rev hd_dropWhile not_False_eq_True)
  ultimately show ?thesis
    unfolding m(1) using m(2) by (intro py_strip_noop) (simp_all add: hd_rev last_rev)
qed

lemma post_init_ok: "post_init c = Inr c' \<Longrightarrow> config_ok c'"
  by (auto simp: post_init_def config_ok_def split: if_splits)

lemma from_env_ok: "from_env rt env file = Inr c \<Longrightarrow> config_ok c"
  by (auto simp: from_env_def intro: post_init_ok)

end
