(* ===== verification/Policy_Engine.thy ===== *)
theory Policy_Engine
  imports Models
begin

text \<open>
  \<open>lumo/policy/engine.py\<close>: the deterministic policy.  \<open>evaluate\<close> appends a code for
  every rule the request breaks, in the source's order, and allows the request when no
  code was appended.
\<close>

definition counted_status :: "status \<Rightarrow> bool" where
  "counted_status s \<longleftrightarrow> s = Proposed \<or> s = Escrowed \<or> s = Released"

definition committed :: "prior_intent list \<Rightarrow> int" where
  "committed ps = sum_list (map pi_amount (filter (\<lambda>i. counted_status (pi_status i)) ps))"

definition amount_ok :: "int option \<Rightarrow> bool" where
  "amount_ok a = (case a of None \<Rightarrow> False | Some n \<Rightarrow> 0 < n)"

definition address_mismatch :: "payment_request \<Rightarrow> bool" where
  "address_mismatch req \<longleftrightarrow>
     pr_invoice_address req \<noteq> None \<and> pr_registry_address req \<noteq> None \<and>
     pr_invoice_address req \<noteq> pr_registry_address req"

definition evaluate_codes :: "payment_request \<Rightarrow> policy_context \<Rightarrow> code list" where
  "evaluate_codes req ctx =
     (if pr_injection_flags req \<noteq> [] then [INJECTION_SUSPECTED] else []) @
     (if \<not> amount_ok (pr_amount_stroops req) then [INVALID_AMOUNT] else []) @
     (if pr_registry_address req = None then [UNKNOWN_SUPPLIER] else []) @
     (if address_mismatch req then [ADDRESS_MISMATCH] else []) @
     (if pr_request_hash req \<in> pc_known_hashes ctx then [DUPLICATE_REQUEST] else []) @
     (case pr_amount_stroops req of None \<Rightarrow> []
      | Some n \<Rightarrow>
          (if 0 < n then
             (if pc_cap_per_tx ctx < n then [OVER_TX_CAP] else []) @
             (if pc_cap_daily ctx < committed (pc_prior_intents ctx) + n then [OVER_DAILY_CAP] else [])
           else []))"

definition evaluate :: "payment_request \<Rightarrow> policy_context \<Rightarrow> evaluation" where
  "evaluate req ctx =
     (let codes = evaluate_codes req ctx
      in if codes \<noteq> [] then \<lparr>ev_allowed = False, ev_codes = codes\<rparr>
         else \<lparr>ev_allowed = True, ev_codes = [OK]\<rparr>)"

section \<open>The rules\<close>

text \<open>What being within policy means, as one predicate.\<close>

definition within_policy :: "payment_request \<Rightarrow> policy_context \<Rightarrow> bool" where
  "within_policy req ctx \<longleftrightarrow>
     pr_injection_flags req = [] \<and>
     pr_request_hash req \<notin> pc_known_hashes ctx \<and>
     (\<exists>addr n. pr_registry_address req = Some addr \<and>
        (pr_invoice_address req = None \<or> pr_invoice_address req = Some addr) \<and>
        pr_amount_stroops req = Some n \<and> 0 < n \<and> n \<le> pc_cap_per_tx ctx \<and>
        committed (pc_prior_intents ctx) + n \<le> pc_cap_daily ctx)"

lemma evaluate_codes_Nil_iff: "evaluate_codes req ctx = [] \<longleftrightarrow> within_policy req ctx"
  by (auto simp: evaluate_codes_def within_policy_def amount_ok_def address_mismatch_def
      split: option.splits)

lemma evaluate_allowed_iff: "ev_allowed (evaluate req ctx) \<longleftrightarrow> within_policy req ctx"
  using evaluate_codes_Nil_iff [of req ctx] by (auto simp: evaluate_def Let_def)

lemma evaluate_codes_refused:
  "\<not> ev_allowed (evaluate req ctx) \<Longrightarrow> ev_codes (evaluate req ctx) = evaluate_codes req ctx"
  by (auto simp: evaluate_def Let_def split: if_splits)

lemma evaluate_refused_nonempty:
  "\<not> ev_allowed (evaluate req ctx) \<Longrightarrow> ev_codes (evaluate req ctx) \<noteq> []"
  by (auto simp: evaluate_def Let_def split: if_splits)

text \<open>A code is reported exactly when its rule is broken.\<close>

lemma evaluate_code_iff:
  "INJECTION_SUSPECTED \<in> set (evaluate_codes req ctx) \<longleftrightarrow> pr_injection_flags req \<noteq> []"
  "INVALID_AMOUNT \<in> set (evaluate_codes req ctx) \<longleftrightarrow> \<not> amount_ok (pr_amount_stroops req)"
  "UNKNOWN_SUPPLIER \<in> set (evaluate_codes req ctx) \<longleftrightarrow> pr_registry_address req = None"
  "ADDRESS_MISMATCH \<in> set (evaluate_codes req ctx) \<longleftrightarrow> address_mismatch req"
  "DUPLICATE_REQUEST \<in> set (evaluate_codes req ctx) \<longleftrightarrow> pr_request_hash req \<in> pc_known_hashes ctx"
  "OVER_TX_CAP \<in> set (evaluate_codes req ctx) \<longleftrightarrow>
     (\<exists>n. pr_amount_stroops req = Some n \<and> 0 < n \<and> pc_cap_per_tx ctx < n)"
  "OVER_DAILY_CAP \<in> set (evaluate_codes req ctx) \<longleftrightarrow>
     (\<exists>n. pr_amount_stroops req = Some n \<and> 0 < n \<and>
        pc_cap_daily ctx < committed (pc_prior_intents ctx) + n)"
  by (cases "pr_amount_stroops req"; auto simp: evaluate_codes_def)+

lemma distinct_evaluate_codes: "distinct (evaluate_codes req ctx)"
  by (auto simp: evaluate_codes_def split: option.splits)

text \<open>Held and reverted intents do not count against the daily cap.\<close>

lemma committed_Nil [simp]: "committed [] = 0"
  and committed_Cons: "committed (p # ps) =
    (if counted_status (pi_status p) then pi_amount p else 0) + committed ps"
  by (simp_all add: committed_def)

lemma committed_append: "committed (ps @ qs) = committed ps + committed qs"
  by (simp add: committed_def)

text \<open>Allowing requests one after the other never passes the daily cap.\<close>

lemma evaluate_monotone_cap:
  assumes "within_policy req ctx" and "pc_cap_per_tx ctx \<le> pc_cap_per_tx ctx'"
    and "pc_cap_daily ctx \<le> pc_cap_daily ctx'"
    and "pc_prior_intents ctx' = pc_prior_intents ctx"
    and "pc_known_hashes ctx' \<subseteq> pc_known_hashes ctx"
  shows "within_policy req ctx'"
  using assms unfolding within_policy_def by fastforce

end
