(* ===== verification/Py_Decimal.thy ===== *)
theory Py_Decimal
  imports Complex_Main Py_Text
begin

text \<open>
  The part of Python's \<open>decimal\<close> module the amount code uses: construction from text
  and from integers (exact), multiplication, division, \<open>to_integral_value\<close>, equality,
  \<open>is_finite\<close> and \<open>int()\<close>, under the default context (28 digits, half-even,
  exponents within 999999, traps for invalid operation, division by zero and overflow).
  Construction accepts the syntax of CPython's C implementation: surrounding white space,
  underscores, Unicode decimal digits, a sign, a fraction, an exponent, infinities and
  NaNs; values outside the implementation's exponent range raise \<open>InvalidOperation\<close>.
  \<open>dec_val\<close> reads a finite decimal as a rational number.
\<close>

datatype dec = Fin bool nat int | Infinite bool | NaN

section \<open>Rounding to the context\<close>

definition ctx_prec :: nat where "ctx_prec = 28"
definition ctx_emax :: int where "ctx_emax = 999999"
definition ctx_etiny :: int where "ctx_etiny = -1000026"

lemmas ctx_defs = ctx_prec_def ctx_emax_def ctx_etiny_def

definition ndigits :: "nat \<Rightarrow> nat" where
  "ndigits c = length (nat_digits c)"

definition round_half_even :: "nat \<Rightarrow> nat \<Rightarrow> nat" where
  "round_half_even c k =
     (let q = c div 10 ^ k; r = c mod 10 ^ k
      in if 10 ^ k < 2 * r \<or> (2 * r = 10 ^ k \<and> odd q) then q + 1 else q)"

definition dec_fix :: "bool \<Rightarrow> nat \<Rightarrow> int \<Rightarrow> dec result" where
  "dec_fix s c e =
     (if c = 0 then Inr (Fin s 0 (max ctx_etiny (min ctx_emax e)))
      else let adj = e + int (ndigits c) - 1; e0 = max ctx_etiny (adj - int ctx_prec + 1)
           in if ctx_emax < adj then Inl DecimalOverflow
              else if e0 \<le> e then Inr (Fin s c e)
              else let c' = round_half_even c (nat (e0 - e))
                   in if ctx_prec < ndigits c'
                      then (if ctx_emax < e0 + int ctx_prec then Inl DecimalOverflow
                            else Inr (Fin s (c' div 10) (e0 + 1)))
                      else Inr (Fin s c' e0))"

section \<open>Operations\<close>

definition is_finite :: "dec \<Rightarrow> bool" where
  "is_finite d = (case d of Fin _ _ _ \<Rightarrow> True | _ \<Rightarrow> False)"

text \<open>\<open>Decimal(n)\<close> for an integer.\<close>

definition dec_of_int :: "int \<Rightarrow> dec" where
  "dec_of_int n = Fin (n < 0) (nat \<bar>n\<bar>) 0"

fun dec_mul :: "dec \<Rightarrow> dec \<Rightarrow> dec result" where
  "dec_mul (Fin s1 c1 e1) (Fin s2 c2 e2) = dec_fix (s1 \<noteq> s2) (c1 * c2) (e1 + e2)"
| "dec_mul NaN _ = Inr NaN"
| "dec_mul _ NaN = Inr NaN"
| "dec_mul (Infinite s1) (Infinite s2) = Inr (Infinite (s1 \<noteq> s2))"
| "dec_mul (Infinite s1) (Fin s2 c2 _) =
     (if c2 = 0 then Inl InvalidOperation else Inr (Infinite (s1 \<noteq> s2)))"
| "dec_mul (Fin s1 c1 _) (Infinite s2) =
     (if c1 = 0 then Inl InvalidOperation else Inr (Infinite (s1 \<noteq> s2)))"

function strip_zeros :: "nat \<Rightarrow> int \<Rightarrow> int \<Rightarrow> nat \<times> int" where
  "strip_zeros q e ideal =
     (if e < ideal \<and> q mod 10 = 0 then strip_zeros (q div 10) (e + 1) ideal else (q, e))"
  by pat_completeness auto
termination
  by (relation "measure (\<lambda>(q, e, ideal). nat (ideal - e))") auto

declare strip_zeros.simps [simp del]

text \<open>Division: extra digits and a sticky last digit, then one rounding.\<close>

fun dec_div :: "dec \<Rightarrow> dec \<Rightarrow> dec result" where
  "dec_div (Fin s1 c1 e1) (Fin s2 c2 e2) =
     (if c2 = 0 then Inl (if c1 = 0 then InvalidOperation else DivisionByZero)
      else if c1 = 0 then dec_fix (s1 \<noteq> s2) 0 (e1 - e2)
      else let shift = int (ndigits c2) - int (ndigits c1) + int ctx_prec + 1;
               num = (if 0 \<le> shift then c1 * 10 ^ nat shift else c1);
               den = (if 0 \<le> shift then c2 else c2 * 10 ^ nat (- shift));
               e = e1 - e2 - shift; q = num div den
           in if num mod den \<noteq> 0
              then dec_fix (s1 \<noteq> s2) (if q mod 5 = 0 then q + 1 else q) e
              else (case strip_zeros q e (e1 - e2) of (q', e') \<Rightarrow> dec_fix (s1 \<noteq> s2) q' e'))"
| "dec_div NaN _ = Inr NaN"
| "dec_div _ NaN = Inr NaN"
| "dec_div (Infinite s1) (Infinite s2) = Inl InvalidOperation"
| "dec_div (Infinite s1) (Fin s2 _ _) = Inr (Infinite (s1 \<noteq> s2))"
| "dec_div (Fin s1 _ _) (Infinite s2) = Inr (Fin (s1 \<noteq> s2) 0 ctx_etiny)"

definition to_integral_value :: "dec \<Rightarrow> dec" where
  "to_integral_value d =
     (case d of Fin s c e \<Rightarrow>
        (if 0 \<le> e then d else Fin s (round_half_even c (nat (- e))) 0)
      | _ \<Rightarrow> d)"

definition signed :: "bool \<Rightarrow> nat \<Rightarrow> int" where
  "signed s c = (if s then - int c else int c)"

fun dec_eq :: "dec \<Rightarrow> dec \<Rightarrow> bool" where
  "dec_eq (Fin s1 c1 e1) (Fin s2 c2 e2) =
     (let m = min e1 e2
      in signed s1 c1 * 10 ^ nat (e1 - m) = signed s2 c2 * 10 ^ nat (e2 - m))"
| "dec_eq (Infinite s1) (Infinite s2) = (s1 = s2)"
| "dec_eq _ _ = False"

text \<open>\<open>int(d)\<close> of a finite decimal truncates towards zero.\<close>

fun dec_int :: "dec \<Rightarrow> int result" where
  "dec_int (Fin s c e) =
     Inr (if 0 \<le> e then signed s (c * 10 ^ nat e) else signed s (c div 10 ^ nat (- e)))"
| "dec_int (Infinite _) = Inl OverflowError"
| "dec_int NaN = Inl (ValueError ''cannot convert NaN to integer'')"

section \<open>Construction from text\<close>

definition dec_char :: "runtime \<Rightarrow> int \<Rightarrow> int option" where
  "dec_char rt c =
     (if 0 < c \<and> c < 128 then Some c
      else if is_space c then Some 32
      else map_option (\<lambda>v. 48 + v) (digit_value rt c))"

fun dec_chars :: "runtime \<Rightarrow> pystr \<Rightarrow> pystr option" where
  "dec_chars rt [] = Some []"
| "dec_chars rt (c # cs) =
     (if c = 95 then dec_chars rt cs
      else case dec_char rt c of None \<Rightarrow> None
           | Some d \<Rightarrow> map_option (\<lambda>ds. d # ds) (dec_chars rt cs))"

definition digits_nat :: "pystr \<Rightarrow> nat" where
  "digits_nat ds = foldl (\<lambda>a c. 10 * a + nat (c - 48)) 0 ds"

definition take_sign :: "pystr \<Rightarrow> bool \<times> pystr" where
  "take_sign s =
     (case s of [] \<Rightarrow> (False, [])
      | c # cs \<Rightarrow> (if c = 45 then (True, cs) else if c = 43 then (False, cs) else (False, s)))"

text \<open>The exponent part: nothing, or \<open>e\<close>, an optional sign and at least one digit.\<close>

definition dec_exponent :: "pystr \<Rightarrow> int option" where
  "dec_exponent s =
     (case s of [] \<Rightarrow> Some 0
      | c # cs \<Rightarrow>
          (if ascii_lower c = 101 then
             (case take_sign cs of (neg, ds) \<Rightarrow>
                (if ds \<noteq> [] \<and> list_all is_ascii_digit ds
                 then Some (signed neg (digits_nat ds)) else None))
           else None))"

definition max_emax :: int where "max_emax = 999999999999999999"
definition min_etiny :: int where "min_etiny = -1999999999999999997"

definition dec_in_range :: "nat \<Rightarrow> int \<Rightarrow> bool" where
  "dec_in_range c e \<longleftrightarrow>
     min_etiny \<le> e \<and> (if c = 0 then e else e + int (ndigits c) - 1) \<le> max_emax"

definition dec_number :: "bool \<Rightarrow> pystr \<Rightarrow> dec result" where
  "dec_number neg s =
     (let ip = takeWhile is_ascii_digit s; r1 = dropWhile is_ascii_digit s;
          dot = (r1 \<noteq> [] \<and> hd r1 = 46);
          fp = (if dot then takeWhile is_ascii_digit (tl r1) else []);
          r2 = (if dot then dropWhile is_ascii_digit (tl r1) else r1)
      in if ip @ fp = [] then Inl InvalidOperation
         else case dec_exponent r2 of None \<Rightarrow> Inl InvalidOperation
              | Some x \<Rightarrow>
                  (let c = digits_nat (ip @ fp); e = x - int (length fp)
                   in if dec_in_range c e then Inr (Fin neg c e) else Inl InvalidOperation))"

definition is_nan_text :: "pystr \<Rightarrow> bool" where
  "is_nan_text s \<longleftrightarrow>
     (take 3 s = asc ''nan'' \<and> list_all is_ascii_digit (drop 3 s)) \<or>
     (take 4 s = asc ''snan'' \<and> list_all is_ascii_digit (drop 4 s))"

definition dec_of_str :: "runtime \<Rightarrow> pystr \<Rightarrow> dec result" where
  "dec_of_str rt s =
     (case dec_chars rt (py_strip s) of None \<Rightarrow> Inl InvalidOperation
      | Some t \<Rightarrow>
          (case take_sign t of (neg, u) \<Rightarrow>
             (let l = map ascii_lower u
              in if l = asc ''inf'' \<or> l = asc ''infinity'' then Inr (Infinite neg)
                 else if is_nan_text l then Inr NaN
                 else dec_number neg u)))"

section \<open>Meaning\<close>

definition dec_val :: "dec \<Rightarrow> rat" where
  "dec_val d = (case d of Fin s c e \<Rightarrow> of_int (signed s c) * 10 powi e | _ \<Rightarrow> 0)"

lemma dec_val_Fin [simp]: "dec_val (Fin s c e) = of_int (signed s c) * 10 powi e"
  by (simp add: dec_val_def)

lemma signed_eq_0 [simp]: "signed s c = 0 \<longleftrightarrow> c = 0"
  by (simp add: signed_def)

lemma signed_mult: "signed s c * int k = signed s (c * k)"
  by (simp add: signed_def)

lemma powi_nat_diff:
  assumes "m \<le> e"
  shows "(10::rat) powi e = 10 ^ nat (e - m) * 10 powi m"
proof -
  have "e = int (nat (e - m)) + m" using assms by simp
  then have "(10::rat) powi e = 10 powi (int (nat (e - m)) + m)" by simp
  also have "\<dots> = 10 powi int (nat (e - m)) * 10 powi m"
    by (rule power_int_add) simp
  finally show ?thesis by (simp only: power_int_of_nat)
qed

lemma dec_eq_iff_val: "dec_eq (Fin s1 c1 e1) (Fin s2 c2 e2) \<longleftrightarrow>
    dec_val (Fin s1 c1 e1) = dec_val (Fin s2 c2 e2)"
proof -
  let ?m = "min e1 e2"
  let ?p = "10 powi ?m :: rat"
  have p: "?p \<noteq> 0" by simp
  have "(10::rat) powi e1 = 10 ^ nat (e1 - ?m) * ?p" "(10::rat) powi e2 = 10 ^ nat (e2 - ?m) * ?p"
    by (rule powi_nat_diff, simp)+
  then have v: "dec_val (Fin s1 c1 e1) = of_int (signed s1 c1 * 10 ^ nat (e1 - ?m)) * ?p"
    "dec_val (Fin s2 c2 e2) = of_int (signed s2 c2 * 10 ^ nat (e2 - ?m)) * ?p"
    by (simp_all only: dec_val_Fin of_int_mult of_int_power of_int_numeral mult.assoc)
  show ?thesis
    unfolding v dec_eq.simps Let_def mult_cancel_right of_int_eq_iff using p by simp
qed

lemma dec_val_of_int [simp]: "dec_val (dec_of_int n) = of_int n"
  by (simp add: dec_of_int_def signed_def)

lemma ndigits_pos [simp]: "0 < ndigits c"
  by (simp add: ndigits_def)

lemma ndigits_le: "c < 10 ^ k \<Longrightarrow> 0 < k \<Longrightarrow> ndigits c \<le> k"
  by (simp add: ndigits_def nat_digits_length_le)

lemma ndigits_gt: "10 ^ k \<le> c \<Longrightarrow> k < ndigits c"
  by (simp add: ndigits_def nat_digits_length_gt)

lemma ndigits_upper: "c < 10 ^ ndigits c"
  by (meson ndigits_gt less_irrefl linorder_not_le)

lemma ndigits_lower: "0 < c \<Longrightarrow> 10 ^ (ndigits c - 1) \<le> c"
  using ndigits_le [of c "ndigits c - 1"] ndigits_pos [of c]
  by (cases "ndigits c = 1") (auto simp: not_less [symmetric])

lemma ndigits_times_pow:
  assumes "0 < c"
  shows "ndigits (c * 10 ^ k) = ndigits c + k"
proof (rule antisym)
  have "c * 10 ^ k < 10 ^ (ndigits c + k)"
    using ndigits_upper [of c] by (simp add: power_add)
  then show "ndigits (c * 10 ^ k) \<le> ndigits c + k"
    by (rule ndigits_le) simp
  have "10 ^ (ndigits c - 1 + k) \<le> c * 10 ^ k"
    using ndigits_lower [OF assms] by (simp add: power_add)
  from ndigits_gt [OF this] show "ndigits c + k \<le> ndigits (c * 10 ^ k)"
    using ndigits_pos [of c] by linarith
qed

text \<open>Rounding is the identity on values that fit.\<close>

lemma dec_fix_exact:
  assumes "ndigits c \<le> ctx_prec" and "ctx_etiny \<le> e" and "e + int (ndigits c) - 1 \<le> ctx_emax"
  shows "dec_fix s c e = Inr (Fin s c e)"
proof -
  have "1 \<le> int (ndigits c)" using ndigits_pos [of c] by linarith
  with assms show ?thesis by (auto simp: dec_fix_def Let_def ctx_defs)
qed

lemma strip_zeros_val:
  "strip_zeros q e ideal = (q', e') \<Longrightarrow>
     of_nat q * (10::rat) powi e = of_nat q' * 10 powi e' \<and> e \<le> e' \<and> (e \<le> ideal \<longrightarrow> e' \<le> ideal)"
proof (induction q e ideal rule: strip_zeros.induct)
  case (1 q e ideal)
  show ?case
  proof (cases "e < ideal \<and> q mod 10 = 0")
    case True
    with "1.prems" have "strip_zeros (q div 10) (e + 1) ideal = (q', e')"
      by (subst (asm) strip_zeros.simps) simp
    from "1.IH" [OF True this]
    have ih: "of_nat (q div 10) * (10::rat) powi (e + 1) = of_nat q' * 10 powi e'"
      "e + 1 \<le> e'" "e + 1 \<le> ideal \<longrightarrow> e' \<le> ideal" by auto
    obtain k where "q = 10 * k" using True by (auto elim: dvdE)
    then have "of_nat q * (10::rat) powi e = of_nat (q div 10) * 10 powi (e + 1)"
      by (simp add: power_int_add)
    with ih True show ?thesis by auto
  next
    case False
    with "1.prems" show ?thesis by (subst (asm) strip_zeros.simps) auto
  qed
qed

text \<open>Stripping the zeros of \<open>c * 10 ^ k\<close> removes all \<open>k\<close> of them when the
  ideal exponent lies that far ahead.\<close>

lemma strip_zeros_pow:
  assumes "e + int k \<le> ideal"
  shows "strip_zeros (c * 10 ^ k) e ideal = strip_zeros c (e + int k) ideal"
  using assms
proof (induction k arbitrary: e)
  case 0
  then show ?case by simp
next
  case (Suc k)
  then have "strip_zeros (c * 10 ^ Suc k) e ideal = strip_zeros (c * 10 ^ k) (e + 1) ideal"
    by (subst strip_zeros.simps) (simp add: mult.left_commute)
  also have "\<dots> = strip_zeros c (e + 1 + int k) ideal"
    using Suc.prems by (intro Suc.IH) simp
  finally show ?case by (simp add: add.assoc)
qed

lemma strip_zeros_le: "strip_zeros q e ideal = (q', e') \<Longrightarrow> q' \<le> q"
proof (induction q e ideal rule: strip_zeros.induct)
  case (1 q e ideal)
  show ?case
  proof (cases "e < ideal \<and> q mod 10 = 0")
    case True
    with "1.prems" have "strip_zeros (q div 10) (e + 1) ideal = (q', e')"
      by (subst (asm) strip_zeros.simps) simp
    from "1.IH" [OF True this] show ?thesis
      using div_le_dividend [of q 10] by linarith
  next
    case False
    with "1.prems" show ?thesis by (subst (asm) strip_zeros.simps) auto
  qed
qed

end
