(* ===== verification/Py_Regex.thy ===== *)
theory Py_Regex
  imports Py_Text
begin

text \<open>
  Python's \<open>re\<close> for the patterns of this program.  \<open>rx_m\<close> is the backtracking matcher:
  it lists the ways a pattern can match from a position, in the order Python tries them
  (left alternative first, greedy repeats longest first, lazy ones shortest first), so the
  head of the list is Python's match.  \<open>rx_search\<close>, \<open>rx_match\<close>, \<open>rx_fullmatch\<close> and
  \<open>rx_finditer\<close> are the entry points.  \<open>rx_lang\<close> is the declarative meaning, and
  \<open>rx_search_iff\<close> says that a search succeeds exactly when some substring is in the
  pattern's language.  A position is the text before it, reversed, and the text after it.
  Every repeat of the program is over a single-character class, which is what \<open>Rep\<close> is.
\<close>

datatype citem = CR int int | CWord | CNotWord | CSpace | CNotSpace

datatype cset = Cset bool "citem list"

datatype rx =
    Eps
  | Cls cset
  | Rep cset nat "nat option" bool
  | Sq rx rx
  | Alt rx rx
  | Opt rx
  | Grp nat rx
  | WordB
  | LineStart
  | LineEnd

section \<open>Characters\<close>

text \<open>\<open>IGNORECASE\<close>: besides the ASCII letters, four code points fold to one.\<close>

definition fold_case :: "int \<Rightarrow> int" where
  "fold_case c =
     (if is_ascii_upper c then c + 32
      else if c = 304 \<or> c = 305 then 105
      else if c = 383 then 115
      else if c = 8490 then 107
      else c)"

definition in_range :: "bool \<Rightarrow> int \<Rightarrow> int \<Rightarrow> int \<Rightarrow> bool" where
  "in_range ic lo hi c =
     (if ic then (let f = fold_case c in
                    (lo \<le> f \<and> f \<le> hi) \<or> (is_ascii_lower f \<and> lo \<le> f - 32 \<and> f - 32 \<le> hi))
      else lo \<le> c \<and> c \<le> hi)"

fun in_citem :: "runtime \<Rightarrow> bool \<Rightarrow> citem \<Rightarrow> int \<Rightarrow> bool" where
  "in_citem rt ic (CR lo hi) c = in_range ic lo hi c"
| "in_citem rt ic CWord c = is_word rt c"
| "in_citem rt ic CNotWord c = (\<not> is_word rt c)"
| "in_citem rt ic CSpace c = is_space c"
| "in_citem rt ic CNotSpace c = (\<not> is_space c)"

fun in_cset :: "runtime \<Rightarrow> bool \<Rightarrow> cset \<Rightarrow> int \<Rightarrow> bool" where
  "in_cset rt ic (Cset neg is) c = (neg \<noteq> list_ex (\<lambda>i. in_citem rt ic i c) is)"

section \<open>Pattern notation\<close>

abbreviation "one_of is \<equiv> Cset False is"
abbreviation "none_of is \<equiv> Cset True is"
abbreviation "many c \<equiv> Rep c 0 None True"
abbreviation "many1 c \<equiv> Rep c 1 None True"

definition rx_char :: "int \<Rightarrow> rx" where
  "rx_char c = Cls (one_of [CR c c])"

definition rx_seq :: "rx list \<Rightarrow> rx" where
  "rx_seq rs = foldr Sq rs Eps"

definition rx_lit :: "string \<Rightarrow> rx" where
  "rx_lit s = rx_seq (map rx_char (asc s))"

fun rx_alts :: "rx list \<Rightarrow> rx" where
  "rx_alts [] = Eps"
| "rx_alts [r] = r"
| "rx_alts (r # rs) = Alt r (rx_alts rs)"

definition rx_words :: "string list \<Rightarrow> rx" where
  "rx_words ws = rx_alts (map rx_lit ws)"

section \<open>The matcher\<close>

type_synonym mstate = "pystr \<times> pystr \<times> (nat \<times> pystr) list"

definition word_at :: "runtime \<Rightarrow> pystr \<Rightarrow> bool" where
  "word_at rt s = (case s of [] \<Rightarrow> False | c # _ \<Rightarrow> is_word rt c)"

definition rep_counts :: "nat \<Rightarrow> nat option \<Rightarrow> bool \<Rightarrow> nat \<Rightarrow> nat list" where
  "rep_counts lo hi greedy n =
     (let top = (case hi of None \<Rightarrow> n | Some h \<Rightarrow> min n h); ks = [lo ..< Suc top]
      in if greedy then rev ks else ks)"

fun rx_m :: "runtime \<Rightarrow> bool \<Rightarrow> rx \<Rightarrow> mstate \<Rightarrow> mstate list" where
  "rx_m rt ic Eps s = [s]"
| "rx_m rt ic (Cls c) (b, a, g) =
     (case a of [] \<Rightarrow> []
      | x # xs \<Rightarrow> (if in_cset rt ic c x then [(x # b, xs, g)] else []))"
| "rx_m rt ic (Rep c lo hi greedy) (b, a, g) =
     map (\<lambda>k. (rev (take k a) @ b, drop k a, g))
         (rep_counts lo hi greedy (length (takeWhile (in_cset rt ic c) a)))"
| "rx_m rt ic (Sq p q) s = concat (map (rx_m rt ic q) (rx_m rt ic p s))"
| "rx_m rt ic (Alt p q) s = rx_m rt ic p s @ rx_m rt ic q s"
| "rx_m rt ic (Opt p) s = rx_m rt ic p s @ [s]"
| "rx_m rt ic (Grp n p) (b, a, g) =
     map (\<lambda>(b', a', g'). (b', a', (n, take (length a - length a') a) # g'))
         (rx_m rt ic p (b, a, g))"
| "rx_m rt ic WordB (b, a, g) = (if word_at rt b \<noteq> word_at rt a then [(b, a, g)] else [])"
| "rx_m rt ic LineStart (b, a, g) = (if b = [] \<or> hd b = 10 then [(b, a, g)] else [])"
| "rx_m rt ic LineEnd (b, a, g) = (if a = [] \<or> hd a = 10 then [(b, a, g)] else [])"

text \<open>A match: the matched text and its groups, and the position after it.\<close>

record rmatch =
  m_text :: pystr
  m_groups :: "(nat \<times> pystr) list"
  m_before :: pystr
  m_after :: pystr

definition m_group :: "rmatch \<Rightarrow> nat \<Rightarrow> pystr" where
  "m_group m n = (case map_of (m_groups m) n of None \<Rightarrow> [] | Some t \<Rightarrow> t)"

definition to_match :: "pystr \<Rightarrow> mstate \<Rightarrow> rmatch" where
  "to_match a s = (case s of (b', a', g) \<Rightarrow>
     \<lparr>m_text = take (length a - length a') a, m_groups = g, m_before = b', m_after = a'\<rparr>)"

definition rx_match_at :: "runtime \<Rightarrow> bool \<Rightarrow> rx \<Rightarrow> pystr \<Rightarrow> pystr \<Rightarrow> rmatch option" where
  "rx_match_at rt ic r b a =
     (case rx_m rt ic r (b, a, []) of [] \<Rightarrow> None | s # _ \<Rightarrow> Some (to_match a s))"

fun rx_search_from :: "runtime \<Rightarrow> bool \<Rightarrow> rx \<Rightarrow> pystr \<Rightarrow> pystr \<Rightarrow> rmatch option" where
  "rx_search_from rt ic r b [] = rx_match_at rt ic r b []"
| "rx_search_from rt ic r b (x # xs) =
     (case rx_match_at rt ic r b (x # xs) of Some m \<Rightarrow> Some m
      | None \<Rightarrow> rx_search_from rt ic r (x # b) xs)"

definition rx_search :: "runtime \<Rightarrow> bool \<Rightarrow> rx \<Rightarrow> pystr \<Rightarrow> rmatch option" where
  "rx_search rt ic r s = rx_search_from rt ic r [] s"

definition rx_match :: "runtime \<Rightarrow> bool \<Rightarrow> rx \<Rightarrow> pystr \<Rightarrow> rmatch option" where
  "rx_match rt ic r s = rx_match_at rt ic r [] s"

definition rx_fullmatch :: "runtime \<Rightarrow> bool \<Rightarrow> rx \<Rightarrow> pystr \<Rightarrow> rmatch option" where
  "rx_fullmatch rt ic r s =
     map_option (to_match s) (find (\<lambda>(b, a, g). a = []) (rx_m rt ic r ([], s, [])))"

section \<open>Meaning\<close>

text \<open>\<open>rx_lang rt ic r b m a\<close>: pattern \<open>r\<close> matches the text \<open>m\<close> standing between
  \<open>b\<close> (reversed) and \<open>a\<close>.\<close>

fun rx_lang :: "runtime \<Rightarrow> bool \<Rightarrow> rx \<Rightarrow> pystr \<Rightarrow> pystr \<Rightarrow> pystr \<Rightarrow> bool" where
  "rx_lang rt ic Eps b m a = (m = [])"
| "rx_lang rt ic (Cls c) b m a = (\<exists>x. m = [x] \<and> in_cset rt ic c x)"
| "rx_lang rt ic (Rep c lo hi _) b m a =
     (lo \<le> length m \<and> (\<forall>h. hi = Some h \<longrightarrow> length m \<le> h) \<and> list_all (in_cset rt ic c) m)"
| "rx_lang rt ic (Sq p q) b m a =
     (\<exists>m1 m2. m = m1 @ m2 \<and> rx_lang rt ic p b m1 (m2 @ a) \<and> rx_lang rt ic q (rev m1 @ b) m2 a)"
| "rx_lang rt ic (Alt p q) b m a = (rx_lang rt ic p b m a \<or> rx_lang rt ic q b m a)"
| "rx_lang rt ic (Opt p) b m a = (rx_lang rt ic p b m a \<or> m = [])"
| "rx_lang rt ic (Grp n p) b m a = rx_lang rt ic p b m a"
| "rx_lang rt ic WordB b m a = (m = [] \<and> word_at rt b \<noteq> word_at rt a)"
| "rx_lang rt ic LineStart b m a = (m = [] \<and> (b = [] \<or> hd b = 10))"
| "rx_lang rt ic LineEnd b m a = (m = [] \<and> (a = [] \<or> hd a = 10))"

text \<open>Every end state of the matcher consumed a prefix that is in the language \<dots>\<close>

lemma set_rep_counts:
  "k \<in> set (rep_counts lo hi greedy n) \<longleftrightarrow> lo \<le> k \<and> k \<le> n \<and> (\<forall>h. hi = Some h \<longrightarrow> k \<le> h)"
  by (cases hi) (auto simp: rep_counts_def Let_def)

lemma takeWhile_prefix_iff:
  "k \<le> length (takeWhile P a) \<longleftrightarrow> k \<le> length a \<and> list_all P (take k a)"
proof (induction a arbitrary: k)
  case (Cons x xs)
  then show ?case by (cases k) auto
qed simp

lemma rx_m_sound:
  "(b', a', g') \<in> set (rx_m rt ic r (b, a, g)) \<Longrightarrow>
     \<exists>m. a = m @ a' \<and> b' = rev m @ b \<and> rx_lang rt ic r b m a'"
proof (induction r arbitrary: b a g b' a' g')
  case (Rep c lo hi greedy)
  then obtain k where k: "b' = rev (take k a) @ b" "a' = drop k a"
    "lo \<le> k" "\<forall>h. hi = Some h \<longrightarrow> k \<le> h" "k \<le> length (takeWhile (in_cset rt ic c) a)"
    by (auto simp: set_rep_counts)
  then show ?case
    by (intro exI [of _ "take k a"]) (auto simp: takeWhile_prefix_iff)
next
  case (Sq p q)
  then obtain b1 a1 g1 where 1: "(b1, a1, g1) \<in> set (rx_m rt ic p (b, a, g))"
    and 2: "(b', a', g') \<in> set (rx_m rt ic q (b1, a1, g1))" by auto
  from Sq.IH(1) [OF 1] Sq.IH(2) [OF 2] show ?case by fastforce
next
  case (Alt p q)
  then show ?case by fastforce
next
  case (Opt p)
  then show ?case by fastforce
next
  case (Grp n p)
  then show ?case by fastforce
qed (auto split: list.splits if_splits)

text \<open>\<dots> and every such prefix is found.\<close>

lemma rx_m_complete:
  "rx_lang rt ic r b m a' \<Longrightarrow> \<exists>g'. (rev m @ b, a', g') \<in> set (rx_m rt ic r (b, m @ a', g))"
proof (induction r arbitrary: b m a' g)
  case (Rep c lo hi greedy)
  then have "length m \<in> set (rep_counts lo hi greedy (length (takeWhile (in_cset rt ic c) (m @ a'))))"
    by (auto simp: set_rep_counts takeWhile_prefix_iff)
  then show ?case by (force simp: image_iff)
next
  case (Sq p q)
  then obtain m1 m2 where m: "m = m1 @ m2" and 1: "rx_lang rt ic p b m1 (m2 @ a')"
    and 2: "rx_lang rt ic q (rev m1 @ b) m2 a'" by auto
  from Sq.IH(1) [OF 1, of g] obtain g1
    where g1: "(rev m1 @ b, m2 @ a', g1) \<in> set (rx_m rt ic p (b, m1 @ m2 @ a', g))" by blast
  from Sq.IH(2) [OF 2, of g1] g1 m show ?case by fastforce
next
  case (Alt p q)
  then show ?case by fastforce
next
  case (Opt p)
  then show ?case by fastforce
next
  case (Grp n p)
  then have "rx_lang rt ic p b m a'" by simp
  from Grp.IH [OF this, of g] show ?case by (force simp: image_iff)
qed auto

lemma rx_match_at_iff:
  "rx_match_at rt ic r b a \<noteq> None \<longleftrightarrow> (\<exists>m a'. a = m @ a' \<and> rx_lang rt ic r b m a')"
proof -
  have "rx_match_at rt ic r b a \<noteq> None \<longleftrightarrow> (\<exists>s. s \<in> set (rx_m rt ic r (b, a, [])))"
    by (auto simp: rx_match_at_def split: list.splits)
  also have "\<dots> \<longleftrightarrow> (\<exists>m a'. a = m @ a' \<and> rx_lang rt ic r b m a')"
    using rx_m_sound rx_m_complete by fast
  finally show ?thesis .
qed

lemma rx_match_at_Some:
  assumes "rx_match_at rt ic r b a = Some m"
  shows "a = m_text m @ m_after m" and "m_before m = rev (m_text m) @ b"
    and "rx_lang rt ic r b (m_text m) (m_after m)"
proof -
  from assms obtain b' a' g where mem: "(b', a', g) \<in> set (rx_m rt ic r (b, a, []))"
    and m: "m = to_match a (b', a', g)"
    by (auto simp: rx_match_at_def split: list.splits)
  from rx_m_sound [OF mem] obtain t where "a = t @ a'" "b' = rev t @ b" "rx_lang rt ic r b t a'"
    by blast
  with m show "a = m_text m @ m_after m" "m_before m = rev (m_text m) @ b"
    "rx_lang rt ic r b (m_text m) (m_after m)"
    by (auto simp: to_match_def)
qed

lemma rx_search_from_iff:
  "rx_search_from rt ic r b a \<noteq> None \<longleftrightarrow>
     (\<exists>pre m post. a = pre @ m @ post \<and> rx_lang rt ic r (rev pre @ b) m post)"
proof (induction a arbitrary: b)
  case Nil
  show ?case using rx_match_at_iff [of rt ic r b "[]"] by simp
next
  case (Cons x xs)
  have "rx_search_from rt ic r b (x # xs) \<noteq> None \<longleftrightarrow>
      rx_match_at rt ic r b (x # xs) \<noteq> None \<or> rx_search_from rt ic r (x # b) xs \<noteq> None"
    by (auto split: option.splits)
  also have "\<dots> \<longleftrightarrow> (\<exists>m a'. x # xs = m @ a' \<and> rx_lang rt ic r b m a') \<or>
      (\<exists>pre m post. xs = pre @ m @ post \<and> rx_lang rt ic r (rev pre @ x # b) m post)"
    by (simp only: rx_match_at_iff Cons.IH)
  also have "\<dots> \<longleftrightarrow>
      (\<exists>pre m post. x # xs = pre @ m @ post \<and> rx_lang rt ic r (rev pre @ b) m post)"
  proof (intro iffI; elim disjE exE conjE)
    fix pre m post
    assume "x # xs = pre @ m @ post" "rx_lang rt ic r (rev pre @ b) m post"
    then show "(\<exists>m a'. x # xs = m @ a' \<and> rx_lang rt ic r b m a') \<or>
        (\<exists>pre m post. xs = pre @ m @ post \<and> rx_lang rt ic r (rev pre @ x # b) m post)"
      by (cases pre) auto
  next
    fix pre m post
    assume "xs = pre @ m @ post" "rx_lang rt ic r (rev pre @ x # b) m post"
    then show "\<exists>pre m post. x # xs = pre @ m @ post \<and> rx_lang rt ic r (rev pre @ b) m post"
      by (intro exI [of _ "x # pre"] exI [of _ m] exI [of _ post]) simp
  qed force
  finally show ?case .
qed

lemma rx_search_iff:
  "rx_search rt ic r s \<noteq> None \<longleftrightarrow>
     (\<exists>pre m post. s = pre @ m @ post \<and> rx_lang rt ic r (rev pre) m post)"
  by (simp only: rx_search_def rx_search_from_iff append_Nil2)

lemma rx_search_from_Some:
  assumes "rx_search_from rt ic r b a = Some m"
  shows "\<exists>pre. a = pre @ m_text m @ m_after m \<and> m_before m = rev (m_text m) @ rev pre @ b
           \<and> rx_lang rt ic r (rev pre @ b) (m_text m) (m_after m)"
  using assms
proof (induction a arbitrary: b)
  case Nil
  then show ?case using rx_match_at_Some [of rt ic r b "[]" m] by simp
next
  case (Cons x xs)
  show ?case
  proof (cases "rx_match_at rt ic r b (x # xs)")
    case None
    with Cons.prems have "rx_search_from rt ic r (x # b) xs = Some m" by simp
    from Cons.IH [OF this] show ?thesis by (auto intro: exI [of _ "x # _"])
  next
    case (Some m')
    with Cons.prems have "rx_match_at rt ic r b (x # xs) = Some m" by simp
    from rx_match_at_Some [OF this] show ?thesis by (intro exI [of _ "[]"]) simp
  qed
qed

lemma rx_fullmatch_iff:
  "rx_fullmatch rt ic r s \<noteq> None \<longleftrightarrow> rx_lang rt ic r [] s []"
proof -
  have "rx_fullmatch rt ic r s \<noteq> None \<longleftrightarrow> (\<exists>b g. (b, [], g) \<in> set (rx_m rt ic r ([], s, [])))"
    by (auto simp: rx_fullmatch_def find_None_iff)
  also have "\<dots> \<longleftrightarrow> rx_lang rt ic r [] s []"
    using rx_m_sound [of _ "[]" _ rt ic r "[]" s "[]"] rx_m_complete [of rt ic r "[]" s "[]" "[]"]
    by auto
  finally show ?thesis .
qed

section \<open>All matches\<close>

text \<open>\<open>finditer\<close>: the next search starts where the match ended; after an empty match it
  moves one character on.\<close>

lemma search_progress:
  assumes "rx_search_from rt ic r b a = Some m"
  shows "length (m_after m) + length (m_text m) \<le> length a"
proof -
  from rx_search_from_Some [OF assms] obtain pre where "a = pre @ m_text m @ m_after m" by blast
  then show ?thesis by simp
qed

function rx_finditer_from :: "runtime \<Rightarrow> bool \<Rightarrow> rx \<Rightarrow> pystr \<Rightarrow> pystr \<Rightarrow> rmatch list" where
  "rx_finditer_from rt ic r b a =
     (case rx_search_from rt ic r b a of None \<Rightarrow> []
      | Some m \<Rightarrow>
          (if m_text m \<noteq> [] then m # rx_finditer_from rt ic r (m_before m) (m_after m)
           else case m_after m of [] \<Rightarrow> [m]
                | c # cs \<Rightarrow> m # rx_finditer_from rt ic r (c # m_before m) cs))"
  by pat_completeness auto
termination
proof (relation "measure (\<lambda>(rt, ic, r, b, a). length a)", simp)
  fix rt :: runtime and ic r b a m
  assume "rx_search_from rt ic r b a = Some m" "m_text m \<noteq> []"
  then show "((rt, ic, r, m_before m, m_after m), rt, ic, r, b, a)
      \<in> measure (\<lambda>(rt, ic, r, b, a). length a)"
    using search_progress [of rt ic r b a m] by (cases "m_text m") auto
next
  fix rt :: runtime and ic r b a m c cs
  assume "rx_search_from rt ic r b a = Some m" "m_after m = c # cs"
  then show "((rt, ic, r, c # m_before m, cs), rt, ic, r, b, a)
      \<in> measure (\<lambda>(rt, ic, r, b, a). length a)"
    using search_progress [of rt ic r b a m] by auto
qed

declare rx_finditer_from.simps [simp del]

definition rx_finditer :: "runtime \<Rightarrow> bool \<Rightarrow> rx \<Rightarrow> pystr \<Rightarrow> rmatch list" where
  "rx_finditer rt ic r s = rx_finditer_from rt ic r [] s"

text \<open>\<open>findall\<close> of a pattern without groups.\<close>

definition rx_findall :: "runtime \<Rightarrow> bool \<Rightarrow> rx \<Rightarrow> pystr \<Rightarrow> pystr list" where
  "rx_findall rt ic r s = map m_text (rx_finditer rt ic r s)"

lemma rx_finditer_from_sound:
  "m \<in> set (rx_finditer_from rt ic r b a) \<Longrightarrow>
     \<exists>pre. rev b @ a = pre @ m_text m @ m_after m \<and> rx_lang rt ic r (rev pre) (m_text m) (m_after m)"
proof (induction rt ic r b a rule: rx_finditer_from.induct)
  case (1 rt ic r b a)
  show ?case
  proof (cases "rx_search_from rt ic r b a")
    case None
    with "1.prems" show ?thesis by (subst (asm) rx_finditer_from.simps) simp
  next
    case (Some m')
    from rx_search_from_Some [OF Some] obtain pre where
      p: "a = pre @ m_text m' @ m_after m'" "m_before m' = rev (m_text m') @ rev pre @ b"
      "rx_lang rt ic r (rev pre @ b) (m_text m') (m_after m')" by blast
    consider "m = m'"
      | "m_text m' \<noteq> []" "m \<in> set (rx_finditer_from rt ic r (m_before m') (m_after m'))"
      | c cs where "m_text m' = []" "m_after m' = c # cs"
          "m \<in> set (rx_finditer_from rt ic r (c # m_before m') cs)"
      using "1.prems" Some
      by (subst (asm) rx_finditer_from.simps) (auto split: if_splits list.splits)
    then show ?thesis
    proof cases
      case 1
      with p show ?thesis by (intro exI [of _ "rev b @ pre"]) simp
    next
      case 2
      from "1.IH"(1) [OF Some 2] p show ?thesis by auto
    next
      case 3
      from "1.IH"(2) [OF Some _ 3(2,3)] 3 p show ?thesis by auto
    qed
  qed
qed

lemma rx_findall_sound:
  assumes "t \<in> set (rx_findall rt ic r s)"
  shows "\<exists>pre post. s = pre @ t @ post \<and> rx_lang rt ic r (rev pre) t post"
  using assms rx_finditer_from_sound [of _ rt ic r "[]" s]
  by (fastforce simp: rx_findall_def rx_finditer_def)

lemma rx_finditer_nonempty_iff:
  "rx_finditer rt ic r s \<noteq> [] \<longleftrightarrow> rx_search rt ic r s \<noteq> None"
  by (simp add: rx_finditer_def rx_search_def)
     (subst rx_finditer_from.simps, auto split: option.splits list.splits)

section \<open>Languages of the building blocks\<close>

lemma rx_lang_seq_Nil [simp]: "rx_lang rt ic (rx_seq []) b m a \<longleftrightarrow> m = []"
  by (simp add: rx_seq_def)

lemma rx_lang_seq_Cons: "rx_lang rt ic (rx_seq (r # rs)) b m a \<longleftrightarrow>
    (\<exists>m1 m2. m = m1 @ m2 \<and> rx_lang rt ic r b m1 (m2 @ a) \<and>
       rx_lang rt ic (rx_seq rs) (rev m1 @ b) m2 a)"
  by (simp add: rx_seq_def)

lemma rx_lang_char [simp]:
  "rx_lang rt ic (rx_char c) b m a \<longleftrightarrow> (\<exists>x. m = [x] \<and> in_range ic c c x)"
  by (simp add: rx_char_def)

lemma rx_lang_seq_char: "rx_lang rt ic (rx_seq (rx_char c # rs)) b m a \<longleftrightarrow>
    (\<exists>x xs. m = x # xs \<and> in_range ic c c x \<and> rx_lang rt ic (rx_seq rs) (x # b) xs a)"
  unfolding rx_lang_seq_Cons rx_lang_char
  by (rule iffI, force) (metis append_Cons append_Nil rev.simps)

lemma rx_lang_seq_single [simp]:
  "rx_lang rt ic (rx_seq [r]) b m a \<longleftrightarrow> rx_lang rt ic r b m a"
  by (simp add: rx_lang_seq_Cons)

lemma rx_lang_lit:
  "rx_lang rt ic (rx_lit w) b m a \<longleftrightarrow> list_all2 (\<lambda>c x. in_range ic c c x) (asc w) m"
proof -
  have "rx_lang rt ic (rx_seq (map rx_char cs)) b m a \<longleftrightarrow>
      list_all2 (\<lambda>c x. in_range ic c c x) cs m" for cs
  proof (induction cs arbitrary: b m)
    case (Cons c cs)
    then show ?case by (cases m) (auto simp: rx_lang_seq_char)
  qed auto
  then show ?thesis by (simp add: rx_lit_def)
qed

lemma rx_lang_alts:
  "rs \<noteq> [] \<Longrightarrow> rx_lang rt ic (rx_alts rs) b m a \<longleftrightarrow> (\<exists>r \<in> set rs. rx_lang rt ic r b m a)"
  by (induction rs rule: rx_alts.induct) auto

lemma rx_lang_words: "ws \<noteq> [] \<Longrightarrow>
    rx_lang rt ic (rx_words ws) b m a \<longleftrightarrow>
      (\<exists>w \<in> set ws. list_all2 (\<lambda>c x. in_range ic c c x) (asc w) m)"
  by (simp add: rx_words_def rx_lang_alts rx_lang_lit)

text \<open>Patterns without anchors do not look at their context; sequences of them are
  concatenations of languages.\<close>

fun anchor_free :: "rx \<Rightarrow> bool" where
  "anchor_free (Sq p q) = (anchor_free p \<and> anchor_free q)"
| "anchor_free (Alt p q) = (anchor_free p \<and> anchor_free q)"
| "anchor_free (Opt p) = anchor_free p"
| "anchor_free (Grp n p) = anchor_free p"
| "anchor_free WordB = False"
| "anchor_free LineStart = False"
| "anchor_free LineEnd = False"
| "anchor_free _ = True"

lemma rx_lang_context: "anchor_free r \<Longrightarrow> rx_lang rt ic r b m a = rx_lang rt ic r b' m a'"
proof (induction r arbitrary: b m a b' a')
  case (Sq p q)
  have "rx_lang rt ic p b u (v @ a) = rx_lang rt ic p b' u (v @ a')"
    "rx_lang rt ic q (rev u @ b) v a = rx_lang rt ic q (rev u @ b') v a'" for u v
    using Sq by simp_all
  then show ?case by simp
next
  case (Alt p q)
  then show ?case by (metis anchor_free.simps(2) rx_lang.simps(5))
next
  case (Opt p)
  then show ?case by (metis anchor_free.simps(3) rx_lang.simps(6))
next
  case (Grp n p)
  then show ?case by (metis anchor_free.simps(4) rx_lang.simps(7))
qed auto

lemma anchor_free_seq [simp]: "anchor_free (rx_seq rs) \<longleftrightarrow> list_all anchor_free rs"
  by (induction rs) (auto simp: rx_seq_def)

lemma anchor_free_lit [simp]: "anchor_free (rx_lit w)"
  by (auto simp: rx_lit_def list_all_iff rx_char_def)

lemma anchor_free_char [simp]: "anchor_free (rx_char c)"
  by (simp add: rx_char_def)

lemma anchor_free_alts: "list_all anchor_free rs \<Longrightarrow> anchor_free (rx_alts rs)"
  by (induction rs rule: rx_alts.induct) auto

lemma anchor_free_words [simp]: "anchor_free (rx_words ws)"
  by (auto simp: rx_words_def list_all_iff intro!: anchor_free_alts)

fun cat_langs :: "(pystr \<Rightarrow> bool) list \<Rightarrow> pystr \<Rightarrow> bool" where
  "cat_langs [] m = (m = [])"
| "cat_langs (P # Ps) m = (\<exists>u v. m = u @ v \<and> P u \<and> cat_langs Ps v)"

lemma rx_lang_seq_cat:
  "list_all anchor_free rs \<Longrightarrow>
     rx_lang rt ic (rx_seq rs) b m a \<longleftrightarrow> cat_langs (map (\<lambda>r m. rx_lang rt ic r [] m []) rs) m"
proof (induction rs arbitrary: b m)
  case (Cons r rs)
  then have "rx_lang rt ic r b u (v @ a) = rx_lang rt ic r [] u []" for u v
    by (intro rx_lang_context) simp
  with Cons show ?case by (simp add: rx_lang_seq_Cons)
qed simp

lemma in_range_self [simp]: "in_range False c c x \<longleftrightarrow> x = c"
  by (auto simp: in_range_def)

lemma in_range_lower_refl: "is_ascii_lower c \<or> c = 32 \<Longrightarrow> in_range True c c c"
  by (auto simp: in_range_def Let_def fold_case_def ascii_class_defs)

end
