(* ===== verification/Amounts.thy ===== *)
theory Amounts
  imports Py_Decimal Py_Regex
begin

text \<open>
  The amount arithmetic of \<open>lumo/pipeline.py\<close>: \<open>to_stroops\<close> turns the extractor's text
  into an integer number of stroops, \<open>amount_matches_text\<close> is the cross-check of that
  number against the amounts printed on the invoice.  \<open>to_stroops_exact\<close> and
  \<open>amount_target_val\<close> say that both are exact on every amount of at most 21 significant
  digits, although the decimal context rounds to 28.
\<close>

definition STROOP :: int where "STROOP = 10000000"

section \<open>Patterns\<close>

abbreviation "digit_set \<equiv> one_of [CR 48 57]"
abbreviation "digit_comma_set \<equiv> one_of [CR 48 57, CR 44 44]"

text \<open>\<open>[0-9][0-9,]*(?:\.[0-9]+)?\<close>\<close>

definition amount_token_rx :: rx where
  "amount_token_rx = rx_seq
     [Cls digit_set, many digit_comma_set, Opt (rx_seq [rx_char 46, many1 digit_set])]"

text \<open>The number as group 1, an optional run of letters and currency signs.\<close>

definition human_amount_rx :: rx where
  "human_amount_rx = rx_seq
     [many (one_of [CSpace]), Grp 1 amount_token_rx, many (one_of [CSpace]),
      many (one_of [CR 65 90, CR 97 122, CR 36 36, CR 8364 8364, CR 163 163, CR 165 165]),
      many (one_of [CSpace])]"

definition payment_label_rx :: rx where
  "payment_label_rx = rx_seq
     [WordB,
      rx_alts [rx_seq [rx_lit ''amount'', many1 (one_of [CSpace]), rx_lit ''due''],
               rx_seq [rx_lit ''amount'', many1 (one_of [CSpace]), rx_lit ''payable''],
               rx_seq [rx_lit ''balance'', many1 (one_of [CSpace]), rx_lit ''due''],
               rx_seq [rx_lit ''total'', many1 (one_of [CSpace]), rx_lit ''due''],
               rx_seq [rx_lit ''grand'', many1 (one_of [CSpace]), rx_lit ''total''],
               rx_lit ''total'', rx_lit ''jumlah'', rx_lit ''tagihan''],
      WordB, many (one_of [CSpace]), Opt (rx_char 58), many (one_of [CSpace]),
      Grp 1 (many (none_of [CR 10 10]))]"

section \<open>Amounts in the text\<close>

definition token_amount :: "runtime \<Rightarrow> pystr \<Rightarrow> dec option" where
  "token_amount rt token =
     (case dec_of_str rt (py_remove 44 token) of Inl _ \<Rightarrow> None | Inr d \<Rightarrow> Some d)"

definition amount_tokens :: "runtime \<Rightarrow> pystr \<Rightarrow> dec list" where
  "amount_tokens rt text = List.map_filter (token_amount rt) (rx_findall rt False amount_token_rx text)"

definition labeled_amount :: "runtime \<Rightarrow> rmatch \<Rightarrow> dec option" where
  "labeled_amount rt m =
     (case rx_search rt False amount_token_rx (m_group m 1) of None \<Rightarrow> None
      | Some token \<Rightarrow> token_amount rt (m_text token))"

definition labeled_amounts :: "runtime \<Rightarrow> pystr \<Rightarrow> dec list" where
  "labeled_amounts rt text =
     List.map_filter (labeled_amount rt) (rx_finditer rt True payment_label_rx text)"

definition amount_matches_text :: "runtime \<Rightarrow> int \<Rightarrow> pystr \<Rightarrow> bool result" where
  "amount_matches_text rt amount_stroops text =
     rbind (dec_div (dec_of_int amount_stroops) (dec_of_int STROOP)) (\<lambda>target.
       let labeled = labeled_amounts rt text
       in Inr (if labeled \<noteq> [] then list_ex (dec_eq target) labeled
               else list_ex (dec_eq target) (amount_tokens rt text)))"

section \<open>The extractor's amount\<close>

definition normalize_amount :: "runtime \<Rightarrow> pystr \<Rightarrow> pystr option" where
  "normalize_amount rt amount =
     map_option (\<lambda>m. py_remove 44 (m_group m 1)) (rx_fullmatch rt False human_amount_rx amount)"

text \<open>One round of the loop over candidates: \<open>None\<close> is \<open>continue\<close>, \<open>Some r\<close> is
  \<open>return r\<close>.  Only subclasses of \<open>ArithmeticError\<close> are caught.\<close>

definition scale_to_stroops :: "dec \<Rightarrow> int option" where
  "scale_to_stroops v =
     (if \<not> is_finite v then None
      else case dec_mul v (dec_of_int STROOP) of Inl _ \<Rightarrow> None
           | Inr stroops \<Rightarrow>
               (if \<not> dec_eq stroops (to_integral_value stroops) then None
                else case dec_int stroops of Inl _ \<Rightarrow> None | Inr n \<Rightarrow> Some n))"

definition try_candidate :: "runtime \<Rightarrow> pystr option \<Rightarrow> int option option" where
  "try_candidate rt candidate =
     (case candidate of None \<Rightarrow> None
      | Some s \<Rightarrow> (case dec_of_str rt s of Inl _ \<Rightarrow> None | Inr v \<Rightarrow> Some (scale_to_stroops v)))"

definition to_stroops :: "runtime \<Rightarrow> pystr option \<Rightarrow> int option" where
  "to_stroops rt amount =
     (case amount of None \<Rightarrow> None
      | Some a \<Rightarrow>
          (case try_candidate rt (Some a) of Some r \<Rightarrow> r
           | None \<Rightarrow> (case try_candidate rt (normalize_amount rt a) of Some r \<Rightarrow> r | None \<Rightarrow> None)))"

text \<open>What is raised inside the \<open>try\<close> blocks is what the handlers catch.\<close>

lemma dec_fix_raises: "dec_fix s c e = Inl x \<Longrightarrow> is_ArithmeticError x"
  by (auto simp: dec_fix_def Let_def split: if_splits)

lemma dec_of_str_raises: "dec_of_str rt s = Inl x \<Longrightarrow> is_ArithmeticError x"
  by (auto simp: dec_of_str_def dec_number_def Let_def split: option.splits prod.splits if_splits)

lemma dec_mul_raises: "dec_mul u v = Inl x \<Longrightarrow> is_ArithmeticError x"
  by (cases "(u, v)" rule: dec_mul.cases) (auto dest: dec_fix_raises split: if_splits)

section \<open>Exactness\<close>

lemma STROOP_dec: "dec_of_int STROOP = Fin False (10 ^ 7) 0"
  by (simp add: dec_of_int_def STROOP_def)

lemma round_half_even_exact: "10 ^ k dvd c \<Longrightarrow> round_half_even c k = c div 10 ^ k"
  by (auto simp: round_half_even_def Let_def)

lemma round_half_even_bounds:
  "round_half_even c k = c div 10 ^ k \<or> round_half_even c k = c div 10 ^ k + 1"
  by (simp add: round_half_even_def Let_def)

lemma round_half_even_times:
  "round_half_even c k * 10 ^ k = c \<longleftrightarrow> 10 ^ k dvd c"
proof
  assume "round_half_even c k * 10 ^ k = c"
  then show "10 ^ k dvd c" by (metis dvd_triv_right)
qed (simp add: round_half_even_exact)

lemma to_integral_value_eq:
  "dec_eq (Fin s c e) (to_integral_value (Fin s c e)) \<longleftrightarrow> 0 \<le> e \<or> 10 ^ nat (- e) dvd c"
proof (cases "0 \<le> e")
  case True
  then show ?thesis by (simp add: to_integral_value_def)
next
  case False
  then have "dec_eq (Fin s c e) (to_integral_value (Fin s c e)) \<longleftrightarrow>
      signed s c = signed s (round_half_even c (nat (- e)) * 10 ^ nat (- e))"
    by (simp add: to_integral_value_def signed_def)
  also have "\<dots> \<longleftrightarrow> c = round_half_even c (nat (- e)) * 10 ^ nat (- e)"
    by (simp add: signed_def del: of_nat_mult of_nat_power)
  finally show ?thesis using False round_half_even_times [of c "nat (- e)"] by auto
qed

lemma dec_val_int:
  assumes "0 \<le> e \<or> 10 ^ nat (- e) dvd c" and "dec_int (Fin s c e) = Inr n"
  shows "dec_val (Fin s c e) = of_int n"
proof (cases "0 \<le> e")
  case True
  with assms(2) show ?thesis by (auto simp: signed_def power_int_def)
next
  case False
  with assms(1) obtain q where c: "c = 10 ^ nat (- e) * q" by auto
  have "(10::rat) ^ nat (- e) * 10 powi e = 1"
    using False by (simp add: power_int_def field_simps)
  with False assms(2) c show ?thesis
    by (auto simp: signed_def mult.assoc mult.left_commute)
qed

text \<open>An integral decimal has non-negative exponent or enough trailing zeros.\<close>

lemma integral_val_iff:
  "(\<exists>n. dec_val (Fin s c e) = of_int n) \<longleftrightarrow> 0 \<le> e \<or> 10 ^ nat (- e) dvd c"
proof
  assume "\<exists>n. dec_val (Fin s c e) = of_int n"
  then obtain n where n: "dec_val (Fin s c e) = of_int n" by blast
  show "0 \<le> e \<or> 10 ^ nat (- e) dvd c"
  proof (cases "0 \<le> e")
    case False
    define k where "k = nat (- e)"
    have p: "(10::rat) powi e = 1 / 10 ^ k"
      using False by (simp add: k_def power_int_def field_simps)
    have "of_int (signed s c) * (1 / 10 ^ k) = (of_int n :: rat)"
      using n unfolding dec_val_Fin p .
    then have "(of_int (signed s c) :: rat) = of_int (n * 10 ^ k)"
      by (simp add: field_simps)
    then have "signed s c = n * 10 ^ k" by (simp only: of_int_eq_iff)
    then have "10 ^ k dvd int c" by (auto simp: signed_def split: if_splits) (metis dvd_triv_right dvd_minus_iff)
    then have "10 ^ k dvd c"
      by (metis int_dvd_int_iff of_nat_numeral of_nat_power)
    then show ?thesis by (simp add: k_def)
  qed simp
next
  assume h: "0 \<le> e \<or> 10 ^ nat (- e) dvd c"
  obtain n where "dec_int (Fin s c e) = Inr n" by simp
  from dec_val_int [OF h this] show "\<exists>n. dec_val (Fin s c e) = of_int n" ..
qed

text \<open>Amounts this size pass through the context unrounded.\<close>

definition exact_amount :: "dec \<Rightarrow> bool" where
  "exact_amount d = (case d of Fin s c e \<Rightarrow> ndigits c \<le> 21 \<and> -1000000 \<le> e \<and> e \<le> 900000 | _ \<Rightarrow> False)"

lemma dec_mul_stroop:
  assumes "exact_amount (Fin s c e)"
  shows "dec_mul (Fin s c e) (dec_of_int STROOP) = Inr (Fin s (c * 10 ^ 7) e)"
proof -
  have "ndigits (c * 10 ^ 7) \<le> 28"
  proof (cases "c = 0")
    case True
    then show ?thesis using ndigits_le [of 0 1] by simp
  next
    case False
    then show ?thesis
      using assms ndigits_times_pow [of c 7] by (simp add: exact_amount_def)
  qed
  then have "dec_fix s (c * 10 ^ 7) e = Inr (Fin s (c * 10 ^ 7) e)"
    using assms by (intro dec_fix_exact) (simp_all add: exact_amount_def ctx_defs)
  then show ?thesis by (simp add: STROOP_dec)
qed

lemma scale_to_stroops_exact:
  assumes ex: "exact_amount d"
  shows "scale_to_stroops d = Some n \<longleftrightarrow> dec_val d * of_int STROOP = of_int n"
proof -
  obtain s c e where d: "d = Fin s c e"
    using ex by (cases d) (auto simp: exact_amount_def)
  let ?m = "Fin s (c * 10 ^ 7) e"
  have m: "dec_mul d (dec_of_int STROOP) = Inr ?m"
    using dec_mul_stroop ex d by simp
  have val: "dec_val ?m = dec_val d * of_int STROOP"
    by (simp add: d STROOP_def signed_def)
  obtain k where k: "dec_int ?m = Inr k" by simp
  have scale: "scale_to_stroops d =
      (if 0 \<le> e \<or> 10 ^ nat (- e) dvd c * 10 ^ 7 then Some k else None)"
    unfolding scale_to_stroops_def m sum.case to_integral_value_eq k
    by (simp add: d is_finite_def)
  show ?thesis
  proof (cases "0 \<le> e \<or> 10 ^ nat (- e) dvd c * 10 ^ 7")
    case True
    from dec_val_int [OF this k] have "dec_val ?m = of_int k" .
    with True scale val show ?thesis by auto
  next
    case False
    with integral_val_iff [of s "c * 10 ^ 7" e] have "dec_val ?m \<noteq> of_int n" by blast
    with False scale val show ?thesis by auto
  qed
qed

text \<open>C31. Whatever the syntax of the amount (sign, fraction, exponent, white space, Unicode
  digits), if it parses to a decimal of at most 21 significant digits then \<open>to_stroops\<close>
  returns \<open>n\<close> exactly when the decimal times 10^7 is the integer \<open>n\<close>: no rounding, and an
  amount with a fraction of a stroop is refused.\<close>

theorem to_stroops_exact:
  assumes "dec_of_str rt s = Inr d" and "exact_amount d"
  shows "to_stroops rt (Some s) = Some n \<longleftrightarrow> dec_val d * of_int STROOP = of_int n"
  using assms scale_to_stroops_exact [OF assms(2)] by (simp add: to_stroops_def try_candidate_def)

theorem to_stroops_exact_witness:
  "to_stroops plain_runtime (Some (asc ''1250.00'')) = Some 12500000000"
proof -
  have "dec_of_str plain_runtime (asc ''1250.00'') = Inr (Fin False 125000 (-2))" by code_simp
  then show ?thesis
    by (subst to_stroops_exact [where d = "Fin False 125000 (-2)"])
      (simp_all add: exact_amount_def STROOP_def signed_def power_int_def power2_eq_square
        ndigits_le)
qed

text \<open>Non-finite and unparseable amounts are refused, never an exception.\<close>

lemma to_stroops_not_finite:
  "dec_of_str rt s = Inr d \<Longrightarrow> \<not> is_finite d \<Longrightarrow> to_stroops rt (Some s) = None"
  by (simp add: to_stroops_def try_candidate_def scale_to_stroops_def)

lemma to_stroops_unparseable:
  "dec_of_str rt s = Inl x \<Longrightarrow> normalize_amount rt s = None \<Longrightarrow> to_stroops rt (Some s) = None"
  by (simp add: to_stroops_def try_candidate_def)

section \<open>The cross-check target\<close>

lemma dec_div_exact:
  assumes "0 < c1" and "0 < c2" and "int (ndigits c2) - int (ndigits c1) + int ctx_prec + 1 = int k"
    and "c1 * 10 ^ k div c2 = q" and "c1 * 10 ^ k mod c2 = 0"
    and "strip_zeros q (e1 - e2 - int k) (e1 - e2) = (q', e')"
  shows "dec_div (Fin s1 c1 e1) (Fin s2 c2 e2) = dec_fix (s1 \<noteq> s2) q' e'"
  using assms by (simp add: Let_def)

lemma dec_div_stroop:
  assumes "\<bar>a\<bar> < 10 ^ 28"
  shows "\<exists>t. dec_div (dec_of_int a) (dec_of_int STROOP) = Inr t \<and> is_finite t \<and>
           dec_val t = of_int a / of_int STROOP"
proof (cases "a = 0")
  case True
  have "dec_fix False 0 0 = Inr (Fin False 0 0)" by (simp add: dec_fix_def ctx_defs)
  with True show ?thesis by (simp add: STROOP_def dec_of_int_def is_finite_def)
next
  case False
  define c where "c = nat \<bar>a\<bar>"
  define nd where "nd = ndigits c"
  have c0: "0 < c" using False by (simp add: c_def)
  have "c < 10 ^ 28" using assms by (simp add: c_def nat_less_iff)
  then have nd: "nd \<le> 28" by (simp add: nd_def ndigits_le)
  have nd1: "1 \<le> nd" using ndigits_pos [of c] unfolding nd_def by linarith
  have "1 \<le> ndigits 1" using ndigits_pos [of 1] by linarith
  moreover have "ndigits 1 \<le> 1" by (rule ndigits_le) simp_all
  ultimately have one: "ndigits 1 = 1" by (rule le_antisym [rotated])
  have "ndigits (1 * 10 ^ 7) = ndigits 1 + 7" by (rule ndigits_times_pow) simp
  then have ndS: "ndigits (10 ^ 7) = 8" unfolding one mult_1 by linarith
  define k where "k = 37 - nd"
  have shift: "int (ndigits (10 ^ 7)) - int (ndigits c) + int ctx_prec + 1 = int k"
    using nd unfolding ndS by (simp add: nd_def [symmetric] ctx_defs k_def)
  have num: "c * 10 ^ k = c * 10 ^ (30 - nd) * 10 ^ 7"
  proof -
    have "k = (30 - nd) + 7" using nd by (simp add: k_def)
    then show ?thesis by (simp only: power_add mult.assoc)
  qed
  have q: "c * 10 ^ k div 10 ^ 7 = c * 10 ^ (30 - nd)" "c * 10 ^ k mod 10 ^ 7 = 0"
    unfolding num by simp_all
  obtain q' e' where st: "strip_zeros (c * 10 ^ (30 - nd)) (- int k) 0 = (q', e')" by force
  have split: "strip_zeros (c * 10 ^ (30 - nd)) (- int k) 0 = strip_zeros c (- int k + int (30 - nd)) 0"
    using nd by (intro strip_zeros_pow) (simp add: k_def)
  have e7: "- int k + int (30 - nd) = -7" using nd by (simp add: k_def)
  from st split e7 have st': "strip_zeros c (-7) 0 = (q', e')" by simp
  from strip_zeros_val [OF st'] have v: "of_nat c * (10::rat) powi - 7 = of_nat q' * 10 powi e'"
    and e': "-7 \<le> e'" "e' \<le> 0" by auto
  have q'c: "q' \<le> c" using strip_zeros_le [OF st'] .
  have "ndigits q' \<le> 28" using q'c \<open>c < 10 ^ 28\<close> by (intro ndigits_le) auto
  then have fix_ok: "dec_fix s q' e' = Inr (Fin s q' e')" for s
    using e' by (intro dec_fix_exact) (simp_all add: ctx_defs)
  have dv: "dec_div (dec_of_int a) (dec_of_int STROOP) = Inr (Fin (a < 0) q' e')"
  proof -
    have "dec_of_int a = Fin (a < 0) c 0" by (simp add: dec_of_int_def c_def)
    moreover have "dec_div (Fin (a < 0) c 0) (Fin False (10 ^ 7) 0) = dec_fix (a < 0) q' e'"
      by (subst dec_div_exact [OF c0 _ shift q(1) q(2)]) (use st in simp_all)
    ultimately show ?thesis by (simp only: STROOP_dec fix_ok)
  qed
  have p7: "(10::rat) powi - 7 = 1 / 10000000" by (simp add: power_int_def field_simps)
  have "dec_val (Fin (a < 0) q' e') = of_int (signed (a < 0) c) * (10::rat) powi - 7"
    using v by (simp add: signed_def)
  also have "\<dots> = of_int a / of_int STROOP"
    by (simp add: p7 signed_def c_def STROOP_def)
  finally show ?thesis using dv by (auto simp: is_finite_def)
qed

lemma dec_eq_target:
  assumes "is_finite t" and "dec_val t = of_int a / of_int STROOP"
  shows "dec_eq t d \<longleftrightarrow> is_finite d \<and> dec_val d * of_int STROOP = of_int a"
proof (cases d)
  case (Fin s c e)
  obtain s' c' e' where t: "t = Fin s' c' e'" using assms(1) by (cases t) (auto simp: is_finite_def)
  have "dec_eq t d \<longleftrightarrow> dec_val t = dec_val d" unfolding t Fin by (rule dec_eq_iff_val)
  also have "\<dots> \<longleftrightarrow> dec_val d * of_int STROOP = of_int a"
    unfolding assms(2) by (auto simp: STROOP_def field_simps)
  finally show ?thesis by (simp add: Fin is_finite_def)
qed (use assms(1) in \<open>cases t; simp add: is_finite_def\<close>)+

definition names_amount :: "dec list \<Rightarrow> int \<Rightarrow> bool" where
  "names_amount ds a \<longleftrightarrow> (\<exists>d \<in> set ds. is_finite d \<and> dec_val d * of_int STROOP = of_int a)"

text \<open>C32. The cross-check of an amount below 10^28 stroops never raises, and it passes exactly
  when the amount is one of the amounts printed after a payable label or, on an invoice
  without any labelled amount, one of the numbers in the text.\<close>

theorem amount_matches_text_iff:
  assumes "\<bar>a\<bar> < 10 ^ 28"
  shows "amount_matches_text rt a text = Inr
     (if labeled_amounts rt text \<noteq> [] then names_amount (labeled_amounts rt text) a
      else names_amount (amount_tokens rt text) a)"
proof -
  obtain t where t: "dec_div (dec_of_int a) (dec_of_int STROOP) = Inr t" "is_finite t"
    "dec_val t = of_int a / of_int STROOP"
    using dec_div_stroop [OF assms] by blast
  have "list_ex (dec_eq t) ds = names_amount ds a" for ds
    using dec_eq_target [OF t(2,3)] by (auto simp: list_ex_iff names_amount_def)
  then show ?thesis by (simp add: amount_matches_text_def t(1) Let_def)
qed

theorem amount_matches_text_iff_witness:
  "amount_matches_text plain_runtime 12500000000 (asc ''Total: 1,250.00 USDC'') = Inr True"
proof -
  have "amount_matches_text plain_runtime 12500000000 (asc ''Total: 1,250.00 USDC'') = Inr
      (if labeled_amounts plain_runtime (asc ''Total: 1,250.00 USDC'') \<noteq> []
       then names_amount (labeled_amounts plain_runtime (asc ''Total: 1,250.00 USDC'')) 12500000000
       else names_amount (amount_tokens plain_runtime (asc ''Total: 1,250.00 USDC'')) 12500000000)"
    by (rule amount_matches_text_iff) simp
  moreover have "labeled_amounts plain_runtime (asc ''Total: 1,250.00 USDC'') = [Fin False 125000 (-2)]"
    by code_simp
  ultimately show ?thesis
    by (simp add: names_amount_def is_finite_def STROOP_def signed_def power_int_def power2_eq_square)
qed

lemma amount_matches_labeled:
  assumes "\<bar>a\<bar> < 10 ^ 28" and "amount_matches_text rt a text = Inr True"
    and "labeled_amounts rt text \<noteq> []"
  shows "names_amount (labeled_amounts rt text) a"
  using assms by (simp add: amount_matches_text_iff)

end
