(* ===== verification/Injection.thy ===== *)
theory Injection
  imports Py_Regex Models
begin

text \<open>
  \<open>lumo/security\<close>: the injection scanner.  \<open>normalize\<close> applies NFKC (the parameter
  \<open>rt_nfkc\<close>), deletes zero-width characters and folds Cyrillic look-alikes; \<open>scan\<close> runs
  the four heuristics on the result and collects the Stellar addresses.  The capturing
  groups of the heuristics are never read and are not recorded here.  The lemmas say what
  normalisation removes and, by \<open>rx_search_iff\<close>, exactly which texts raise a flag.
\<close>

section \<open>Patterns\<close>

definition sep_set :: cset where
  "sep_set = one_of [CNotWord, CR 95 95]"

abbreviation "SEP \<equiv> many1 sep_set"
abbreviation "SEP0 \<equiv> many sep_set"

definition override_phrase :: rx where
  "override_phrase = rx_seq
     [rx_words [''ignore'', ''disregard'', ''forget''], SEP,
      Opt (rx_seq [rx_lit ''all'', SEP]),
      rx_words [''previous'', ''prior'', ''above'', ''earlier''], SEP,
      rx_words [''instructions'', ''rules'', ''prompts'', ''policies'']]"

definition system_override :: rx where
  "system_override = rx_alts
     [rx_seq [rx_lit ''new'', SEP, Opt (rx_seq [rx_lit ''system'', SEP]),
              rx_words [''instructions'', ''policy''], SEP0, rx_char 58],
      rx_seq [rx_lit ''you'', SEP, rx_lit ''are'', SEP, rx_lit ''now'', SEP],
      rx_seq [rx_lit ''system'', SEP, rx_lit ''prompt'']]"

definition role_tag :: rx where
  "role_tag = rx_alts
     [rx_seq [rx_char 60, Opt (rx_char 47), SEP0, rx_words [''system'', ''assistant'', ''tool''],
              SEP0, rx_char 62],
      rx_seq [rx_char 91, Opt (rx_char 47), rx_words [''SYSTEM'', ''INST''], rx_char 93],
      rx_seq [rx_lit ''<|im_'', rx_words [''start'', ''end''], rx_lit ''|>'']]"

definition address_change :: rx where
  "address_change = rx_alts
     [rx_seq [rx_words [''payment'', ''bank'', ''wallet'', ''beneficiary''], SEP,
              rx_words [''address'', ''account'', ''details''], SEP,
              Opt (rx_alts [rx_seq [rx_lit ''has'', SEP], rx_seq [rx_lit ''have'', SEP]]),
              Opt (rx_seq [rx_lit ''been'', SEP]),
              rx_words [''changed'', ''updated'']],
      rx_seq [rx_lit ''send'', SEP, Opt (rx_seq [rx_lit ''the'', SEP]),
              rx_words [''payment'', ''funds'', ''money''], SEP, rx_lit ''to'', SEP,
              Opt (rx_alts [rx_seq [rx_lit ''this'', SEP], rx_seq [rx_lit ''the'', SEP]]),
              rx_lit ''new'', SEP, rx_lit ''address''],
      rx_seq [rx_lit ''do'', SEP, rx_lit ''not'', SEP, rx_words [''use'', ''pay''], SEP,
              rx_lit ''the'', SEP, rx_words [''usual'', ''registered'', ''old'', ''previous'']]]"

definition patterns :: "(string \<times> rx) list" where
  "patterns = [(''OVERRIDE_PHRASE'', override_phrase), (''SYSTEM_OVERRIDE'', system_override),
     (''ROLE_TAG'', role_tag), (''ADDRESS_CHANGE'', address_change)]"

definition zero_width :: "int list" where
  "zero_width = [8203, 8204, 8205, 8206, 8207, 8288, 8289, 8290, 8291, 8292, 65279, 173]"

text \<open>\<open>G[A-Z2-7]{55}\<close>; the scanner uses it case-insensitively.\<close>

definition stellar_address :: rx where
  "stellar_address = rx_seq [rx_char 71, Rep (one_of [CR 65 90, CR 50 55]) 55 (Some 55) True]"

section \<open>Normalisation and scan\<close>

definition homoglyphs :: "(int \<times> int) list" where
  "homoglyphs =
     [(1072, 97), (1040, 65), (1077, 101), (1045, 69), (1086, 111), (1054, 79), (1088, 112),
      (1056, 80), (1089, 99), (1057, 67), (1093, 120), (1061, 88), (1091, 121), (1059, 89),
      (1110, 105), (1030, 73), (1109, 115), (1029, 83), (1112, 106), (1032, 74)]"

definition fold_homoglyph :: "int \<Rightarrow> int" where
  "fold_homoglyph c = (case map_of homoglyphs c of None \<Rightarrow> c | Some d \<Rightarrow> d)"

definition strip_hidden :: "pystr \<Rightarrow> pystr" where
  "strip_hidden s = filter (\<lambda>c. c \<notin> set zero_width) s"

definition normalize :: "runtime \<Rightarrow> pystr \<Rightarrow> pystr \<times> bool" where
  "normalize rt text =
     (let nfkc = rt_nfkc rt text; stripped = strip_hidden nfkc
      in (map fold_homoglyph stripped, stripped \<noteq> nfkc))"

definition scan :: "runtime \<Rightarrow> pystr \<Rightarrow> scan_result" where
  "scan rt text =
     (case normalize rt text of (normalized, had_hidden) \<Rightarrow>
        \<lparr>sc_flags = (if had_hidden then [''HIDDEN_UNICODE''] else []) @
           map fst (filter (\<lambda>(flag, rx). rx_search rt True rx normalized \<noteq> None) patterns),
         sc_text = normalized,
         sc_addresses = rx_findall rt True stellar_address normalized\<rparr>)"

section \<open>What normalisation removes\<close>

lemma fold_homoglyph_clean:
  "fold_homoglyph c \<notin> fst ` set homoglyphs"
  "c \<notin> set zero_width \<Longrightarrow> fold_homoglyph c \<notin> set zero_width"
proof -
  have h: "list_all (\<lambda>(k, d). 128 \<le> k \<and> d < 128) homoglyphs" by (simp add: homoglyphs_def)
  have z: "z \<in> set zero_width \<Longrightarrow> 128 \<le> z" for z by (auto simp: zero_width_def)
  have small: "map_of homoglyphs c = Some d \<Longrightarrow> d < 128" for d
    using h by (auto simp: list_all_iff dest!: map_of_SomeD)
  show "fold_homoglyph c \<notin> fst ` set homoglyphs"
  proof (cases "map_of homoglyphs c")
    case None
    then have "fold_homoglyph c = c" by (simp add: fold_homoglyph_def)
    with None show ?thesis by (metis map_of_eq_None_iff)
  next
    case (Some d)
    with small have "fold_homoglyph c < 128" by (simp add: fold_homoglyph_def)
    with h show ?thesis by (fastforce simp: list_all_iff)
  qed
  show "fold_homoglyph c \<notin> set zero_width" if "c \<notin> set zero_width"
  proof (cases "map_of homoglyphs c")
    case None
    with that show ?thesis by (simp add: fold_homoglyph_def)
  next
    case (Some d)
    with small have "fold_homoglyph c < 128" by (simp add: fold_homoglyph_def)
    with z show ?thesis by force
  qed
qed

lemma normalize_clean:
  assumes "c \<in> set (fst (normalize rt t))"
  shows "c \<notin> set zero_width" and "c \<notin> fst ` set homoglyphs"
  using assms fold_homoglyph_clean by (auto simp: normalize_def Let_def strip_hidden_def)

lemma strip_hidden_idem: "strip_hidden s = s \<longleftrightarrow> set s \<inter> set zero_width = {}"
  by (auto simp: strip_hidden_def filter_id_conv)

lemma normalize_hidden_iff:
  "snd (normalize rt t) \<longleftrightarrow> set (rt_nfkc rt t) \<inter> set zero_width \<noteq> {}"
  by (simp add: normalize_def Let_def strip_hidden_idem)

text \<open>Deleting or inserting zero-width characters does not change what is scanned.\<close>

lemma strip_hidden_insert:
  "set h \<subseteq> set zero_width \<Longrightarrow> strip_hidden (u @ h @ v) = strip_hidden (u @ v)"
  by (induction h) (auto simp: strip_hidden_def)

section \<open>What raises a flag\<close>

lemma sc_text_scan: "sc_text (scan rt t) = fst (normalize rt t)"
  by (simp add: scan_def split: prod.split)

lemma sc_addresses_scan:
  "sc_addresses (scan rt t) = rx_findall rt True stellar_address (sc_text (scan rt t))"
  by (simp add: scan_def split: prod.split)

lemma sc_flags_scan: "sc_flags (scan rt t) =
    (if snd (normalize rt t) then [''HIDDEN_UNICODE''] else []) @
    map fst (filter (\<lambda>(flag, rx). rx_search rt True rx (sc_text (scan rt t)) \<noteq> None) patterns)"
  by (simp add: scan_def split: prod.split)

lemma pattern_names: "distinct (map fst patterns)" "''HIDDEN_UNICODE'' \<notin> set (map fst patterns)"
  by (simp_all add: patterns_def)

lemma scan_hidden_flag:
  "''HIDDEN_UNICODE'' \<in> set (sc_flags (scan rt t)) \<longleftrightarrow> snd (normalize rt t)"
  using pattern_names(2) unfolding sc_flags_scan by auto

lemma scan_pattern_flag:
  assumes "(flag, rx) \<in> set patterns"
  shows "flag \<in> set (sc_flags (scan rt t)) \<longleftrightarrow> rx_search rt True rx (sc_text (scan rt t)) \<noteq> None"
proof -
  have "flag \<noteq> ''HIDDEN_UNICODE''" using pattern_names(2) assms by force
  then have "flag \<in> set (sc_flags (scan rt t)) \<longleftrightarrow>
      (\<exists>r. (flag, r) \<in> set patterns \<and> rx_search rt True r (sc_text (scan rt t)) \<noteq> None)"
    unfolding sc_flags_scan by force
  then show ?thesis
    using assms eq_key_imp_eq_value [OF pattern_names(1) assms] by blast
qed

lemma scan_suspicious_iff:
  "suspicious (scan rt t) \<longleftrightarrow> snd (normalize rt t) \<or>
     (\<exists>(flag, rx) \<in> set patterns. rx_search rt True rx (sc_text (scan rt t)) \<noteq> None)"
  unfolding suspicious_def sc_flags_scan by (auto simp: filter_empty_conv)

text \<open>Case-insensitive equality with a literal, and runs of separators.\<close>

definition ci_word :: "string \<Rightarrow> pystr \<Rightarrow> bool" where
  "ci_word w m \<longleftrightarrow> list_all2 (\<lambda>c x. in_range True c c x) (asc w) m"

definition is_sep :: "runtime \<Rightarrow> int \<Rightarrow> bool" where
  "is_sep rt c \<longleftrightarrow> \<not> is_word rt c \<or> c = 95"

lemma in_range_underscore [simp]: "in_range True 95 95 c \<longleftrightarrow> c = 95"
  by (auto simp: in_range_def Let_def fold_case_def ascii_class_defs)

lemma in_sep_set [simp]: "in_cset rt True sep_set c \<longleftrightarrow> is_sep rt c"
  by (simp add: sep_set_def is_sep_def)

definition seps :: "runtime \<Rightarrow> pystr \<Rightarrow> bool" where
  "seps rt s \<longleftrightarrow> s \<noteq> [] \<and> list_all (is_sep rt) s"

lemma in_sep_set_fun [simp]: "in_cset rt True sep_set = is_sep rt"
  by (rule ext) simp

lemma rx_lang_SEP [simp]: "rx_lang rt True SEP b m a \<longleftrightarrow> seps rt m"
  by (cases m) (auto simp: seps_def)

text \<open>The phrase the first heuristic looks for, spelt out.\<close>

lemma ci_word_fun: "ci_word w = list_all2 (\<lambda>c. in_range True c c) (asc w)"
  by (rule ext) (simp add: ci_word_def)

definition any_word :: "string list \<Rightarrow> pystr \<Rightarrow> bool" where
  "any_word ws m \<longleftrightarrow> (\<exists>w \<in> set ws. ci_word w m)"

definition optional_text :: "(pystr \<Rightarrow> bool) \<Rightarrow> pystr \<Rightarrow> bool" where
  "optional_text P m \<longleftrightarrow> P m \<or> m = []"

definition override_text :: "runtime \<Rightarrow> pystr \<Rightarrow> bool" where
  "override_text rt = cat_langs
     [any_word [''ignore'', ''disregard'', ''forget''], seps rt,
      optional_text (cat_langs [ci_word ''all'', seps rt]),
      any_word [''previous'', ''prior'', ''above'', ''earlier''], seps rt,
      any_word [''instructions'', ''rules'', ''prompts'', ''policies'']]"

lemma rx_lang_any_word:
  "ws \<noteq> [] \<Longrightarrow> rx_lang rt True (rx_words ws) b m a \<longleftrightarrow> any_word ws m"
  by (simp add: rx_lang_words any_word_def ci_word_def)

lemma rx_lang_override_phrase:
  "rx_lang rt True override_phrase b m a \<longleftrightarrow> override_text rt m"
  unfolding override_phrase_def override_text_def optional_text_def
  by (simp only: rx_lang_seq_cat list.pred_inject anchor_free.simps anchor_free_words
      anchor_free_seq anchor_free_lit list.map rx_lang.simps(6) rx_lang_SEP rx_lang_any_word
      rx_lang_lit list.distinct not_False_eq_True simp_thms ci_word_fun)

text \<open>C30. The scanner raises \<open>OVERRIDE_PHRASE\<close> exactly on the texts whose normal form
  contains the phrase, in any letter case, with any non-empty run of non-word characters
  or underscores between its words.\<close>

theorem override_flag_iff:
  "''OVERRIDE_PHRASE'' \<in> set (sc_flags (scan rt t)) \<longleftrightarrow>
     (\<exists>pre m post. sc_text (scan rt t) = pre @ m @ post \<and> override_text rt m)"
proof -
  have "(''OVERRIDE_PHRASE'', override_phrase) \<in> set patterns" by (simp add: patterns_def)
  then show ?thesis
    by (simp add: scan_pattern_flag rx_search_iff rx_lang_override_phrase del: not_None_eq)
qed

section \<open>Addresses\<close>

lemma rx_lang_stellar:
  "rx_lang rt ic stellar_address b m a \<longleftrightarrow>
     (\<exists>g body. m = g # body \<and> in_range ic 71 71 g \<and> length body = 55 \<and>
        list_all (\<lambda>c. in_range ic 65 90 c \<or> in_range ic 50 55 c) body)"
proof -
  have "in_cset rt ic (one_of [CR 65 90, CR 50 55]) = (\<lambda>c. in_range ic 65 90 c \<or> in_range ic 50 55 c)"
    by (rule ext) simp
  then show ?thesis by (auto simp: stellar_address_def rx_lang_seq_char)
qed

lemma scan_addresses_sound:
  assumes "x \<in> set (sc_addresses (scan rt t))"
  shows "length x = 56 \<and> (\<exists>pre post. sc_text (scan rt t) = pre @ x @ post)"
proof -
  from assms have "x \<in> set (rx_findall rt True stellar_address (sc_text (scan rt t)))"
    by (simp only: sc_addresses_scan)
  from rx_findall_sound [OF this] show ?thesis
    by (auto simp: rx_lang_stellar)
qed

lemma scan_addresses_complete:
  assumes "sc_text (scan rt t) = pre @ x @ post" and "rx_lang rt True stellar_address [] x []"
  shows "sc_addresses (scan rt t) \<noteq> []"
proof -
  have "rx_search rt True stellar_address (sc_text (scan rt t)) \<noteq> None"
  proof -
    have "rx_lang rt True stellar_address (rev pre) x post"
      using assms(2) by (simp only: rx_lang_stellar)
    with assms(1) show ?thesis unfolding rx_search_iff by blast
  qed
  then have "rx_finditer rt True stellar_address (sc_text (scan rt t)) \<noteq> []"
    unfolding rx_finditer_nonempty_iff .
  then show ?thesis
    unfolding sc_addresses_scan rx_findall_def map_is_Nil_conv .
qed

end
