(* ===== verification/Guards.thy ===== *)
theory Guards
  imports Repo_Frames Config Policy_Engine Amounts Injection
begin

text \<open>
  The guard chain of \<open>lumo/pipeline.py\<close>: the guard classes, \<open>build_guards\<close>,
  \<open>run_guards\<close> and \<open>release_check\<close>.  A guard is a constructor with its enabled flag;
  \<open>guard_check\<close> is its \<open>check\<close> method, which reads the context and, for the release
  stage, the attestations in the store.  A propose-stage guard on a context without a
  request, or a release-stage guard without an intent, raises as in Python.  The
  \<open>reason\<close> text of a result is never read by the program and is left out.
\<close>

datatype stage = PROPOSE | RELEASE

datatype outcome = PASS | REFUSE | HOLD

type_synonym guard_result = "outcome \<times> code list"

datatype guard_kind =
    InjectionGuard
  | AmountCrossCheckGuard
  | PolicyEngineGuard
  | PolicySignerGuard
  | AttestationGuard
  | KofNOracleGuard int
  | HumanCosignGuard int
  | ProofOfComputeGuard

record guard =
  g_kind :: guard_kind
  g_enabled :: bool

record guard_context =
  gc_stage :: stage
  gc_request :: "payment_request option"
  gc_policy :: "policy_context option"
  gc_supplier_addresses :: "pystr set"
  gc_cosign_token :: "pystr option"
  gc_compute_receipt :: "(pystr \<times> pystr) list option"
  gc_intent :: "intent_row option"
  gc_invoice_text :: pystr

fun guard_stage :: "guard_kind \<Rightarrow> stage" where
  "guard_stage AttestationGuard = RELEASE"
| "guard_stage (KofNOracleGuard _) = RELEASE"
| "guard_stage _ = PROPOSE"

fun guard_name :: "guard_kind \<Rightarrow> string" where
  "guard_name InjectionGuard = ''InjectionGuard''"
| "guard_name AmountCrossCheckGuard = ''AmountCrossCheckGuard''"
| "guard_name PolicyEngineGuard = ''PolicyEngineGuard''"
| "guard_name PolicySignerGuard = ''PolicySignerGuard''"
| "guard_name AttestationGuard = ''AttestationGuard''"
| "guard_name (KofNOracleGuard _) = ''KofNOracleGuard''"
| "guard_name (HumanCosignGuard _) = ''HumanCosignGuard''"
| "guard_name ProofOfComputeGuard = ''ProofOfComputeGuard''"

section \<open>The checks\<close>

definition injection_check :: "payment_request \<Rightarrow> guard_result" where
  "injection_check req =
     (if pr_injection_flags req \<noteq> [] then (REFUSE, [INJECTION_SUSPECTED]) else (PASS, []))"

definition amount_check :: "runtime \<Rightarrow> payment_request \<Rightarrow> pystr \<Rightarrow> guard_result result" where
  "amount_check rt req text =
     (case pr_amount_stroops req of None \<Rightarrow> Inr (REFUSE, [INVALID_AMOUNT])
      | Some amount \<Rightarrow> rbind (amount_matches_text rt amount text) (\<lambda>found.
          Inr (if found then (PASS, []) else (REFUSE, [AMOUNT_MISMATCH]))))"

definition policy_check :: "payment_request \<Rightarrow> policy_context \<Rightarrow> guard_result" where
  "policy_check req pol =
     (let e = evaluate req pol in if ev_allowed e then (PASS, []) else (REFUSE, ev_codes e))"

definition signer_codes :: "payment_request \<Rightarrow> policy_context \<Rightarrow> pystr set \<Rightarrow> code list" where
  "signer_codes req pol addresses =
     (case pr_registry_address req of
        None \<Rightarrow> [SIGNER_SUPPLIER_NOT_ALLOWED]
      | Some a \<Rightarrow> if a \<notin> addresses then [SIGNER_SUPPLIER_NOT_ALLOWED] else []) @
     (case pr_amount_stroops req of
        None \<Rightarrow> []
      | Some n \<Rightarrow> if pc_cap_per_tx pol < n then [SIGNER_OVER_CAP] else [])"

definition signer_check :: "payment_request \<Rightarrow> policy_context \<Rightarrow> pystr set \<Rightarrow> guard_result" where
  "signer_check req pol addresses =
     (let codes = signer_codes req pol addresses
      in if codes \<noteq> [] then (REFUSE, codes) else (PASS, []))"

definition shipped_oracles :: "intent_row \<Rightarrow> tables \<Rightarrow> pystr set" where
  "shipped_oracles r t =
     at_oracle ` set (filter (\<lambda>a. at_kind a = asc ''Shipped'' \<and> at_request_hash a = in_request_hash r)
                        (attestations (in_id r) t))"

definition attestation_check :: "intent_row \<Rightarrow> tables \<Rightarrow> guard_result" where
  "attestation_check r t =
     (if shipped_oracles r t \<noteq> {} then (PASS, []) else (REFUSE, [ATTESTATION_MISSING]))"

definition kofn_check :: "int \<Rightarrow> intent_row \<Rightarrow> tables \<Rightarrow> guard_result" where
  "kofn_check k r t =
     (if k \<le> int (card (shipped_oracles r t)) then (PASS, []) else (REFUSE, [KOFN_UNMET]))"

definition token_present :: "pystr option \<Rightarrow> bool" where
  "token_present tok = (case tok of None \<Rightarrow> False | Some s \<Rightarrow> s \<noteq> [])"

definition cosign_check :: "int \<Rightarrow> payment_request \<Rightarrow> pystr option \<Rightarrow> guard_result" where
  "cosign_check threshold req token =
     (case pr_amount_stroops req of None \<Rightarrow> (PASS, [])
      | Some n \<Rightarrow> if threshold < n \<and> \<not> token_present token then (HOLD, [COSIGN_REQUIRED])
                  else (PASS, []))"

definition receipt_check :: "runtime \<Rightarrow> (pystr \<times> pystr) list option \<Rightarrow> guard_result result" where
  "receipt_check rt receipt =
     (case receipt of None \<Rightarrow> Inr (REFUSE, [POC_RECEIPT_INVALID])
      | Some d \<Rightarrow>
          (if d = [] then Inr (REFUSE, [POC_RECEIPT_INVALID])
           else rbind (utf8_encode (case dict_get d ''payload'' of None \<Rightarrow> [] | Some p \<Rightarrow> p)) (\<lambda>bs.
             Inr (if dict_get d ''digest'' = Some (rt_sha256 rt bs) then (PASS, [])
                  else (REFUSE, [POC_RECEIPT_INVALID])))))"

text \<open>\<open>ctx.request.x\<close> on a context without a request.\<close>

definition need :: "'a option \<Rightarrow> 'a result" where
  "need x = (case x of None \<Rightarrow> Inl (AttributeError ''NoneType'') | Some y \<Rightarrow> Inr y)"

definition guard_check :: "runtime \<Rightarrow> guard_kind \<Rightarrow> guard_context \<Rightarrow> tables \<Rightarrow> guard_result result" where
  "guard_check rt k ctx t =
     (case k of
        InjectionGuard \<Rightarrow> rbind (need (gc_request ctx)) (\<lambda>req. Inr (injection_check req))
      | AmountCrossCheckGuard \<Rightarrow>
          rbind (need (gc_request ctx)) (\<lambda>req. amount_check rt req (gc_invoice_text ctx))
      | PolicyEngineGuard \<Rightarrow> rbind (need (gc_request ctx)) (\<lambda>req.
          rbind (need (gc_policy ctx)) (\<lambda>pol. Inr (policy_check req pol)))
      | PolicySignerGuard \<Rightarrow> rbind (need (gc_request ctx)) (\<lambda>req.
          rbind (need (gc_policy ctx)) (\<lambda>pol.
            Inr (signer_check req pol (gc_supplier_addresses ctx))))
      | AttestationGuard \<Rightarrow> rbind (need (gc_intent ctx)) (\<lambda>r. Inr (attestation_check r t))
      | KofNOracleGuard k \<Rightarrow> rbind (need (gc_intent ctx)) (\<lambda>r. Inr (kofn_check k r t))
      | HumanCosignGuard threshold \<Rightarrow> rbind (need (gc_request ctx)) (\<lambda>req.
          Inr (cosign_check threshold req (gc_cosign_token ctx)))
      | ProofOfComputeGuard \<Rightarrow> receipt_check rt (gc_compute_receipt ctx))"

section \<open>The chain\<close>

definition build_guards :: "config \<Rightarrow> guard list" where
  "build_guards c =
     [\<lparr>g_kind = InjectionGuard, g_enabled = cf_injection_scan c\<rparr>,
      \<lparr>g_kind = PolicyEngineGuard, g_enabled = cf_policy_engine c\<rparr>,
      \<lparr>g_kind = PolicySignerGuard, g_enabled = cf_policy_signer c\<rparr>,
      \<lparr>g_kind = AttestationGuard, g_enabled = cf_require_attestation c\<rparr>,
      \<lparr>g_kind = KofNOracleGuard (cf_k_of_n c), g_enabled = 1 < cf_k_of_n c\<rparr>,
      \<lparr>g_kind = HumanCosignGuard (cf_human_cosign_threshold c),
         g_enabled = 0 < cf_human_cosign_threshold c\<rparr>,
      \<lparr>g_kind = ProofOfComputeGuard, g_enabled = cf_proof_of_compute c\<rparr>]"

definition propose_guards :: "config \<Rightarrow> guard list" where
  "propose_guards c = build_guards c @ [\<lparr>g_kind = AmountCrossCheckGuard, g_enabled = True\<rparr>]"

fun outcome_name :: "outcome \<Rightarrow> string" where
  "outcome_name PASS = ''pass''"
| "outcome_name REFUSE = ''refuse''"
| "outcome_name HOLD = ''hold''"

definition extend_new :: "code list \<Rightarrow> code list \<Rightarrow> code list" where
  "extend_new codes cs = foldl (\<lambda>acc c. if c \<in> set acc then acc else acc @ [c]) codes cs"

definition announce :: "guard_kind \<Rightarrow> guard_result \<Rightarrow> ('s world, unit) py" where
  "announce k res = py_when (fst res \<noteq> PASS)
     (py_seq (emit ''guard.tripped''
         [jkey ''name'' (JStr (asc (guard_name k))), jkey ''outcome'' (JStr (asc (outcome_name (fst res)))),
          jkey ''codes'' (json_codes (snd res))])
       (py_when (k = InjectionGuard) (emit ''injection.blocked'' [jkey ''codes'' (json_codes (snd res))])))"

definition active :: "stage \<Rightarrow> guard \<Rightarrow> bool" where
  "active st g \<longleftrightarrow> g_enabled g \<and> guard_stage (g_kind g) = st"

fun guard_loop :: "runtime \<Rightarrow> guard_context \<Rightarrow> guard list \<Rightarrow> bool \<Rightarrow> bool \<Rightarrow> code list
    \<Rightarrow> ('s world, guard_result) py" where
  "guard_loop rt ctx [] refused held codes =
     py_ret (if refused then (REFUSE, codes) else if held then (HOLD, codes) else (PASS, [OK]))"
| "guard_loop rt ctx (g # gs) refused held codes =
     (if \<not> active (gc_stage ctx) g then guard_loop rt ctx gs refused held codes
      else py_bind (db_read (guard_check rt (g_kind g) ctx)) (\<lambda>r. py_bind (py_lift r) (\<lambda>res.
        py_seq (announce (g_kind g) res)
          (guard_loop rt ctx gs (refused \<or> fst res = REFUSE)
             (held \<or> fst res = HOLD) (extend_new codes (snd res))))))"

definition run_guards :: "runtime \<Rightarrow> guard list \<Rightarrow> guard_context \<Rightarrow> ('s world, guard_result) py" where
  "run_guards rt gs ctx = guard_loop rt ctx gs False False []"

definition release_context :: "intent_row \<Rightarrow> guard_context" where
  "release_context r = \<lparr>gc_stage = RELEASE, gc_request = None, gc_policy = None,
     gc_supplier_addresses = {}, gc_cosign_token = None, gc_compute_receipt = None,
     gc_intent = Some r, gc_invoice_text = []\<rparr>"

definition release_check :: "runtime \<Rightarrow> config \<Rightarrow> intent_row \<Rightarrow> ('s world, unit) py" where
  "release_check rt c r =
     py_bind (run_guards rt (build_guards c) (release_context r)) (\<lambda>(verdict, codes).
       if verdict \<noteq> PASS then py_raise (GuardRefused codes) else py_ret ())"

section \<open>What the chain decides\<close>

text \<open>Emitting an event changes the \<open>events\<close> table and nothing else.\<close>

definition events_only :: "tables \<Rightarrow> tables \<Rightarrow> bool" where
  "events_only t t' \<longleftrightarrow> t' = t\<lparr>t_events := t_events t'\<rparr>"

interpretation evo: db_relation events_only
proof unfold_locales
  fix t u v assume "events_only t u" "events_only u v"
  then show "events_only t v" unfolding events_only_def by (metis tables.surjective tables.update_convs(8))
qed (simp add: events_only_def)

lemma events_only_frame:
  assumes "events_only t t'"
  shows "t_suppliers t' = t_suppliers t" "t_rules t' = t_rules t" "t_intents t' = t_intents t"
    "t_decisions t' = t_decisions t" "t_attestations t' = t_attestations t"
    "t_chain_txs t' = t_chain_txs t" "t_payouts t' = t_payouts t"
  by (subst assms [unfolded events_only_def], simp)+

lemma evo_emit: "evolves evo.W (emit n p)"
  unfolding emit_def
  by (auto intro!: evo.wr.evo_intros evo.W_pure evo.W_write simp: ins_event_def events_only_def split: if_splits)

lemma evo_announce: "evolves evo.W (announce k res)"
  unfolding announce_def by (intro evo.wr.evo_intros evo_emit)

lemma guard_check_frame:
  assumes "t_attestations t' = t_attestations t"
  shows "guard_check rt k ctx t' = guard_check rt k ctx t"
proof -
  have "shipped_oracles r t' = shipped_oracles r t" for r
    by (simp add: shipped_oracles_def attestations_def assms)
  then show ?thesis
    by (cases k) (simp_all add: guard_check_def attestation_check_def kofn_check_def)
qed

lemma guard_check_events: "events_only t t' \<Longrightarrow> guard_check rt k ctx t' = guard_check rt k ctx t"
  by (rule guard_check_frame) (rule events_only_frame(5))

lemma evo_guard_loop: "evolves evo.W (guard_loop rt ctx gs refused held codes)"
proof (induction gs arbitrary: refused held codes)
  case (Cons g gs)
  show ?case
  proof (cases "active (gc_stage ctx) g")
    case True
    show ?thesis
      using True by (simp only: guard_loop.simps not_True_eq_False if_False)
        (intro evo.wr.evo_intros evo.W_read evo_announce Cons.IH)
  qed (simp add: Cons.IH)
qed (simp add: evo.wr.evo_pure)

text \<open>The results of the active guards' checks, or the first exception.\<close>

definition check_results :: "runtime \<Rightarrow> guard_context \<Rightarrow> guard list \<Rightarrow> tables \<Rightarrow> guard_result list result" where
  "check_results rt ctx gs t =
     rmap (\<lambda>g. guard_check rt (g_kind g) ctx t) (filter (active (gc_stage ctx)) gs)"

text \<open>Outcomes are ordered by severity: a refusal outweighs a hold, a hold outweighs a pass.\<close>

fun severity :: "outcome \<Rightarrow> nat" where
  "severity PASS = 0"
| "severity HOLD = 1"
| "severity REFUSE = 2"

lemma severity_inj: "severity x = severity y \<Longrightarrow> x = y"
  by (cases x; cases y) simp_all

instantiation outcome :: linorder
begin

definition less_eq_outcome :: "outcome \<Rightarrow> outcome \<Rightarrow> bool" where
  "less_eq_outcome x y \<longleftrightarrow> severity x \<le> severity y"

definition less_outcome :: "outcome \<Rightarrow> outcome \<Rightarrow> bool" where
  "less_outcome x y \<longleftrightarrow> severity x < severity y"

instance
  by standard (auto simp: less_eq_outcome_def less_outcome_def intro: severity_inj)

end

lemma outcome_bounds [simp]: "(x::outcome) \<le> REFUSE" "PASS \<le> (x::outcome)" "x \<le> HOLD \<longleftrightarrow> x \<noteq> REFUSE"
  by (cases x; simp add: less_eq_outcome_def)+

definition chain_verdict :: "bool \<Rightarrow> bool \<Rightarrow> guard_result list \<Rightarrow> outcome" where
  "chain_verdict refused held rs =
     (if refused \<or> REFUSE \<in> fst ` set rs then REFUSE else if held \<or> HOLD \<in> fst ` set rs then HOLD else PASS)"

definition chain_codes :: "code list \<Rightarrow> guard_result list \<Rightarrow> code list" where
  "chain_codes codes rs = foldl extend_new codes (map snd rs)"

lemma check_results_events: "events_only t t' \<Longrightarrow> check_results rt ctx gs t' = check_results rt ctx gs t"
  by (simp add: check_results_def guard_check_events)

lemma guard_loop_returns:
  "guard_loop rt ctx gs refused held codes w = (Inr (v, cs), w') \<Longrightarrow>
     \<exists>rs. check_results rt ctx gs (w_db w) = Inr rs \<and> v = chain_verdict refused held rs \<and>
       cs = (if v = PASS then [OK] else chain_codes codes rs)"
proof (induction gs arbitrary: refused held codes w)
  case Nil
  then show ?case
    by (auto simp: check_results_def chain_verdict_def chain_codes_def split: if_splits)
next
  case (Cons g gs)
  show ?case
  proof (cases "active (gc_stage ctx) g")
    case False
    with Cons.prems have "guard_loop rt ctx gs refused held codes w = (Inr (v, cs), w')" by simp
    from Cons.IH [OF this] False show ?thesis by (simp add: check_results_def)
  next
    case True
    with Cons.prems obtain r w1 where chk: "guard_check rt (g_kind g) ctx (w_db w) = Inr r"
      and ann: "announce (g_kind g) r w = (Inr (), w1)"
      and loop: "guard_loop rt ctx gs (refused \<or> fst r = REFUSE) (held \<or> fst r = HOLD)
          (extend_new codes (snd r)) w1 = (Inr (v, cs), w')"
      by (auto simp: py_bind_returns py_seq_returns db_read_def)
    have "events_only (w_db w) (w_db w1)"
      using evolvesD [OF evo_announce ann] by (simp add: evo.W_def)
    with Cons.IH [OF loop] obtain rs where rs: "check_results rt ctx gs (w_db w) = Inr rs"
      "v = chain_verdict (refused \<or> fst r = REFUSE) (held \<or> fst r = HOLD) rs"
      "cs = (if v = PASS then [OK] else chain_codes (extend_new codes (snd r)) rs)"
      by (auto simp: check_results_events)
    have "check_results rt ctx (g # gs) (w_db w) = Inr (r # rs)"
      using True chk rs(1) by (simp add: check_results_def)
    moreover have "v = chain_verdict refused held (r # rs)"
      using rs(2) by (auto simp: chain_verdict_def)
    moreover have "chain_codes codes (r # rs) = chain_codes (extend_new codes (snd r)) rs"
      by (simp add: chain_codes_def)
    ultimately show ?thesis using rs(3) by simp
  qed
qed

lemma extend_new_set [simp]: "set (extend_new codes cs) = set codes \<union> set cs"
proof -
  have "set (foldl (\<lambda>acc c. if c \<in> set acc then acc else acc @ [c]) codes cs) = set codes \<union> set cs"
    by (induction cs arbitrary: codes) (auto split: if_splits)
  then show ?thesis by (simp add: extend_new_def)
qed

lemma extend_new_distinct: "distinct codes \<Longrightarrow> distinct (extend_new codes cs)"
proof -
  have "distinct codes \<Longrightarrow> distinct (foldl (\<lambda>acc c. if c \<in> set acc then acc else acc @ [c]) codes cs)"
    by (induction cs arbitrary: codes) auto
  then show "distinct codes \<Longrightarrow> ?thesis" by (simp add: extend_new_def)
qed

lemma chain_codes_set: "set (chain_codes codes rs) = set codes \<union> (\<Union>r \<in> set rs. set (snd r))"
  unfolding chain_codes_def by (induction rs arbitrary: codes) auto

lemma chain_codes_distinct: "distinct codes \<Longrightarrow> distinct (chain_codes codes rs)"
  unfolding chain_codes_def by (induction rs arbitrary: codes) (auto intro: extend_new_distinct)

lemma rmap_mem:
  assumes "rmap f xs = Inr ys"
  shows "x \<in> set xs \<Longrightarrow> \<exists>y \<in> set ys. f x = Inr y" and "y \<in> set ys \<Longrightarrow> \<exists>x \<in> set xs. f x = Inr y"
proof -
  note l = rmap_InrD [OF assms, unfolded list_all2_conv_all_nth]
  show "x \<in> set xs \<Longrightarrow> \<exists>y \<in> set ys. f x = Inr y"
    using l unfolding in_set_conv_nth [of x] by (metis nth_mem)
  show "y \<in> set ys \<Longrightarrow> \<exists>x \<in> set xs. f x = Inr y"
    using l unfolding in_set_conv_nth [of y] by (metis nth_mem)
qed

lemma chain_verdict_iff:
  "chain_verdict False False rs = REFUSE \<longleftrightarrow> (\<exists>r \<in> set rs. fst r = REFUSE)"
  "chain_verdict False False rs = HOLD \<longleftrightarrow>
     (\<exists>r \<in> set rs. fst r = HOLD) \<and> \<not> (\<exists>r \<in> set rs. fst r = REFUSE)"
  "chain_verdict False False rs = PASS \<longleftrightarrow> (\<forall>r \<in> set rs. fst r = PASS)"
proof -
  have ex: "x \<in> fst ` set rs \<longleftrightarrow> (\<exists>r \<in> set rs. fst r = x)" for x by (auto simp: image_iff)
  show "chain_verdict False False rs = REFUSE \<longleftrightarrow> (\<exists>r \<in> set rs. fst r = REFUSE)"
    "chain_verdict False False rs = HOLD \<longleftrightarrow>
      (\<exists>r \<in> set rs. fst r = HOLD) \<and> \<not> (\<exists>r \<in> set rs. fst r = REFUSE)"
    by (simp_all add: chain_verdict_def ex)
  show "chain_verdict False False rs = PASS \<longleftrightarrow> (\<forall>r \<in> set rs. fst r = PASS)"
  proof -
    have "x = PASS \<longleftrightarrow> x \<noteq> REFUSE \<and> x \<noteq> HOLD" for x by (cases x) simp_all
    then show ?thesis unfolding chain_verdict_def ex by auto
  qed
qed

lemma chain_verdict_Max: "chain_verdict False False rs = Max (insert PASS (fst ` set rs))"
proof (rule Max_eqI [symmetric])
  fix x assume "x \<in> insert PASS (fst ` set rs)"
  then show "x \<le> chain_verdict False False rs" by (cases x) (auto simp: chain_verdict_def)
qed (auto simp: chain_verdict_def)

text \<open>C36. The guard chain is a conjunction: when it returns, every enabled guard of the stage was
  checked without raising; its verdict is the most severe of theirs: it refuses exactly when some
  guard refuses, holds exactly when none refuses and some guard holds, passes exactly when all
  pass; unless it passes, the reported codes are the codes of all guards, each once.\<close>

theorem run_guards_spec:
  assumes "run_guards rt gs ctx w = (Inr (v, cs), w')"
  shows "\<exists>rs. check_results rt ctx gs (w_db w) = Inr rs \<and> v = Max (insert PASS (fst ` set rs)) \<and>
     (v = REFUSE \<longleftrightarrow> (\<exists>r \<in> set rs. fst r = REFUSE)) \<and>
     (v = HOLD \<longleftrightarrow> (\<exists>r \<in> set rs. fst r = HOLD) \<and> \<not> (\<exists>r \<in> set rs. fst r = REFUSE)) \<and>
     (v = PASS \<longleftrightarrow> (\<forall>r \<in> set rs. fst r = PASS)) \<and>
     (if v = PASS then cs = [OK] else distinct cs \<and> set cs = (\<Union>r \<in> set rs. set (snd r)))"
proof -
  from assms have "guard_loop rt ctx gs False False [] w = (Inr (v, cs), w')" by (simp add: run_guards_def)
  from guard_loop_returns [OF this] obtain rs where rs: "check_results rt ctx gs (w_db w) = Inr rs"
    "v = chain_verdict False False rs" "cs = (if v = PASS then [OK] else chain_codes [] rs)"
    by blast
  then show ?thesis
    using chain_codes_set [of "[]" rs] chain_codes_distinct [of "[]" rs]
    by (intro exI [of _ rs]) (simp add: chain_verdict_iff flip: chain_verdict_Max)
qed

lemma run_guards_member:
  assumes "run_guards rt gs ctx w = (Inr (v, cs), w')" and "v \<noteq> REFUSE"
    and "g \<in> set gs" and "active (gc_stage ctx) g"
  shows "\<exists>r. guard_check rt (g_kind g) ctx (w_db w) = Inr r \<and> fst r \<noteq> REFUSE \<and> (v = PASS \<longrightarrow> fst r = PASS)"
proof -
  from assms(1) have "guard_loop rt ctx gs False False [] w = (Inr (v, cs), w')" by (simp add: run_guards_def)
  from guard_loop_returns [OF this] obtain rs where rs: "check_results rt ctx gs (w_db w) = Inr rs"
    "v = chain_verdict False False rs" by blast
  from rmap_mem(1) [OF rs(1) [unfolded check_results_def], of g] assms(3,4)
  obtain r where "r \<in> set rs" "guard_check rt (g_kind g) ctx (w_db w) = Inr r" by auto
  with rs(2) assms(2) show ?thesis
    by (cases "fst r") (auto simp: chain_verdict_def image_iff split: if_splits)
qed

lemma run_guards_db: "run_guards rt gs ctx w = (r, w') \<Longrightarrow> events_only (w_db w) (w_db w')"
  using evolvesD [OF evo_guard_loop] unfolding run_guards_def by (auto simp: evo.W_def)

end
