(* ===== verification/Decisions.thy ===== *)
theory Decisions
  imports Guards
begin

text \<open>
  \<open>record_decision\<close> as a whole: it is one transaction.  \<open>decision_written\<close> says what the
  tables hold after a decision is on record.
\<close>

text \<open>The intents after a decision: a new row for a proposal or a hold, a status for an
  approval or a reversal.\<close>

definition intents_written ::
    "decision \<Rightarrow> intent_draft option \<Rightarrow> pystr option \<Rightarrow> intent_row list \<Rightarrow> intent_row list \<Rightarrow> bool" where
  "intents_written d draft iid rs rs' \<longleftrightarrow>
     (case d of
        D_proposed \<Rightarrow> (\<exists>dr i amount now. draft = Some dr \<and> iid = Some i \<and> py_str_int (dr_amount dr) = Inr amount \<and>
          rs' = rs @ [draft_row i dr amount (dr_deadline dr) Proposed now])
      | D_held \<Rightarrow> (\<exists>dr i amount now. draft = Some dr \<and> iid = Some i \<and> py_str_int (dr_amount dr) = Inr amount \<and>
          rs' = rs @ [draft_row i dr amount (dr_deadline dr) Held now])
      | D_approved \<Rightarrow> rs' = map (\<lambda>r. if Some (in_id r) = iid then set_status Escrowed r else r) rs
      | D_reverted \<Rightarrow> rs' = map (\<lambda>r. if Some (in_id r) = iid then set_status Reverted r else r) rs
      | _ \<Rightarrow> rs' = rs)"

definition decision_written :: "decision \<Rightarrow> code list \<Rightarrow> pystr \<Rightarrow> intent_draft option \<Rightarrow> pystr option
    \<Rightarrow> pystr option \<Rightarrow> tables \<Rightarrow> tables \<Rightarrow> bool" where
  "decision_written d codes rhash draft iid detail t t' \<longleftrightarrow>
     (\<exists>row. t_decisions t' = t_decisions t @ [row] \<and> de_decision row = d \<and> de_codes row = codes \<and>
        de_request_hash row = rhash \<and> de_detail row = detail \<and> de_intent_id row = iid \<and>
        intents_written d draft iid (t_intents t) (t_intents t'))"

lemma ins_intent_Inr:
  "ins_intent r t = Inr u \<Longrightarrow> u = t\<lparr>t_intents := t_intents t @ [r]\<rparr>"
  and ins_decision_Inr: "ins_decision d t = Inr u \<Longrightarrow> u = t\<lparr>t_decisions := t_decisions t @ [d]\<rparr>"
  by (auto simp: ins_defs split: if_splits)

lemma decision_tx_written:
  assumes tx: "decision_tx d codes rhash draft intent_id detail did w = (Inr iid, w')"
    and args: "decision_args d draft intent_id = Inr ()"
  shows "decision_written d codes rhash draft iid detail (w_db w) (w_db w') \<and>
     (d \<noteq> D_proposed \<longrightarrow> d \<noteq> D_held \<longrightarrow> iid = intent_id)"
proof (cases "d = D_proposed \<or> d = D_held")
  case True
  with args obtain dr where dr: "draft = Some dr" by (auto simp: decision_args_def split: if_splits)
  obtain st where st: "d = D_proposed \<and> st = Proposed \<or> d = D_held \<and> st = Held" using True by blast
  from decision_tx_draft [OF tx [unfolded dr] st] obtain i amount now u row where
    f: "iid = Some i" "py_str_int (dr_amount dr) = Inr amount"
      "ins_intent (draft_row i dr amount (dr_deadline dr) st now) (w_db w) = Inr u"
      "ins_decision row u = Inr (w_db w')"
    and r: "de_decision row = d" "de_codes row = codes" "de_request_hash row = rhash"
      "de_intent_id row = Some i" "de_detail row = detail" by blast
  have db: "w_db w' = (w_db w)\<lparr>t_intents := t_intents (w_db w) @ [draft_row i dr amount (dr_deadline dr) st now],
      t_decisions := t_decisions (w_db w) @ [row]\<rparr>"
    using ins_intent_Inr [OF f(3)] ins_decision_Inr [OF f(4)] by simp
  show ?thesis
    using st True f(1,2) r dr db by (auto simp: decision_written_def intents_written_def)
next
  case False
  then have "d \<noteq> D_proposed" "d \<noteq> D_held" by auto
  from decision_tx_other [OF tx this] obtain t row where iid: "iid = intent_id"
    and ins: "ins_decision row t = Inr (w_db w')"
    and r: "de_decision row = d" "de_codes row = codes" "de_request_hash row = rhash"
      "de_intent_id row = intent_id" "de_detail row = detail"
    and t: "t = (if d = D_approved then upd_intents (\<lambda>r. Some (in_id r) = intent_id) (set_status Escrowed) (w_db w)
          else if d = D_reverted then upd_intents (\<lambda>r. Some (in_id r) = intent_id) (set_status Reverted) (w_db w)
          else w_db w)" by blast
  have db: "t_decisions (w_db w') = t_decisions (w_db w) @ [row]" "t_intents (w_db w') = t_intents t"
    using ins_decision_Inr [OF ins] unfolding t by simp_all
  show ?thesis
    using False iid r db t
    by (cases d) (auto simp: decision_written_def intents_written_def upd_intents_def)
qed

lemma decision_written_events:
  assumes "decision_written d codes rhash draft iid detail t t'" and "events_only t' u"
  shows "decision_written d codes rhash draft iid detail t u"
  using assms events_only_frame [OF assms(2)] by (simp add: decision_written_def)

text \<open>C7. Recording a decision is atomic, whatever the arguments, constraint failures, refused
  writes and raising subscribers: either it raises and neither a decision nor an intent is
  stored or changed, or exactly one decision row is appended and the intents change as that
  decision prescribes; in particular no intent is stored without its decision.\<close>

theorem record_decision_atomic:
  "case record_decision d codes rhash draft intent_id detail w of (r, w') \<Rightarrow>
     (\<exists>e. r = Inl e) \<and> t_decisions (w_db w') = t_decisions (w_db w) \<and> t_intents (w_db w') = t_intents (w_db w)
   \<or> (\<exists>iid. decision_written d codes rhash draft iid detail (w_db w) (w_db w') \<and>
        (case r of Inl _ \<Rightarrow> True | Inr out \<Rightarrow> do_intent_id out = iid))"
proof (cases "decision_args d draft intent_id")
  case (Inl e)
  then show ?thesis by (simp add: record_decision_def py_seq_def)
next
  case (Inr u)
  obtain did w1 where u: "ulid_new w = (Inr did, w1)" and db1: "w_db w1 = w_db w"
    using ulid_new_Inr by blast
  obtain r1 w2 where tx: "transaction (decision_tx d codes rhash draft intent_id detail did) w1 = (r1, w2)"
    by fastforce
  show ?thesis
  proof (cases r1)
    case (Inl e)
    from transaction_Inl [OF tx [unfolded Inl]] db1 have "w_db w2 = w_db w" by simp
    with Inl tx u \<open>decision_args d draft intent_id = Inr u\<close> show ?thesis
      by (simp add: record_decision_def py_seq_def py_bind_Inr [of ulid_new] py_bind_def [of "transaction m" for m])
  next
    case (Inr iid)
    with tx have "decision_tx d codes rhash draft intent_id detail did w1 = (Inr iid, w2)" by simp
    with \<open>decision_args d draft intent_id = Inr u\<close>
    have wr: "decision_written d codes rhash draft iid detail (w_db w) (w_db w2)"
      using decision_tx_written [of d codes rhash draft intent_id detail did w1 iid w2] db1 by simp
    let ?p = "[jkey ''decision_id'' (JStr did), jkey ''intent_id'' (json_opt iid),
                   jkey ''request_hash'' (JStr rhash), jkey ''codes'' (json_codes codes)]"
    obtain r3 w3 where em: "emit (decision_event d) ?p w2 = (r3, w3)" by fastforce
    have "events_only (w_db w2) (w_db w3)"
      using evolvesD [OF evo_emit em] by (simp add: evo.W_def)
    with wr have "decision_written d codes rhash draft iid detail (w_db w) (w_db w3)"
      by (rule decision_written_events)
    moreover have "record_decision d codes rhash draft intent_id detail w =
        (case r3 of Inl e \<Rightarrow> Inl e | Inr _ \<Rightarrow> Inr \<lparr>do_decision_id = did, do_intent_id = iid\<rparr>, w3)"
      using \<open>decision_args d draft intent_id = Inr u\<close> u tx Inr em
      by (simp add: record_decision_def py_seq_def py_bind_Inr [of ulid_new]
          py_bind_Inr [of "transaction m" for m] py_bind_def [of "emit n p" for n p] split: sum.split)
    ultimately show ?thesis by (auto split: sum.splits)
  qed
qed

lemma record_decision_written:
  assumes "record_decision d codes rhash draft intent_id detail w = (Inr out, w')"
  shows "decision_written d codes rhash draft (do_intent_id out) detail (w_db w) (w_db w')"
proof -
  from record_decision_Inr [OF assms] obtain w1 w2 p where
    args: "decision_args d draft intent_id = Inr ()" and db1: "w_db w1 = w_db w" and
    tx: "decision_tx d codes rhash draft intent_id detail (do_decision_id out) w1 = (Inr (do_intent_id out), w2)" and
    em: "emit (decision_event d) p w2 = (Inr (), w')" by blast
  have "events_only (w_db w2) (w_db w')"
    using evolvesD [OF evo_emit em] by (simp add: evo.W_def)
  with decision_tx_written [OF tx args] db1 show ?thesis by (auto intro: decision_written_events)
qed

lemma record_decision_same_intent:
  assumes "record_decision d codes rhash draft intent_id detail w = (Inr out, w')"
    and "d \<noteq> D_proposed" and "d \<noteq> D_held"
  shows "do_intent_id out = intent_id"
  using record_decision_Inr [OF assms(1)] decision_tx_written assms(2,3) by blast

end
