(* ===== verification/Pipeline.thy ===== *)
theory Pipeline
  imports Decisions
begin

text \<open>
  \<open>lumo/pipeline.py\<close>: \<open>run\<close> takes an invoice through extraction, the registry, the guard
  chain and \<open>record_decision\<close>.  The extractor (\<open>provider.extract\<close>, a language model) is
  the argument \<open>provider\<close>, about which nothing is assumed.  \<open>prepare\<close> is \<open>run\<close> up to the
  call of \<open>run_guards\<close>, \<open>conclude\<close> what follows it.
\<close>

type_synonym provider = "pystr \<Rightarrow> extracted_invoice result"

record prepared =
  pp_scan :: scan_result
  pp_extracted :: extracted_invoice
  pp_supplier :: "supplier option"
  pp_amount :: "int option"
  pp_rules :: "(pystr \<times> pystr) list"
  pp_deadline :: int
  pp_rhash :: pystr
  pp_context :: guard_context

text \<open>\<open>x or ""\<close> and the truth value of an optional text.\<close>

definition or_empty :: "pystr option \<Rightarrow> pystr" where
  "or_empty s = (case s of None \<Rightarrow> [] | Some x \<Rightarrow> x)"

definition scan_invoice :: "runtime \<Rightarrow> config \<Rightarrow> pystr \<Rightarrow> scan_result" where
  "scan_invoice rt c text =
     (if cf_injection_scan c then scan rt text
      else \<lparr>sc_flags = [], sc_text = text, sc_addresses = []\<rparr>)"

definition find_supplier :: "extracted_invoice \<Rightarrow> tables \<Rightarrow> supplier option" where
  "find_supplier x t =
     (if or_empty (x_supplier_name x) \<noteq> [] then supplier_by_name (or_empty (x_supplier_name x)) t
      else None)"

text \<open>The dict that is hashed; its values are evaluated in the order written.\<close>

definition intent_hash ::
    "runtime \<Rightarrow> (pystr \<times> pystr) list \<Rightarrow> pystr option \<Rightarrow> int option \<Rightarrow> pystr option \<Rightarrow> pystr result" where
  "intent_hash rt rls registry amount ref =
     rbind (dict_item rls ''sme_address'') (\<lambda>sme.
     rbind (dict_item rls ''token_address'') (\<lambda>token.
     rbind (py_str_int (case amount of None \<Rightarrow> 0 | Some n \<Rightarrow> n)) (\<lambda>amt.
     request_hash rt (JObj
       [jkey ''sme'' (JStr sme), jkey ''supplier'' (JStr (or_empty registry)),
        jkey ''token'' (JStr token), jkey ''amount'' (JStr amt),
        jkey ''invoice_ref'' (JStr (or_empty ref))]))))"

definition invoice_address ::
    "scan_result \<Rightarrow> pystr option \<Rightarrow> extracted_invoice \<Rightarrow> pystr option" where
  "invoice_address sc registry x =
     (case filter (\<lambda>a. Some a \<noteq> registry) (sc_addresses sc) of
        [] \<Rightarrow> x_payment_address x | a # _ \<Rightarrow> Some a)"

definition make_request ::
    "scan_result \<Rightarrow> extracted_invoice \<Rightarrow> pystr option \<Rightarrow> int option \<Rightarrow> pystr \<Rightarrow> payment_request" where
  "make_request sc x registry amount rhash = \<lparr>pr_supplier_name = x_supplier_name x,
     pr_registry_address = registry, pr_invoice_address = invoice_address sc registry x,
     pr_amount_stroops = amount, pr_request_hash = rhash, pr_injection_flags = sc_flags sc\<rparr>"

definition make_policy :: "runtime \<Rightarrow> (pystr \<times> pystr) list \<Rightarrow> ('s world, policy_context) py" where
  "make_policy rt rls =
     py_bind (py_lift (rbind (dict_item rls ''cap_per_tx'') (py_int_of_str rt))) (\<lambda>cap_tx.
     py_bind (py_lift (rbind (dict_item rls ''cap_daily'') (py_int_of_str rt))) (\<lambda>cap_day.
     py_bind (intents_today rt) (\<lambda>prior.
     py_bind (db_read known_request_hashes) (\<lambda>known.
     py_ret \<lparr>pc_cap_per_tx = cap_tx, pc_cap_daily = cap_day, pc_prior_intents = prior,
       pc_known_hashes = known\<rparr>))))"

definition make_context :: "payment_request \<Rightarrow> policy_context \<Rightarrow> pystr set \<Rightarrow> pystr option
    \<Rightarrow> (pystr \<times> pystr) list option \<Rightarrow> pystr \<Rightarrow> guard_context" where
  "make_context req pol addresses token receipt text = \<lparr>gc_stage = PROPOSE,
     gc_request = Some req, gc_policy = Some pol, gc_supplier_addresses = addresses,
     gc_cosign_token = token, gc_compute_receipt = receipt, gc_intent = None,
     gc_invoice_text = text\<rparr>"

definition prepare :: "runtime \<Rightarrow> pystr \<Rightarrow> provider \<Rightarrow> config \<Rightarrow> pystr option
    \<Rightarrow> (pystr \<times> pystr) list option \<Rightarrow> ('s world, prepared) py" where
  "prepare rt text provider c token receipt =
     (let sc = scan_invoice rt c text in
      py_bind (py_lift (provider text)) (\<lambda>x.
      py_bind (db_read (find_supplier x)) (\<lambda>supplier.
      let registry = map_option sp_address supplier; amount = to_stroops rt (x_amount x) in
      py_bind (db_read rules) (\<lambda>rls.
      py_bind read_clock (\<lambda>now.
      py_bind (py_lift (intent_hash rt rls registry amount (x_invoice_ref x))) (\<lambda>rhash.
      let req = make_request sc x registry amount rhash in
      py_bind (make_policy rt rls) (\<lambda>pol.
      py_bind (db_read supplier_addresses) (\<lambda>addresses.
      py_ret \<lparr>pp_scan = sc, pp_extracted = x, pp_supplier = supplier, pp_amount = amount,
        pp_rules = rls, pp_deadline = now div 1000 + cf_deadline_secs c, pp_rhash = rhash,
        pp_context = make_context req pol addresses token receipt (sc_text sc)\<rparr>))))))))"

text \<open>\<open>supplier["id"]\<close> of \<open>None\<close> raises \<open>TypeError\<close>; a draft without an amount fails
  validation.\<close>

definition make_draft :: "prepared \<Rightarrow> intent_draft result" where
  "make_draft p =
     (case pp_supplier p of None \<Rightarrow> Inl (TypeError ''NoneType object is not subscriptable'')
      | Some s \<Rightarrow> (case pp_amount p of None \<Rightarrow> Inl (OtherException ''ValidationError'')
          | Some n \<Rightarrow>
              rbind (dict_item (pp_rules p) ''token_address'') (\<lambda>token. Inr
                \<lparr>dr_supplier_id = sp_id s, dr_amount = n, dr_token = token,
                 dr_deadline = pp_deadline p, dr_invoice_ref = x_invoice_ref (pp_extracted p),
                 dr_request_hash = pp_rhash p\<rparr>)))"

definition make_plan :: "prepared \<Rightarrow> intent_draft \<Rightarrow> tx_plan result" where
  "make_plan p dr =
     rbind (dict_item (pp_rules p) ''sme_address'') (\<lambda>sme.
     rbind (py_str_int (dr_amount dr)) (\<lambda>amount.
     Inr \<lparr>tp_function = ''create_intent'', tp_args =
       \<lparr>ta_sme = sme, ta_supplier = or_empty (map_option sp_address (pp_supplier p)),
        ta_token = dr_token dr, ta_amount = amount, ta_request_hash = pp_rhash p,
        ta_deadline = pp_deadline p\<rparr>\<rparr>))"

definition result_of :: "verdict \<Rightarrow> code list \<Rightarrow> prepared \<Rightarrow> tx_plan option \<Rightarrow> pystr option \<Rightarrow> pipeline_result" where
  "result_of v codes p plan iid = \<lparr>res_decision = v, res_codes = codes,
     res_flags = sc_flags (pp_scan p), res_request_hash = pp_rhash p, res_tx_plan = plan,
     res_intent_id = iid\<rparr>"

definition conclude :: "prepared \<Rightarrow> guard_result \<Rightarrow> ('s world, pipeline_result) py" where
  "conclude p vc =
     (case vc of (verdict, codes) \<Rightarrow>
       if verdict = REFUSE then
         py_seq (record_decision D_refused codes (pp_rhash p) None None (x_invoice_ref (pp_extracted p)))
           (py_ret (result_of V_refused codes p None None))
       else py_bind (py_lift (make_draft p)) (\<lambda>draft.
         if verdict = HOLD then
           py_bind (record_decision D_held codes (pp_rhash p) (Some draft) None None) (\<lambda>out.
             py_ret (result_of V_held codes p None (do_intent_id out)))
         else py_bind (py_lift (make_plan p draft)) (\<lambda>plan.
           py_bind (record_decision D_proposed codes (pp_rhash p) (Some draft) None None) (\<lambda>out.
             py_ret (result_of V_proposed codes p (Some plan) (do_intent_id out))))))"

definition run :: "runtime \<Rightarrow> pystr \<Rightarrow> provider \<Rightarrow> config \<Rightarrow> pystr option
    \<Rightarrow> (pystr \<times> pystr) list option \<Rightarrow> ('s world, pipeline_result) py" where
  "run rt text provider c token receipt =
     py_bind (prepare rt text provider c token receipt) (\<lambda>p.
     py_bind (run_guards rt (propose_guards c) (pp_context p)) (conclude p))"

section \<open>Every run keeps the store's relations\<close>

context step_relation
begin

lemma W_announce: "evolves W (announce k res)"
  unfolding announce_def by (intro W_step)

lemma W_guard_loop: "evolves W (guard_loop rt ctx gs refused held codes)"
proof (induction gs arbitrary: refused held codes)
  case (Cons g gs)
  show ?case
  proof (cases "active (gc_stage ctx) g")
    case True
    then show ?thesis
      by (simp only: guard_loop.simps not_True_eq_False if_False)
        (intro W_step W_announce Cons.IH)
  qed (simp add: Cons.IH)
qed (simp add: wr.evo_pure)

lemma W_run_guards: "evolves W (run_guards rt gs ctx)"
  unfolding run_guards_def by (rule W_guard_loop)

lemma W_release_check: "evolves W (release_check rt c r)"
  unfolding release_check_def
  by (auto intro!: wr.evo_bind W_run_guards intro: wr.evo_pure split: prod.split)

lemma W_prepare: "evolves W (prepare rt text provider c token receipt)"
  unfolding prepare_def make_policy_def Let_def by (intro W_step)

lemma W_conclude: "evolves W (conclude p vc)"
proof (cases vc)
  case (Pair v codes)
  show ?thesis
    unfolding conclude_def Pair by (auto intro!: W_step)
qed

lemma W_run: "evolves W (run rt text provider c token receipt)"
  unfolding run_def by (intro wr.evo_bind W_prepare W_run_guards W_conclude)

end

end
