(* ===== verification/Pipeline_Safety.thy ===== *)
theory Pipeline_Safety
  imports Pipeline
begin

text \<open>
  What a decision of the pipeline means, whatever the extractor returned: the properties
  of \<open>Pipeline.run\<close>.
\<close>

lemma py_bind_returnsE:
  assumes "py_bind m f w = (Inr y, w'')"
  obtains x w' where "m w = (Inr x, w')" and "f x w' = (Inr y, w'')"
  using assms by (auto simp: py_bind_returns)

lemma make_policy_Inr:
  assumes "make_policy rt rls w = (Inr pol, w')"
  shows "w_db w' = w_db w \<and>
    rbind (dict_item rls ''cap_per_tx'') (py_int_of_str rt) = Inr (pc_cap_per_tx pol) \<and>
    rbind (dict_item rls ''cap_daily'') (py_int_of_str rt) = Inr (pc_cap_daily pol) \<and>
    intents_of_day rt (w_clock w (w_ticks w)) (w_db w) = Inr (pc_prior_intents pol) \<and>
    pc_known_hashes pol = known_request_hashes (w_db w)"
proof -
  from assms obtain cap_tx cap_day prior w1 where
    tx: "rbind (dict_item rls ''cap_per_tx'') (py_int_of_str rt) = Inr cap_tx" and
    day: "rbind (dict_item rls ''cap_daily'') (py_int_of_str rt) = Inr cap_day" and
    today: "intents_today rt w = (Inr prior, w1)" and
    pol: "w' = w1" "pol = \<lparr>pc_cap_per_tx = cap_tx, pc_cap_daily = cap_day,
      pc_prior_intents = prior, pc_known_hashes = known_request_hashes (w_db w1)\<rparr>"
    unfolding make_policy_def db_read_def
    by (elim py_bind_returnsE) (simp only: py_lift_apply py_gets_apply py_ret_apply prod.inject sum.inject, blast)
  from today have "w_db w1 = w_db w" "intents_of_day rt (w_clock w (w_ticks w)) (w_db w) = Inr prior"
    unfolding intents_today_def db_read_def
    by (auto simp: py_bind_returns read_clock_def)
  with tx day pol show ?thesis by auto
qed

text \<open>What \<open>prepare\<close> gathers.\<close>

lemma prepare_Inr:
  assumes "prepare rt text provider c token receipt w = (Inr p, w')"
  shows "w_db w' = w_db w \<and> pp_scan p = scan_invoice rt c text \<and>
    provider text = Inr (pp_extracted p) \<and>
    pp_supplier p = find_supplier (pp_extracted p) (w_db w) \<and>
    pp_amount p = to_stroops rt (x_amount (pp_extracted p)) \<and> pp_rules p = t_rules (w_db w) \<and>
    intent_hash rt (t_rules (w_db w)) (map_option sp_address (pp_supplier p)) (pp_amount p)
      (x_invoice_ref (pp_extracted p)) = Inr (pp_rhash p) \<and>
    (\<exists>pol. pp_context p = make_context
        (make_request (pp_scan p) (pp_extracted p) (map_option sp_address (pp_supplier p))
           (pp_amount p) (pp_rhash p))
        pol (supplier_addresses (w_db w)) token receipt (sc_text (pp_scan p)) \<and>
      rbind (dict_item (t_rules (w_db w)) ''cap_per_tx'') (py_int_of_str rt) = Inr (pc_cap_per_tx pol) \<and>
      rbind (dict_item (t_rules (w_db w)) ''cap_daily'') (py_int_of_str rt) = Inr (pc_cap_daily pol) \<and>
      intents_of_day rt (w_clock w (Suc (w_ticks w))) (w_db w) = Inr (pc_prior_intents pol) \<and>
      pc_known_hashes pol = known_request_hashes (w_db w)) \<and>
    pp_deadline p = w_clock w (w_ticks w) div 1000 + cf_deadline_secs c"
proof -
  from assms obtain x now w1 rhash pol w2 where
    x: "provider text = Inr x" and clk: "read_clock w = (Inr now, w1)" and
    hash: "intent_hash rt (rules (w_db w)) (map_option sp_address (find_supplier x (w_db w)))
      (to_stroops rt (x_amount x)) (x_invoice_ref x) = Inr rhash" and
    pol: "make_policy rt (rules (w_db w)) w1 = (Inr pol, w2)" and
    p: "w' = w2" "p = \<lparr>pp_scan = scan_invoice rt c text, pp_extracted = x,
        pp_supplier = find_supplier x (w_db w), pp_amount = to_stroops rt (x_amount x),
        pp_rules = rules (w_db w), pp_deadline = now div 1000 + cf_deadline_secs c, pp_rhash = rhash,
        pp_context = make_context
          (make_request (scan_invoice rt c text) x (map_option sp_address (find_supplier x (w_db w)))
            (to_stroops rt (x_amount x)) rhash) pol (supplier_addresses (w_db w2)) token receipt
          (sc_text (scan_invoice rt c text))\<rparr>"
    unfolding prepare_def Let_def db_read_def
    by (elim py_bind_returnsE)
      (simp only: py_lift_apply py_gets_apply py_ret_apply prod.inject sum.inject, blast)
  from clk have w1: "w_db w1 = w_db w" "w_clock w1 = w_clock w" "w_ticks w1 = Suc (w_ticks w)"
    "now = w_clock w (w_ticks w)"
    by (auto simp: read_clock_def)
  with make_policy_Inr [OF pol] have "w_db w2 = w_db w" by simp
  with make_policy_Inr [OF pol] w1 x hash p show ?thesis
    by (simp add: rules_def) blast
qed

text \<open>What \<open>conclude\<close> does with a verdict.\<close>

lemma conclude_Inr:
  assumes "conclude p (v, codes) w = (Inr res, w')"
  shows "(v = REFUSE \<and> res = result_of V_refused codes p None None \<and>
      (\<exists>out. record_decision D_refused codes (pp_rhash p) None None (x_invoice_ref (pp_extracted p)) w
         = (Inr out, w'))) \<or>
    (v = HOLD \<and> (\<exists>dr out. make_draft p = Inr dr \<and>
      res = result_of V_held codes p None (do_intent_id out) \<and>
      record_decision D_held codes (pp_rhash p) (Some dr) None None w = (Inr out, w'))) \<or>
    (v = PASS \<and> (\<exists>dr plan out. make_draft p = Inr dr \<and> make_plan p dr = Inr plan \<and>
      res = result_of V_proposed codes p (Some plan) (do_intent_id out) \<and>
      record_decision D_proposed codes (pp_rhash p) (Some dr) None None w = (Inr out, w')))"
proof (cases v)
  case REFUSE
  with assms show ?thesis by (auto simp: conclude_def py_seq_returns)
next
  case HOLD
  with assms show ?thesis by (auto simp: conclude_def elim!: py_bind_returnsE)
next
  case PASS
  with assms show ?thesis by (auto simp: conclude_def elim!: py_bind_returnsE)
qed

lemma run_Inr:
  assumes "run rt text provider c token receipt w = (Inr res, w')"
  obtains p w1 v codes w2 where "prepare rt text provider c token receipt w = (Inr p, w1)"
    and "run_guards rt (propose_guards c) (pp_context p) w1 = (Inr (v, codes), w2)"
    and "conclude p (v, codes) w2 = (Inr res, w')"
  using assms unfolding run_def by (auto elim!: py_bind_returnsE)

lemma result_of_decision [simp]: "res_decision (result_of v codes p plan iid) = v"
  and result_of_hash [simp]: "res_request_hash (result_of v codes p plan iid) = pp_rhash p"
  and result_of_codes [simp]: "res_codes (result_of v codes p plan iid) = codes"
  and result_of_plan [simp]: "res_tx_plan (result_of v codes p plan iid) = plan"
  and result_of_intent [simp]: "res_intent_id (result_of v codes p plan iid) = iid"
  by (simp_all add: result_of_def)

lemma make_draft_Inr:
  assumes "make_draft p = Inr dr"
  shows "\<exists>s n token. pp_supplier p = Some s \<and> pp_amount p = Some n \<and>
    dict_item (pp_rules p) ''token_address'' = Inr token \<and>
    dr = \<lparr>dr_supplier_id = sp_id s, dr_amount = n, dr_token = token, dr_deadline = pp_deadline p,
      dr_invoice_ref = x_invoice_ref (pp_extracted p), dr_request_hash = pp_rhash p\<rparr>"
  using assms by (auto simp: make_draft_def split: option.splits)

lemma find_supplier_Some:
  assumes "find_supplier x t = Some s"
  shows "s \<in> set (t_suppliers t) \<and> x_supplier_name x = Some (sp_name s)"
proof -
  from assms have "find (\<lambda>r. sp_name r = or_empty (x_supplier_name x)) (t_suppliers t) = Some s"
    and ne: "or_empty (x_supplier_name x) \<noteq> []"
    by (auto simp: find_supplier_def supplier_by_name_def split: if_splits)
  then have "s \<in> set (t_suppliers t)" "sp_name s = or_empty (x_supplier_name x)"
    by (auto dest: find_Some_mem)
  with ne show ?thesis by (auto simp: or_empty_def split: option.splits)
qed

text \<open>Guards of a run that did not end in a refusal.\<close>

lemma guard_passed:
  assumes "prepare rt text provider c token receipt w = (Inr p, w1)"
    and "run_guards rt (propose_guards c) (pp_context p) w1 = (Inr (v, codes), w2)"
    and "v \<noteq> REFUSE" and "\<lparr>g_kind = k, g_enabled = True\<rparr> \<in> set (propose_guards c)"
    and "guard_stage k = PROPOSE"
  shows "\<exists>r. guard_check rt k (pp_context p) (w_db w1) = Inr r \<and> fst r \<noteq> REFUSE \<and> (v = PASS \<longrightarrow> fst r = PASS)"
proof -
  have "gc_stage (pp_context p) = PROPOSE"
    using prepare_Inr [OF assms(1)] by (auto simp: make_context_def)
  then show ?thesis
    using run_guards_member [OF assms(2,3,4)] assms(5) by (simp add: active_def)
qed

lemma propose_guards_mem:
  "\<lparr>g_kind = AmountCrossCheckGuard, g_enabled = True\<rparr> \<in> set (propose_guards c)"
  "cf_policy_engine c \<Longrightarrow> \<lparr>g_kind = PolicyEngineGuard, g_enabled = True\<rparr> \<in> set (propose_guards c)"
  "cf_policy_signer c \<Longrightarrow> \<lparr>g_kind = PolicySignerGuard, g_enabled = True\<rparr> \<in> set (propose_guards c)"
  "cf_injection_scan c \<Longrightarrow> \<lparr>g_kind = InjectionGuard, g_enabled = True\<rparr> \<in> set (propose_guards c)"
  "cf_proof_of_compute c \<Longrightarrow> \<lparr>g_kind = ProofOfComputeGuard, g_enabled = True\<rparr> \<in> set (propose_guards c)"
  "0 < cf_human_cosign_threshold c \<Longrightarrow>
     \<lparr>g_kind = HumanCosignGuard (cf_human_cosign_threshold c), g_enabled = True\<rparr> \<in> set (propose_guards c)"
  by (simp_all add: propose_guards_def build_guards_def)

lemma make_context_sel [simp]:
  "gc_request (make_context req pol ads tok rec txt) = Some req"
  "gc_policy (make_context req pol ads tok rec txt) = Some pol"
  "gc_supplier_addresses (make_context req pol ads tok rec txt) = ads"
  "gc_cosign_token (make_context req pol ads tok rec txt) = tok"
  "gc_compute_receipt (make_context req pol ads tok rec txt) = rec"
  "gc_invoice_text (make_context req pol ads tok rec txt) = txt"
  by (simp_all add: make_context_def)

lemma make_request_sel [simp]:
  "pr_amount_stroops (make_request sc x reg a h) = a"
  "pr_registry_address (make_request sc x reg a h) = reg"
  "pr_request_hash (make_request sc x reg a h) = h"
  "pr_injection_flags (make_request sc x reg a h) = sc_flags sc"
  "pr_invoice_address (make_request sc x reg a h) = invoice_address sc reg x"
  by (simp_all add: make_request_def)

text \<open>Everything known of a payment that was not refused.\<close>

lemma accepted_run:
  assumes "run rt text provider c token receipt w = (Inr res, w')"
    and "res_decision res \<noteq> V_refused"
  obtains x s n pol rhash where "provider text = Inr x"
    and "s \<in> set (t_suppliers (w_db w))" and "x_supplier_name x = Some (sp_name s)"
    and "to_stroops rt (x_amount x) = Some n" and "res_request_hash res = rhash"
    and "intent_hash rt (t_rules (w_db w)) (Some (sp_address s)) (Some n) (x_invoice_ref x) = Inr rhash"
    and "rbind (dict_item (t_rules (w_db w)) ''cap_per_tx'') (py_int_of_str rt) = Inr (pc_cap_per_tx pol)"
    and "rbind (dict_item (t_rules (w_db w)) ''cap_daily'') (py_int_of_str rt) = Inr (pc_cap_daily pol)"
    and "intents_of_day rt (w_clock w (Suc (w_ticks w))) (w_db w) = Inr (pc_prior_intents pol)"
    and "pc_known_hashes pol = known_request_hashes (w_db w)"
    and "\<And>k. \<lparr>g_kind = k, g_enabled = True\<rparr> \<in> set (propose_guards c) \<Longrightarrow> guard_stage k = PROPOSE \<Longrightarrow>
      \<exists>r. guard_check rt k (make_context (make_request (scan_invoice rt c text) x (Some (sp_address s)) (Some n) rhash)
            pol (supplier_addresses (w_db w)) token receipt (sc_text (scan_invoice rt c text))) (w_db w) = Inr r \<and>
          fst r \<noteq> REFUSE \<and> (res_decision res = V_proposed \<longrightarrow> fst r = PASS)"
proof -
  from assms(1) obtain p w1 v codes w2 where
    prep: "prepare rt text provider c token receipt w = (Inr p, w1)"
    and guards: "run_guards rt (propose_guards c) (pp_context p) w1 = (Inr (v, codes), w2)"
    and fin: "conclude p (v, codes) w2 = (Inr res, w')" by (rule run_Inr)
  from prepare_Inr [OF prep] obtain pol where db: "w_db w1 = w_db w"
    and sc: "pp_scan p = scan_invoice rt c text" and x: "provider text = Inr (pp_extracted p)"
    and sup: "pp_supplier p = find_supplier (pp_extracted p) (w_db w)"
    and amt: "pp_amount p = to_stroops rt (x_amount (pp_extracted p))"
    and h: "intent_hash rt (t_rules (w_db w)) (map_option sp_address (pp_supplier p)) (pp_amount p)
      (x_invoice_ref (pp_extracted p)) = Inr (pp_rhash p)"
    and ctx: "pp_context p = make_context
        (make_request (pp_scan p) (pp_extracted p) (map_option sp_address (pp_supplier p))
           (pp_amount p) (pp_rhash p))
        pol (supplier_addresses (w_db w)) token receipt (sc_text (pp_scan p))"
    and tx: "rbind (dict_item (t_rules (w_db w)) ''cap_per_tx'') (py_int_of_str rt) = Inr (pc_cap_per_tx pol)"
    and day: "rbind (dict_item (t_rules (w_db w)) ''cap_daily'') (py_int_of_str rt) = Inr (pc_cap_daily pol)"
    and prior: "intents_of_day rt (w_clock w (Suc (w_ticks w))) (w_db w) = Inr (pc_prior_intents pol)"
    and known: "pc_known_hashes pol = known_request_hashes (w_db w)" by blast
  from conclude_Inr [OF fin] assms(2) obtain dr where v: "v \<noteq> REFUSE" and dr: "make_draft p = Inr dr"
    and hash: "res_request_hash res = pp_rhash p" and pass: "res_decision res = V_proposed \<longrightarrow> v = PASS"
    by auto
  from make_draft_Inr [OF dr] obtain s n where s: "pp_supplier p = Some s" and n: "pp_amount p = Some n"
    by blast
  have sup': "s \<in> set (t_suppliers (w_db w)) \<and> x_supplier_name (pp_extracted p) = Some (sp_name s)"
    using find_supplier_Some [of "pp_extracted p" "w_db w" s] s sup by simp
  show thesis
  proof (rule that [of "pp_extracted p" s n "pp_rhash p" pol])
    fix k assume "\<lparr>g_kind = k, g_enabled = True\<rparr> \<in> set (propose_guards c)" "guard_stage k = PROPOSE"
    from guard_passed [OF prep guards v this] pass
    show "\<exists>r. guard_check rt k (make_context (make_request (scan_invoice rt c text) (pp_extracted p)
            (Some (sp_address s)) (Some n) (pp_rhash p)) pol (supplier_addresses (w_db w)) token receipt
            (sc_text (scan_invoice rt c text))) (w_db w) = Inr r \<and>
          fst r \<noteq> REFUSE \<and> (res_decision res = V_proposed \<longrightarrow> fst r = PASS)"
      unfolding ctx db sc s n by auto
  qed (use x sup' amt n h s hash tx day prior known in simp_all)
qed

lemma accepted_guard:
  assumes "run rt text provider c token receipt w = (Inr res, w')"
    and "res_decision res \<noteq> V_refused"
    and "\<lparr>g_kind = k, g_enabled = True\<rparr> \<in> set (propose_guards c)" and "guard_stage k = PROPOSE"
  shows "\<exists>x n reg pol rhash ads r. provider text = Inr x \<and> to_stroops rt (x_amount x) = Some n \<and>
      guard_check rt k (make_context (make_request (scan_invoice rt c text) x reg (Some n) rhash)
            pol ads token receipt (sc_text (scan_invoice rt c text))) (w_db w) = Inr r \<and>
      fst r \<noteq> REFUSE \<and> (res_decision res = V_proposed \<longrightarrow> fst r = PASS)"
  by (rule accepted_run [OF assms(1,2)]) (use assms(3,4) in blast)

text \<open>The row an accepted payment is stored as, and the plan returned for a proposed one.\<close>

lemma accepted_stored:
  assumes "run rt text provider c token receipt w = (Inr res, w')"
    and "res_decision res \<noteq> V_refused"
  obtains x s n tok r where "provider text = Inr x" and "find_supplier x (w_db w) = Some s"
    and "to_stroops rt (x_amount x) = Some n" and "dict_item (t_rules (w_db w)) ''token_address'' = Inr tok"
    and "intent_hash rt (t_rules (w_db w)) (Some (sp_address s)) (Some n) (x_invoice_ref x) = Inr (res_request_hash res)"
    and "t_intents (w_db w') = t_intents (w_db w) @ [r]" and "res_intent_id res = Some (in_id r)"
    and "in_supplier_id r = sp_id s" and "in_amount r = int_text n" and "in_token r = tok"
    and "in_invoice_ref r = x_invoice_ref x" and "in_request_hash r = res_request_hash res"
    and "in_deadline r = w_clock w (w_ticks w) div 1000 + cf_deadline_secs c"
    and "in_status r = (if res_decision res = V_proposed then Proposed else Held)"
    and "case res_tx_plan res of None \<Rightarrow> res_decision res = V_held
      | Some plan \<Rightarrow> res_decision res = V_proposed \<and> ta_supplier (tp_args plan) = sp_address s \<and>
          ta_amount (tp_args plan) = int_text n \<and> ta_token (tp_args plan) = tok"
proof -
  from assms(1) obtain p w1 v codes w2 where
    prep: "prepare rt text provider c token receipt w = (Inr p, w1)"
    and guards: "run_guards rt (propose_guards c) (pp_context p) w1 = (Inr (v, codes), w2)"
    and fin: "conclude p (v, codes) w2 = (Inr res, w')" by (rule run_Inr)
  note pr = prepare_Inr [OF prep]
  have db: "w_db w1 = w_db w" using pr by blast
  note fr = events_only_frame [OF run_guards_db [OF guards], unfolded db]
  from conclude_Inr [OF fin] assms(2) obtain dr d st v' where dr: "make_draft p = Inr dr"
    and st: "d = D_proposed \<and> st = Proposed \<and> v' = V_proposed \<or> d = D_held \<and> st = Held \<and> v' = V_held"
    and res: "\<exists>plan out. res = result_of v' codes p plan (do_intent_id out) \<and>
      (case plan of None \<Rightarrow> v' = V_held | Some pl \<Rightarrow> v' = V_proposed \<and> make_plan p dr = Inr pl) \<and>
      record_decision d codes (pp_rhash p) (Some dr) None None w2 = (Inr out, w')"
    by (elim disjE conjE exE) (simp, fastforce+)
  from res obtain plan out where r: "res = result_of v' codes p plan (do_intent_id out)"
    and plan: "case plan of None \<Rightarrow> v' = V_held | Some pl \<Rightarrow> v' = V_proposed \<and> make_plan p dr = Inr pl"
    and rec: "record_decision d codes (pp_rhash p) (Some dr) None None w2 = (Inr out, w')" by blast
  from make_draft_Inr [OF dr] obtain s n tok where s: "pp_supplier p = Some s" and n: "pp_amount p = Some n"
    and tok: "dict_item (pp_rules p) ''token_address'' = Inr tok"
    and d: "dr = \<lparr>dr_supplier_id = sp_id s, dr_amount = n, dr_token = tok, dr_deadline = pp_deadline p,
      dr_invoice_ref = x_invoice_ref (pp_extracted p), dr_request_hash = pp_rhash p\<rparr>" by blast
  from record_decision_written [OF rec, unfolded decision_written_def intents_written_def] st
  obtain i amount now where i: "do_intent_id out = Some i" and am: "py_str_int (dr_amount dr) = Inr amount"
    and ints: "t_intents (w_db w') = t_intents (w_db w2) @ [draft_row i dr amount (dr_deadline dr) st now]"
    by auto
  have amount: "amount = int_text n" using py_str_int_text [OF am] by (simp add: d)
  show thesis
  proof (rule that [of "pp_extracted p" s n tok "draft_row i dr amount (dr_deadline dr) st now"])
    show "case res_tx_plan res of None \<Rightarrow> res_decision res = V_held
      | Some plan \<Rightarrow> res_decision res = V_proposed \<and> ta_supplier (tp_args plan) = sp_address s \<and>
          ta_amount (tp_args plan) = int_text n \<and> ta_token (tp_args plan) = tok"
      using plan am amount by (auto simp: r make_plan_def s or_empty_def d split: option.splits)
  qed (use pr s n tok st i ints amount fr in \<open>auto simp: r d draft_row_def\<close>)
qed

text \<open>What counts against the daily cap: the stored amounts of the payments of the clock's day that are
  proposed, escrowed or released.\<close>

definition stored_amount :: "runtime \<Rightarrow> intent_row \<Rightarrow> int" where
  "stored_amount rt r = (case py_int_of_str rt (in_amount r) of Inr n \<Rightarrow> n | Inl _ \<Rightarrow> 0)"

definition spent_on_day :: "runtime \<Rightarrow> int \<Rightarrow> intent_row list \<Rightarrow> int" where
  "spent_on_day rt now rs = sum_list (map (stored_amount rt) (filter (\<lambda>r.
     in_created_at r div 86400000 = now div 86400000 \<and> in_status r \<in> {Proposed, Escrowed, Released}) rs))"

lemma committed_spent: "intents_of_day rt now t = Inr prior \<Longrightarrow> committed prior = spent_on_day rt now (t_intents t)"
proof -
  have "rmap (\<lambda>r. rbind (py_int_of_str rt (in_amount r)) (\<lambda>n. Inr \<lparr>pi_amount = n, pi_status = in_status r\<rparr>))
      (filter (\<lambda>r. day_of (in_created_at r) = day_of now) rs) = Inr prior \<Longrightarrow>
    committed prior = spent_on_day rt now rs" for rs
  proof (induction rs arbitrary: prior)
    case (Cons r rs)
    then show ?case
      by (auto simp: spent_on_day_def committed_def counted_status_def day_of_def stored_amount_def
          rbind_eq_Inr split: if_splits)
  qed (simp add: spent_on_day_def committed_def)
  then show "intents_of_day rt now t = Inr prior \<Longrightarrow> committed prior = spent_on_day rt now (t_intents t)"
    by (simp add: intents_of_day_def)
qed

lemma amounts_of_day:
  assumes "intents_of_day rt now t = Inr prior" and "r \<in> set (t_intents t)"
    and "in_created_at r div 86400000 = now div 86400000"
  shows "py_int_of_str rt (in_amount r) = Inr (stored_amount rt r)"
proof -
  from rmap_mem(1) [OF assms(1) [unfolded intents_of_day_def], of r] assms(2,3)
  obtain q where "rbind (py_int_of_str rt (in_amount r)) (\<lambda>n. Inr \<lparr>pi_amount = n, pi_status = in_status r\<rparr>) = Inr q"
    by (auto simp: day_of_def)
  then show ?thesis by (auto simp: rbind_eq_Inr stored_amount_def)
qed

section \<open>Properties\<close>

text \<open>C1. Whatever the extractor returns and whatever guards are configured: a payment that is
  proposed or held is stored, as one new row, to a supplier registered under the extracted name, and
  the amount of the row is the extracted amount as a whole number of stroops, one the cross-check
  found in the text of the invoice.  Its token, reference, hash and deadline are the rules', the
  extraction's, the result's and the clock's, and the plan returned for a proposal pays that amount
  in that token to the registered address.\<close>

theorem run_accepts_registered:
  assumes "run rt text provider c token receipt w = (Inr res, w')"
    and "res_decision res \<noteq> V_refused"
  shows "\<exists>x s n tok r. provider text = Inr x \<and> s \<in> set (t_suppliers (w_db w)) \<and>
     x_supplier_name x = Some (sp_name s) \<and> to_stroops rt (x_amount x) = Some n \<and>
     amount_matches_text rt n (sc_text (scan_invoice rt c text)) = Inr True \<and>
     dict_item (t_rules (w_db w)) ''token_address'' = Inr tok \<and>
     intent_hash rt (t_rules (w_db w)) (Some (sp_address s)) (Some n) (x_invoice_ref x) = Inr (res_request_hash res) \<and>
     t_intents (w_db w') = t_intents (w_db w) @ [r] \<and> res_intent_id res = Some (in_id r) \<and>
     in_supplier_id r = sp_id s \<and> in_amount r = int_text n \<and> in_token r = tok \<and>
     in_invoice_ref r = x_invoice_ref x \<and> in_request_hash r = res_request_hash res \<and>
     in_deadline r = w_clock w (w_ticks w) div 1000 + cf_deadline_secs c \<and>
     in_status r = (if res_decision res = V_proposed then Proposed else Held) \<and>
     (case res_tx_plan res of None \<Rightarrow> res_decision res = V_held
      | Some plan \<Rightarrow> res_decision res = V_proposed \<and> ta_supplier (tp_args plan) = sp_address s \<and>
          ta_amount (tp_args plan) = int_text n \<and> ta_token (tp_args plan) = tok)"
proof -
  from accepted_guard [OF assms propose_guards_mem(1)] obtain x n reg pol rhash ads q where
    x: "provider text = Inr x" "to_stroops rt (x_amount x) = Some n"
    and g: "guard_check rt AmountCrossCheckGuard (make_context (make_request (scan_invoice rt c text) x reg (Some n) rhash)
            pol ads token receipt (sc_text (scan_invoice rt c text))) (w_db w) = Inr q" "fst q \<noteq> REFUSE"
    by auto
  from g have m: "amount_matches_text rt n (sc_text (scan_invoice rt c text)) = Inr True"
    by (auto simp: guard_check_def need_def amount_check_def split: if_splits)
  show ?thesis
    by (rule accepted_stored [OF assms]) (use m x find_supplier_Some in fastforce)
qed

text \<open>C2. With the policy engine on, a proposed or held payment is within policy: no injection
  flag was raised, it is not a repetition, no address on the invoice differs from the
  registered one, and its amount is positive, at most the cap per transaction and, on top of
  the amounts of all payments that are proposed, escrowed or released and were created on the day the
  clock showed, at most the daily cap.\<close>

theorem run_within_policy:
  assumes "run rt text provider c token receipt w = (Inr res, w')"
    and "res_decision res \<noteq> V_refused" and "cf_policy_engine c"
  shows "\<exists>x s n cap_tx cap_day. provider text = Inr x \<and> s \<in> set (t_suppliers (w_db w)) \<and>
     x_supplier_name x = Some (sp_name s) \<and> to_stroops rt (x_amount x) = Some n \<and>
     rbind (dict_item (t_rules (w_db w)) ''cap_per_tx'') (py_int_of_str rt) = Inr cap_tx \<and>
     rbind (dict_item (t_rules (w_db w)) ''cap_daily'') (py_int_of_str rt) = Inr cap_day \<and>
     0 < n \<and> n \<le> cap_tx \<and>
     (\<forall>r \<in> set (t_intents (w_db w)).
        in_created_at r div 86400000 = w_clock w (Suc (w_ticks w)) div 86400000 \<longrightarrow>
        py_int_of_str rt (in_amount r) = Inr (stored_amount rt r)) \<and>
     spent_on_day rt (w_clock w (Suc (w_ticks w))) (t_intents (w_db w)) + n \<le> cap_day \<and>
     sc_flags (scan_invoice rt c text) = [] \<and>
     (\<forall>a \<in> set (sc_addresses (scan_invoice rt c text)). a = sp_address s) \<and>
     (sc_addresses (scan_invoice rt c text) = [] \<longrightarrow>
        x_payment_address x = None \<or> x_payment_address x = Some (sp_address s)) \<and>
     res_request_hash res \<notin> known_request_hashes (w_db w)"
proof -
  from accepted_run [OF assms(1,2)] obtain x s n pol rhash where f: "provider text = Inr x"
    "s \<in> set (t_suppliers (w_db w))" "x_supplier_name x = Some (sp_name s)"
    "to_stroops rt (x_amount x) = Some n"
    "rbind (dict_item (t_rules (w_db w)) ''cap_per_tx'') (py_int_of_str rt) = Inr (pc_cap_per_tx pol)"
    "rbind (dict_item (t_rules (w_db w)) ''cap_daily'') (py_int_of_str rt) = Inr (pc_cap_daily pol)"
    and day: "intents_of_day rt (w_clock w (Suc (w_ticks w))) (w_db w) = Inr (pc_prior_intents pol)"
    and k: "pc_known_hashes pol = known_request_hashes (w_db w)" "res_request_hash res = rhash"
    and g: "\<And>k. \<lparr>g_kind = k, g_enabled = True\<rparr> \<in> set (propose_guards c) \<Longrightarrow> guard_stage k = PROPOSE \<Longrightarrow>
      \<exists>r. guard_check rt k (make_context (make_request (scan_invoice rt c text) x (Some (sp_address s)) (Some n) rhash)
            pol (supplier_addresses (w_db w)) token receipt (sc_text (scan_invoice rt c text))) (w_db w) = Inr r \<and>
          fst r \<noteq> REFUSE \<and> (res_decision res = V_proposed \<longrightarrow> fst r = PASS)"
    by metis
  from g [OF propose_guards_mem(2) [OF assms(3)]]
  have "within_policy (make_request (scan_invoice rt c text) x (Some (sp_address s)) (Some n) rhash) pol"
    by (auto simp: guard_check_def need_def policy_check_def Let_def evaluate_allowed_iff split: if_splits)
  then have p: "sc_flags (scan_invoice rt c text) = []" "rhash \<notin> pc_known_hashes pol"
    "0 < n" "n \<le> pc_cap_per_tx pol" 
    "spent_on_day rt (w_clock w (Suc (w_ticks w))) (t_intents (w_db w)) + n \<le> pc_cap_daily pol"
    and a: "invoice_address (scan_invoice rt c text) (Some (sp_address s)) x = None \<or>
      invoice_address (scan_invoice rt c text) (Some (sp_address s)) x = Some (sp_address s)"
    by (auto simp: within_policy_def committed_spent [OF day])
  let ?foreign = "filter (\<lambda>a. Some a \<noteq> Some (sp_address s)) (sc_addresses (scan_invoice rt c text))"
  have nf: "?foreign = []"
  proof (cases ?foreign)
    case (Cons b bs)
    have "b \<in> set ?foreign" unfolding Cons by simp
    then have "b \<noteq> sp_address s" by simp
    with Cons a show ?thesis by (simp add: invoice_address_def)
  qed
  then have all: "\<forall>a \<in> set (sc_addresses (scan_invoice rt c text)). a = sp_address s"
    by (auto simp: filter_empty_conv)
  from nf a have pay: "x_payment_address x = None \<or> x_payment_address x = Some (sp_address s)"
    by (simp add: invoice_address_def)
  show ?thesis using f k p all pay amounts_of_day [OF day] by blast
qed

text \<open>C9. With a cosign threshold, an amount above it is proposed only with a cosign token; without
  one it is held or refused.\<close>

theorem run_cosign:
  assumes "run rt text provider c token receipt w = (Inr res, w')"
    and "res_decision res = V_proposed" and "0 < cf_human_cosign_threshold c"
  shows "\<exists>x n. provider text = Inr x \<and> to_stroops rt (x_amount x) = Some n \<and>
     (n \<le> cf_human_cosign_threshold c \<or> token_present token)"
proof -
  have "res_decision res \<noteq> V_refused" using assms(2) by simp
  from accepted_guard [OF assms(1) this propose_guards_mem(6) [OF assms(3)]] assms(2)
  obtain x n reg pol rhash ads r where f: "provider text = Inr x" "to_stroops rt (x_amount x) = Some n"
    and g: "guard_check rt (HumanCosignGuard (cf_human_cosign_threshold c))
        (make_context (make_request (scan_invoice rt c text) x reg (Some n) rhash)
           pol ads token receipt (sc_text (scan_invoice rt c text))) (w_db w) = Inr r" "fst r = PASS"
    by auto
  from g have "n \<le> cf_human_cosign_threshold c \<or> token_present token"
    by (auto simp: guard_check_def need_def cosign_check_def split: if_splits)
  with f show ?thesis by blast
qed

text \<open>C8. With the injection scan on, a text on which the scanner raises any flag is never proposed
  or held, whatever the extractor and the other guards.\<close>

theorem run_flagged_refused:
  assumes "run rt text provider c token receipt w = (Inr res, w')"
    and "cf_injection_scan c" and "sc_flags (scan rt text) \<noteq> []"
  shows "res_decision res = V_refused"
proof (rule ccontr)
  assume nr: "res_decision res \<noteq> V_refused"
  from accepted_guard [OF assms(1) nr propose_guards_mem(4) [OF assms(2)]]
  obtain x n reg pol rhash ads r where
    "guard_check rt InjectionGuard (make_context (make_request (scan_invoice rt c text) x reg (Some n) rhash)
        pol ads token receipt (sc_text (scan_invoice rt c text))) (w_db w) = Inr r" "fst r \<noteq> REFUSE"
    by auto
  then show False
    using assms(2,3) by (auto simp: guard_check_def need_def injection_check_def scan_invoice_def)
qed

text \<open>C6. A proposal is stored exactly once and the transaction plan that is returned is the stored
  row: one intent in status \<open>proposed\<close> and one decision row are appended, the plan's amount,
  token, hash and deadline are the row's, and it pays the registered address of the row's
  supplier.\<close>

theorem run_proposed_stored:
  assumes "run rt text provider c token receipt w = (Inr res, w')"
    and "res_decision res = V_proposed"
  shows "\<exists>r d plan s. t_intents (w_db w') = t_intents (w_db w) @ [r] \<and>
     t_decisions (w_db w') = t_decisions (w_db w) @ [d] \<and>
     res_intent_id res = Some (in_id r) \<and> in_status r = Proposed \<and> in_chain_id r = None \<and>
     in_request_hash r = res_request_hash res \<and>
     de_decision d = D_proposed \<and> de_intent_id d = Some (in_id r) \<and> de_codes d = res_codes res \<and>
     s \<in> set (t_suppliers (w_db w)) \<and> sp_id s = in_supplier_id r \<and>
     res_tx_plan res = Some plan \<and> ta_supplier (tp_args plan) = sp_address s \<and>
     ta_amount (tp_args plan) = in_amount r \<and> ta_token (tp_args plan) = in_token r \<and>
     ta_request_hash (tp_args plan) = in_request_hash r \<and> ta_deadline (tp_args plan) = in_deadline r"
proof -
  from assms(1) obtain p w1 v codes w2 where
    prep: "prepare rt text provider c token receipt w = (Inr p, w1)"
    and guards: "run_guards rt (propose_guards c) (pp_context p) w1 = (Inr (v, codes), w2)"
    and fin: "conclude p (v, codes) w2 = (Inr res, w')" by (rule run_Inr)
  from conclude_Inr [OF fin] assms(2) obtain dr plan out where dr: "make_draft p = Inr dr"
    and plan: "make_plan p dr = Inr plan"
    and res: "res = result_of V_proposed codes p (Some plan) (do_intent_id out)"
    and rec: "record_decision D_proposed codes (pp_rhash p) (Some dr) None None w2 = (Inr out, w')"
    by auto
  have db: "w_db w1 = w_db w" and sup: "pp_supplier p = find_supplier (pp_extracted p) (w_db w)"
    using prepare_Inr [OF prep] by auto
  note fr = events_only_frame [OF run_guards_db [OF guards], unfolded db]
  from make_draft_Inr [OF dr] obtain s n token' where s: "pp_supplier p = Some s"
    and d: "dr = \<lparr>dr_supplier_id = sp_id s, dr_amount = n, dr_token = token', dr_deadline = pp_deadline p,
      dr_invoice_ref = x_invoice_ref (pp_extracted p), dr_request_hash = pp_rhash p\<rparr>" by blast
  have mem: "s \<in> set (t_suppliers (w_db w))"
    using find_supplier_Some [of "pp_extracted p" "w_db w" s] s sup by simp
  from record_decision_written [OF rec, unfolded decision_written_def intents_written_def]
  obtain row i amount now where row: "t_decisions (w_db w') = t_decisions (w_db w2) @ [row]"
      "de_decision row = D_proposed" "de_codes row = codes" "de_intent_id row = do_intent_id out"
    and i: "do_intent_id out = Some i" and am: "py_str_int (dr_amount dr) = Inr amount"
    and ints: "t_intents (w_db w') = t_intents (w_db w2) @ [draft_row i dr amount (dr_deadline dr) Proposed now]"
    by auto
  from plan am have pl: "ta_supplier (tp_args plan) = sp_address s" "ta_amount (tp_args plan) = amount"
    "ta_token (tp_args plan) = dr_token dr" "ta_request_hash (tp_args plan) = pp_rhash p"
    "ta_deadline (tp_args plan) = pp_deadline p"
    by (auto simp: make_plan_def s or_empty_def)
  let ?r = "draft_row i dr amount (dr_deadline dr) Proposed now"
  have "in_id ?r = i \<and> in_status ?r = Proposed \<and> in_chain_id ?r = None \<and> in_request_hash ?r = pp_rhash p \<and>
      in_supplier_id ?r = sp_id s \<and> in_amount ?r = amount \<and> in_token ?r = dr_token dr \<and>
      in_deadline ?r = pp_deadline p"
    by (simp add: draft_row_def d)
  then show ?thesis
    using row i ints fr pl mem res by (intro exI [of _ ?r] exI [of _ row] exI [of _ plan] exI [of _ s]) simp
qed

text \<open>C10. A refusal moves nothing: no intent is added or changed, the result carries neither plan nor
  intent, and exactly one decision row, with the reported codes and hash, is written.\<close>

theorem run_refused_inert:
  assumes "run rt text provider c token receipt w = (Inr res, w')"
    and "res_decision res = V_refused"
  shows "t_intents (w_db w') = t_intents (w_db w) \<and> res_tx_plan res = None \<and> res_intent_id res = None \<and>
     (\<exists>d. t_decisions (w_db w') = t_decisions (w_db w) @ [d] \<and> de_decision d = D_refused \<and>
        de_intent_id d = None \<and> de_codes d = res_codes res \<and> de_request_hash d = res_request_hash res)"
proof -
  from assms(1) obtain p w1 v codes w2 where
    prep: "prepare rt text provider c token receipt w = (Inr p, w1)"
    and guards: "run_guards rt (propose_guards c) (pp_context p) w1 = (Inr (v, codes), w2)"
    and fin: "conclude p (v, codes) w2 = (Inr res, w')" by (rule run_Inr)
  from conclude_Inr [OF fin] assms(2) obtain out where res: "res = result_of V_refused codes p None None"
    and rec: "record_decision D_refused codes (pp_rhash p) None None (x_invoice_ref (pp_extracted p)) w2 = (Inr out, w')"
    by auto
  have db: "w_db w1 = w_db w" using prepare_Inr [OF prep] by blast
  note fr = events_only_frame [OF run_guards_db [OF guards], unfolded db]
  have "do_intent_id out = None" by (rule record_decision_same_intent [OF rec]) simp_all
  with record_decision_written [OF rec, unfolded decision_written_def intents_written_def] res fr
  show ?thesis by auto
qed

end
