(* ===== verification/Demo.thy ===== *)
theory Demo
  imports Pipeline
begin

text \<open>
  A small store, extraction and configuration on which the properties are evaluated: one
  supplier \<open>A\<close> paid at \<open>G\<close>, caps of 9 and 20 USDC, a cosign threshold of 10 USDC, and an
  extractor that always answers 5 USDC for \<open>A\<close>.  The invoice \<open>5\<close> is proposed, the invoice
  \<open><tool>\<close> is refused.
\<close>

definition demo_tables :: tables where
  "demo_tables = empty_tables\<lparr>
     t_suppliers := [\<lparr>sp_id = asc ''1'', sp_name = asc ''A'', sp_address = asc ''G''\<rparr>],
     t_rules := [(asc ''sme_address'', asc ''S''), (asc ''token_address'', asc ''T''),
       (asc ''cap_per_tx'', asc ''90000000''), (asc ''cap_daily'', asc ''200000000'')]\<rparr>"

definition demo_world :: "tables \<Rightarrow> unit world" where
  "demo_world t = \<lparr>w_db = t, w_bus_enabled = False, w_recent = [], w_subscribers = [],
     w_subs = (), w_clock = (\<lambda>n. 0), w_ticks = 0, w_entropy = int,
     w_draws = 0, w_fault = (\<lambda>n. False), w_writes = 0\<rparr>"

definition demo_extraction :: extracted_invoice where
  "demo_extraction = empty_extraction\<lparr>x_supplier_name := Some (asc ''A''), x_amount := Some (asc ''5'')\<rparr>"

definition demo_provider :: provider where
  "demo_provider text = Inr demo_extraction"

definition demo_config :: config where
  "demo_config = default_config\<lparr>cf_human_cosign_threshold := 100000000\<rparr>"

definition demo_run :: "config \<Rightarrow> pystr \<Rightarrow> pipeline_result result \<times> unit world" where
  "demo_run c text = run plain_runtime text demo_provider c None None (demo_world demo_tables)"

definition decided :: "verdict \<Rightarrow> pipeline_result result \<Rightarrow> bool" where
  "decided v r = (case r of Inl _ \<Rightarrow> False | Inr res \<Rightarrow> res_decision res = v)"

lemma demo_proposed_decided: "decided V_proposed (fst (demo_run demo_config (asc ''5'')))"
  by code_simp

lemma demo_refused_decided: "decided V_refused (fst (demo_run demo_config (asc ''<tool>'')))"
  by code_simp

lemma decidedE:
  assumes "decided v (fst (demo_run c text))"
  shows "\<exists>res w'. run plain_runtime text demo_provider c None None (demo_world demo_tables) = (Inr res, w') \<and>
     res_decision res = v"
  using assms by (cases "demo_run c text") (auto simp: decided_def demo_run_def split: sum.splits)

lemmas demo_proposed = decidedE [OF demo_proposed_decided]
  and demo_refused = decidedE [OF demo_refused_decided]

end
