(* ===== verification/Pipeline_Examples.thy ===== *)
theory Pipeline_Examples
  imports Pipeline_Safety Demo
begin

text \<open>The properties of the pipeline applied to the runs of \<open>Demo\<close>.\<close>

theorem run_accepts_registered_witness:
  "\<exists>res w' r plan. run plain_runtime (asc ''5'') demo_provider demo_config None None (demo_world demo_tables)
      = (Inr res, w') \<and> t_intents (w_db w') = [r] \<and> in_supplier_id r = asc ''1'' \<and>
     in_amount r = int_text 50000000 \<and> in_status r = Proposed \<and> res_tx_plan res = Some plan \<and>
     ta_supplier (tp_args plan) = asc ''G'' \<and> ta_amount (tp_args plan) = int_text 50000000"
proof -
  from demo_proposed obtain res w' where
    r: "run plain_runtime (asc ''5'') demo_provider demo_config None None (demo_world demo_tables) = (Inr res, w')"
      "res_decision res = V_proposed" by blast
  from r(2) have nr: "res_decision res \<noteq> V_refused" by simp
  have n: "to_stroops plain_runtime (x_amount demo_extraction) = Some 50000000" by code_simp
  have t: "t_suppliers demo_tables = [\<lparr>sp_id = asc ''1'', sp_name = asc ''A'', sp_address = asc ''G''\<rparr>]"
    "t_intents demo_tables = []"
    by (simp_all add: demo_tables_def empty_tables_def)
  from run_accepts_registered [OF r(1) nr] r n t show ?thesis
    by (auto simp: demo_provider_def demo_world_def split: option.splits)
qed

theorem run_within_policy_witness:
  "\<exists>n. to_stroops plain_runtime (x_amount demo_extraction) = Some n \<and> 0 < n \<and>
     spent_on_day plain_runtime 0 (t_intents demo_tables) + n \<le> 200000000"
proof -
  from demo_proposed obtain res w' where
    r: "run plain_runtime (asc ''5'') demo_provider demo_config None None (demo_world demo_tables) = (Inr res, w')"
      "res_decision res = V_proposed" by blast
  from r(2) have "res_decision res \<noteq> V_refused" by simp
  moreover have "cf_policy_engine demo_config" by (simp add: demo_config_def default_config_def)
  moreover have "rbind (dict_item (t_rules demo_tables) ''cap_daily'') (py_int_of_str plain_runtime) = Inr 200000000"
    by code_simp
  ultimately show ?thesis
    using run_within_policy [OF r(1)] by (auto simp: demo_provider_def demo_world_def)
qed

theorem run_cosign_witness:
  "\<exists>n. to_stroops plain_runtime (x_amount demo_extraction) = Some n \<and> n \<le> 100000000"
proof -
  from demo_proposed obtain res w' where
    r: "run plain_runtime (asc ''5'') demo_provider demo_config None None (demo_world demo_tables) = (Inr res, w')"
      "res_decision res = V_proposed" by blast
  have "cf_human_cosign_threshold demo_config = 100000000" by (simp add: demo_config_def)
  with run_cosign [OF r] show ?thesis by (simp add: demo_provider_def token_present_def)
qed

theorem run_flagged_refused_witness:
  "\<exists>res w'. run plain_runtime (asc ''<tool>'') demo_provider demo_config None None (demo_world demo_tables)
      = (Inr res, w') \<and> res_decision res = V_refused"
proof -
  from demo_refused obtain res w' where
    r: "run plain_runtime (asc ''<tool>'') demo_provider demo_config None None (demo_world demo_tables) = (Inr res, w')"
    by blast
  have "cf_injection_scan demo_config" by (simp add: demo_config_def default_config_def)
  moreover have "sc_flags (scan plain_runtime (asc ''<tool>'')) \<noteq> []" by code_simp
  ultimately have "res_decision res = V_refused" by (rule run_flagged_refused [OF r])
  with r show ?thesis by blast
qed

theorem run_proposed_stored_witness:
  "\<exists>res w' r. run plain_runtime (asc ''5'') demo_provider demo_config None None (demo_world demo_tables)
      = (Inr res, w') \<and> t_intents (w_db w') = [r] \<and> in_status r = Proposed \<and> res_intent_id res = Some (in_id r)"
proof -
  from demo_proposed obtain res w' where
    r: "run plain_runtime (asc ''5'') demo_provider demo_config None None (demo_world demo_tables) = (Inr res, w')"
      "res_decision res = V_proposed" by blast
  from run_proposed_stored [OF r] r(1) show ?thesis
    by (auto simp: demo_world_def demo_tables_def empty_tables_def)
qed

theorem run_refused_inert_witness:
  "\<exists>res w' d. run plain_runtime (asc ''<tool>'') demo_provider demo_config None None (demo_world demo_tables)
      = (Inr res, w') \<and> t_intents (w_db w') = [] \<and> t_decisions (w_db w') = [d] \<and> de_decision d = D_refused"
proof -
  from demo_refused obtain res w' where
    r: "run plain_runtime (asc ''<tool>'') demo_provider demo_config None None (demo_world demo_tables) = (Inr res, w')"
      "res_decision res = V_refused" by blast
  from run_refused_inert [OF r] r(1) show ?thesis
    by (auto simp: demo_world_def demo_tables_def empty_tables_def)
qed

definition cosign_guard :: guard where
  "cosign_guard = \<lparr>g_kind = HumanCosignGuard 3, g_enabled = True\<rparr>"

definition cosign_context :: guard_context where
  "cosign_context = make_context
     (make_request \<lparr>sc_flags = [], sc_text = [], sc_addresses = []\<rparr> demo_extraction None (Some 5) [])
     \<lparr>pc_cap_per_tx = 0, pc_cap_daily = 0, pc_prior_intents = [], pc_known_hashes = {}\<rparr> {} None None []"

theorem run_guards_spec_witness:
  "\<exists>rs. check_results plain_runtime cosign_context [cosign_guard] demo_tables = Inr rs \<and>
     (\<exists>r \<in> set rs. fst r = HOLD) \<and> \<not> (\<exists>r \<in> set rs. fst r = REFUSE)"
proof -
  have "fst (run_guards plain_runtime [cosign_guard] cosign_context (demo_world demo_tables))
      = Inr (HOLD, [COSIGN_REQUIRED])" by code_simp
  then obtain w' where "run_guards plain_runtime [cosign_guard] cosign_context (demo_world demo_tables)
      = (Inr (HOLD, [COSIGN_REQUIRED]), w')" by (metis prod.collapse)
  from run_guards_spec [OF this] show ?thesis by (auto simp: demo_world_def)
qed

end
