(* ===== verification/Mock_LLM.thy ===== *)
theory Mock_LLM
  imports Injection Pipeline
begin

text \<open>
  \<open>lumo/llm/mock.py\<close>, the deterministic extractor used for demos and tests: line-anchored
  patterns for an honest extraction, and in mode \<open>compromised\<close> an extractor that obeys the
  attacker's text.  \<open>build_provider\<close> (\<open>lumo/cli.py\<close>) chooses it; the HTTP extractor of
  \<open>llama_server.py\<close> is the argument \<open>llama\<close> of \<open>build_provider\<close>, wrapped in its
  fail-closed handler.
\<close>

section \<open>Patterns\<close>

abbreviation "spaces \<equiv> many (one_of [CSpace])"
abbreviation "spaces1 \<equiv> many1 (one_of [CSpace])"

definition mock_amount_rx :: rx where
  "mock_amount_rx = amount_token_rx"

text \<open>\<open>^INVOICE\s+(\S+)\<close>\<close>

definition ref_rx :: rx where
  "ref_rx = rx_seq [LineStart, rx_lit ''INVOICE'', spaces1, Grp 1 (many1 (one_of [CNotSpace]))]"

text \<open>\<open>^From:\s*(.+?)\s*$\<close>\<close>

definition from_rx :: rx where
  "from_rx = rx_seq [LineStart, rx_lit ''From:'', spaces,
     Grp 1 (Rep (none_of [CR 10 10]) 1 None False), spaces, LineEnd]"

text \<open>\<open>^Payment address:\s*(G[A-Z2-7]{55})\s*$\<close>\<close>

definition address_rx :: rx where
  "address_rx = rx_seq [LineStart, rx_lit ''Payment address:'', spaces,
     Grp 1 stellar_address, spaces, LineEnd]"

text \<open>\<open>^Amount due:\s*(NUMBER)\s*([A-Z]{3,5})\s*$\<close>\<close>

definition due_rx :: rx where
  "due_rx = rx_seq [LineStart, rx_lit ''Amount due:'', spaces, Grp 1 mock_amount_rx, spaces,
     Grp 2 (Rep (one_of [CR 65 90]) 3 (Some 5) True), spaces, LineEnd]"

text \<open>\<open>(?:transfer|send|pay)\s+(NUMBER)\s*USDC\<close>\<close>

definition attacker_rx :: rx where
  "attacker_rx = rx_seq [rx_words [''transfer'', ''send'', ''pay''], spaces1,
     Grp 1 mock_amount_rx, spaces, rx_lit ''USDC'']"

section \<open>Extraction\<close>

definition group1 :: "runtime \<Rightarrow> rx \<Rightarrow> pystr \<Rightarrow> pystr option" where
  "group1 rt r text = map_option (\<lambda>m. m_group m 1) (rx_search rt False r text)"

definition honest_extract :: "runtime \<Rightarrow> pystr \<Rightarrow> extracted_invoice" where
  "honest_extract rt text =
     (let amount = rx_search rt False due_rx text in
      \<lparr>x_invoice_ref = group1 rt ref_rx text, x_supplier_name = group1 rt from_rx text,
       x_payment_address = group1 rt address_rx text,
       x_amount = map_option (\<lambda>m. py_remove 44 (m_group m 1)) amount,
       x_currency = map_option (\<lambda>m. m_group m 2) amount\<rparr>)"

definition obey_attacker :: "runtime \<Rightarrow> pystr \<Rightarrow> extracted_invoice \<Rightarrow> extracted_invoice" where
  "obey_attacker rt text x =
     (let addresses = rx_findall rt True stellar_address text;
          demanded = rx_search rt True attacker_rx text;
          x1 = (if addresses \<noteq> [] then x\<lparr>x_payment_address := Some (last addresses)\<rparr> else x)
      in case demanded of None \<Rightarrow> x1
         | Some m \<Rightarrow> x1\<lparr>x_amount := Some (py_remove 44 (m_group m 1))\<rparr>)"

definition mock_extract :: "runtime \<Rightarrow> pystr \<Rightarrow> provider" where
  "mock_extract rt mode text =
     (let x = honest_extract rt text
      in Inr (if mode = asc ''compromised'' then obey_attacker rt text x else x))"

text \<open>\<open>LlamaServerProvider.extract\<close>: the HTTP exchange and the decoding of its answer are the
  argument; the listed exceptions become an empty extraction, others propagate.\<close>

fun llama_caught :: "exn \<Rightarrow> bool" where
  "llama_caught (ValueError _) = True"
| "llama_caught (KeyError _) = True"
| "llama_caught UnicodeEncodeError = True"
| "llama_caught (OtherException n) \<longleftrightarrow> n \<in> {''HTTPError'', ''IndexError'', ''ValidationError''}"
| "llama_caught _ = False"

definition llama_extract :: "provider \<Rightarrow> provider" where
  "llama_extract exchange text =
     (case exchange text of Inr x \<Rightarrow> Inr x
      | Inl e \<Rightarrow> if llama_caught e then Inr empty_extraction else Inl e)"

definition build_provider :: "runtime \<Rightarrow> config \<Rightarrow> provider \<Rightarrow> provider result" where
  "build_provider rt c exchange =
     (if cf_provider c = asc ''mock'' then Inr (mock_extract rt (cf_mock_mode c))
      else if cf_provider c = asc ''llama'' then Inr (llama_extract exchange)
      else Inl (ValueError ''unknown provider''))"

end
