(* ===== verification/Chain.thy ===== *)
theory Chain
  imports Json
begin

text \<open>
  The chain side: the adapter protocol of \<open>lumo/chain/adapter.py\<close> as a record of functions
  on a chain state \<open>'c\<close>, the values it exchanges (\<open>InvokeResult\<close>, the enum shapes read by
  \<open>variant_of\<close>), the locale \<open>escrow_contract\<close> with what the payment flow relies on, and the
  escrow simulator \<open>MockChainAdapter\<close> of \<open>mock_chain.py\<close>, which satisfies it.
\<close>

section \<open>The adapter protocol\<close>

record invoke_result =
  ir_value :: json
  ir_tx_hash :: "pystr option"

record create_args =
  cr_sme :: pystr
  cr_supplier :: pystr
  cr_token :: pystr
  cr_amount :: int
  cr_request_hash :: pystr
  cr_deadline :: int
  cr_source :: "pystr option"

text \<open>\<open>attest\<close> takes the intent, the oracle, the kind and the source.  \<open>get_status\<close> returns
  a decoded value, \<open>JNull\<close> for \<open>None\<close>.\<close>

record 'c chain_adapter =
  ca_deploy :: "('c, pystr) py"
  ca_create_intent :: "create_args \<Rightarrow> ('c, invoke_result) py"
  ca_attest :: "int \<Rightarrow> pystr \<Rightarrow> pystr \<Rightarrow> pystr option \<Rightarrow> ('c, invoke_result) py"
  ca_release :: "int \<Rightarrow> pystr option \<Rightarrow> ('c, invoke_result) py"
  ca_refund :: "int \<Rightarrow> pystr option \<Rightarrow> ('c, invoke_result) py"
  ca_get_status :: "int \<Rightarrow> ('c, json) py"

definition variant_of :: "json \<Rightarrow> pystr result" where
  "variant_of v =
     (case v of JStr s \<Rightarrow> Inr s
      | JObj [(k, _)] \<Rightarrow> Inr k
      | _ \<Rightarrow> Inl (SorobanError ''unrecognized enum shape''))"

text \<open>\<open>encode_enum(variant)\<close> and \<open>encode_enum(variant, value)\<close>: what \<open>variant_of\<close> reads.\<close>

definition enum_json :: "pystr \<Rightarrow> json option \<Rightarrow> json" where
  "enum_json variant val = (case val of None \<Rightarrow> JStr variant | Some v \<Rightarrow> JObj [(variant, v)])"

lemma variant_of_enum: "variant_of (enum_json variant val) = Inr variant"
  by (simp add: variant_of_def enum_json_def split: option.split)

section \<open>What the payment flow relies on\<close>

text \<open>\<open>escrows\<close> lists the orders of the escrows created on the chain, without their source.  A
  \<open>create_intent\<close> that returns has created exactly one; one that raises
  \<open>ChainSubmittedUnconfirmed\<close> at most one; any other exception means that none was
  created.  The other calls create none.\<close>

locale escrow_contract =
  fixes cl :: "'c chain_adapter" and ok :: "'c \<Rightarrow> bool" and escrows :: "'c \<Rightarrow> create_args list"
  assumes create_ok: "ok s \<Longrightarrow> ca_create_intent cl a s = (r, s') \<Longrightarrow> ok s'"
    and create_returns:
      "ok s \<Longrightarrow> ca_create_intent cl a s = (Inr v, s') \<Longrightarrow> escrows s' = escrows s @ [a\<lparr>cr_source := None\<rparr>]"
    and create_unconfirmed:
      "ok s \<Longrightarrow> ca_create_intent cl a s = (Inl (ChainSubmittedUnconfirmed h), s') \<Longrightarrow>
         escrows s' = escrows s \<or> escrows s' = escrows s @ [a\<lparr>cr_source := None\<rparr>]"
    and create_raises:
      "ok s \<Longrightarrow> ca_create_intent cl a s = (Inl e, s') \<Longrightarrow> (\<And>h. e \<noteq> ChainSubmittedUnconfirmed h) \<Longrightarrow>
         escrows s' = escrows s"
    and others:
      "ok s \<Longrightarrow> ca_attest cl i ora k src s = (r, s') \<Longrightarrow> ok s' \<and> escrows s' = escrows s"
      "ok s \<Longrightarrow> ca_release cl i src s = (r, s') \<Longrightarrow> ok s' \<and> escrows s' = escrows s"
      "ok s \<Longrightarrow> ca_refund cl i src s = (r, s') \<Longrightarrow> ok s' \<and> escrows s' = escrows s"
      "ok s \<Longrightarrow> ca_get_status cl i s = (g, s') \<Longrightarrow> ok s' \<and> escrows s' = escrows s"

section \<open>The mock chain\<close>

datatype mock_status = Funded | M_Released | Refunded

record mock_intent =
  mi_sme :: pystr
  mi_supplier :: pystr
  mi_token :: pystr
  mi_amount :: int
  mi_request_hash :: pystr
  mi_deadline :: int
  mi_status :: mock_status
  mi_attestation :: "pystr option"

record mock_chain =
  mc_now :: int
  mc_contract_id :: "pystr option"
  mc_intents :: "(int \<times> mock_intent) list"
  mc_balances :: "((pystr \<times> pystr) \<times> int) list"
  mc_tx_count :: int

definition vault :: pystr where
  "vault = asc ''MOCK-ESCROW-VAULT''"

definition mock_new :: "int \<Rightarrow> mock_chain" where
  "mock_new now = \<lparr>mc_now = now, mc_contract_id = None, mc_intents = [], mc_balances = [],
     mc_tx_count = 0\<rparr>"

definition balance :: "mock_chain \<Rightarrow> pystr \<Rightarrow> pystr \<Rightarrow> int" where
  "balance s token address =
     (case map_of (mc_balances s) (token, address) of None \<Rightarrow> 0 | Some n \<Rightarrow> n)"

definition put_balance :: "pystr \<Rightarrow> pystr \<Rightarrow> int \<Rightarrow> mock_chain \<Rightarrow> mock_chain" where
  "put_balance token address n s = s\<lparr>mc_balances := dict_put (token, address) n (mc_balances s)\<rparr>"

text \<open>The counter starts at 0 and never nears the length limit of \<open>str\<close>.\<close>

definition mock_tx_hash :: "runtime \<Rightarrow> pystr \<Rightarrow> (mock_chain, pystr) py" where
  "mock_tx_hash rt action = (\<lambda>s.
     let s1 = s\<lparr>mc_tx_count := mc_tx_count s + 1\<rparr>
     in (rbind (utf8_encode (action @ [58] @ int_text (mc_tx_count s1)))
           (\<lambda>bs. Inr (rt_sha256 rt bs)), s1))"

definition fund :: "pystr \<Rightarrow> pystr \<Rightarrow> int \<Rightarrow> mock_chain \<Rightarrow> mock_chain" where
  "fund token address amount s = put_balance token address (balance s token address + amount) s"

text \<open>\<open>self.balances[(token, src)] -= amount\<close> raises \<open>KeyError\<close> when the account has no entry,
  which the balance check lets through for amounts of zero or less.\<close>

definition move_funds :: "pystr \<Rightarrow> pystr \<Rightarrow> pystr \<Rightarrow> int \<Rightarrow> (mock_chain, unit) py" where
  "move_funds token src dst amount = (\<lambda>s.
     if balance s token src < amount then (Inl (ChainError ''InsufficientBalance''), s)
     else case map_of (mc_balances s) (token, src) of
         None \<Rightarrow> (Inl (KeyError src), s)
       | Some b \<Rightarrow> (let s1 = put_balance token src (b - amount) s
                   in (Inr (), put_balance token dst (balance s1 token dst + amount) s1)))"

definition funded_intent :: "int \<Rightarrow> (mock_chain, mock_intent) py" where
  "funded_intent i = (\<lambda>s.
     case map_of (mc_intents s) i of
       None \<Rightarrow> (Inl (ChainError ''IntentNotFound''), s)
     | Some m \<Rightarrow> if mi_status m \<noteq> Funded then (Inl (ChainError ''NotFunded''), s) else (Inr m, s))"

definition put_intent :: "int \<Rightarrow> mock_intent \<Rightarrow> (mock_chain, unit) py" where
  "put_intent i m = py_modify (\<lambda>s. s\<lparr>mc_intents := dict_put i m (mc_intents s)\<rparr>)"

definition mock_deploy :: "runtime \<Rightarrow> (mock_chain, pystr) py" where
  "mock_deploy rt = (\<lambda>s.
     let cid = 67 # map (\<lambda>c. if is_ascii_lower c then c - 32 else c)
                   (take 31 (rt_sha256 rt (asc ''lumo-mock-escrow'')))
     in (Inr cid, s\<lparr>mc_contract_id := Some cid\<rparr>))"

definition mock_create_intent :: "runtime \<Rightarrow> create_args \<Rightarrow> (mock_chain, invoke_result) py" where
  "mock_create_intent rt a =
     py_seq (move_funds (cr_token a) (cr_sme a) vault (cr_amount a))
       (py_bind (py_gets (\<lambda>s. int (length (mc_intents s)) + 1)) (\<lambda>i.
        py_seq (put_intent i \<lparr>mi_sme = cr_sme a, mi_supplier = cr_supplier a, mi_token = cr_token a,
            mi_amount = cr_amount a, mi_request_hash = cr_request_hash a,
            mi_deadline = cr_deadline a, mi_status = Funded, mi_attestation = None\<rparr>)
          (py_bind (mock_tx_hash rt (asc ''create_intent'')) (\<lambda>h.
             py_ret \<lparr>ir_value = JInt i, ir_tx_hash = Some h\<rparr>))))"

definition mock_attest :: "runtime \<Rightarrow> int \<Rightarrow> pystr \<Rightarrow> pystr \<Rightarrow> pystr option \<Rightarrow> (mock_chain, invoke_result) py" where
  "mock_attest rt i oracle kind source =
     py_bind (funded_intent i) (\<lambda>m.
     py_seq (py_when (mi_attestation m = None) (put_intent i (m\<lparr>mi_attestation := Some kind\<rparr>)))
       (py_bind (mock_tx_hash rt (asc ''attest_'' @ kind)) (\<lambda>h.
          py_ret \<lparr>ir_value = JNull, ir_tx_hash = Some h\<rparr>)))"

definition mock_release :: "runtime \<Rightarrow> int \<Rightarrow> pystr option \<Rightarrow> (mock_chain, invoke_result) py" where
  "mock_release rt i source =
     py_bind (funded_intent i) (\<lambda>m.
       if mi_attestation m \<noteq> Some (asc ''Shipped'')
       then py_raise (ChainError ''NotShipped'')
       else py_seq (move_funds (mi_token m) vault (mi_supplier m) (mi_amount m))
         (py_seq (put_intent i (m\<lparr>mi_status := M_Released\<rparr>))
           (py_bind (mock_tx_hash rt (asc ''release'')) (\<lambda>h.
              py_ret \<lparr>ir_value = JNull, ir_tx_hash = Some h\<rparr>))))"

definition mock_refund :: "runtime \<Rightarrow> int \<Rightarrow> pystr option \<Rightarrow> (mock_chain, invoke_result) py" where
  "mock_refund rt i source =
     py_bind (funded_intent i) (\<lambda>m. py_bind (py_gets mc_now) (\<lambda>now.
       if mi_attestation m = Some (asc ''Shipped'')
       then py_raise (ChainError ''ShippedBeatsDeadline'')
       else if mi_attestation m \<noteq> Some (asc ''Failed'') \<and> now < mi_deadline m
       then py_raise (ChainError ''DeadlineNotReached'')
       else py_seq (move_funds (mi_token m) vault (mi_sme m) (mi_amount m))
         (py_seq (put_intent i (m\<lparr>mi_status := Refunded\<rparr>))
           (py_bind (mock_tx_hash rt (asc ''refund'')) (\<lambda>h.
              py_ret \<lparr>ir_value = JNull, ir_tx_hash = Some h\<rparr>)))))"

fun status_text :: "mock_status \<Rightarrow> pystr" where
  "status_text Funded = asc ''Funded''"
| "status_text M_Released = asc ''Released''"
| "status_text Refunded = asc ''Refunded''"

definition mock_get_status :: "int \<Rightarrow> (mock_chain, json) py" where
  "mock_get_status i = (\<lambda>s.
     case map_of (mc_intents s) i of None \<Rightarrow> (Inr JNull, s)
     | Some m \<Rightarrow> (rbind (py_str_int (mi_amount m)) (\<lambda>amount. Inr (JObj
         [jkey ''status'' (JStr (status_text (mi_status m))),
          jkey ''request_hash'' (JStr (mi_request_hash m)), jkey ''sme'' (JStr (mi_sme m)),
          jkey ''supplier'' (JStr (mi_supplier m)), jkey ''token'' (JStr (mi_token m)),
          jkey ''amount'' (JStr amount), jkey ''deadline'' (JInt (mi_deadline m))])), s))"

definition mock_adapter :: "runtime \<Rightarrow> mock_chain chain_adapter" where
  "mock_adapter rt = \<lparr>ca_deploy = mock_deploy rt, ca_create_intent = mock_create_intent rt,
     ca_attest = mock_attest rt, ca_release = mock_release rt, ca_refund = mock_refund rt,
     ca_get_status = mock_get_status\<rparr>"

section \<open>The mock chain satisfies the contract\<close>

text \<open>Intent ids are 1, 2, ... in insertion order.\<close>

definition mock_ok :: "mock_chain \<Rightarrow> bool" where
  "mock_ok s \<longleftrightarrow> map fst (mc_intents s) = map (\<lambda>k. int k + 1) [0 ..< length (mc_intents s)]"

definition order_of :: "mock_intent \<Rightarrow> create_args" where
  "order_of m = \<lparr>cr_sme = mi_sme m, cr_supplier = mi_supplier m, cr_token = mi_token m,
     cr_amount = mi_amount m, cr_request_hash = mi_request_hash m, cr_deadline = mi_deadline m,
     cr_source = None\<rparr>"

definition mock_escrows :: "mock_chain \<Rightarrow> create_args list" where
  "mock_escrows s = map (\<lambda>(i, m). order_of m) (mc_intents s)"

lemma dict_put_map:
  "map_of d k = Some v \<Longrightarrow> f (k, w) = f (k, v) \<Longrightarrow> map f (dict_put k w d) = map f d"
  by (induction d) (auto split: if_splits)

lemma mock_ok_fresh:
  assumes "mock_ok s"
  shows "int (length (mc_intents s)) + 1 \<notin> fst ` set (mc_intents s)"
proof -
  have "fst ` set (mc_intents s) = set (map fst (mc_intents s))" by simp
  also have "\<dots> = (\<lambda>k. int k + 1) ` {0 ..< length (mc_intents s)}"
    using assms unfolding mock_ok_def by simp
  finally show ?thesis by auto
qed

lemma move_funds_frame:
  "move_funds t a b n s = (r, s') \<Longrightarrow> mc_intents s' = mc_intents s \<and> mc_now s' = mc_now s"
  by (auto simp: move_funds_def put_balance_def Let_def split: if_splits option.splits)

lemma int_text_scalar [simp]: "list_all is_scalar (int_text n)"
proof -
  have "list_all is_scalar (nat_digits k)" for k
    using nat_digits_ascii [of k] by (auto simp: list_all_iff is_ascii_digit_def is_scalar_def)
  then show ?thesis by (simp add: int_text_def is_scalar_def)
qed

lemma mock_tx_hash_frame:
  "mock_tx_hash rt act s = (r, s') \<Longrightarrow> s' = s\<lparr>mc_tx_count := mc_tx_count s + 1\<rparr>"
  by (auto simp: mock_tx_hash_def Let_def)

lemma mock_tx_hash_Inr:
  "list_all is_scalar act \<Longrightarrow> \<exists>h. mock_tx_hash rt act s = (Inr h, s\<lparr>mc_tx_count := mc_tx_count s + 1\<rparr>)"
  by (simp add: mock_tx_hash_def Let_def utf8_encode_def) (simp add: is_scalar_def)

lemma actions_scalar [simp]:
  "list_all is_scalar (asc ''create_intent'')" "list_all is_scalar (asc ''release'')"
  "list_all is_scalar (asc ''refund'')" "list_all is_scalar (asc ''attest_'')"
  by (simp_all add: asc_def is_scalar_def)

text \<open>A mock \<open>create_intent\<close> either fails in the transfer, leaving the chain as it was, or
  returns the next id.\<close>

lemma mock_create_cases:
  assumes "mock_create_intent rt a s = (r, s')"
  shows "(\<exists>e. r = Inl e \<and> s' = s \<and> (\<exists>x. e = ChainError x \<or> e = KeyError (cr_sme a))) \<or>
    (\<exists>s1 h. move_funds (cr_token a) (cr_sme a) vault (cr_amount a) s = (Inr (), s1) \<and>
      r = Inr \<lparr>ir_value = JInt (int (length (mc_intents s)) + 1), ir_tx_hash = Some h\<rparr> \<and>
      s' = s1\<lparr>mc_intents := dict_put (int (length (mc_intents s)) + 1)
           \<lparr>mi_sme = cr_sme a, mi_supplier = cr_supplier a, mi_token = cr_token a,
            mi_amount = cr_amount a, mi_request_hash = cr_request_hash a,
            mi_deadline = cr_deadline a, mi_status = Funded, mi_attestation = None\<rparr> (mc_intents s),
         mc_tx_count := mc_tx_count s1 + 1\<rparr>)"
proof (cases "move_funds (cr_token a) (cr_sme a) vault (cr_amount a) s")
  case (Pair m s1)
  show ?thesis
  proof (cases m)
    case (Inl e)
    with Pair assms show ?thesis
      by (auto simp: mock_create_intent_def py_seq_def py_bind_Inl move_funds_def Let_def split: if_splits option.splits prod.splits)
  next
    case (Inr u)
    have fr: "mc_intents s1 = mc_intents s" using move_funds_frame [OF Pair] by simp
    obtain h where h: "mock_tx_hash rt (asc ''create_intent'') t = (Inr (h t), t\<lparr>mc_tx_count := mc_tx_count t + 1\<rparr>)" for t
      using mock_tx_hash_Inr [OF actions_scalar(1), of rt] by metis
    show ?thesis
      using assms Pair Inr fr
      by (intro disjI2)
        (auto simp: mock_create_intent_def py_seq_def py_bind_Inr [of "move_funds t x y n" for t x y n]
          put_intent_def py_bind_Inr [OF h])
  qed
qed

lemma funded_intent_Inr:
  "funded_intent i s = (Inr m, s') \<longleftrightarrow> map_of (mc_intents s) i = Some m \<and> mi_status m = Funded \<and> s' = s"
  by (auto simp: funded_intent_def split: option.splits if_splits)

lemma funded_intent_Inl: "funded_intent i s = (Inl e, s') \<Longrightarrow> s' = s"
  by (auto simp: funded_intent_def split: option.splits if_splits)

text \<open>The other calls rewrite at most the row of their intent, keeping its terms.\<close>

definition same_escrow :: "mock_intent \<Rightarrow> mock_intent \<Rightarrow> bool" where
  "same_escrow m m' \<longleftrightarrow> mi_request_hash m' = mi_request_hash m \<and> mi_sme m' = mi_sme m \<and>
     mi_supplier m' = mi_supplier m \<and> mi_token m' = mi_token m \<and> mi_amount m' = mi_amount m \<and>
     mi_deadline m' = mi_deadline m"

definition row_update :: "mock_chain \<Rightarrow> mock_chain \<Rightarrow> bool" where
  "row_update s s' \<longleftrightarrow> mc_intents s' = mc_intents s \<or>
     (\<exists>i m m'. map_of (mc_intents s) i = Some m \<and> same_escrow m m' \<and>
        mc_intents s' = dict_put i m' (mc_intents s))"

lemma row_update_ok:
  assumes "row_update s s'" and "mock_ok s"
  shows "mock_ok s' \<and> mock_escrows s' = mock_escrows s"
  using assms unfolding row_update_def
proof (elim disjE exE conjE)
  fix i m m'
  assume m: "map_of (mc_intents s) i = Some m" and same: "same_escrow m m'"
    and put: "mc_intents s' = dict_put i m' (mc_intents s)" and ok: "mock_ok s"
  have k: "map fst (mc_intents s') = map fst (mc_intents s)"
    unfolding put by (rule dict_put_keys [OF m])
  from arg_cong [OF k, of length] have "length (mc_intents s') = length (mc_intents s)" by simp
  moreover have "mock_escrows s' = mock_escrows s"
    unfolding mock_escrows_def put by (rule dict_put_map [OF m]) (use same in \<open>simp add: same_escrow_def order_of_def\<close>)
  ultimately show ?thesis using ok k by (simp add: mock_ok_def)
qed (simp add: mock_ok_def mock_escrows_def)

lemma row_updateI:
  "map_of (mc_intents s) i = Some m \<Longrightarrow> same_escrow m m' \<Longrightarrow>
     mc_intents s' = dict_put i m' (mc_intents s) \<Longrightarrow> row_update s s'"
  by (auto simp: row_update_def)

lemma mock_attest_row: "mock_attest rt i ora k src s = (r, s') \<Longrightarrow> row_update s s'"
proof (cases "funded_intent i s")
  case (Pair q s1)
  assume a: "mock_attest rt i ora k src s = (r, s')"
  show "row_update s s'"
  proof (cases q)
    case (Inl e)
    with Pair a funded_intent_Inl show ?thesis
      by (auto simp: mock_attest_def py_bind_Inl row_update_def)
  next
    case (Inr m)
    with Pair have m: "map_of (mc_intents s) i = Some m" "s1 = s" by (auto simp: funded_intent_Inr)
    let ?s2 = "if mi_attestation m = None
      then s\<lparr>mc_intents := dict_put i (m\<lparr>mi_attestation := Some k\<rparr>) (mc_intents s)\<rparr> else s"
    obtain h s3 where h: "mock_tx_hash rt (asc ''attest_'' @ k) ?s2 = (h, s3)" by fastforce
    have "s' = s3"
      using a Pair Inr m(2) h
      by (cases h) (auto simp: mock_attest_def py_seq_def py_when_def put_intent_def py_bind_def
          split: if_splits)
    with mock_tx_hash_frame [OF h] have "mc_intents s' = mc_intents ?s2" by simp
    moreover have "same_escrow m (m\<lparr>mi_attestation := Some k\<rparr>)" by (simp add: same_escrow_def)
    ultimately show ?thesis
      using m(1) by (cases "mi_attestation m = None") (auto simp: row_update_def intro: row_updateI)
  qed
qed

text \<open>Paying out: the transfer and the new status, or nothing.\<close>

lemma pay_out_row:
  assumes m: "map_of (mc_intents s) i = Some m"
    and run: "py_seq (move_funds (mi_token m) vault dst (mi_amount m))
         (py_seq (put_intent i (m\<lparr>mi_status := st\<rparr>))
           (py_bind (mock_tx_hash rt act) (\<lambda>h. py_ret \<lparr>ir_value = JNull, ir_tx_hash = Some h\<rparr>))) s = (r, s')"
    and act: "list_all is_scalar act"
  shows "((\<exists>e. r = Inl e) \<and> s' = s) \<or>
    (\<exists>s1 h. move_funds (mi_token m) vault dst (mi_amount m) s = (Inr (), s1) \<and>
      r = Inr \<lparr>ir_value = JNull, ir_tx_hash = Some h\<rparr> \<and>
      s' = s1\<lparr>mc_intents := dict_put i (m\<lparr>mi_status := st\<rparr>) (mc_intents s), mc_tx_count := mc_tx_count s1 + 1\<rparr>)"
proof (cases "move_funds (mi_token m) vault dst (mi_amount m) s")
  case (Pair q s1)
  show ?thesis
  proof (cases q)
    case (Inl e)
    with Pair have "s1 = s" by (auto simp: move_funds_def Let_def split: if_splits option.splits)
    with Inl Pair run show ?thesis by (auto simp: py_seq_def py_bind_Inl)
  next
    case (Inr u)
    have fr: "mc_intents s1 = mc_intents s" using move_funds_frame [OF Pair] by simp
    obtain h where h: "mock_tx_hash rt act t = (Inr (h t), t\<lparr>mc_tx_count := mc_tx_count t + 1\<rparr>)" for t
      using mock_tx_hash_Inr [OF act, of rt] by metis
    show ?thesis
      using run Pair Inr fr
      by (intro disjI2)
        (auto simp: py_seq_def py_bind_Inr [of "move_funds t x y n" for t x y n]
          put_intent_def py_bind_Inr [OF h])
  qed
qed

lemma mock_release_cases:
  assumes "mock_release rt i src s = (r, s')"
  shows "((\<exists>e. r = Inl e) \<and> s' = s) \<or>
    (\<exists>m s1 h. map_of (mc_intents s) i = Some m \<and> mi_status m = Funded \<and>
      mi_attestation m = Some (asc ''Shipped'') \<and>
      move_funds (mi_token m) vault (mi_supplier m) (mi_amount m) s = (Inr (), s1) \<and>
      r = Inr \<lparr>ir_value = JNull, ir_tx_hash = Some h\<rparr> \<and>
      s' = s1\<lparr>mc_intents := dict_put i (m\<lparr>mi_status := M_Released\<rparr>) (mc_intents s), mc_tx_count := mc_tx_count s1 + 1\<rparr>)"
proof (cases "funded_intent i s")
  case (Pair q s1)
  show ?thesis
  proof (cases q)
    case (Inl e)
    with Pair assms funded_intent_Inl show ?thesis by (auto simp: mock_release_def py_bind_Inl)
  next
    case (Inr m)
    with Pair have m: "map_of (mc_intents s) i = Some m" "mi_status m = Funded" "s1 = s"
      by (auto simp: funded_intent_Inr)
    show ?thesis
    proof (cases "mi_attestation m = Some (asc ''Shipped'')")
      case True
      with assms Pair Inr m(3) have "py_seq (move_funds (mi_token m) vault (mi_supplier m) (mi_amount m))
         (py_seq (put_intent i (m\<lparr>mi_status := M_Released\<rparr>))
           (py_bind (mock_tx_hash rt (asc ''release'')) (\<lambda>h. py_ret \<lparr>ir_value = JNull, ir_tx_hash = Some h\<rparr>))) s = (r, s')"
        by (simp add: mock_release_def py_bind_Inr)
      from pay_out_row [OF m(1) this actions_scalar(2)] m True show ?thesis by blast
    next
      case False
      with assms Pair Inr m(3) show ?thesis by (auto simp: mock_release_def py_bind_Inr)
    qed
  qed
qed

lemma mock_refund_cases:
  assumes "mock_refund rt i src s = (r, s')"
  shows "((\<exists>e. r = Inl e) \<and> s' = s) \<or>
    (\<exists>m s1 h. map_of (mc_intents s) i = Some m \<and> mi_status m = Funded \<and>
      mi_attestation m \<noteq> Some (asc ''Shipped'') \<and>
      (mi_attestation m = Some (asc ''Failed'') \<or> mi_deadline m \<le> mc_now s) \<and>
      move_funds (mi_token m) vault (mi_sme m) (mi_amount m) s = (Inr (), s1) \<and>
      r = Inr \<lparr>ir_value = JNull, ir_tx_hash = Some h\<rparr> \<and>
      s' = s1\<lparr>mc_intents := dict_put i (m\<lparr>mi_status := Refunded\<rparr>) (mc_intents s), mc_tx_count := mc_tx_count s1 + 1\<rparr>)"
proof (cases "funded_intent i s")
  case (Pair q s1)
  show ?thesis
  proof (cases q)
    case (Inl e)
    with Pair assms funded_intent_Inl show ?thesis by (auto simp: mock_refund_def py_bind_Inl)
  next
    case (Inr m)
    with Pair have m: "map_of (mc_intents s) i = Some m" "mi_status m = Funded" "s1 = s"
      by (auto simp: funded_intent_Inr)
    show ?thesis
    proof (cases "mi_attestation m \<noteq> Some (asc ''Shipped'') \<and>
        (mi_attestation m = Some (asc ''Failed'') \<or> mi_deadline m \<le> mc_now s)")
      case True
      with assms Pair Inr m(3) have "py_seq (move_funds (mi_token m) vault (mi_sme m) (mi_amount m))
         (py_seq (put_intent i (m\<lparr>mi_status := Refunded\<rparr>))
           (py_bind (mock_tx_hash rt (asc ''refund'')) (\<lambda>h. py_ret \<lparr>ir_value = JNull, ir_tx_hash = Some h\<rparr>))) s = (r, s')"
        by (auto simp: mock_refund_def py_bind_Inr)
      from pay_out_row [OF m(1) this actions_scalar(3)] m True show ?thesis by blast
    next
      case False
      with assms Pair Inr m(3) show ?thesis by (auto simp: mock_refund_def py_bind_Inr split: if_splits)
    qed
  qed
qed

lemma same_escrow_status [simp]: "same_escrow m (m\<lparr>mi_status := st\<rparr>)"
  by (simp add: same_escrow_def)

lemma pay_out_update:
  assumes "move_funds t a b n s = (Inr (), s1)" and "map_of (mc_intents s) i = Some m"
    and "s' = s1\<lparr>mc_intents := dict_put i (m\<lparr>mi_status := st\<rparr>) (mc_intents s), mc_tx_count := k\<rparr>"
  shows "row_update s s'"
  using assms by (intro row_updateI [of s i m "m\<lparr>mi_status := st\<rparr>"]) simp_all

lemma mock_release_row: "mock_release rt i src s = (r, s') \<Longrightarrow> row_update s s'"
  by (drule mock_release_cases) (auto intro: pay_out_update simp: row_update_def [of s s])

lemma mock_refund_row: "mock_refund rt i src s = (r, s') \<Longrightarrow> row_update s s'"
  by (drule mock_refund_cases) (auto intro: pay_out_update simp: row_update_def [of s s])

lemma mock_get_status_state: "mock_get_status i s = (r, s') \<Longrightarrow> s' = s"
  by (auto simp: mock_get_status_def split: option.splits)

lemma mock_create_ok:
  assumes "mock_ok s" and "mock_create_intent rt a s = (r, s')"
  shows "mock_ok s'"
  using mock_create_cases [OF assms(2)]
proof (elim disjE exE conjE)
  fix s1 h
  assume "s' = s1\<lparr>mc_intents := dict_put (int (length (mc_intents s)) + 1)
           \<lparr>mi_sme = cr_sme a, mi_supplier = cr_supplier a, mi_token = cr_token a,
            mi_amount = cr_amount a, mi_request_hash = cr_request_hash a,
            mi_deadline = cr_deadline a, mi_status = Funded, mi_attestation = None\<rparr> (mc_intents s),
         mc_tx_count := mc_tx_count s1 + 1\<rparr>"
  then show ?thesis
    using assms(1) by (simp add: dict_put_fresh [OF mock_ok_fresh [OF assms(1)]] mock_ok_def)
qed (use assms(1) in auto)

interpretation mock: escrow_contract "mock_adapter rt" mock_ok mock_escrows for rt
proof unfold_locales
  fix s a r s' assume "mock_ok s" "ca_create_intent (mock_adapter rt) a s = (r, s')"
  then show "mock_ok s'" by (simp add: mock_adapter_def mock_create_ok)
next
  fix s a v s' assume ok: "mock_ok s" and "ca_create_intent (mock_adapter rt) a s = (Inr v, s')"
  then have "mock_create_intent rt a s = (Inr v, s')" by (simp add: mock_adapter_def)
  from mock_create_cases [OF this] show "mock_escrows s' = mock_escrows s @ [a\<lparr>cr_source := None\<rparr>]"
    by (cases a) (auto simp: mock_escrows_def order_of_def dict_put_fresh [OF mock_ok_fresh [OF ok]])
next
  fix s a h s' assume "ca_create_intent (mock_adapter rt) a s = (Inl (ChainSubmittedUnconfirmed h), s')"
  then have "mock_create_intent rt a s = (Inl (ChainSubmittedUnconfirmed h), s')" by (simp add: mock_adapter_def)
  from mock_create_cases [OF this]
  show "mock_escrows s' = mock_escrows s \<or> mock_escrows s' = mock_escrows s @ [a\<lparr>cr_source := None\<rparr>]" by auto
next
  fix s a e s' assume "ca_create_intent (mock_adapter rt) a s = (Inl e, s')"
  then have "mock_create_intent rt a s = (Inl e, s')" by (simp add: mock_adapter_def)
  from mock_create_cases [OF this] show "mock_escrows s' = mock_escrows s" by auto
qed (auto simp: mock_adapter_def dest: row_update_ok mock_attest_row mock_release_row mock_refund_row
      mock_get_status_state)

end
