(* ===== verification/Oracle_Anchor.thy ===== *)
theory Oracle_Anchor
  imports Repo_Frames Config
begin

text \<open>
  \<open>lumo/oracle/adapter.py\<close>, \<open>lumo/anchor/adapter.py\<close> and \<open>lumo/anchor/mock_anchor.py\<close>:
  where attestations come from and where a released payment is cashed out.  The amount of
  a cash-out receipt is a binary floating point quotient printed with two digits;
  \<open>usdc_text\<close> computes it exactly as the language does: \<open>int / int\<close> is the nearest double
  (ties to even), \<open>:.2f\<close> rounds the double's exact value half to even.
\<close>

section \<open>Oracles\<close>

datatype attestation_source = LocalSignerSet "pystr list" | ShipmentApiOracle

definition oracle_submit ::
    "attestation_source \<Rightarrow> pystr \<Rightarrow> pystr \<Rightarrow> pystr \<Rightarrow> ('s world, pystr list) py" where
  "oracle_submit ora intent_id kind rhash =
     (case ora of
        LocalSignerSet signers \<Rightarrow>
          py_seq (py_for signers (\<lambda>signer. add_attestation intent_id signer kind rhash))
            (py_ret signers)
      | ShipmentApiOracle \<Rightarrow> py_raise (NotImplementedError ''roadmap: shipment-tracking API oracle''))"

definition oracle_collect :: "attestation_source \<Rightarrow> pystr \<Rightarrow> ('s world, attestation_row list) py" where
  "oracle_collect ora intent_id =
     (case ora of
        LocalSignerSet _ \<Rightarrow> db_read (attestations intent_id)
      | ShipmentApiOracle \<Rightarrow> py_raise (NotImplementedError ''roadmap: shipment-tracking API oracle''))"

text \<open>\<open>s.split(",")\<close>\<close>

fun split_on :: "int \<Rightarrow> pystr \<Rightarrow> pystr list" where
  "split_on c [] = [[]]"
| "split_on c (x # xs) =
     (if x = c then [] # split_on c xs
      else case split_on c xs of [] \<Rightarrow> [[x]] | p # ps \<Rightarrow> (x # p) # ps)"

text \<open>\<open>[s.strip() for s in text.split(",") if s.strip()]\<close>\<close>

definition comma_items :: "pystr \<Rightarrow> pystr list" where
  "comma_items text = filter (\<lambda>s. s \<noteq> []) (map py_strip (split_on 44 text))"

definition build_oracle :: "config \<Rightarrow> attestation_source option result" where
  "build_oracle c =
     (if cf_oracle_adapter c = [] then Inr None
      else if cf_oracle_adapter c = asc ''local'' then
        (let signers = comma_items (cf_oracle_signers c)
         in Inr (Some (LocalSignerSet (if signers \<noteq> [] then signers else [cf_oracle_address c]))))
      else if cf_oracle_adapter c = asc ''shipment_api'' then Inr (Some ShipmentApiOracle)
      else Inl (ValueError ''unknown oracle_adapter''))"

section \<open>Division and formatting of doubles\<close>

fun bit_len :: "nat \<Rightarrow> nat" where
  "bit_len n = (if n = 0 then 0 else Suc (bit_len (n div 2)))"

declare bit_len.simps [simp del]

text \<open>\<open>a / b\<close> to the nearest integer, ties to even.\<close>

definition div_half_even :: "nat \<Rightarrow> nat \<Rightarrow> nat" where
  "div_half_even a b =
     (let q = a div b; r = a mod b
      in if 2 * r < b then q else if b < 2 * r then q + 1 else if even q then q else q + 1)"

text \<open>The nearest double of \<open>a / b\<close> as mantissa and exponent, for quotients in the normal range;
  \<open>None\<close> when it is too large.\<close>

definition scaled_quotient :: "nat \<Rightarrow> nat \<Rightarrow> int \<Rightarrow> nat" where
  "scaled_quotient a b e =
     (if 0 \<le> e then div_half_even a (b * 2 ^ nat e) else div_half_even (a * 2 ^ nat (- e)) b)"

definition double_quotient :: "nat \<Rightarrow> nat \<Rightarrow> (nat \<times> int) option" where
  "double_quotient a b =
     (if a = 0 then Some (0, 0)
      else let e0 = int (bit_len a) - int (bit_len b) - 53;
               big = (if 0 \<le> e0 then b * 2 ^ (nat e0 + 53) \<le> a
                      else b * 2 ^ 53 \<le> a * 2 ^ nat (- e0));
               e = (if big then e0 + 1 else e0);
               m = scaled_quotient a b e
           in if (if 0 \<le> e then 2 ^ 1024 \<le> m * 2 ^ nat e else False) then None else Some (m, e))"

text \<open>\<open>f"{usdc:.2f}"\<close>\<close>

definition cents_text :: "nat \<Rightarrow> pystr" where
  "cents_text c = nat_digits (c div 100) @ [46, 48 + int (c div 10 mod 10), 48 + int (c mod 10)]"

definition usdc_text :: "int \<Rightarrow> pystr result" where
  "usdc_text n =
     (case double_quotient (nat \<bar>n\<bar>) 10000000 of
        None \<Rightarrow> Inl OverflowError
      | Some (m, e) \<Rightarrow>
          (let cents = (if 0 \<le> e then m * 100 * 2 ^ nat e else div_half_even (m * 100) (2 ^ nat (- e)))
           in Inr ((if n < 0 then [45] else []) @ cents_text cents)))"

section \<open>Anchors\<close>

record cash_out_receipt =
  co_id :: pystr
  co_amount :: pystr
  co_to :: pystr

text \<open>\<open>supplier["address"]\<close> of \<open>None\<close>.\<close>

definition supplier_address :: "supplier option \<Rightarrow> pystr result" where
  "supplier_address s = (case s of None \<Rightarrow> Inl (TypeError ''NoneType object is not subscriptable'')
     | Some r \<Rightarrow> Inr (sp_address r))"

definition mock_cash_out :: "runtime \<Rightarrow> pystr \<Rightarrow> ('s world, cash_out_receipt) py" where
  "mock_cash_out rt intent_id =
     py_bind (db_read (intent intent_id)) (\<lambda>row.
       case row of None \<Rightarrow> py_raise (ValueError ''cash_out requires a released intent'')
       | Some r \<Rightarrow>
           if in_status r \<noteq> Released then py_raise (ValueError ''cash_out requires a released intent'')
           else py_bind (db_read (supplier_by_id (in_supplier_id r))) (\<lambda>supplier.
             py_bind ulid_new (\<lambda>u. let ref = asc ''MOCK-'' @ u in
             py_bind (py_lift (supplier_address supplier)) (\<lambda>address.
             py_seq (add_anchor_payout intent_id ref (in_amount r) address)
               (py_bind (py_lift (rbind (py_int_of_str rt (in_amount r)) usdc_text)) (\<lambda>usdc.
                py_ret \<lparr>co_id = ref, co_amount = usdc, co_to = address\<rparr>))))))"

datatype anchor = MockAnchor | GCashAnchor | PdaxAnchor

definition cash_out :: "runtime \<Rightarrow> anchor \<Rightarrow> pystr \<Rightarrow> ('s world, cash_out_receipt) py" where
  "cash_out rt a intent_id =
     (case a of MockAnchor \<Rightarrow> mock_cash_out rt intent_id
      | GCashAnchor \<Rightarrow> py_raise (NotImplementedError ''roadmap: GCash anchor cash-out'')
      | PdaxAnchor \<Rightarrow> py_raise (NotImplementedError ''roadmap: PDAX anchor cash-out''))"

definition build_anchor :: "config \<Rightarrow> anchor result" where
  "build_anchor c =
     (if cf_anchor_adapter c = asc ''mock'' then Inr MockAnchor
      else if cf_anchor_adapter c = asc ''gcash'' then Inr GCashAnchor
      else if cf_anchor_adapter c = asc ''pdax'' then Inr PdaxAnchor
      else Inl (ValueError ''unknown anchor_adapter''))"

section \<open>Frames\<close>

context step_relation
begin

lemma W_oracle_submit: "evolves W (oracle_submit ora i k h)"
  by (cases ora) (auto simp: oracle_submit_def intro!: W_step)

lemma W_mock_cash_out: "evolves W (mock_cash_out rt i)"
  unfolding mock_cash_out_def Let_def
  by (auto intro!: W_step split: option.split)

lemma W_cash_out: "evolves W (cash_out rt a i)"
  by (cases a) (auto simp: cash_out_def intro!: W_step W_mock_cash_out)

end

section \<open>Comma-separated lists\<close>

lemma split_on_nonempty [simp]: "split_on c s \<noteq> []"
  by (induction s) (auto split: list.splits)

lemma split_on_append:
  assumes "c \<notin> set p"
  shows "split_on c (p @ c # s) = p # split_on c s"
  using assms by (induction p) auto

lemma split_on_single: "c \<notin> set p \<Longrightarrow> split_on c p = [p]"
  by (induction p) auto

end
