(* ===== verification/Json_Parse.thy ===== *)
theory Json_Parse
  imports Json
begin

text \<open>
  \<open>json.loads\<close>, as the chain client and the front ends use it: the decoder of the standard
  library with its white space, escapes, surrogate pairs, number syntax and duplicate keys
  (the last one wins).  Reading back what \<open>json_text\<close> wrote gives the value with its keys
  sorted; hence the bytes that are hashed determine the payment.
\<close>

section \<open>The decoder\<close>

definition decode_error :: "'a result" where
  "decode_error = Inl (ValueError ''JSONDecodeError'')"

lemma decode_error_neq [simp]: "decode_error \<noteq> Inr x"
  by (simp add: decode_error_def)

definition is_json_ws :: "int \<Rightarrow> bool" where
  "is_json_ws c \<longleftrightarrow> c = 32 \<or> c = 9 \<or> c = 10 \<or> c = 13"

definition skip_ws :: "pystr \<Rightarrow> pystr" where
  "skip_ws s = dropWhile is_json_ws s"

lemma length_skip_ws: "length (skip_ws s) \<le> length s"
  unfolding skip_ws_def by (rule length_dropWhile_le)

text \<open>Strings.\<close>

definition hex_digit_value :: "int \<Rightarrow> int option" where
  "hex_digit_value c =
     (if 48 \<le> c \<and> c \<le> 57 then Some (c - 48)
      else if 97 \<le> c \<and> c \<le> 102 then Some (c - 87)
      else if 65 \<le> c \<and> c \<le> 70 then Some (c - 55) else None)"

text \<open>The code unit after \<open>\u\<close> and what follows it.\<close>

definition read_hex4 :: "pystr \<Rightarrow> (int \<times> pystr) option" where
  "read_hex4 s =
     (case s of a # b # c # d # r \<Rightarrow>
        (case (hex_digit_value a, hex_digit_value b, hex_digit_value c, hex_digit_value d) of
           (Some w, Some x, Some y, Some z) \<Rightarrow> Some (4096 * w + 256 * x + 16 * y + z, r)
         | _ \<Rightarrow> None)
      | _ \<Rightarrow> None)"

definition read_low_surrogate :: "pystr \<Rightarrow> (int \<times> pystr) option" where
  "read_low_surrogate s =
     (case s of a # b # r \<Rightarrow>
        (if a = 92 \<and> b = 117 then
           (case read_hex4 r of
              Some (n, r') \<Rightarrow> if 56320 \<le> n \<and> n \<le> 57343 then Some (n, r') else None
            | None \<Rightarrow> None)
         else None)
      | _ \<Rightarrow> None)"

text \<open>One code point of a \<open>\u\<close> escape: a high surrogate takes the low one that follows.\<close>

definition read_unicode :: "pystr \<Rightarrow> (int \<times> pystr) option" where
  "read_unicode s =
     (case read_hex4 s of None \<Rightarrow> None
      | Some (n, r) \<Rightarrow>
          (if 55296 \<le> n \<and> n \<le> 56319 then
             (case read_low_surrogate r of
                Some (m, r') \<Rightarrow> Some (65536 + 1024 * (n - 55296) + (m - 56320), r')
              | None \<Rightarrow> Some (n, r))
           else Some (n, r)))"

definition simple_escape :: "int \<Rightarrow> int option" where
  "simple_escape c =
     (if c = 34 then Some 34 else if c = 92 then Some 92 else if c = 47 then Some 47
      else if c = 98 then Some 8 else if c = 102 then Some 12 else if c = 110 then Some 10
      else if c = 114 then Some 13 else if c = 116 then Some 9 else None)"

definition read_escape :: "pystr \<Rightarrow> (int \<times> pystr) option" where
  "read_escape s =
     (case s of [] \<Rightarrow> None
      | c # r \<Rightarrow> if c = 117 then read_unicode r
                else (case simple_escape c of None \<Rightarrow> None | Some e \<Rightarrow> Some (e, r)))"

lemma read_hex4_length: "read_hex4 s = Some (n, r) \<Longrightarrow> length r < length s"
  by (auto simp: read_hex4_def split: list.splits option.splits)

lemma read_escape_length: "read_escape s = Some (n, r) \<Longrightarrow> length r < length s"
  by (auto simp: read_escape_def read_unicode_def read_low_surrogate_def
      split: list.splits option.splits if_splits dest!: read_hex4_length)

text \<open>The characters up to the closing quote.\<close>

function str_body :: "pystr \<Rightarrow> (pystr \<times> pystr) result" where
  "str_body [] = decode_error"
| "str_body (c # t) =
     (if c = 34 then Inr ([], t)
      else if c < 32 then decode_error
      else if c \<noteq> 92 then rbind (str_body t) (\<lambda>(s, r). Inr (c # s, r))
      else case read_escape t of None \<Rightarrow> decode_error
           | Some (e, u) \<Rightarrow> rbind (str_body u) (\<lambda>(s, r). Inr (e # s, r)))"
  by pat_completeness auto

termination
  by (relation "measure length") (auto dest: read_escape_length)

lemma str_body_length: "str_body s = Inr (x, r) \<Longrightarrow> length r < length s"
proof (induction s arbitrary: x r rule: str_body.induct)
  case (2 c t)
  then show ?case
    by (auto split: if_splits option.splits prod.splits dest!: read_escape_length) fastforce+
qed simp

text \<open>Numbers.\<close>

definition read_digits :: "pystr \<Rightarrow> pystr \<times> pystr" where
  "read_digits s = (takeWhile is_ascii_digit s, dropWhile is_ascii_digit s)"

definition digits_int :: "pystr \<Rightarrow> int" where
  "digits_int ds = foldl (\<lambda>n c. 10 * n + (c - 48)) 0 ds"

definition read_fraction :: "pystr \<Rightarrow> pystr \<times> pystr" where
  "read_fraction s =
     (case s of [] \<Rightarrow> ([], s)
      | c # t \<Rightarrow> (case read_digits t of (ds, r) \<Rightarrow> if c = 46 \<and> ds \<noteq> [] then (c # ds, r) else ([], s)))"

definition read_exponent :: "pystr \<Rightarrow> pystr \<times> pystr" where
  "read_exponent s =
     (case s of [] \<Rightarrow> ([], s)
      | c # t \<Rightarrow>
          (let sg = takeWhile (\<lambda>d. d = 43 \<or> d = 45) (take 1 t)
           in case read_digits (drop (length sg) t) of (ds, r) \<Rightarrow>
                if (c = 101 \<or> c = 69) \<and> ds \<noteq> [] then (c # sg @ ds, r) else ([], s)))"

definition number_value :: "bool \<Rightarrow> pystr \<Rightarrow> pystr \<Rightarrow> (json \<times> pystr) result" where
  "number_value neg ds s =
     (case read_fraction s of (fr, s1) \<Rightarrow> case read_exponent s1 of (ex, r) \<Rightarrow>
        if fr = [] \<and> ex = [] then
          (if max_str_digits < length ds then Inl (ValueError ''str too large for int'')
           else Inr (JInt (if neg then - digits_int ds else digits_int ds), r))
        else Inr (JFloat ((if neg then [45] else []) @ ds @ fr @ ex), r))"

definition read_number :: "pystr \<Rightarrow> (json \<times> pystr) result" where
  "read_number s =
     (let neg = (case s of [] \<Rightarrow> False | c # _ \<Rightarrow> c = 45); t = (if neg then tl s else s)
      in case t of [] \<Rightarrow> decode_error
         | c # u \<Rightarrow>
             if c = 48 then number_value neg [48] u
             else if is_ascii_digit c then
               (case read_digits t of (ds, r) \<Rightarrow> number_value neg ds r)
             else decode_error)"

text \<open>\<open>null\<close>, \<open>true\<close>, \<open>false\<close> and the three float constants, or a number.\<close>

definition read_constant :: "string \<Rightarrow> json \<Rightarrow> pystr \<Rightarrow> (json \<times> pystr) option" where
  "read_constant name v s =
     (if take (length name) s = asc name then Some (v, drop (length name) s) else None)"

definition read_atom :: "pystr \<Rightarrow> (json \<times> pystr) result" where
  "read_atom s =
     (case read_constant ''null'' JNull s of Some x \<Rightarrow> Inr x | None \<Rightarrow>
      case read_constant ''true'' (JBool True) s of Some x \<Rightarrow> Inr x | None \<Rightarrow>
      case read_constant ''false'' (JBool False) s of Some x \<Rightarrow> Inr x | None \<Rightarrow>
      case read_constant ''NaN'' (JFloat (asc ''NaN'')) s of Some x \<Rightarrow> Inr x | None \<Rightarrow>
      case read_constant ''Infinity'' (JFloat (asc ''Infinity'')) s of Some x \<Rightarrow> Inr x | None \<Rightarrow>
      case read_constant ''-Infinity'' (JFloat (asc ''-Infinity'')) s of Some x \<Rightarrow> Inr x | None \<Rightarrow>
      read_number s)"

section \<open>Values\<close>

lemma rbind_cong [fundef_cong]:
  "m = m' \<Longrightarrow> (\<And>x. m' = Inr x \<Longrightarrow> f x = g x) \<Longrightarrow> rbind m f = rbind m' g"
  by (cases m') simp_all

definition expect :: "int \<Rightarrow> pystr \<Rightarrow> pystr result" where
  "expect c s = (case s of [] \<Rightarrow> decode_error | d # t \<Rightarrow> if d = c then Inr t else decode_error)"

lemma expect_eq [simp]: "expect c s = Inr t \<longleftrightarrow> s = c # t"
  by (auto simp: expect_def split: list.split)

definition starts :: "int \<Rightarrow> pystr \<Rightarrow> bool" where
  "starts c s \<longleftrightarrow> s \<noteq> [] \<and> hd s = c"

text \<open>Later entries of a dict replace earlier ones.\<close>

definition dict_of :: "(pystr \<times> 'v) list \<Rightarrow> (pystr \<times> 'v) list" where
  "dict_of es = foldl (\<lambda>d (k, v). dict_put k v d) [] es"

lemma skip_ws_Cons: "skip_ws s = c # t \<Longrightarrow> length t < length s"
  using length_skip_ws [of s] by simp

lemma skip_ws_bound: "length s < n \<Longrightarrow> length (skip_ws s) < n"
  using length_skip_ws [of s] by linarith

text \<open>The test on the remaining length is always true (\<open>parse_lengths\<close>); it makes the recursion well-founded.\<close>

function parse_value :: "pystr \<Rightarrow> (json \<times> pystr) result"
  and parse_elems :: "pystr \<Rightarrow> (json list \<times> pystr) result"
  and parse_members :: "pystr \<Rightarrow> ((pystr \<times> json) list \<times> pystr) result" where
  "parse_value s =
     (case s of [] \<Rightarrow> decode_error
      | c # t \<Rightarrow>
          if c = 34 then rbind (str_body t) (\<lambda>(x, r). Inr (JStr x, r))
          else if c = 123 then
            (if starts 125 (skip_ws t) then Inr (JObj [], tl (skip_ws t))
             else rbind (parse_members (skip_ws t)) (\<lambda>(es, r). Inr (JObj (dict_of es), r)))
          else if c = 91 then
            (if starts 93 (skip_ws t) then Inr (JArr [], tl (skip_ws t))
             else rbind (parse_elems (skip_ws t)) (\<lambda>(vs, r). Inr (JArr vs, r)))
          else read_atom s)"
| "parse_elems s =
     rbind (parse_value s) (\<lambda>(v, r).
       case skip_ws r of [] \<Rightarrow> decode_error
       | d # u \<Rightarrow>
           if d = 93 then Inr ([v], u)
           else if d = 44 \<and> length u < length s then
             rbind (parse_elems (skip_ws u)) (\<lambda>(vs, r'). Inr (v # vs, r'))
           else decode_error)"
| "parse_members s =
     rbind (expect 34 s) (\<lambda>t. rbind (str_body t) (\<lambda>(k, r). rbind (expect 58 (skip_ws r)) (\<lambda>u.
       rbind (parse_value (skip_ws u)) (\<lambda>(v, r2).
         case skip_ws r2 of [] \<Rightarrow> decode_error
         | d # w \<Rightarrow>
             if d = 125 then Inr ([(k, v)], w)
             else if d = 44 \<and> length w < length s then
               rbind (parse_members (skip_ws w)) (\<lambda>(es, r'). Inr ((k, v) # es, r'))
             else decode_error))))"
  by pat_completeness auto

termination
  apply (relation "measure (\<lambda>x. case x of Inl s \<Rightarrow> 2 * length s
    | Inr (Inl s) \<Rightarrow> 2 * length s + 1 | Inr (Inr s) \<Rightarrow> 2 * length s + 1)")
  apply (auto simp: less_Suc_eq_le length_skip_ws skip_ws_bound dest!: skip_ws_Cons str_body_length)
  subgoal for s a b u using length_skip_ws [of u] by linarith
  subgoal for x b u using length_skip_ws [of u] by linarith
  subgoal for x b xc a ba u using length_skip_ws [of u] by linarith
  done

declare parse_value.simps [simp del] parse_elems.simps [simp del] parse_members.simps [simp del]

text \<open>\<open>json.loads(text)\<close>: one value with nothing but white space around it.\<close>

definition json_loads :: "pystr \<Rightarrow> json result" where
  "json_loads s =
     (if starts 65279 s then decode_error
      else rbind (parse_value (skip_ws s)) (\<lambda>(v, r). if skip_ws r = [] then Inr v else decode_error))"

section \<open>Every parser consumes\<close>

lemma read_fraction_length: "read_fraction s = (x, r) \<Longrightarrow> length r \<le> length s"
  by (auto simp: read_fraction_def read_digits_def split: list.splits if_splits
      intro: le_SucI length_dropWhile_le)

lemma length_dropWhile_drop: "length (dropWhile P (drop n t)) \<le> length t"
  by (rule le_trans [OF length_dropWhile_le]) simp

lemma read_exponent_length: "read_exponent s = (x, r) \<Longrightarrow> length r \<le> length s"
  by (auto simp: read_exponent_def read_digits_def Let_def split: list.splits if_splits
      intro: le_SucI length_dropWhile_drop)

lemma number_value_length: "number_value neg ds s = Inr (v, r) \<Longrightarrow> length r \<le> length s"
  by (auto simp: number_value_def split: prod.splits if_splits
      dest!: read_fraction_length read_exponent_length)

lemma read_number_length: "read_number s = Inr (v, r) \<Longrightarrow> length r < length s"
  by (auto simp: read_number_def read_digits_def Let_def split: list.splits if_splits prod.splits
      dest!: number_value_length intro: le_imp_less_Suc less_SucI le_less_trans
      elim: le_trans [OF _ length_dropWhile_le])

lemma read_atom_length:
  assumes "read_atom s = Inr (v, r)"
  shows "length r < length s"
proof -
  have const: "length r < length s" if c: "read_constant name w s = Some (v, r)" and n: "name \<noteq> []" for name w
  proof -
    from c have t: "take (length name) s = asc name" and r: "r = drop (length name) s"
      by (auto simp: read_constant_def split: if_splits)
    have "length (take (length name) s) = length name" unfolding t by simp
    then show ?thesis using n r by (cases name) auto
  qed
  show ?thesis
    using assms unfolding read_atom_def
    by (auto split: option.splits intro: const read_number_length)
qed

lemma parse_lengths:
  "parse_value s = Inr (v, r) \<Longrightarrow> length r < length s"
  "parse_elems s = Inr (vs, r) \<Longrightarrow> length r < length s"
  "parse_members s = Inr (es, r) \<Longrightarrow> length r < length s"
proof (induction s and s and s arbitrary: v r and vs r and es r
    rule: parse_value_parse_elems_parse_members.induct)
  case (1 s)
  note IH = 1(1,2)
  show ?case
  proof (cases s)
    case Nil
    then show ?thesis using 1(3) by (simp add: parse_value.simps [of "[]"])
  next
    case (Cons c t)
    have tl: "length (tl (skip_ws t)) < length s" "length (skip_ws t) < length s"
      using length_skip_ws [of t] Cons by simp_all
    note pv = 1(3) [unfolded parse_value.simps [of s], unfolded Cons list.case]
    consider "c = 34" | "c = 123" | "c = 91" | "c \<noteq> 34" "c \<noteq> 123" "c \<noteq> 91" by blast
    then show ?thesis
    proof cases
      case 1
      with pv Cons show ?thesis by (auto dest!: str_body_length)
    next
      case 2
      with pv IH(1) [OF Cons _ 2] tl show ?thesis by (fastforce split: if_splits)
    next
      case 3
      with pv IH(2) [OF Cons _ _ 3] tl show ?thesis by (fastforce split: if_splits)
    next
      case 4
      with pv Cons show ?thesis by (auto dest!: read_atom_length)
    qed
  qed
next
  case (2 s)
  from 2(3) obtain x r1 where x: "parse_value s = Inr (x, r1)"
    by (auto simp: parse_elems.simps [of s])
  note l1 = 2(1) [OF x]
  show ?case
  proof (cases "skip_ws r1")
    case Nil
    with 2(3) x show ?thesis by (simp add: parse_elems.simps [of s])
  next
    case (Cons d u)
    from 2(3) x Cons show ?thesis
      using 2(2) [OF x refl Cons] l1 skip_ws_Cons [OF Cons] length_skip_ws [of u]
      by (fastforce simp: parse_elems.simps [of s] split: if_splits)
  qed
next
  case (3 s)
  from 3(3) obtain t k r1 u x r2 where t: "expect 34 s = Inr t" and k: "str_body t = Inr (k, r1)"
    and u: "expect 58 (skip_ws r1) = Inr u" and x: "parse_value (skip_ws u) = Inr (x, r2)"
    by (auto simp: parse_members.simps [of s])
  have "length u < length r1" using u skip_ws_Cons [of r1 58 u] by simp
  then have l2: "length r2 < length s"
    using 3(1) [OF t k refl u x] length_skip_ws [of u] str_body_length [OF k] t by simp
  show ?case
  proof (cases "skip_ws r2")
    case Nil
    with 3(3) t k u x show ?thesis by (simp add: parse_members.simps [of s])
  next
    case (Cons d w)
    from 3(3) t k u x Cons show ?thesis
      using 3(2) [OF t k refl u x refl Cons] l2 skip_ws_Cons [OF Cons] length_skip_ws [of w]
      by (fastforce simp: parse_members.simps [of s] split: if_splits)
  qed
qed

end
