(* ===== verification/Flow.thy ===== *)
theory Flow
  imports Pipeline Chain Oracle_Anchor Json_Parse
begin

text \<open>
  \<open>lumo/flow.py\<close> and \<open>lumo/chain/mapper.py\<close>: the steps that move money.  Their state is
  the pair of the store (\<open>'s world\<close>) and the chain (\<open>'c\<close>); the chain is any adapter.
  \<open>execute\<close> claims a proposed intent, submits \<open>create_intent\<close> and confirms it;
  \<open>sync_status\<close> makes the store follow the chain.
\<close>

type_synonym ('s, 'c, 'a) flow = "('s world \<times> 'c, 'a) py"

abbreviation from_db :: "(tables \<Rightarrow> 'a) \<Rightarrow> ('s, 'c, 'a) flow" where
  "from_db f \<equiv> on_fst (db_read f)"

section \<open>\<open>mapper.sync_status\<close>\<close>

definition chain_to_local :: "pystr \<Rightarrow> status result" where
  "chain_to_local v =
     (if v = asc ''Funded'' then Inr Escrowed
      else if v = asc ''Released'' then Inr Released
      else if v = asc ''Refunded'' then Inr Reverted
      else Inl (KeyError v))"

text \<open>\<open>chain[key]\<close> on a decoded value: only a dict can be indexed by a text.\<close>

definition json_item :: "json \<Rightarrow> string \<Rightarrow> json result" where
  "json_item v key = (case v of JObj d \<Rightarrow> dict_item d key | _ \<Rightarrow> Inl (TypeError ''not subscriptable''))"

definition chain_status :: "json \<Rightarrow> pystr result" where
  "chain_status v = rbind (json_item v ''status'') variant_of"

definition unknown_intent :: exn where
  "unknown_intent = ValueError ''unknown intent''"

definition sync_effect :: "pystr \<Rightarrow> pystr \<Rightarrow> status \<Rightarrow> ('s world, unit) py" where
  "sync_effect intent_id rhash mapped =
     (case mapped of
        Escrowed \<Rightarrow> py_bind (record_decision D_approved [CHAIN_FUNDED] rhash None (Some intent_id) None)
          (\<lambda>_. py_ret ())
      | Released \<Rightarrow> mark_released intent_id
      | Reverted \<Rightarrow> py_bind (record_decision D_reverted [CHAIN_REFUNDED] rhash None (Some intent_id) None)
          (\<lambda>_. emit ''intent.refunded''
            [jkey ''intent_id'' (JStr intent_id), jkey ''request_hash'' (JStr rhash)])
      | _ \<Rightarrow> py_ret ())"

definition sync_status :: "'c chain_adapter \<Rightarrow> pystr \<Rightarrow> ('s, 'c, status) flow" where
  "sync_status cl intent_id =
     py_bind (from_db (intent intent_id)) (\<lambda>row.
       case row of None \<Rightarrow> py_raise unknown_intent
       | Some r \<Rightarrow>
           (case in_chain_id r of None \<Rightarrow> py_ret (in_status r)
            | Some chain_id \<Rightarrow>
                py_bind (on_snd (ca_get_status cl chain_id)) (\<lambda>chain.
                  if chain = JNull then py_ret (in_status r)
                  else py_bind (py_lift (rbind (chain_status chain) chain_to_local)) (\<lambda>mapped.
                    if mapped = in_status r then py_ret mapped
                    else py_seq (on_fst (sync_effect intent_id (in_request_hash r) mapped))
                      (py_ret mapped)))))"

section \<open>\<open>flow.execute\<close>\<close>

text \<open>The double nearest to a float literal, truncated toward zero; the constants that are no
  numbers raise.\<close>

definition float_int :: "pystr \<Rightarrow> int result" where
  "float_int s =
     (if s = asc ''NaN'' then Inl (ValueError ''cannot convert float NaN to integer'')
      else if s = asc ''Infinity'' \<or> s = asc ''-Infinity'' then Inl OverflowError
      else case read_digits (dropWhile (\<lambda>c. c = 45) s) of (ds, r) \<Rightarrow>
        case read_fraction r of (fr, r1) \<Rightarrow> case read_exponent r1 of (ex, _) \<Rightarrow>
          (let x = (case drop 1 ex of [] \<Rightarrow> 0
                    | c # t \<Rightarrow> if c = 45 then - digits_int t else if c = 43 then digits_int t
                              else digits_int (c # t));
               scale = x - (int (length fr) - (if fr = [] then 0 else 1));
               coeff = nat (digits_int (ds @ drop 1 fr))
           in case (if 0 \<le> scale then double_quotient (coeff * 10 ^ nat scale) 1
                    else double_quotient coeff (10 ^ nat (- scale))) of
                None \<Rightarrow> Inl OverflowError
              | Some (m, e) \<Rightarrow>
                  (let n = int (if 0 \<le> e then m * 2 ^ nat e else m div 2 ^ nat (- e))
                   in Inr (if take 1 s = [45] then - n else n))))"

text \<open>\<open>int(value)\<close> of a decoded value.\<close>

definition json_int :: "runtime \<Rightarrow> json \<Rightarrow> int result" where
  "json_int rt v =
     (case v of JInt n \<Rightarrow> Inr n | JStr s \<Rightarrow> py_int_of_str rt s | JBool b \<Rightarrow> Inr (if b then 1 else 0)
      | JFloat s \<Rightarrow> float_int s | _ \<Rightarrow> Inl (TypeError ''int() argument''))"

definition json_lower :: "runtime \<Rightarrow> json \<Rightarrow> pystr result" where
  "json_lower rt v = (case v of JStr s \<Rightarrow> Inr (py_lower rt s) | _ \<Rightarrow> Inl (AttributeError ''lower''))"

text \<open>The arguments of \<open>create_intent\<close>, evaluated in order inside the \<open>try\<close>.\<close>

definition escrow_args :: "runtime \<Rightarrow> config \<Rightarrow> intent_row \<Rightarrow> supplier option \<Rightarrow> (pystr \<times> pystr) list
    \<Rightarrow> pystr \<Rightarrow> create_args result" where
  "escrow_args rt c r spl rls source =
     rbind (if cf_sme_smart_account c \<noteq> [] then Inr (cf_sme_smart_account c)
            else dict_item rls ''sme_address'') (\<lambda>sme.
     rbind (supplier_address spl) (\<lambda>address.
     rbind (py_int_of_str rt (in_amount r)) (\<lambda>amount.
     Inr \<lparr>cr_sme = sme, cr_supplier = address, cr_token = in_token r, cr_amount = amount,
       cr_request_hash = in_request_hash r, cr_deadline = in_deadline r, cr_source = Some source\<rparr>)))"

definition submit_failed :: "pystr \<Rightarrow> exn \<Rightarrow> ('s world, invoke_result) py" where
  "submit_failed intent_id e =
     (case e of
        ChainSubmittedUnconfirmed tx_hash \<Rightarrow>
          py_seq (py_when (or_empty tx_hash \<noteq> []) (add_chain_tx intent_id (asc ''create_intent'') tx_hash))
            (py_raise e)
      | _ \<Rightarrow> py_seq (release_escrow_claim intent_id) (py_raise e))"

definition submit_escrow :: "runtime \<Rightarrow> config \<Rightarrow> 'c chain_adapter \<Rightarrow> pystr \<Rightarrow> intent_row \<Rightarrow> supplier option
    \<Rightarrow> (pystr \<times> pystr) list \<Rightarrow> pystr \<Rightarrow> ('s, 'c, invoke_result) flow" where
  "submit_escrow rt c cl intent_id r spl rls source =
     py_except
       (py_bind (py_lift (escrow_args rt c r spl rls source)) (\<lambda>a. on_snd (ca_create_intent cl a)))
       (\<lambda>e. on_fst (submit_failed intent_id e))"

text \<open>The chain-wins confirmation after the escrow was created.\<close>

definition confirm_checks :: "runtime \<Rightarrow> intent_row \<Rightarrow> json \<Rightarrow> unit result" where
  "confirm_checks rt r chain =
     (if chain = JNull then Inl (ChainError ''not found after submit'')
      else rbind (rbind (json_item chain ''request_hash'') (json_lower rt)) (\<lambda>h.
        if h \<noteq> py_lower rt (in_request_hash r) then Inl (ChainError ''request_hash mismatch'')
        else rbind (chain_status chain) (\<lambda>v.
          if v \<noteq> asc ''Funded'' then Inl (ChainError ''not Funded'') else Inr ())))"

definition confirm_escrow :: "runtime \<Rightarrow> 'c chain_adapter \<Rightarrow> pystr \<Rightarrow> intent_row \<Rightarrow> invoke_result
    \<Rightarrow> ('s, 'c, int) flow" where
  "confirm_escrow rt cl intent_id r res =
     py_bind (py_lift (json_int rt (ir_value res))) (\<lambda>chain_id.
     py_seq (on_fst (add_chain_tx intent_id (asc ''create_intent'') (ir_tx_hash res)))
       (py_seq (on_fst (set_chain_intent intent_id chain_id))
         (py_bind (on_snd (ca_get_status cl chain_id)) (\<lambda>chain.
          py_seq (py_lift (confirm_checks rt r chain))
            (py_bind (on_fst (record_decision D_approved [ESCROWED_ONCHAIN] (in_request_hash r) None
                (Some intent_id) (ir_tx_hash res))) (\<lambda>_. py_ret chain_id))))))"

definition execute :: "runtime \<Rightarrow> 'c chain_adapter \<Rightarrow> pystr \<Rightarrow> pystr \<Rightarrow> config \<Rightarrow> ('s, 'c, int option) flow" where
  "execute rt cl intent_id source c =
     py_bind (from_db (intent intent_id)) (\<lambda>row.
       case row of None \<Rightarrow> py_raise unknown_intent
       | Some r \<Rightarrow>
           if cf_dry_run c then
             (if in_status r \<noteq> Proposed then py_raise (ValueError ''expected proposed'') else py_ret None)
           else py_bind (on_fst (claim_escrow intent_id)) (\<lambda>claimed.
             if \<not> claimed then py_ret None
             else py_bind (from_db (supplier_by_id (in_supplier_id r))) (\<lambda>spl.
               py_bind (from_db rules) (\<lambda>rls.
               py_bind (submit_escrow rt c cl intent_id r spl rls source) (\<lambda>res.
               py_bind (confirm_escrow rt cl intent_id r res) (\<lambda>chain_id. py_ret (Some chain_id)))))))"

section \<open>\<open>attest\<close>, \<open>release\<close>, \<open>revert\<close>\<close>

definition chain_intent_id :: "pystr \<Rightarrow> ('s world, int) py" where
  "chain_intent_id intent_id =
     py_bind (db_read (intent intent_id)) (\<lambda>row.
       case row of None \<Rightarrow> py_raise unknown_intent
       | Some r \<Rightarrow> (case in_chain_id r of None \<Rightarrow> py_raise (ValueError ''no on-chain escrow yet'')
           | Some n \<Rightarrow> py_ret n))"

text \<open>\<open>repo.intent(intent_id)\<close> used as a row, \<open>TypeError\<close> when there is none.\<close>

definition intent_of :: "pystr \<Rightarrow> tables \<Rightarrow> intent_row result" where
  "intent_of i t = (case intent i t of None \<Rightarrow> Inl (TypeError ''NoneType object is not subscriptable'')
     | Some r \<Rightarrow> Inr r)"

definition attest :: "runtime \<Rightarrow> 'c chain_adapter \<Rightarrow> pystr \<Rightarrow> pystr \<Rightarrow> pystr \<Rightarrow> pystr
    \<Rightarrow> attestation_source option \<Rightarrow> ('s, 'c, unit) flow" where
  "attest rt cl intent_id kind oracle_address oracle_source ora =
     py_bind (on_fst (chain_intent_id intent_id)) (\<lambda>chain_id.
     py_bind (from_db (intent_of intent_id)) (\<lambda>row.
     py_bind (on_snd (ca_attest cl chain_id oracle_address kind (Some oracle_source))) (\<lambda>res.
     py_seq (on_fst (add_chain_tx intent_id (asc ''attest_'' @ py_lower rt kind) (ir_tx_hash res)))
       (case ora of None \<Rightarrow> py_ret ()
        | Some o' \<Rightarrow> py_bind (py_lift row) (\<lambda>r.
            py_bind (on_fst (oracle_submit o' intent_id kind (in_request_hash r))) (\<lambda>_. py_ret ()))))))"

definition release :: "runtime \<Rightarrow> 'c chain_adapter \<Rightarrow> pystr \<Rightarrow> pystr \<Rightarrow> config \<Rightarrow> ('s, 'c, status) flow" where
  "release rt cl intent_id source c =
     py_bind (on_fst (chain_intent_id intent_id)) (\<lambda>chain_id.
     py_bind (from_db (intent_of intent_id)) (\<lambda>row.
     py_bind (py_lift row) (\<lambda>r.
     py_seq (on_fst (release_check rt c r))
       (py_bind (on_snd (ca_release cl chain_id (Some source))) (\<lambda>res.
        py_seq (on_fst (add_chain_tx intent_id (asc ''release'') (ir_tx_hash res)))
          (py_bind (sync_status cl intent_id) (\<lambda>st.
           if st = Released then
             py_bind (py_lift (build_anchor c)) (\<lambda>a.
             py_bind (on_fst (cash_out rt a intent_id)) (\<lambda>_. py_ret st))
           else py_ret st)))))))"

definition revert :: "'c chain_adapter \<Rightarrow> pystr \<Rightarrow> pystr \<Rightarrow> ('s, 'c, status) flow" where
  "revert cl intent_id source =
     py_bind (on_fst (chain_intent_id intent_id)) (\<lambda>chain_id.
     py_bind (on_snd (ca_refund cl chain_id (Some source))) (\<lambda>res.
     py_seq (on_fst (add_chain_tx intent_id (asc ''refund'') (ir_tx_hash res)))
       (sync_status cl intent_id)))"

section \<open>Frames\<close>

context step_relation
begin

definition F :: "'s world \<times> 'c \<Rightarrow> 's world \<times> 'c \<Rightarrow> bool" where
  "F p q \<longleftrightarrow> W (fst p) (fst q)"

lemma frame_F: "frame_relation F"
  by unfold_locales (auto simp: F_def intro: wr.frefl wr.ftrans)

lemmas F_intros = frame_relation.evo_intros [OF frame_F]

lemma F_fst: "evolves W m \<Longrightarrow> evolves F (on_fst m)"
  by (auto simp: evolves_def F_def on_fst_def split: prod.splits) (metis snd_conv)

lemma F_snd: "evolves F (on_snd m)"
  by (auto simp: evolves_def F_def on_snd_def wr.frefl split: prod.splits)

lemma W_sync_effect: "evolves W (sync_effect i h st)"
  by (cases st) (auto simp: sync_effect_def intro!: W_step)

lemma F_sync_status: "evolves F (sync_status cl i)"
  unfolding sync_status_def
  by (auto intro!: F_intros F_fst F_snd W_step W_sync_effect split: option.split)

lemma W_chain_intent_id: "evolves W (chain_intent_id i)"
  unfolding chain_intent_id_def by (auto intro!: W_step split: option.split)

lemma F_attest: "evolves F (attest rt cl i k oa os ora)"
  unfolding attest_def
  by (auto intro!: F_intros F_fst F_snd W_step W_chain_intent_id W_oracle_submit split: option.split)

lemma F_release: "evolves F (release rt cl i src c)"
  unfolding release_def
  by (auto intro!: F_intros F_fst F_snd F_sync_status W_step W_chain_intent_id W_release_check W_cash_out)

lemma F_revert: "evolves F (revert cl i src)"
  unfolding revert_def
  by (auto intro!: F_intros F_fst F_snd F_sync_status W_step W_chain_intent_id)

end

context repo_relation
begin

lemma W_submit_failed: "evolves W (submit_failed i e)"
  by (cases e) (auto simp: submit_failed_def intro!: W_step W_release_escrow_claim)

lemma F_execute: "evolves F (execute rt cl i src c)"
  unfolding execute_def submit_escrow_def confirm_escrow_def
  by (auto intro!: F_intros F_fst F_snd W_step W_submit_failed split: option.split)

end

end
