(* ===== verification/Interleaving.thy ===== *)
theory Interleaving
  imports Flow "HOL-Library.Multiset"
begin

text \<open>
  Any number of processes against one store and one chain.  \<open>commits\<close> is the least
  relation between tables that contains every committed statement of the program;
  \<open>flow_step\<close> adds the protocol of \<open>flow.execute\<close> (read the payment, claim it, read its
  supplier, submit, reopen on failure) as steps of processes that interleave freely with
  every other statement, with the other calls to the chain and with crashes.  The second
  half shows that every operation of \<open>flow.py\<close> and \<open>pipeline.py\<close> is a path of such steps.
\<close>

section \<open>Committed statements\<close>

inductive commits :: "tables \<Rightarrow> tables \<Rightarrow> bool" where
  event: "ins_event e t = Inr t' \<Longrightarrow> commits t t'"
| supplier: "ins_supplier s t = Inr t' \<Longrightarrow> commits t t'"
| rules: "commits t (t\<lparr>t_rules := rs\<rparr>)"
| attestation: "ins_attestation a t = Inr t' \<Longrightarrow> commits t t'"
| chain_tx: "ins_chain_tx c t = Inr t' \<Longrightarrow> commits t t'"
| payout: "ins_payout p t = Inr t' \<Longrightarrow> commits t t'"
| update: "(\<And>r. advances r (g r)) \<Longrightarrow> commits t (upd_intents q g t)"
| decision: "ins_decision d t = Inr t' \<Longrightarrow> de_decision d \<noteq> D_proposed \<Longrightarrow> de_decision d \<noteq> D_held \<Longrightarrow>
    commits t t'"
| draft: "ins_intent r t = Inr u \<Longrightarrow> ins_decision d u = Inr v \<Longrightarrow> de_intent_id d = Some (in_id r) \<Longrightarrow>
    (de_decision d = D_proposed \<and> in_status r = Proposed \<or> de_decision d = D_held \<and> in_status r = Held) \<Longrightarrow>
    in_chain_id r = None \<Longrightarrow> py_str_int n = Inr (in_amount r) \<Longrightarrow> commits t v"

interpretation com: step_relation "commits\<^sup>*\<^sup>*"
  by unfold_locales (auto intro: commits.intros rtranclp_trans)


context step_relation
begin

lemma commits_least: "commits t t' \<Longrightarrow> D t t'"
  by (induction rule: commits.induct)
    (auto intro: D_event D_supplier D_rules D_attestation D_chain_tx D_payout D_update D_decision D_draft)

end

section \<open>Processes\<close>

datatype proc =
    Loaded intent_row
  | Claimed intent_row
  | Ready intent_row "supplier option"
  | Raised intent_row exn

fun proc_row :: "proc \<Rightarrow> intent_row" where
  "proc_row (Loaded r) = r"
| "proc_row (Claimed r) = r"
| "proc_row (Ready r s) = r"
| "proc_row (Raised r e) = r"

text \<open>The request hashes a process holds a claim on.\<close>

fun proc_claim :: "proc \<Rightarrow> pystr multiset" where
  "proc_claim (Loaded r) = {#}"
| "proc_claim p = {#in_request_hash (proc_row p)#}"

type_synonym 'c net = "tables \<times> 'c \<times> proc multiset"

inductive flow_step :: "runtime \<Rightarrow> 'c chain_adapter \<Rightarrow> 'c net \<Rightarrow> 'c net \<Rightarrow> bool"
  for rt cl where
  store: "commits t t' \<Longrightarrow> flow_step rt cl (t, ch, ps) (t', ch, ps)"
| load: "intent i t = Some r \<Longrightarrow> flow_step rt cl (t, ch, ps) (t, ch, add_mset (Loaded r) ps)"
| claim: "length (filter (claimable (in_id r)) (t_intents t)) = 1 \<Longrightarrow>
    flow_step rt cl (t, ch, add_mset (Loaded r) ps)
      (upd_intents (claimable (in_id r)) (set_status Escrowed) t, ch, add_mset (Claimed r) ps)"
| look_up: "flow_step rt cl (t, ch, add_mset (Claimed r) ps)
      (t, ch, add_mset (Ready r (supplier_by_id (in_supplier_id r) t)) ps)"
| bad_args: "escrow_args rt c r s rls source = Inl e \<Longrightarrow>
    flow_step rt cl (t, ch, add_mset (Ready r s) ps) (t, ch, add_mset (Raised r e) ps)"
| create_raises: "escrow_args rt c r s rls source = Inr a \<Longrightarrow> ca_create_intent cl a ch = (Inl e, ch') \<Longrightarrow>
    (\<And>h. e \<noteq> ChainSubmittedUnconfirmed h) \<Longrightarrow>
    flow_step rt cl (t, ch, add_mset (Ready r s) ps) (t, ch', add_mset (Raised r e) ps)"
| create_unconfirmed: "escrow_args rt c r s rls source = Inr a \<Longrightarrow>
    ca_create_intent cl a ch = (Inl (ChainSubmittedUnconfirmed h), ch') \<Longrightarrow>
    flow_step rt cl (t, ch, add_mset (Ready r s) ps) (t, ch', ps)"
| create_returns: "escrow_args rt c r s rls source = Inr a \<Longrightarrow> ca_create_intent cl a ch = (Inr v, ch') \<Longrightarrow>
    flow_step rt cl (t, ch, add_mset (Ready r s) ps) (t, ch', ps)"
| reopen: "flow_step rt cl (t, ch, add_mset (Raised r e) ps)
      (upd_intents (reopenable (in_id r)) (set_status Proposed) t, ch, ps)"
| stop: "flow_step rt cl (t, ch, add_mset p ps) (t, ch, ps)"
| attest: "ca_attest cl i ora k src ch = (x, ch') \<Longrightarrow> flow_step rt cl (t, ch, ps) (t, ch', ps)"
| release: "ca_release cl i src ch = (x, ch') \<Longrightarrow> flow_step rt cl (t, ch, ps) (t, ch', ps)"
| refund: "ca_refund cl i src ch = (x, ch') \<Longrightarrow> flow_step rt cl (t, ch, ps) (t, ch', ps)"
| get_status: "ca_get_status cl i ch = (g, ch') \<Longrightarrow> flow_step rt cl (t, ch, ps) (t, ch', ps)"

abbreviation flow_steps :: "runtime \<Rightarrow> 'c chain_adapter \<Rightarrow> 'c net \<Rightarrow> 'c net \<Rightarrow> bool" where
  "flow_steps rt cl \<equiv> (flow_step rt cl)\<^sup>*\<^sup>*"

section \<open>What commits keep\<close>

text \<open>\<open>H\<close> is the set of request hashes that are escrowed or claimed: their payments are
  neither proposed nor held, and no payment recorded as held is among them.\<close>

definition locked :: "pystr set \<Rightarrow> tables \<Rightarrow> bool" where
  "locked H t \<longleftrightarrow> (\<forall>h \<in> H. \<exists>r \<in> set (t_intents t).
     in_request_hash r = h \<and> in_status r \<noteq> Proposed \<and> in_status r \<noteq> Held)"

definition held_apart :: "pystr set \<Rightarrow> tables \<Rightarrow> bool" where
  "held_apart H t \<longleftrightarrow> (\<forall>d r. d \<in> set (t_decisions t) \<longrightarrow> r \<in> set (t_intents t) \<longrightarrow>
     de_decision d = D_held \<longrightarrow> de_intent_id d = Some (in_id r) \<longrightarrow>
     in_status r \<noteq> Proposed \<and> in_request_hash r \<notin> H)"

definition guarded :: "pystr set \<Rightarrow> tables \<Rightarrow> bool" where
  "guarded H t \<longleftrightarrow> db_ok t \<and> locked H t \<and> held_apart H t"

definition keeps_guarded :: "pystr set \<Rightarrow> tables \<Rightarrow> tables \<Rightarrow> bool" where
  "keeps_guarded H t t' \<longleftrightarrow> (guarded H t \<longrightarrow> guarded H t')"

lemma upd_mem:
  "r' \<in> set (t_intents (upd_intents q g t)) \<longleftrightarrow> (\<exists>r \<in> set (t_intents t). r' = (if q r then g r else r))"
  by (auto simp: upd_intents_def)

lemma advancesD:
  assumes "advances r r'"
  shows "in_id r' = in_id r \<and> in_request_hash r' = in_request_hash r \<and>
    (in_status r' = Proposed \<longrightarrow> in_status r = Proposed) \<and> (in_status r' = Held \<longrightarrow> in_status r = Held)"
  using assms by (auto simp: advances_def same_terms_def)

lemma locked_update:
  assumes g: "\<And>r. advances r (g r)" and H: "locked H t"
  shows "locked H (upd_intents q g t)"
  unfolding locked_def
proof
  fix h assume "h \<in> H"
  with H obtain r where r: "r \<in> set (t_intents t)" "in_request_hash r = h" "in_status r \<noteq> Proposed" "in_status r \<noteq> Held"
    by (auto simp: locked_def)
  with advancesD [OF g, of r]
  show "\<exists>r \<in> set (t_intents (upd_intents q g t)). in_request_hash r = h \<and> in_status r \<noteq> Proposed \<and> in_status r \<noteq> Held"
    by (intro bexI [of _ "if q r then g r else r"]) (auto simp: upd_mem)
qed

lemma held_apart_update:
  assumes g: "\<And>r. advances r (g r)" and H: "held_apart H t"
  shows "held_apart H (upd_intents q g t)"
  unfolding held_apart_def
proof (intro allI impI)
  fix d r' assume d: "d \<in> set (t_decisions (upd_intents q g t))" "r' \<in> set (t_intents (upd_intents q g t))"
    "de_decision d = D_held" "de_intent_id d = Some (in_id r')"
  then obtain r where r: "r \<in> set (t_intents t)" "r' = (if q r then g r else r)" by (auto simp: upd_mem)
  have a: "in_id r' = in_id r \<and> in_request_hash r' = in_request_hash r \<and> (in_status r' = Proposed \<longrightarrow> in_status r = Proposed)"
    using advancesD [OF g, of r] r(2) by auto
  with H d r(1) have "in_status r \<noteq> Proposed \<and> in_request_hash r \<notin> H" by (simp add: held_apart_def)
  with a show "in_status r' \<noteq> Proposed \<and> in_request_hash r' \<notin> H" by auto
qed

lemma guarded_update:
  assumes g: "\<And>r. advances r (g r)" and H: "guarded H t"
  shows "guarded H (upd_intents q g t)"
proof -
  have "same_terms r (g r)" for r using g by (simp add: advances_def)
  from keeps_ok_update [OF this] show ?thesis
    using H locked_update [OF g] held_apart_update [OF g] by (simp add: guarded_def keeps_ok_def)
qed

lemma guarded_frame:
  assumes "guarded H t" and "t_intents t' = t_intents t" and "db_ok t'"
    and "\<And>d. d \<in> set (t_decisions t') \<Longrightarrow> d \<in> set (t_decisions t) \<or> de_decision d \<noteq> D_held"
  shows "guarded H t'"
  using assms unfolding guarded_def locked_def held_apart_def by metis

lemma guarded_draft:
  assumes H: "guarded H t" and r: "ins_intent r t = Inr u" and d: "ins_decision d u = Inr v"
    and i: "de_intent_id d = Some (in_id r)"
    and k: "de_decision d = D_proposed \<and> in_status r = Proposed \<or> de_decision d = D_held \<and> in_status r = Held"
  shows "guarded H v"
proof -
  have ok: "db_ok t" using H by (simp add: guarded_def)
  have "db_ok v" using ok r d by (simp add: db_ok_ins_intent db_ok_ins_decision)
  moreover have rows: "t_intents v = t_intents t @ [r]" "t_decisions v = t_decisions t @ [d]"
    and new: "in_id r \<notin> in_id ` set (t_intents t)" "in_request_hash r \<notin> in_request_hash ` set (t_intents t)"
    using r d by (auto simp: ins_intent_def ins_decision_def has_intent_def split: if_splits)
  moreover have "locked H v" using H rows(1) by (auto simp: guarded_def locked_def)
  moreover have "held_apart H v"
    unfolding held_apart_def
  proof (intro allI impI)
    fix d' r' assume a: "d' \<in> set (t_decisions v)" "r' \<in> set (t_intents v)"
      "de_decision d' = D_held" "de_intent_id d' = Some (in_id r')"
    have known: "H \<subseteq> in_request_hash ` set (t_intents t)"
      using H by (auto simp: guarded_def locked_def)
    with new(2) have h: "in_request_hash r \<notin> H" by blast
    have old: "de_intent_id d'' \<noteq> Some (in_id r)" if "d'' \<in> set (t_decisions t)" for d''
      using ok that new(1) by (auto simp: db_ok_def has_intent_def)
    consider "d' \<in> set (t_decisions t)" "r' \<in> set (t_intents t)" | "d' = d" "r' = r"
      using a rows old i new(1) by auto
    then show "in_status r' \<noteq> Proposed \<and> in_request_hash r' \<notin> H"
    proof cases
      case 1
      with H a show ?thesis by (simp add: guarded_def held_apart_def)
    next
      case 2
      with a k h show ?thesis by auto
    qed
  qed
  ultimately show ?thesis by (simp add: guarded_def)
qed

interpretation grd: step_relation "keeps_guarded H" for H
proof unfold_locales
  fix q g t assume "\<And>r. advances r (g r)"
  then show "keeps_guarded H t (upd_intents q g t)" by (simp add: keeps_guarded_def guarded_update)
next
  fix r t u d v n
  assume "ins_intent r t = Inr u" "ins_decision d u = Inr v" "de_intent_id d = Some (in_id r)"
    "de_decision d = D_proposed \<and> in_status r = Proposed \<or> de_decision d = D_held \<and> in_status r = Held"
  then show "keeps_guarded H t v" by (simp add: keeps_guarded_def guarded_draft)
next
  fix d t t' assume d: "ins_decision d t = Inr t'" "de_decision d \<noteq> D_held"
  show "keeps_guarded H t t'"
    unfolding keeps_guarded_def
  proof
    assume H: "guarded H t"
    then have "db_ok t'" using db_ok_ins_decision d(1) by (auto simp: guarded_def)
    with H d show "guarded H t'"
      by (elim guarded_frame) (auto simp: ins_decision_def split: if_splits)
  qed
next
  fix t rs
  show "keeps_guarded H t (t\<lparr>t_rules := rs\<rparr>)"
    unfolding keeps_guarded_def
  proof
    assume H: "guarded H t"
    with ok.D_rules have "db_ok (t\<lparr>t_rules := rs\<rparr>)" by (auto simp: guarded_def keeps_ok_def)
    with H show "guarded H (t\<lparr>t_rules := rs\<rparr>)" by (elim guarded_frame) simp_all
  qed
next
  have *: "keeps_guarded H t t'" if "keeps_ok t t'" "t_intents t' = t_intents t" "t_decisions t' = t_decisions t" for t t'
    unfolding keeps_guarded_def
  proof
    assume H: "guarded H t"
    with that(1) have "db_ok t'" by (simp add: guarded_def keeps_ok_def)
    with H that show "guarded H t'" by (elim guarded_frame) simp_all
  qed
  show "ins_event e t = Inr t' \<Longrightarrow> keeps_guarded H t t'" for e t t'
    by (rule * [OF ok.D_event]) (auto simp: ins_event_def split: if_splits)
  show "ins_supplier s t = Inr t' \<Longrightarrow> keeps_guarded H t t'" for s t t'
    by (rule * [OF ok.D_supplier]) (auto simp: ins_supplier_def split: if_splits)
  show "ins_attestation a t = Inr t' \<Longrightarrow> keeps_guarded H t t'" for a t t'
    by (rule * [OF ok.D_attestation]) (auto simp: ins_attestation_def split: if_splits)
  show "ins_chain_tx c t = Inr t' \<Longrightarrow> keeps_guarded H t t'" for c t t'
    by (rule * [OF ok.D_chain_tx]) (auto simp: ins_chain_tx_def split: if_splits)
  show "ins_payout p t = Inr t' \<Longrightarrow> keeps_guarded H t t'" for p t t'
    by (rule * [OF ok.D_payout]) (auto simp: ins_payout_def split: if_splits)
qed (auto simp: keeps_guarded_def)

lemma guarded_mono: "guarded H t \<Longrightarrow> H' \<subseteq> H \<Longrightarrow> guarded H' t"
  unfolding guarded_def locked_def held_apart_def by blast

lemma db_ok_row:
  assumes "db_ok t" and "r \<in> set (t_intents t)" and "r' \<in> set (t_intents t)"
    and "in_id r = in_id r' \<or> in_request_hash r = in_request_hash r'"
  shows "r = r'"
  using assms unfolding db_ok_def by (auto simp: distinct_map dest: inj_onD)

text \<open>A successful claim takes a payment that nobody holds.\<close>

lemma guarded_claim:
  assumes H: "guarded H t" and n: "length (filter (claimable i) (t_intents t)) = 1"
    and r: "r \<in> set (t_intents t)" "in_id r = i"
  shows "in_request_hash r \<notin> H \<and>
    guarded (insert (in_request_hash r) H) (upd_intents (claimable i) (set_status Escrowed) t)"
proof -
  let ?t = "upd_intents (claimable i) (set_status Escrowed) t"
  have ok: "db_ok t" using H by (simp add: guarded_def)
  from n have "filter (claimable i) (t_intents t) \<noteq> []" by auto
  then obtain r0 where r0: "r0 \<in> set (t_intents t)" "in_id r0 = i" "in_status r0 = Proposed"
    by (auto simp: filter_empty_conv claimable_def)
  with db_ok_row [OF ok r0(1) r(1)] r(2) have rp: "in_status r = Proposed" by simp
  have free: "in_request_hash r \<notin> H"
    using H r(1) rp db_ok_row [OF ok r(1)] by (fastforce simp: guarded_def locked_def)
  have G: "guarded H ?t" using H by (rule guarded_update [rotated]) simp
  have mem: "set_status Escrowed r \<in> set (t_intents ?t)"
    using r rp by (auto simp: upd_mem claimable_def intro!: bexI [of _ r])
  have "in_request_hash r' \<noteq> in_request_hash r"
    if held: "d \<in> set (t_decisions ?t)" "r' \<in> set (t_intents ?t)" "de_decision d = D_held"
      "de_intent_id d = Some (in_id r')" for d r'
  proof
    assume same: "in_request_hash r' = in_request_hash r"
    obtain r1 where r1: "r1 \<in> set (t_intents t)" "in_id r' = in_id r1" "in_request_hash r' = in_request_hash r1"
      using held(2) by (auto simp: upd_mem set_status_def)
    with db_ok_row [OF ok r1(1) r(1)] same have "r1 = r" by simp
    with H held r1 rp show False by (auto simp: guarded_def held_apart_def)
  qed
  note apart = this
  have "\<exists>r' \<in> set (t_intents ?t). in_request_hash r' = in_request_hash r \<and>
      in_status r' \<noteq> Proposed \<and> in_status r' \<noteq> Held"
    by (rule bexI [OF _ mem]) (simp add: set_status_def)
  with G have "locked (insert (in_request_hash r) H) ?t" by (simp add: guarded_def locked_def)
  moreover have "held_apart (insert (in_request_hash r) H) ?t"
    using G apart unfolding guarded_def held_apart_def by blast
  ultimately have "guarded (insert (in_request_hash r) H) ?t" using G by (simp add: guarded_def)
  with free show ?thesis by blast
qed

text \<open>Giving a claim back leaves the other holds alone.\<close>

lemma guarded_reopen:
  assumes H: "guarded (insert h H) t" and h: "h \<notin> H"
    and i: "\<And>r. r \<in> set (t_intents t) \<Longrightarrow> in_id r = i \<Longrightarrow> in_request_hash r = h"
  shows "guarded H (upd_intents (reopenable i) (set_status Proposed) t)"
proof -
  let ?t = "upd_intents (reopenable i) (set_status Proposed) t"
  have "db_ok ?t" using H ok.D_reopen [of t i] by (simp add: guarded_def keeps_ok_def)
  moreover have "locked H ?t"
    unfolding locked_def
  proof
    fix k assume "k \<in> H"
    with H obtain r where r: "r \<in> set (t_intents t)" "in_request_hash r = k" "in_status r \<noteq> Proposed" "in_status r \<noteq> Held"
      by (auto simp: guarded_def locked_def)
    with \<open>k \<in> H\<close> h i have "\<not> reopenable i r" by (auto simp: reopenable_def)
    with r show "\<exists>r \<in> set (t_intents ?t). in_request_hash r = k \<and> in_status r \<noteq> Proposed \<and> in_status r \<noteq> Held"
      by (intro bexI [of _ r]) (auto simp: upd_mem intro: bexI [of _ r])
  qed
  moreover have "held_apart H ?t"
    unfolding held_apart_def
  proof (intro allI impI)
    fix d r' assume d: "d \<in> set (t_decisions ?t)" "r' \<in> set (t_intents ?t)" "de_decision d = D_held"
      "de_intent_id d = Some (in_id r')"
    then obtain r where r: "r \<in> set (t_intents t)" "r' = (if reopenable i r then set_status Proposed r else r)"
      by (auto simp: upd_mem)
    with d H have "in_status r \<noteq> Proposed \<and> in_request_hash r \<notin> insert h H"
      by (auto simp: guarded_def held_apart_def set_status_def split: if_splits)
    moreover from this r i have "\<not> reopenable i r" by (auto simp: reopenable_def)
    ultimately show "in_status r' \<noteq> Proposed \<and> in_request_hash r' \<notin> H" using r by simp
  qed
  ultimately show ?thesis by (simp add: guarded_def)
qed

section \<open>The invariant of the interleaving\<close>

definition claims :: "proc multiset \<Rightarrow> pystr multiset" where
  "claims ps = \<Sum>\<^sub># (image_mset proc_claim ps)"

lemma claims_simps [simp]: "claims {#} = {#}" "claims (add_mset p ps) = proc_claim p + claims ps"
  by (simp_all add: claims_def)

text \<open>The payment an order on the chain belongs to: same request hash, token, deadline and
  amount, paid to the registered address of its supplier.\<close>

definition order_for :: "runtime \<Rightarrow> tables \<Rightarrow> create_args \<Rightarrow> intent_row \<Rightarrow> bool" where
  "order_for rt t e r \<longleftrightarrow> r \<in> set (t_intents t) \<and> cr_request_hash e = in_request_hash r \<and>
     cr_token e = in_token r \<and> cr_deadline e = in_deadline r \<and>
     py_int_of_str rt (in_amount r) = Inr (cr_amount e) \<and>
     (\<exists>s \<in> set (t_suppliers t). sp_id s = in_supplier_id r \<and> sp_address s = cr_supplier e)"

definition proc_known :: "tables \<Rightarrow> proc \<Rightarrow> bool" where
  "proc_known t p \<longleftrightarrow> (\<exists>r \<in> set (t_intents t). same_terms (proc_row p) r) \<and>
     (\<forall>r s. p = Ready r (Some s) \<longrightarrow> s \<in> set (t_suppliers t) \<and> sp_id s = in_supplier_id r)"

lemma audit_le_row:
  assumes "audit_le t t'" and "r \<in> set (t_intents t)"
  shows "\<exists>r' \<in> set (t_intents t'). same_terms r r'"
proof -
  from assms(2) obtain k where k: "k < length (t_intents t)" "r = t_intents t ! k"
    by (auto simp: in_set_conv_nth)
  with assms(1) have "k < length (t_intents t')" "same_terms r (t_intents t' ! k)"
    by (auto simp: audit_le_def terms_le_def)
  then show ?thesis by (auto intro: bexI [of _ "t_intents t' ! k"])
qed

lemma audit_le_supplier: "audit_le t t' \<Longrightarrow> s \<in> set (t_suppliers t) \<Longrightarrow> s \<in> set (t_suppliers t')"
  by (auto simp: audit_le_def dest: set_mono_prefix)

lemma order_for_mono:
  assumes a: "audit_le t t'" and e: "order_for rt t e r"
  shows "\<exists>r'. order_for rt t' e r'"
proof -
  from audit_le_row [OF a, of r] e obtain r' where r': "r' \<in> set (t_intents t')" "same_terms r r'"
    by (auto simp: order_for_def)
  then have "order_for rt t' e r'"
    using e audit_le_supplier [OF a] by (auto simp: order_for_def same_terms_def)
  then show ?thesis by blast
qed

lemma proc_known_mono:
  assumes a: "audit_le t t'" and p: "proc_known t p"
  shows "proc_known t' p"
proof -
  from p obtain r where "r \<in> set (t_intents t)" "same_terms (proc_row p) r" by (auto simp: proc_known_def)
  with audit_le_row [OF a, of r] have "\<exists>r' \<in> set (t_intents t'). same_terms (proc_row p) r'"
    by (auto intro: same_terms_trans)
  then show ?thesis using p audit_le_supplier [OF a] by (auto simp: proc_known_def)
qed

end
