(* ===== verification/Flow_Effects.thy ===== *)
theory Flow_Effects
  imports Flow
begin

text \<open>
  What the operations of the payment flow did to the store when they return: the rows of
  \<open>intents\<close> and the rows added to the log tables.
\<close>

section \<open>Statements on the pair of store and chain\<close>

lemma on_fst_eq: "on_fst m p = (r, q) \<longleftrightarrow> (\<exists>w'. m (fst p) = (r, w') \<and> q = (w', snd p))"
  by (cases p) (auto simp: on_fst_def split: prod.splits)

lemma on_snd_eq: "on_snd m p = (r, q) \<longleftrightarrow> (\<exists>c'. m (snd p) = (r, c') \<and> q = (fst p, c'))"
  by (cases p) (auto simp: on_snd_def split: prod.splits)

lemma db_read_eq [simp]: "db_read f w = (r, w') \<longleftrightarrow> r = Inr (f (w_db w)) \<and> w' = w"
  by (auto simp: db_read_def py_gets_def)

lemmas flow_returns = py_bind_returns py_seq_returns on_fst_eq on_snd_eq

section \<open>Rows\<close>

lemma find_map: "find P (map f xs) = map_option f (find (P \<circ> f) xs)"
  by (induction xs) auto

lemma intent_upd:
  assumes "\<And>r. in_id (g r) = in_id r"
  shows "intent i (upd_intents q g t) = map_option (\<lambda>r. if q r then g r else r) (intent i t)"
proof -
  have "(\<lambda>r. in_id r = i) \<circ> (\<lambda>r. if q r then g r else r) = (\<lambda>r. in_id r = i)"
    using assms by (auto simp: fun_eq_iff)
  then show ?thesis by (simp add: intent_def upd_intents_def find_map)
qed

lemma intent_cong: "t_intents t' = t_intents t \<Longrightarrow> intent i t' = intent i t"
  by (simp add: intent_def)

lemma intent_id: "intent i t = Some r \<Longrightarrow> in_id r = i"
  unfolding intent_def by (blast dest: find_Some_mem)

section \<open>What each statement wrote\<close>

lemma emit_frame:
  assumes "emit n p w = (r, w')"
  shows "t_intents (w_db w') = t_intents (w_db w)" "t_decisions (w_db w') = t_decisions (w_db w)"
    "t_chain_txs (w_db w') = t_chain_txs (w_db w)" "t_payouts (w_db w') = t_payouts (w_db w)"
    "t_suppliers (w_db w') = t_suppliers (w_db w)" "t_attestations (w_db w') = t_attestations (w_db w)"
proof -
  have "events_only (w_db w) (w_db w')" using evolvesD [OF evo_emit assms] by (simp add: evo.W_def)
  from events_only_frame [OF this] show "t_intents (w_db w') = t_intents (w_db w)"
    "t_decisions (w_db w') = t_decisions (w_db w)" "t_chain_txs (w_db w') = t_chain_txs (w_db w)"
    "t_payouts (w_db w') = t_payouts (w_db w)" "t_suppliers (w_db w') = t_suppliers (w_db w)"
    "t_attestations (w_db w') = t_attestations (w_db w)"
    by simp_all
qed

definition tx_row_for :: "pystr \<Rightarrow> pystr \<Rightarrow> pystr option \<Rightarrow> chain_tx_row \<Rightarrow> bool" where
  "tx_row_for i action h row \<longleftrightarrow> ct_intent_id row = i \<and> ct_action row = action \<and> ct_tx_hash row = h"

lemma add_chain_tx_Inr:
  assumes "add_chain_tx i action h w = (Inr x, w')"
  shows "\<exists>row. tx_row_for i action h row \<and>
     w_db w' = (w_db w)\<lparr>t_chain_txs := t_chain_txs (w_db w) @ [row]\<rparr>"
proof -
  from assms obtain u w1 now w2 where "ulid_new w = (Inr u, w1)" "read_clock w1 = (Inr now, w2)"
    and wr: "db_write (ins_chain_tx \<lparr>ct_id = u, ct_intent_id = i, ct_action = action, ct_tx_hash = h,
       ct_created_at = now\<rparr>) w2 = (Inr x, w')"
    by (auto simp: add_chain_tx_def py_bind_returns)
  then have "w_db w2 = w_db w" by (simp add: ulid_new_db read_clock_step)
  with db_write_Inr [OF wr] show ?thesis
    by (intro exI [of _ "\<lparr>ct_id = u, ct_intent_id = i, ct_action = action, ct_tx_hash = h,
       ct_created_at = now\<rparr>"]) (auto simp: ins_chain_tx_def tx_row_for_def split: if_splits)
qed

lemma set_chain_intent_Inr:
  "set_chain_intent i n w = (Inr x, w') \<Longrightarrow>
     w_db w' = upd_intents (\<lambda>r. in_id r = i) (\<lambda>r. r\<lparr>in_chain_id := Some n\<rparr>) (w_db w)"
  unfolding set_chain_intent_def
  by (drule db_write_Inr) (auto simp: sql_int_def rbind_def split: if_splits)

text \<open>A status change of one payment that leaves payouts and suppliers alone.\<close>

definition status_set :: "pystr \<Rightarrow> status \<Rightarrow> tables \<Rightarrow> tables \<Rightarrow> bool" where
  "status_set i st t t' \<longleftrightarrow> t_intents t' = t_intents (upd_intents (\<lambda>r. in_id r = i) (set_status st) t) \<and>
     t_payouts t' = t_payouts t \<and> t_suppliers t' = t_suppliers t"

lemma status_set_intent:
  assumes "status_set i st t t'" and "intent i t = Some r"
  shows "intent i t' = Some (set_status st r)"
proof -
  have "intent i (upd_intents (\<lambda>r. in_id r = i) (set_status st) t) = Some (set_status st r)"
    using assms(2) intent_id [OF assms(2)] by (subst intent_upd) (simp_all add: set_status_def)
  then show ?thesis using assms(1) intent_cong unfolding status_set_def by metis
qed

lemma mark_released_Inr:
  assumes "mark_released i w = (Inr x, w')"
  shows "status_set i Released (w_db w) (w_db w')"
proof -
  from assms obtain u w1 where "db_write (\<lambda>t. Inr (upd_intents (\<lambda>r. in_id r = i) (set_status Released) t)) w = (Inr u, w1)"
    and em: "emit ''intent.released'' [jkey ''intent_id'' (JStr i)] w1 = (Inr x, w')"
    by (auto simp: mark_released_def py_seq_returns)
  from db_write_Inr [OF this(1)] have "w_db w1 = upd_intents (\<lambda>r. in_id r = i) (set_status Released) (w_db w)"
    by simp
  then show ?thesis by (simp add: status_set_def emit_frame [OF em])
qed

definition decision_row_for :: "decision \<Rightarrow> code list \<Rightarrow> pystr \<Rightarrow> pystr \<Rightarrow> pystr option \<Rightarrow> decision_row \<Rightarrow> bool" where
  "decision_row_for d codes h i detail row \<longleftrightarrow> de_decision row = d \<and> de_codes row = codes \<and>
     de_request_hash row = h \<and> de_intent_id row = Some i \<and> de_detail row = detail"

text \<open>\<open>approved\<close> and \<open>reverted\<close> set the status and add their decision row.\<close>

lemma record_status_Inr:
  assumes rec: "record_decision d codes h None (Some i) detail w = (Inr out, w')"
    and d: "d = D_approved \<and> st = Escrowed \<or> d = D_reverted \<and> st = Reverted"
  shows "status_set i st (w_db w) (w_db w') \<and> t_chain_txs (w_db w') = t_chain_txs (w_db w) \<and>
     (\<exists>row. decision_row_for d codes h i detail row \<and> t_decisions (w_db w') = t_decisions (w_db w) @ [row])"
proof -
  from record_decision_Inr [OF rec] obtain w1 w2 p where db1: "w_db w1 = w_db w"
    and tx: "decision_tx d codes h None (Some i) detail (do_decision_id out) w1 = (Inr (do_intent_id out), w2)"
    and em: "emit (decision_event d) p w2 = (Inr (), w')" by blast
  have "d \<noteq> D_proposed" "d \<noteq> D_held" using d by auto
  from decision_tx_other [OF tx this] obtain t row where ins: "ins_decision row t = Inr (w_db w2)"
    and row: "de_decision row = d" "de_codes row = codes" "de_request_hash row = h" "de_intent_id row = Some i"
      "de_detail row = detail"
    and t: "t = upd_intents (\<lambda>r. in_id r = i) (set_status st) (w_db w)"
    using d db1 by (auto split: if_splits)
  from ins have "w_db w2 = t\<lparr>t_decisions := t_decisions t @ [row]\<rparr>"
    by (auto simp: ins_decision_def split: if_splits)
  then show ?thesis using emit_frame [OF em] row by (auto simp: t decision_row_for_def status_set_def)
qed

section \<open>\<open>sync_status\<close>\<close>

lemma chain_to_local_range:
  "chain_to_local v = Inr st \<Longrightarrow> st = Escrowed \<or> st = Released \<or> st = Reverted"
  by (auto simp: chain_to_local_def split: if_splits)

lemma sync_effect_Inr:
  assumes "sync_effect i h st w = (Inr x, w')" and "st = Escrowed \<or> st = Released \<or> st = Reverted"
  shows "status_set i st (w_db w) (w_db w')"
  using assms(2)
proof (elim disjE)
  assume st: "st = Escrowed"
  with assms(1) obtain out where
    "record_decision D_approved [CHAIN_FUNDED] h None (Some i) None w = (Inr out, w')"
    by (auto simp: sync_effect_def flow_returns py_ret_def)
  with st show ?thesis by (simp add: record_status_Inr)
next
  assume "st = Released"
  with assms(1) show ?thesis by (auto simp: sync_effect_def dest: mark_released_Inr)
next
  assume st: "st = Reverted"
  with assms(1) obtain out w1 where
    "record_decision D_reverted [CHAIN_REFUNDED] h None (Some i) None w = (Inr out, w1)"
    and "emit ''intent.refunded'' [jkey ''intent_id'' (JStr i), jkey ''request_hash'' (JStr h)] w1 = (Inr x, w')"
    by (auto simp: sync_effect_def flow_returns)
  then show ?thesis using st record_status_Inr [of D_reverted _ h i _ w out w1 Reverted]
    by (simp add: status_set_def emit_frame)
qed

lemma sync_status_Inr:
  assumes "sync_status cl i p = (Inr st, q)"
  shows "\<exists>r. intent i (w_db (fst p)) = Some r \<and>
    intent i (w_db (fst q)) = Some (set_status st r) \<and>
    (fst q = fst p \<or> status_set i st (w_db (fst p)) (w_db (fst q))) \<and>
    (case in_chain_id r of None \<Rightarrow> st = in_status r \<and> snd q = snd p
     | Some n \<Rightarrow> \<exists>v. ca_get_status cl n (snd p) = (Inr v, snd q) \<and>
         (if v = JNull then st = in_status r else rbind (chain_status v) chain_to_local = Inr st))"
proof -
  have same: "set_status (in_status r) r = r" for r by (simp add: set_status_def)
  from assms obtain r where r: "intent i (w_db (fst p)) = Some r"
    by (auto simp: sync_status_def flow_returns py_raise_def split: option.splits)
  show ?thesis
  proof (cases "in_chain_id r")
    case None
    with assms r show ?thesis
      by (auto simp: sync_status_def flow_returns py_ret_def same split: option.splits)
  next
    case (Some n)
    with assms r obtain v ch where v: "ca_get_status cl n (snd p) = (Inr v, ch)"
      and rest: "(if v = JNull then py_ret (in_status r)
         else py_bind (py_lift (rbind (chain_status v) chain_to_local)) (\<lambda>mapped.
           if mapped = in_status r then py_ret mapped
           else py_seq (on_fst (sync_effect i (in_request_hash r) mapped)) (py_ret mapped))) (fst p, ch) = (Inr st, q)"
      by (auto simp: sync_status_def flow_returns split: option.splits)
    show ?thesis
    proof (cases "v = JNull")
      case True
      with rest r v Some show ?thesis by (auto simp: py_ret_def same)
    next
      case False
      with rest have m: "rbind (chain_status v) chain_to_local = Inr st"
        and eff: "(if st = in_status r then q = (fst p, ch)
           else \<exists>w'. sync_effect i (in_request_hash r) st (fst p) = (Inr (), w') \<and> q = (w', ch))"
        by (auto simp: flow_returns py_lift_def py_ret_def split: if_splits)
      have "st = Escrowed \<or> st = Released \<or> st = Reverted"
        using m by (auto simp: rbind_def split: sum.splits dest: chain_to_local_range)
      note upd = sync_effect_Inr [OF _ this]
      have "intent i (w_db (fst q)) = Some (set_status st r) \<and> snd q = ch \<and>
        (fst q = fst p \<or> status_set i st (w_db (fst p)) (w_db (fst q)))"
      proof (cases "st = in_status r")
        case True
        then show ?thesis using eff r same by simp
      next
        case False
        with eff obtain w' where "sync_effect i (in_request_hash r) st (fst p) = (Inr (), w')" "q = (w', ch)"
          by auto
        with status_set_intent [OF upd [OF this(1)] r] upd [OF this(1)] show ?thesis by simp
      qed
      then show ?thesis using r v m False Some by auto
    qed
  qed
qed

section \<open>\<open>execute\<close>\<close>

lemma escrow_args_Inr:
  "escrow_args rt c r spl rls source = Inr a \<Longrightarrow> \<exists>s. spl = Some s \<and> cr_supplier a = sp_address s \<and>
     cr_token a = in_token r \<and> cr_request_hash a = in_request_hash r \<and> cr_deadline a = in_deadline r \<and>
     py_int_of_str rt (in_amount r) = Inr (cr_amount a)"
  by (auto simp: escrow_args_def supplier_address_def rbind_def split: sum.splits option.splits)

lemma supplier_by_id_mem: "supplier_by_id i t = Some s \<Longrightarrow> s \<in> set (t_suppliers t) \<and> sp_id s = i"
  unfolding supplier_by_id_def by (rule find_Some_mem)

lemma claim_escrow_True:
  assumes "claim_escrow i w = (Inr True, w')"
  shows "length (filter (claimable i) (t_intents (w_db w))) = 1 \<and>
    w_db w' = upd_intents (claimable i) (set_status Escrowed) (w_db w)"
  using assms by (auto simp: claim_escrow_def flow_returns py_gets_def py_ret_def dest: db_write_Inr)

lemma submit_failed_raises: "submit_failed i e w \<noteq> (Inr v, w')"
  by (cases e) (auto simp: submit_failed_def py_seq_returns py_raise_def)

lemma submit_escrow_Inr:
  assumes "submit_escrow rt c cl i r spl rls src p = (Inr v, q)"
  shows "\<exists>a. escrow_args rt c r spl rls src = Inr a \<and> ca_create_intent cl a (snd p) = (Inr v, snd q) \<and> fst q = fst p"
  using assms
  by (auto simp: submit_failed_raises submit_escrow_def py_except_def py_bind_def py_lift_def on_fst_eq on_snd_eq
      split: prod.splits sum.splits)

text \<open>What an approved payment left behind: its status and chain id, the pointer to the
  transaction and the decision row.\<close>

definition approved :: "pystr \<Rightarrow> intent_row \<Rightarrow> int \<Rightarrow> pystr option \<Rightarrow> tables \<Rightarrow> tables \<Rightarrow> bool" where
  "approved i r n h t t' \<longleftrightarrow>
     intent i t' = Some (r\<lparr>in_status := Escrowed, in_chain_id := Some n\<rparr>) \<and>
     (\<exists>tx. tx_row_for i (asc ''create_intent'') h tx \<and> t_chain_txs t' = t_chain_txs t @ [tx]) \<and>
     (\<exists>d. decision_row_for D_approved [ESCROWED_ONCHAIN] (in_request_hash r) i h d \<and>
        t_decisions t' = t_decisions t @ [d])"

lemma confirm_escrow_Inr:
  assumes conf: "confirm_escrow rt cl i r v p = (Inr n, q)" and r: "intent i (w_db (fst p)) = Some r'"
  shows "json_int rt (ir_value v) = Inr n \<and>
    (\<exists>chain. ca_get_status cl n (snd p) = (Inr chain, snd q) \<and> confirm_checks rt r chain = Inr ()) \<and>
    (\<exists>tx. tx_row_for i (asc ''create_intent'') (ir_tx_hash v) tx \<and>
       t_chain_txs (w_db (fst q)) = t_chain_txs (w_db (fst p)) @ [tx]) \<and>
    (\<exists>d. decision_row_for D_approved [ESCROWED_ONCHAIN] (in_request_hash r) i (ir_tx_hash v) d \<and>
       t_decisions (w_db (fst q)) = t_decisions (w_db (fst p)) @ [d]) \<and>
    intent i (w_db (fst q)) = Some (r'\<lparr>in_status := Escrowed, in_chain_id := Some n\<rparr>)"
proof -
  from conf obtain w1 w2 chain ch out w3 where n: "json_int rt (ir_value v) = Inr n"
    and tx: "add_chain_tx i (asc ''create_intent'') (ir_tx_hash v) (fst p) = (Inr (), w1)"
    and set: "set_chain_intent i n w1 = (Inr (), w2)"
    and get: "ca_get_status cl n (snd p) = (Inr chain, ch)" and chk: "confirm_checks rt r chain = Inr ()"
    and rec: "record_decision D_approved [ESCROWED_ONCHAIN] (in_request_hash r) None (Some i) (ir_tx_hash v) w2 = (Inr out, w3)"
    and q: "q = (w3, ch)"
    by (auto simp: confirm_escrow_def flow_returns py_lift_def py_ret_def)
  from add_chain_tx_Inr [OF tx] obtain row where row: "tx_row_for i (asc ''create_intent'') (ir_tx_hash v) row"
    and db1: "w_db w1 = (w_db (fst p))\<lparr>t_chain_txs := t_chain_txs (w_db (fst p)) @ [row]\<rparr>" by blast
  have db2: "w_db w2 = upd_intents (\<lambda>r. in_id r = i) (\<lambda>r. r\<lparr>in_chain_id := Some n\<rparr>) (w_db w1)"
    by (rule set_chain_intent_Inr [OF set])
  have "intent i (w_db w1) = Some r'" using r intent_cong [of "w_db w1" "w_db (fst p)" i] by (simp add: db1)
  then have "intent i (w_db w2) = Some (r'\<lparr>in_chain_id := Some n\<rparr>)"
    unfolding db2 using intent_id by (subst intent_upd) auto
  then have "intent i (upd_intents (\<lambda>r. in_id r = i) (set_status Escrowed) (w_db w2)) =
      Some (r'\<lparr>in_status := Escrowed, in_chain_id := Some n\<rparr>)"
    using intent_id by (subst intent_upd) (auto simp: set_status_def)
  moreover note record_status_Inr [OF rec, of Escrowed, unfolded status_set_def]
  ultimately have "intent i (w_db w3) = Some (r'\<lparr>in_status := Escrowed, in_chain_id := Some n\<rparr>)"
    and "\<exists>d. decision_row_for D_approved [ESCROWED_ONCHAIN] (in_request_hash r) i (ir_tx_hash v) d \<and>
       t_decisions (w_db w3) = t_decisions (w_db w2) @ [d]"
    and "t_chain_txs (w_db w3) = t_chain_txs (w_db w2)"
    using intent_cong [of "w_db w3" "upd_intents (\<lambda>r. in_id r = i) (set_status Escrowed) (w_db w2)" i] by auto
  then show ?thesis using n get chk row by (auto simp: q db2 db1)
qed

lemma execute_Inr:
  assumes exe: "execute rt cl i src c p = (Inr (Some n), q)" and ok: "db_ok (w_db (fst p))"
  shows "\<exists>r a v ch. intent i (w_db (fst p)) = Some r \<and> in_status r = Proposed \<and>
     escrow_args rt c r (supplier_by_id (in_supplier_id r) (w_db (fst p))) (t_rules (w_db (fst p))) src = Inr a \<and>
     ca_create_intent cl a (snd p) = (Inr v, ch) \<and> json_int rt (ir_value v) = Inr n \<and>
     (\<exists>chain. ca_get_status cl n ch = (Inr chain, snd q) \<and> confirm_checks rt r chain = Inr ()) \<and>
     approved i r n (ir_tx_hash v) (w_db (fst p)) (w_db (fst q))"
proof -
  from exe obtain r where r: "intent i (w_db (fst p)) = Some r"
    by (auto simp: execute_def flow_returns py_raise_def split: option.splits)
  have live: "\<not> cf_dry_run c"
    using exe r by (auto simp: execute_def flow_returns py_raise_def py_ret_def split: if_splits option.splits)
  from exe r live obtain w1 v q1 where cl: "claim_escrow i (fst p) = (Inr True, w1)"
    and sub: "submit_escrow rt c cl i r (supplier_by_id (in_supplier_id r) (w_db w1)) (rules (w_db w1)) src
        (w1, snd p) = (Inr v, q1)"
    and conf: "confirm_escrow rt cl i r v q1 = (Inr n, q)"
    by (auto simp: execute_def flow_returns py_ret_def split: if_splits option.splits)
  from claim_escrow_True [OF cl] have cnt: "length (filter (claimable i) (t_intents (w_db (fst p)))) = 1"
    and db1: "w_db w1 = upd_intents (claimable i) (set_status Escrowed) (w_db (fst p))" by auto
  from cnt have "filter (claimable i) (t_intents (w_db (fst p))) \<noteq> []" by auto
  then obtain r0 where r0: "r0 \<in> set (t_intents (w_db (fst p)))" "in_id r0 = i" "in_status r0 = Proposed"
    by (auto simp: filter_empty_conv claimable_def)
  have "r \<in> set (t_intents (w_db (fst p)))" "in_id r = i"
    using r unfolding intent_def by (blast dest: find_Some_mem)+
  then have "r = r0" using ok r0 unfolding db_ok_def by (auto simp: distinct_map dest: inj_onD)
  with r0 have rp: "in_status r = Proposed" by simp
  have r1: "intent i (w_db w1) = Some (set_status Escrowed r)"
    unfolding db1 using r rp intent_id [OF r] by (subst intent_upd) (auto simp: set_status_def claimable_def)
  have same: "supplier_by_id (in_supplier_id r) (w_db w1) = supplier_by_id (in_supplier_id r) (w_db (fst p))"
    "rules (w_db w1) = t_rules (w_db (fst p))" "t_chain_txs (w_db w1) = t_chain_txs (w_db (fst p))"
    "t_decisions (w_db w1) = t_decisions (w_db (fst p))"
    by (simp_all add: db1 supplier_by_id_def rules_def)
  from submit_escrow_Inr [OF sub] obtain a where
    "escrow_args rt c r (supplier_by_id (in_supplier_id r) (w_db (fst p))) (t_rules (w_db (fst p))) src = Inr a"
    "ca_create_intent cl a (snd p) = (Inr v, snd q1)" and q1: "fst q1 = w1"
    by (auto simp: same)
  with confirm_escrow_Inr [OF conf, of "set_status Escrowed r"] r r1 rp show ?thesis
    by (auto simp: q1 approved_def same set_status_def)
qed

end
