(* ===== verification/Flow_Safety.thy ===== *)
theory Flow_Safety
  imports Interleaving Flow_Effects
begin

text \<open>
  The payment flow under interleaving: in every reachable state of any number of processes,
  with failing statements, lost responses and crashes anywhere, the chain holds at most one
  escrow per request, every escrow is a stored payment with its terms, and a payment that
  was recorded as held has none.  The chain is any adapter that satisfies
  \<open>escrow_contract\<close>.
\<close>

section \<open>The invariant\<close>

lemma intent_mem: "intent i t = Some r \<Longrightarrow> r \<in> set (t_intents t) \<and> in_id r = i"
  unfolding intent_def by (rule find_Some_mem)

lemma same_terms_order:
  "order_for rt t e r \<Longrightarrow> same_terms r r' \<Longrightarrow> r' \<in> set (t_intents t) \<Longrightarrow> order_for rt t e r'"
  by (simp add: order_for_def same_terms_def)

text \<open>A submission by a process that knows its payment and supplier is an order for it.\<close>

lemma ready_order:
  assumes k: "proc_known t (Ready r spl)" and a: "escrow_args rt c r spl rls source = Inr a"
  shows "\<exists>r'. order_for rt t (a\<lparr>cr_source := None\<rparr>) r'"
proof -
  from escrow_args_Inr [OF a] obtain s where s: "spl = Some s" and e: "cr_supplier a = sp_address s"
    "cr_token a = in_token r" "cr_request_hash a = in_request_hash r" "cr_deadline a = in_deadline r"
    "py_int_of_str rt (in_amount r) = Inr (cr_amount a)" by blast
  from k obtain r' where "r' \<in> set (t_intents t)" "same_terms r r'" by (auto simp: proc_known_def)
  then have "order_for rt t (a\<lparr>cr_source := None\<rparr>) r'"
    using k e unfolding s by (auto simp: order_for_def proc_known_def same_terms_def)
  then show ?thesis by blast
qed

lemma distinct_count_le: "(\<And>h. count (mset xs) h \<le> 1) \<Longrightarrow> distinct xs"
proof (induction xs)
  case (Cons x xs)
  have "count (mset xs) h \<le> 1" for h
    by (rule le_trans [OF _ Cons.prems [of h]]) simp
  moreover have "x \<notin> set xs" using Cons.prems [of x] by simp
  ultimately show ?case using Cons.IH by simp
qed simp

context escrow_contract
begin

definition holds :: "'c \<Rightarrow> proc multiset \<Rightarrow> pystr multiset" where
  "holds ch ps = mset (map cr_request_hash (escrows ch)) + claims ps"

definition net_inv :: "runtime \<Rightarrow> 'c net \<Rightarrow> bool" where
  "net_inv rt = (\<lambda>(t, ch, ps). ok ch \<and> guarded (set_mset (holds ch ps)) t \<and>
     (\<forall>h. count (holds ch ps) h \<le> 1) \<and> (\<forall>p \<in># ps. proc_known t p) \<and>
     (\<forall>e \<in> set (escrows ch). \<exists>r. order_for rt t e r))"

lemma net_invI:
  assumes "net_inv rt (t, ch, ps)" and "audit_le t t'" and "ok ch'"
    and "guarded (set_mset (holds ch' ps')) t'" and "\<And>h. count (holds ch' ps') h \<le> 1"
    and "\<And>p. p \<in># ps' \<Longrightarrow> p \<in># ps \<or> proc_known t' p"
    and "\<And>e. e \<in> set (escrows ch') \<Longrightarrow> e \<in> set (escrows ch) \<or> (\<exists>r. order_for rt t' e r)"
  shows "net_inv rt (t', ch', ps')"
  using assms proc_known_mono [OF assms(2)] order_for_mono [OF assms(2)]
  unfolding net_inv_def by (auto; blast)

text \<open>Dropping holds keeps the tables and their invariant.\<close>

lemma net_inv_drop:
  assumes inv: "net_inv rt (t, ch, ps)" and ok': "ok ch'" and sub: "holds ch' ps' \<subseteq># holds ch ps"
    and ps: "\<And>p. p \<in># ps' \<Longrightarrow> p \<in># ps \<or> proc_known t p"
    and es: "\<And>e. e \<in> set (escrows ch') \<Longrightarrow> e \<in> set (escrows ch) \<or> (\<exists>r. order_for rt t e r)"
  shows "net_inv rt (t, ch', ps')"
proof (rule net_invI [OF inv audit.drefl ok'])
  show "guarded (set_mset (holds ch' ps')) t"
    using inv set_mset_mono [OF sub] by (auto simp: net_inv_def intro: guarded_mono)
  have "\<forall>h. count (holds ch ps) h \<le> 1" using inv by (simp add: net_inv_def)
  then show "count (holds ch' ps') h \<le> 1" for h
    using le_trans [OF mset_subset_eq_count [OF sub, of h]] by blast
qed (use ps es in auto)

lemmas create_laws = create_returns create_unconfirmed create_raises

lemma net_inv_step: "flow_step rt cl n n' \<Longrightarrow> net_inv rt n \<Longrightarrow> net_inv rt n'"
proof (induction rule: flow_step.induct)
  case (store t t' ch ps)
  then have "guarded (set_mset (holds ch ps)) t'"
    using grd.commits_least [OF store(1)] by (simp add: net_inv_def keeps_guarded_def)
  with store show ?case
    by (intro net_invI [OF store(2) audit.commits_least [OF store(1)]]) (auto simp: net_inv_def)
next
  case (load i t r ch ps)
  have "proc_known t (Loaded r)" using intent_mem [OF load(1)] by (auto simp: proc_known_def intro: bexI [of _ r])
  then show ?case using load(2) by (intro net_inv_drop [OF load(2)]) (auto simp: net_inv_def holds_def)
next
  case (claim r t ch ps)
  let ?t = "upd_intents (claimable (in_id r)) (set_status Escrowed) t"
  have k: "proc_known t (Loaded r)" and g: "guarded (set_mset (holds ch ps)) t"
    and c: "\<And>h. count (holds ch ps) h \<le> 1"
    using claim(2) by (auto simp: net_inv_def holds_def)
  from k obtain r' where r': "r' \<in> set (t_intents t)" "in_id r' = in_id r" "in_request_hash r' = in_request_hash r"
    by (auto simp: proc_known_def same_terms_def)
  have a: "audit_le t ?t" by (rule audit.D_update) simp
  have n: "in_request_hash r \<notin># holds ch ps"
    and g': "guarded (insert (in_request_hash r) (set_mset (holds ch ps))) ?t"
    using guarded_claim [OF g claim(1) r'(1,2)] r'(3) by auto
  have h: "holds ch (add_mset (Claimed r) ps) = add_mset (in_request_hash r) (holds ch ps)"
    by (simp add: holds_def)
  show ?case
  proof (rule net_invI [OF claim(2) a])
    show "count (holds ch (add_mset (Claimed r) ps)) k \<le> 1" for k
      using c [of k] n unfolding h by (cases "k = in_request_hash r") (auto simp: not_in_iff)
    show "p \<in># add_mset (Loaded r) ps \<or> proc_known ?t p" if "p \<in># add_mset (Claimed r) ps" for p
      using that proc_known_mono [OF a k] by (auto simp: proc_known_def)
  qed (use claim(2) g' h in \<open>auto simp: net_inv_def\<close>)
next
  case (look_up t ch r ps)
  have "proc_known t (Claimed r)" using look_up by (simp add: net_inv_def)
  then have "proc_known t (Ready r (supplier_by_id (in_supplier_id r) t))"
    by (auto simp: proc_known_def dest: supplier_by_id_mem)
  then show ?case using look_up by (intro net_inv_drop [OF look_up]) (auto simp: net_inv_def holds_def)
next
  case (bad_args c r s rls source e t ch ps)
  have "proc_known t (Ready r s)" using bad_args by (simp add: net_inv_def)
  then have "proc_known t (Raised r e)" by (auto simp: proc_known_def)
  then show ?case using bad_args(2) by (intro net_inv_drop [OF bad_args(2)]) (auto simp: net_inv_def holds_def)
next
  case (create_raises c r s rls source a ch e ch' t ps)
  have "proc_known t (Ready r s)" and ok: "ok ch" using create_raises by (simp_all add: net_inv_def)
  then have "proc_known t (Raised r e)" by (auto simp: proc_known_def)
  moreover have "ok ch'" "escrows ch' = escrows ch"
    using create_ok [OF ok create_raises(2)] create_laws(3) [OF ok create_raises(2,3)] by auto
  ultimately show ?case
    by (intro net_inv_drop [OF create_raises(4)]) (auto simp: net_inv_def holds_def)
next
  case (create_unconfirmed c r s rls source a ch h ch' t ps)
  have k: "proc_known t (Ready r s)" and ok: "ok ch" using create_unconfirmed by (simp_all add: net_inv_def)
  have "escrows ch' = escrows ch \<or> escrows ch' = escrows ch @ [a\<lparr>cr_source := None\<rparr>]"
    by (rule create_laws(2) [OF ok create_unconfirmed(2)])
  moreover have "cr_request_hash a = in_request_hash r" using escrow_args_Inr [OF create_unconfirmed(1)] by blast
  ultimately show ?case
    using ready_order [OF k create_unconfirmed(1)] create_ok [OF ok create_unconfirmed(2)]
    by (intro net_inv_drop [OF create_unconfirmed(3)]) (auto simp: net_inv_def holds_def)
next
  case (create_returns c r s rls source a ch v ch' t ps)
  have k: "proc_known t (Ready r s)" and ok: "ok ch" using create_returns by (simp_all add: net_inv_def)
  have "escrows ch' = escrows ch @ [a\<lparr>cr_source := None\<rparr>]"
    by (rule create_laws(1) [OF ok create_returns(2)])
  moreover have "cr_request_hash a = in_request_hash r" using escrow_args_Inr [OF create_returns(1)] by blast
  ultimately show ?case
    using ready_order [OF k create_returns(1)] create_ok [OF ok create_returns(2)]
    by (intro net_inv_drop [OF create_returns(3)]) (auto simp: net_inv_def holds_def)
next
  case (reopen t ch r e ps)
  let ?t = "upd_intents (reopenable (in_id r)) (set_status Proposed) t"
  have h: "holds ch (add_mset (Raised r e) ps) = add_mset (in_request_hash r) (holds ch ps)"
    by (simp add: holds_def)
  have k: "proc_known t (Raised r e)" and g: "guarded (insert (in_request_hash r) (set_mset (holds ch ps))) t"
    and c: "\<And>h. count (add_mset (in_request_hash r) (holds ch ps)) h \<le> 1"
    using reopen by (simp_all add: net_inv_def h)
  have n: "in_request_hash r \<notin># holds ch ps" using c [of "in_request_hash r"] by (simp add: not_in_iff)
  from k obtain r' where r': "r' \<in> set (t_intents t)" "in_id r' = in_id r" "in_request_hash r' = in_request_hash r"
    by (auto simp: proc_known_def same_terms_def)
  have row: "in_request_hash q = in_request_hash r" if "q \<in> set (t_intents t)" "in_id q = in_id r" for q
    using db_ok_row [of t q r'] g that r' by (auto simp: guarded_def)
  show ?case
  proof (rule net_invI [OF reopen audit.D_reopen])
    show "guarded (set_mset (holds ch ps)) ?t" by (rule guarded_reopen [OF g n row])
    show "count (holds ch ps) h \<le> 1" for h using c [of h] by (simp split: if_splits)
  qed (use reopen in \<open>auto simp: net_inv_def\<close>)
next
  case (stop t ch p ps)
  then show ?case by (intro net_inv_drop [OF stop]) (auto simp: net_inv_def holds_def)
next
  case (attest i ora k src ch x ch' t ps)
  then show ?case using others(1) by (intro net_inv_drop [OF attest(2)]) (auto simp: net_inv_def holds_def)
next
  case (release i src ch x ch' t ps)
  then show ?case using others(2) by (intro net_inv_drop [OF release(2)]) (auto simp: net_inv_def holds_def)
next
  case (refund i src ch x ch' t ps)
  then show ?case using others(3) by (intro net_inv_drop [OF refund(2)]) (auto simp: net_inv_def holds_def)
next
  case (get_status i ch g ch' t ps)
  then show ?case using others(4) by (intro net_inv_drop [OF get_status(2)]) (auto simp: net_inv_def holds_def)
qed

lemma net_inv_steps:
  assumes "flow_steps rt cl n n'" and "net_inv rt n"
  shows "net_inv rt n'"
  using assms by induction (auto intro: net_inv_step)

lemma net_inv_start:
  assumes "ok ch" and "escrows ch = []"
  shows "net_inv rt (empty_tables, ch, {#})"
  using assms
  by (simp add: net_inv_def holds_def guarded_def locked_def held_apart_def db_ok_def empty_tables_def)

end

context escrow_contract
begin

lemma reach_inv:
  assumes "ok ch0" and "escrows ch0 = []" and "flow_steps rt cl (empty_tables, ch0, {#}) (t, ch, ps)"
  shows "net_inv rt (t, ch, ps)"
  by (rule net_inv_steps [OF assms(3) net_inv_start [OF assms(1,2)]])

lemma reach_distinct:
  assumes "ok ch0" and "escrows ch0 = []" and "flow_steps rt cl (empty_tables, ch0, {#}) (t, ch, ps)"
  shows "distinct (map cr_request_hash (escrows ch))"
proof -
  have "\<forall>h. count (holds ch ps) h \<le> 1" using reach_inv [OF assms] by (simp add: net_inv_def)
  moreover have "count (mset (map cr_request_hash (escrows ch))) h \<le> count (holds ch ps) h" for h
    by (simp add: holds_def)
  ultimately have "count (mset (map cr_request_hash (escrows ch))) h \<le> 1" for h
    using le_trans by blast
  then show ?thesis by (rule distinct_count_le)
qed

lemma reach_payment:
  assumes "ok ch0" and "escrows ch0 = []" and "flow_steps rt cl (empty_tables, ch0, {#}) (t, ch, ps)"
    and e: "e \<in> set (escrows ch)"
  shows "\<exists>r s. r \<in> set (t_intents t) \<and> s \<in> set (t_suppliers t) \<and> in_supplier_id r = sp_id s \<and>
     cr_supplier e = sp_address s \<and> cr_request_hash e = in_request_hash r \<and> cr_token e = in_token r \<and>
     cr_deadline e = in_deadline r \<and> py_int_of_str rt (in_amount r) = Inr (cr_amount e) \<and>
     in_status r \<noteq> Proposed \<and> in_status r \<noteq> Held"
proof -
  have inv: "net_inv rt (t, ch, ps)" by (rule reach_inv [OF assms(1-3)])
  then obtain r where r: "order_for rt t e r" using e by (auto simp: net_inv_def)
  have g: "guarded (set_mset (holds ch ps)) t" using inv by (simp add: net_inv_def)
  have "cr_request_hash e \<in># holds ch ps" using e by (simp add: holds_def)
  with g obtain q where q: "q \<in> set (t_intents t)" "in_request_hash q = cr_request_hash e"
    "in_status q \<noteq> Proposed" "in_status q \<noteq> Held"
    by (auto simp: guarded_def locked_def)
  have "q = r" using g q(1,2) r by (intro db_ok_row [of t]) (auto simp: guarded_def order_for_def)
  with r q(3,4) have "in_status r \<noteq> Proposed" "in_status r \<noteq> Held" by simp_all
  moreover obtain s where "s \<in> set (t_suppliers t)" "sp_id s = in_supplier_id r" "sp_address s = cr_supplier e"
    using r by (auto simp: order_for_def)
  ultimately show ?thesis using r by (intro exI [of _ r] exI [of _ s]) (simp add: order_for_def)
qed

lemma reach_held:
  assumes "ok ch0" and "escrows ch0 = []" and "flow_steps rt cl (empty_tables, ch0, {#}) (t, ch, ps)"
    and "d \<in> set (t_decisions t)" and "de_decision d = D_held"
    and "r \<in> set (t_intents t)" and "de_intent_id d = Some (in_id r)"
  shows "in_request_hash r \<notin> set (map cr_request_hash (escrows ch))"
proof -
  have "held_apart (set_mset (holds ch ps)) t"
    using reach_inv [OF assms(1-3)] by (simp add: net_inv_def guarded_def)
  with assms(4-7) have "in_request_hash r \<notin># holds ch ps" unfolding held_apart_def by blast
  then show ?thesis by (simp add: holds_def)
qed

end

section \<open>Properties\<close>

text \<open>The premise of the three properties is the contract \<open>escrow_contract\<close>, which \<open>chain/__init__.py\<close> and
  \<open>flow.py\<close> document: an exception other than \<open>ChainSubmittedUnconfirmed\<close> means that no escrow
  was created.  The mock chain keeps it (the interpretation \<open>mock\<close>); the command-line client does not
  when a command fails after it was submitted (\<open>Soroban_Safety\<close>, \<open>Soroban_Examples\<close>), nor does the smart
  account when sending itself raises (\<open>Smart_Account\<close>).\<close>

text \<open>C3. No double escrow, on a chain adapter that keeps the contract: from an empty store and a
  chain without escrows, after any interleaving of payments, retries, failures, unconfirmed submissions
  and crashes, no two escrows on the chain carry the same request hash.\<close>

theorem no_double_escrow:
  assumes "escrow_contract cl ok escrows" and "ok ch0" and "escrows ch0 = []"
    and "flow_steps rt cl (empty_tables, ch0, {#}) (t, ch, ps)"
  shows "distinct (map cr_request_hash (escrows ch))"
  by (rule escrow_contract.reach_distinct [OF assms])

text \<open>C4. On a chain adapter that keeps the contract, every escrow is a stored payment: its
  request hash, token, deadline and amount are those of one row of \<open>intents\<close>, its beneficiary is the
  registered address of that row's supplier, and the row is no longer proposed or held.\<close>

theorem escrow_is_payment:
  assumes "escrow_contract cl ok escrows" and "ok ch0" and "escrows ch0 = []"
    and "flow_steps rt cl (empty_tables, ch0, {#}) (t, ch, ps)" and "e \<in> set (escrows ch)"
  shows "\<exists>r s. r \<in> set (t_intents t) \<and> s \<in> set (t_suppliers t) \<and> in_supplier_id r = sp_id s \<and>
     cr_supplier e = sp_address s \<and> cr_request_hash e = in_request_hash r \<and> cr_token e = in_token r \<and>
     cr_deadline e = in_deadline r \<and> py_int_of_str rt (in_amount r) = Inr (cr_amount e) \<and>
     in_status r \<noteq> Proposed \<and> in_status r \<noteq> Held"
  by (rule escrow_contract.reach_payment [OF assms])

text \<open>C5. On a chain adapter that keeps the contract, a held payment never moves money: a payment
  recorded with decision \<open>held\<close> has no escrow on the chain.\<close>

theorem held_never_escrowed:
  assumes "escrow_contract cl ok escrows" and "ok ch0" and "escrows ch0 = []"
    and "flow_steps rt cl (empty_tables, ch0, {#}) (t, ch, ps)"
    and "d \<in> set (t_decisions t)" and "de_decision d = D_held"
    and "r \<in> set (t_intents t)" and "de_intent_id d = Some (in_id r)"
  shows "in_request_hash r \<notin> set (map cr_request_hash (escrows ch))"
  by (rule escrow_contract.reach_held [OF assms])

end
