(* ===== verification/Flow_Paths.thy ===== *)
theory Flow_Paths
  imports Interleaving
begin

text \<open>
  Every operation of the program is a path of \<open>flow_step\<close>, whatever it returns or raises and
  whatever other processes exist meanwhile: the interleaving semantics is a faithful
  over-approximation of the code.
\<close>

section \<open>Paths\<close>

definition path :: "runtime \<Rightarrow> 'c chain_adapter \<Rightarrow> 's world \<times> 'c \<Rightarrow> 's world \<times> 'c \<Rightarrow> bool" where
  "path rt cl p q \<longleftrightarrow> (\<forall>ps. flow_steps rt cl (w_db (fst p), snd p, ps) (w_db (fst q), snd q, ps))"

text \<open>A path that starts with one more process, which ends on the way.\<close>

definition ends :: "runtime \<Rightarrow> 'c chain_adapter \<Rightarrow> proc \<Rightarrow> 's world \<times> 'c \<Rightarrow> 's world \<times> 'c \<Rightarrow> bool" where
  "ends rt cl x p q \<longleftrightarrow>
     (\<forall>ps. flow_steps rt cl (w_db (fst p), snd p, add_mset x ps) (w_db (fst q), snd q, ps))"

lemma frame_path: "frame_relation (path rt cl)"
  by unfold_locales (auto simp: path_def intro: rtranclp_trans)

lemmas path_trans = frame_relation.ftrans [OF frame_path]
  and path_intros = frame_relation.evo_intros [OF frame_path]

lemma commits_path: "commits\<^sup>*\<^sup>* t t' \<Longrightarrow> flow_steps rt cl (t, ch, ps) (t', ch, ps)"
  by (induction rule: rtranclp_induct) (auto intro: flow_step.store rtranclp.rtrancl_into_rtrancl)

lemma path_fst: "evolves com.W m \<Longrightarrow> evolves (path rt cl) (on_fst m)"
  by (auto simp: evolves_def com.W_def path_def on_fst_def split: prod.splits intro!: commits_path)
    (metis snd_conv)

lemma path_snd:
  assumes "\<And>ch r ch' t ps. m ch = (r, ch') \<Longrightarrow> flow_step rt cl (t, ch, ps) (t, ch', ps)"
  shows "evolves (path rt cl) (on_snd m)"
  using assms by (auto simp: evolves_def path_def on_snd_def split: prod.splits)

lemma path_chain:
  "evolves (path rt cl) (on_snd (ca_attest cl i ora k src))"
  "evolves (path rt cl) (on_snd (ca_release cl i src'))"
  "evolves (path rt cl) (on_snd (ca_refund cl i src'))"
  "evolves (path rt cl) (on_snd (ca_get_status cl i))"
  by (rule path_snd; erule flow_step.intros)+

lemma path_sync_status: "evolves (path rt cl) (sync_status cl i)"
  unfolding sync_status_def
  by (auto intro!: path_intros path_fst path_chain com.W_step com.W_sync_effect split: option.split)

lemma path_attest: "evolves (path rt cl) (attest rt cl i k oa os ora)"
  unfolding attest_def
  by (auto intro!: path_intros path_fst path_chain com.W_step com.W_chain_intent_id com.W_oracle_submit
      split: option.split)

lemma path_release: "evolves (path rt cl) (release rt cl i src c)"
  unfolding release_def
  by (auto intro!: path_intros path_fst path_chain path_sync_status com.W_step com.W_chain_intent_id
      com.W_release_check com.W_cash_out)

lemma path_revert: "evolves (path rt cl) (revert cl i src)"
  unfolding revert_def
  by (auto intro!: path_intros path_fst path_chain path_sync_status com.W_step com.W_chain_intent_id)

lemma path_confirm: "evolves (path rt cl) (confirm_escrow rt cl i r res)"
  unfolding confirm_escrow_def
  by (auto intro!: path_intros path_fst path_chain com.W_step)

section \<open>The protocol of \<open>execute\<close>\<close>

lemma ends_step:
  "(\<And>ps. flow_steps rt cl (t, ch, add_mset x ps) (t', ch', add_mset y ps)) \<Longrightarrow> w_db w = t \<Longrightarrow> w_db w' = t' \<Longrightarrow>
     ends rt cl y (w', ch') q \<Longrightarrow> ends rt cl x (w, ch) q"
  unfolding ends_def by (auto intro: rtranclp_trans)

lemma ends_path: "ends rt cl x p q \<Longrightarrow> path rt cl q q' \<Longrightarrow> ends rt cl x p q'"
  unfolding ends_def path_def by (meson rtranclp_trans)

lemma ends_stop: "path rt cl p q \<Longrightarrow> ends rt cl x p q"
  unfolding ends_def path_def
  by (metis converse_rtranclp_into_rtranclp flow_step.stop)

lemma release_claim_cases:
  assumes "release_escrow_claim i w = (r, w')"
  shows "w_db w' = w_db w \<or> w_db w' = upd_intents (reopenable i) (set_status Proposed) (w_db w)"
proof (cases r)
  case (Inl e)
  with assms show ?thesis by (auto simp: release_escrow_claim_def dest: transaction_Inl)
next
  case (Inr u)
  with assms show ?thesis by (auto simp: release_escrow_claim_def dest: db_write_Inr)
qed

text \<open>Whatever the handler of a failed submission does ends the process.\<close>

lemma ends_submit_failed:
  assumes "submit_failed (in_id r) e w = (x, w')"
  shows "ends rt cl (Raised r e) (w, ch) (w', ch)"
proof (cases "\<exists>h. e = ChainSubmittedUnconfirmed h")
  case True
  then have "evolves com.W (submit_failed (in_id r) e)"
    by (auto simp: submit_failed_def intro!: com.W_step)
  from path_fst [OF this] have "path rt cl (w, ch) (w', ch)"
    by (rule evolvesD) (simp add: on_fst_def assms)
  then show ?thesis by (rule ends_stop)
next
  case False
  then have s: "submit_failed (in_id r) e = py_seq (release_escrow_claim (in_id r)) (py_raise e)"
    by (cases e) (auto simp: submit_failed_def)
  obtain y w1 where rel: "release_escrow_claim (in_id r) w = (y, w1)" by fastforce
  from assms [unfolded s] rel have "w' = w1"
    by (cases y) (auto simp: py_seq_def py_bind_def py_raise_def)
  with release_claim_cases [OF rel] consider "w_db w' = w_db w"
    | "w_db w' = upd_intents (reopenable (in_id r)) (set_status Proposed) (w_db w)" by blast
  then show ?thesis
  proof cases
    case 1
    then show ?thesis by (intro ends_stop) (simp add: path_def)
  next
    case 2
    then show ?thesis unfolding ends_def by (auto intro: flow_step.reopen)
  qed
qed

lemma ends_submit:
  assumes "submit_escrow rt c cl (in_id r) r spl rls src (w, ch) = (x, q)"
  shows "ends rt cl (Ready r spl) (w, ch) q"
proof (cases "escrow_args rt c r spl rls src")
  case (Inl e)
  then have "submit_escrow rt c cl (in_id r) r spl rls src (w, ch) = on_fst (submit_failed (in_id r) e) (w, ch)"
    by (simp add: submit_escrow_def py_except_def py_bind_def py_lift_def)
  with assms obtain w' where f: "submit_failed (in_id r) e w = (x, w')" and q: "q = (w', ch)"
    by (auto simp: on_fst_def split: prod.splits)
  show ?thesis unfolding q
    by (rule ends_step [OF _ refl refl ends_submit_failed [OF f]])
      (auto intro: flow_step.bad_args [OF Inl])
next
  case (Inr a)
  obtain y ch' where cr: "ca_create_intent cl a ch = (y, ch')" by fastforce
  show ?thesis
  proof (cases y)
    case v: (Inr v)
    with Inr cr assms have "q = (w, ch')"
      by (auto simp: submit_escrow_def py_except_def py_bind_def py_lift_def on_snd_def)
    then show ?thesis using flow_step.create_returns [OF Inr cr [unfolded v]] by (auto simp: ends_def)
  next
    case (Inl e)
    then have "submit_escrow rt c cl (in_id r) r spl rls src (w, ch) = on_fst (submit_failed (in_id r) e) (w, ch')"
      using Inr cr by (simp add: submit_escrow_def py_except_def py_bind_def py_lift_def on_snd_def)
    with assms obtain w' where f: "submit_failed (in_id r) e w = (x, w')" and q: "q = (w', ch')"
      by (auto simp: on_fst_def split: prod.splits)
    show ?thesis
    proof (cases "\<exists>h. e = ChainSubmittedUnconfirmed h")
      case True
      then obtain h where h: "e = ChainSubmittedUnconfirmed h" ..
      have "evolves com.W (submit_failed (in_id r) e)"
        unfolding h by (auto simp: submit_failed_def intro!: com.W_step)
      with f have "commits\<^sup>*\<^sup>* (w_db w) (w_db w')" by (auto dest: evolvesD simp: com.W_def)
      then have p: "flow_steps rt cl (w_db w, ch', ps) (w_db w', ch', ps)" for ps by (rule commits_path)
      have "flow_step rt cl (w_db w, ch, add_mset (Ready r spl) ps) (w_db w, ch', ps)" for ps
        using cr Inl h by (intro flow_step.create_unconfirmed [OF Inr]) simp
      then show ?thesis unfolding ends_def q using p by (auto intro: converse_rtranclp_into_rtranclp)
    next
      case False
      have "flow_step rt cl (w_db w, ch, add_mset (Ready r spl) ps) (w_db w, ch', add_mset (Raised r e) ps)" for ps
        using cr Inl False by (intro flow_step.create_raises [OF Inr]) auto
      then show ?thesis unfolding q
        by (intro ends_step [OF _ refl refl ends_submit_failed [OF f]]) auto
    qed
  qed
qed

text \<open>From the claim on, \<open>execute\<close> is one process.\<close>

lemma from_db_apply: "from_db f (w, ch) = (Inr (f (w_db w)), (w, ch))"
  by (simp add: on_fst_def db_read_def py_gets_def)

lemma ends_execute:
  assumes "py_bind (from_db (supplier_by_id (in_supplier_id r))) (\<lambda>spl.
               py_bind (from_db rules) (\<lambda>rls.
               py_bind (submit_escrow rt c cl (in_id r) r spl rls src) (\<lambda>res.
               py_bind (confirm_escrow rt cl (in_id r) r res) (\<lambda>chain_id. py_ret (Some chain_id)))))
     (w, ch) = (x, q)"
  shows "ends rt cl (Claimed r) (w, ch) q"
proof -
  let ?s = "supplier_by_id (in_supplier_id r) (w_db w)"
  obtain y q1 where sub: "submit_escrow rt c cl (in_id r) r ?s (rules (w_db w)) src (w, ch) = (y, q1)"
    by (metis surj_pair)
  have "path rt cl q1 q"
  proof (cases y)
    case (Inl e)
    with assms sub have "q = q1" by (simp add: py_bind_def from_db_apply)
    then show ?thesis by (simp add: path_def)
  next
    case (Inr res)
    with assms sub have c: "py_bind (confirm_escrow rt cl (in_id r) r res) (\<lambda>chain_id. py_ret (Some chain_id)) q1 = (x, q)"
      by (simp add: py_bind_def from_db_apply)
    have "evolves (path rt cl) (py_bind (confirm_escrow rt cl (in_id r) r res) (\<lambda>chain_id. py_ret (Some chain_id)))"
      by (intro path_intros path_confirm)
    from evolvesD [OF this c] show ?thesis .
  qed
  with ends_submit [OF sub] have "ends rt cl (Ready r ?s) (w, ch) q" by (rule ends_path)
  then show ?thesis
    by (rule ends_step [rotated 3]) (auto intro: flow_step.look_up)
qed

lemma claim_cases:
  assumes "claim_escrow i w = (x, w')"
  shows "x = Inr True \<and> length (filter (claimable i) (t_intents (w_db w))) = 1 \<and>
      w_db w' = upd_intents (claimable i) (set_status Escrowed) (w_db w) \<or> x \<noteq> Inr True"
  using assms
  by (cases x) (auto simp: claim_escrow_def py_bind_def py_gets_def py_seq_def py_ret_def
      dest!: db_write_Inr split: prod.splits sum.splits)

lemma execute_live:
  assumes "intent i (w_db w) = Some r" and "\<not> cf_dry_run c"
  shows "execute rt cl i src c (w, ch) = py_bind (on_fst (claim_escrow i)) (\<lambda>claimed.
     if \<not> claimed then py_ret None
     else py_bind (from_db (supplier_by_id (in_supplier_id r))) (\<lambda>spl.
       py_bind (from_db rules) (\<lambda>rls.
       py_bind (submit_escrow rt c cl i r spl rls src) (\<lambda>res.
       py_bind (confirm_escrow rt cl i r res) (\<lambda>chain_id. py_ret (Some chain_id)))))) (w, ch)"
proof -
  have "from_db (intent i) (w, ch) = (Inr (Some r), (w, ch))" by (simp add: from_db_apply assms)
  note read = py_bind_Inr [where m = "from_db (intent i)", OF this]
  show ?thesis using assms(2) by (simp add: execute_def read)
qed

lemma path_execute:
  fixes cl :: "'c chain_adapter"
  shows "evolves (path rt cl) (execute rt cl i src c :: ('s, 'c, int option) flow)"
proof (rule evolvesI)
  fix p :: "'s world \<times> 'c"
  obtain w ch where p: "p = (w, ch)" by fastforce
  have refl: "path rt cl p p" by (simp add: path_def)
  show "path rt cl p (snd (execute rt cl i src c p))"
  proof (cases "intent i (w_db w)")
    case None
    then show ?thesis using refl
      by (simp add: execute_def p py_bind_def from_db_apply py_raise_def)
  next
    case (Some r)
    have rid: "in_id r = i" using Some unfolding intent_def by (blast dest: find_Some_mem)
    show ?thesis
    proof (cases "cf_dry_run c")
      case True
      then show ?thesis using refl Some
        by (simp add: execute_def p py_bind_def from_db_apply py_raise_def py_ret_def)
    next
      case False
      obtain x w1 where cl: "claim_escrow i w = (x, w1)" by fastforce
      have fst: "on_fst (claim_escrow i) (w, ch) = (x, (w1, ch))" by (simp add: on_fst_def cl)
      have claimed: "path rt cl (w, ch) (w1, ch)"
        by (rule evolvesD [OF path_fst [OF com.W_claim_escrow] fst])
      show ?thesis
      proof (cases "x = Inr True")
        case other: False
        then have "snd (execute rt cl i src c p) = (w1, ch)"
          unfolding p execute_live [OF Some False]
          by (cases x) (simp_all add: py_bind_def fst py_ret_def)
        with claimed p show ?thesis by simp
      next
        case won: True
        obtain y q where rest: "py_bind (from_db (supplier_by_id (in_supplier_id r))) (\<lambda>spl.
               py_bind (from_db rules) (\<lambda>rls.
               py_bind (submit_escrow rt c cl (in_id r) r spl rls src) (\<lambda>res.
               py_bind (confirm_escrow rt cl (in_id r) r res) (\<lambda>chain_id. py_ret (Some chain_id)))))
          (w1, ch) = (y, q)" by (metis surj_pair)
        have q: "snd (execute rt cl i src c p) = q"
          unfolding p execute_live [OF Some False] py_bind_Inr [where m = "on_fst (claim_escrow i)", OF fst [unfolded won]]
          using rest rid by simp
        from claim_cases [OF cl] won have cnt: "length (filter (claimable (in_id r)) (t_intents (w_db w))) = 1"
          and db: "w_db w1 = upd_intents (claimable (in_id r)) (set_status Escrowed) (w_db w)"
          by (simp_all add: rid)
        have "flow_steps rt cl (w_db w, ch, ps) (w_db (fst q), snd q, ps)" for ps
        proof -
          have "flow_step rt cl (w_db w, ch, ps) (w_db w, ch, add_mset (Loaded r) ps)"
            by (rule flow_step.load [OF Some])
          moreover have "flow_step rt cl (w_db w, ch, add_mset (Loaded r) ps) (w_db w1, ch, add_mset (Claimed r) ps)"
            unfolding db by (rule flow_step.claim [OF cnt])
          moreover have "flow_steps rt cl (w_db w1, ch, add_mset (Claimed r) ps) (w_db (fst q), snd q, ps)"
            using ends_execute [OF rest] by (simp add: ends_def)
          ultimately show ?thesis by (meson converse_rtranclp_into_rtranclp)
        qed
        then show ?thesis using p q by (simp add: path_def)
      qed
    qed
  qed
qed

section \<open>The operations\<close>

text \<open>C12. Every operation of the pipeline and of the payment flow, on every branch and whatever
  fails in it, is a path of the interleaving semantics: recording decisions, running the
  pipeline, executing, attesting, releasing, refunding and synchronising do nothing to the
  store and the chain that the steps of \<open>flow_step\<close> do not allow.\<close>

theorem operations_are_paths:
  "evolves (path rt cl) (on_fst (run rt text provider c token receipt)) \<and>
   evolves (path rt cl) (execute rt cl i src c) \<and>
   evolves (path rt cl) (attest rt cl i k oracle_address src ora) \<and>
   evolves (path rt cl) (release rt cl i src c) \<and>
   evolves (path rt cl) (revert cl i src) \<and>
   evolves (path rt cl) (sync_status cl i) \<and>
   evolves (path rt cl) (on_fst seed)"
  by (intro conjI path_fst com.W_run com.W_seed path_execute path_attest path_release path_revert
      path_sync_status)

end
