(* ===== verification/Flow_Correct.thy ===== *)
theory Flow_Correct
  imports Flow_Effects Flow_Paths
begin

text \<open>
  The payment flow operation by operation: what \<open>execute\<close> returns and leaves behind on
  success, after a refused submission and after an unconfirmed one; that \<open>sync_status\<close> makes
  the store follow the chain; that \<open>release\<close> needs the configured attestations and that the
  supplier is paid exactly once through the anchor.
\<close>

section \<open>Statements without faults\<close>

definition no_faults :: "'s world \<Rightarrow> bool" where
  "no_faults w \<longleftrightarrow> w_fault w = (\<lambda>_. False)"

text \<open>The identifier the next row gets.\<close>

definition next_ulid :: "'s world \<Rightarrow> pystr" where
  "next_ulid w = ulid_of (w_clock w (w_ticks w)) (w_entropy w (w_draws w) mod 2 ^ 80)"

lemma db_write_works:
  assumes "no_faults w" and "f (w_db w) = Inr t"
  shows "\<exists>w'. db_write f w = (Inr (), w') \<and> w_db w' = t \<and> no_faults w' \<and> next_ulid w' = next_ulid w"
  using assms by (simp add: db_write_def Let_def no_faults_def next_ulid_def)

lemma transaction_works: "m w = (Inr x, w') \<Longrightarrow> transaction m w = (Inr x, w')"
  by simp

lemma claim_works:
  assumes "no_faults w" and "length (filter (claimable i) (t_intents (w_db w))) = 1"
  shows "\<exists>w'. claim_escrow i w = (Inr True, w') \<and> no_faults w' \<and> next_ulid w' = next_ulid w \<and>
     w_db w' = upd_intents (claimable i) (set_status Escrowed) (w_db w)"
proof -
  from db_write_works [OF assms(1), of "\<lambda>t. Inr (upd_intents (claimable i) (set_status Escrowed) t)"]
  obtain w' where "db_write (\<lambda>t. Inr (upd_intents (claimable i) (set_status Escrowed) t)) w = (Inr (), w')"
    "w_db w' = upd_intents (claimable i) (set_status Escrowed) (w_db w)" "no_faults w'"
    "next_ulid w' = next_ulid w" by blast
  then show ?thesis using assms(2)
    by (auto simp: claim_escrow_def flow_returns py_gets_def py_ret_def)
qed

lemma claimable_once:
  assumes ok: "db_ok t" and r: "intent i t = Some r" "in_status r = Proposed"
  shows "length (filter (claimable i) (t_intents t)) = 1"
proof -
  have m: "r \<in> set (t_intents t)" "in_id r = i" using r(1) unfolding intent_def by (blast dest: find_Some_mem)+
  have d: "distinct (map in_id (t_intents t))" using ok by (simp add: db_ok_def)
  have "set (filter (claimable i) (t_intents t)) = {r}"
    using m r(2) d by (auto simp: claimable_def distinct_map dest: inj_onD)
  moreover have "distinct (filter (claimable i) (t_intents t))"
    using d by (auto simp: distinct_map)
  ultimately show ?thesis by (metis One_nat_def card.empty card_insert_disjoint distinct_card empty_iff finite.emptyI)
qed

lemma claim_undone:
  assumes ok: "db_ok t" and r: "intent i t = Some r" "in_status r = Proposed" "in_chain_id r = None"
  shows "upd_intents (reopenable i) (set_status Proposed) (upd_intents (claimable i) (set_status Escrowed) t) = t"
proof -
  have m: "r \<in> set (t_intents t)" "in_id r = i" using r(1) unfolding intent_def by (blast dest: find_Some_mem)+
  have "q = r" if "q \<in> set (t_intents t)" "in_id q = i" for q
    using ok that m unfolding db_ok_def by (auto simp: distinct_map dest: inj_onD)
  then have "(if reopenable i (if claimable i q then set_status Escrowed q else q)
       then set_status Proposed (if claimable i q then set_status Escrowed q else q)
       else (if claimable i q then set_status Escrowed q else q)) = q" if "q \<in> set (t_intents t)" for q
    using that r by (auto simp: claimable_def reopenable_def set_status_def)
  then have "map (\<lambda>q. if reopenable i q then set_status Proposed q else q)
      (map (\<lambda>q. if claimable i q then set_status Escrowed q else q) (t_intents t)) = t_intents t"
    by (simp add: map_idI)
  then show ?thesis by (simp add: upd_intents_def)
qed

section \<open>\<open>execute\<close>\<close>

text \<open>What the confirmation read back: the request hash up to case, and the status \<open>Funded\<close>, as a text or as
  an enum of one key.\<close>

definition funded_report :: "runtime \<Rightarrow> pystr \<Rightarrow> json \<Rightarrow> bool" where
  "funded_report rt rhash chain \<longleftrightarrow> (\<exists>d q f. chain = JObj d \<and>
     map_of d (asc ''request_hash'') = Some (JStr q) \<and> py_lower rt q = py_lower rt rhash \<and>
     map_of d (asc ''status'') = Some f \<and> (f = JStr (asc ''Funded'') \<or> (\<exists>v. f = JObj [(asc ''Funded'', v)])))"

lemma confirm_checks_Inr:
  assumes "confirm_checks rt r chain = Inr ()"
  shows "funded_report rt (in_request_hash r) chain"
  using assms
  by (auto simp: confirm_checks_def rbind_eq_Inr json_item_def json_lower_def chain_status_def variant_of_def
      dict_item_def funded_report_def split: if_splits json.splits option.splits list.splits)

text \<open>C14. What a successful \<open>execute\<close> did: the payment was proposed, one escrow was submitted with
  its amount, token, deadline and request hash for the registered address of its supplier,
  the chain confirmed it as funded with the same request hash, and the store now has the
  payment escrowed with the returned chain id, the pointer to the transaction and one
  \<open>approved\<close> decision; nothing else was decided.\<close>

theorem execute_correct:
  assumes "execute rt cl i src c (w, ch) = (Inr (Some n), (w', ch'))" and "db_ok (w_db w)"
  shows "\<exists>r s a v ch1 chain. intent i (w_db w) = Some r \<and> in_status r = Proposed \<and>
     s \<in> set (t_suppliers (w_db w)) \<and> sp_id s = in_supplier_id r \<and>
     cr_supplier a = sp_address s \<and> cr_token a = in_token r \<and> cr_deadline a = in_deadline r \<and>
     cr_request_hash a = in_request_hash r \<and> py_int_of_str rt (in_amount r) = Inr (cr_amount a) \<and>
     ca_create_intent cl a ch = (Inr v, ch1) \<and> json_int rt (ir_value v) = Inr n \<and>
     ca_get_status cl n ch1 = (Inr chain, ch') \<and> confirm_checks rt r chain = Inr () \<and>
     funded_report rt (in_request_hash r) chain \<and>
     approved i r n (ir_tx_hash v) (w_db w) (w_db w')"
proof -
  from execute_Inr [OF assms(1)] assms(2) obtain r a v ch1 where r: "intent i (w_db w) = Some r" "in_status r = Proposed"
    and a: "escrow_args rt c r (supplier_by_id (in_supplier_id r) (w_db w)) (t_rules (w_db w)) src = Inr a"
    and rest: "ca_create_intent cl a ch = (Inr v, ch1)" "json_int rt (ir_value v) = Inr n"
      "\<exists>chain. ca_get_status cl n ch1 = (Inr chain, ch') \<and> confirm_checks rt r chain = Inr ()"
      "approved i r n (ir_tx_hash v) (w_db w) (w_db w')"
    by auto
  from escrow_args_Inr [OF a] obtain s where "supplier_by_id (in_supplier_id r) (w_db w) = Some s"
    "cr_supplier a = sp_address s" "cr_token a = in_token r" "cr_request_hash a = in_request_hash r"
    "cr_deadline a = in_deadline r" "py_int_of_str rt (in_amount r) = Inr (cr_amount a)" by blast
  with supplier_by_id_mem r rest confirm_checks_Inr show ?thesis by blast
qed

lemma execute_submits:
  assumes ok: "db_ok (w_db w)" "no_faults w" and live: "\<not> cf_dry_run c"
    and r: "intent i (w_db w) = Some r" "in_status r = Proposed"
  shows "\<exists>w1. no_faults w1 \<and> next_ulid w1 = next_ulid w \<and>
     w_db w1 = upd_intents (claimable i) (set_status Escrowed) (w_db w) \<and>
     execute rt cl i src c (w, ch) = py_bind
       (submit_escrow rt c cl i r (supplier_by_id (in_supplier_id r) (w_db w)) (t_rules (w_db w)) src) (\<lambda>res.
       py_bind (confirm_escrow rt cl i r res) (\<lambda>chain_id. py_ret (Some chain_id))) (w1, ch)"
proof -
  from claim_works [OF ok(2) claimable_once [OF ok(1) r]] obtain w1 where
    cl: "claim_escrow i w = (Inr True, w1)" and w1: "no_faults w1"
      "w_db w1 = upd_intents (claimable i) (set_status Escrowed) (w_db w)" "next_ulid w1 = next_ulid w" by blast
  have fst: "on_fst (claim_escrow i) (w, ch) = (Inr True, (w1, ch))" by (simp add: on_fst_def cl)
  note claim = py_bind_Inr [where m = "on_fst (claim_escrow i)", OF fst]
  have s: "from_db (supplier_by_id (in_supplier_id r)) (w1, ch) =
      (Inr (supplier_by_id (in_supplier_id r) (w_db w)), (w1, ch))"
    by (simp add: from_db_apply w1(2) supplier_by_id_def)
  note supplier = py_bind_Inr [where m = "from_db (supplier_by_id (in_supplier_id r))", OF s]
  have l: "from_db rules (w1, ch) = (Inr (t_rules (w_db w)), (w1, ch))"
    by (simp add: from_db_apply w1(2) rules_def)
  note rls = py_bind_Inr [where m = "from_db rules", OF l]
  show ?thesis
    unfolding execute_live [OF r(1) live] using w1 by (intro exI [of _ w1]) (simp add: claim supplier rls)
qed

lemma submit_escrow_raises:
  assumes "escrow_args rt c r spl rls src = Inr a" and "ca_create_intent cl a ch = (Inl e, ch')"
  shows "submit_escrow rt c cl i r spl rls src (w, ch) = on_fst (submit_failed i e) (w, ch')"
  using assms by (simp add: submit_escrow_def py_except_def py_bind_def py_lift_def on_snd_def)

lemma execute_refused:
  assumes "db_ok (w_db w)" and "no_faults w" and "\<not> cf_dry_run c"
    and "intent i (w_db w) = Some r" and "in_status r = Proposed" and "in_chain_id r = None"
    and "escrow_args rt c r (supplier_by_id (in_supplier_id r) (w_db w)) (t_rules (w_db w)) src = Inr a"
    and "ca_create_intent cl a ch = (Inl e, ch')" and "\<nexists>h. e = ChainSubmittedUnconfirmed h"
  shows "\<exists>w'. execute rt cl i src c (w, ch) = (Inl e, (w', ch')) \<and> w_db w' = w_db w"
proof -
  from execute_submits [OF assms(1-5), where rt = rt and cl = cl and src = src and ch = ch] obtain w1 where w1: "no_faults w1"
    "w_db w1 = upd_intents (claimable i) (set_status Escrowed) (w_db w)"
    and exe: "execute rt cl i src c (w, ch) = py_bind
       (submit_escrow rt c cl i r (supplier_by_id (in_supplier_id r) (w_db w)) (t_rules (w_db w)) src) (\<lambda>res.
       py_bind (confirm_escrow rt cl i r res) (\<lambda>chain_id. py_ret (Some chain_id))) (w1, ch)" by blast
  from db_write_works [OF w1(1), of "\<lambda>t. Inr (upd_intents (reopenable i) (set_status Proposed) t)"]
  obtain w2 where "release_escrow_claim i w1 = (Inr (), w2)"
    and db: "w_db w2 = upd_intents (reopenable i) (set_status Proposed) (w_db w1)"
    by (auto simp: release_escrow_claim_def)
  moreover have failed: "submit_failed i e = py_seq (release_escrow_claim i) (py_raise e)"
    using assms(9) by (cases e) (auto simp: submit_failed_def)
  ultimately have "submit_failed i e w1 = (Inl e, w2)"
    unfolding failed by (simp add: py_seq_def py_bind_def py_raise_def)
  then have "submit_escrow rt c cl i r (supplier_by_id (in_supplier_id r) (w_db w)) (t_rules (w_db w)) src (w1, ch) =
      (Inl e, (w2, ch'))"
    unfolding submit_escrow_raises [OF assms(7,8)] by (simp add: on_fst_def)
  then have "execute rt cl i src c (w, ch) = (Inl e, (w2, ch'))" unfolding exe by (rule py_bind_Inl)
  moreover have "w_db w2 = w_db w" unfolding db w1(2) by (rule claim_undone [OF assms(1,4-6)])
  ultimately show ?thesis by blast
qed

text \<open>C15. A submission that never reached the ledger is undone completely: the exception is raised
  again and the store is exactly what it was, so the payment can be executed again.\<close>

theorem execute_clean_retry:
  assumes "db_ok (w_db w)" and "no_faults w" and "\<not> cf_dry_run c"
    and "intent i (w_db w) = Some r" and "in_status r = Proposed" and "in_chain_id r = None"
    and "escrow_args rt c r (supplier_by_id (in_supplier_id r) (w_db w)) (t_rules (w_db w)) src = Inr a"
    and "ca_create_intent cl a ch = (Inl e, ch')" and "\<nexists>h. e = ChainSubmittedUnconfirmed h"
  shows "\<exists>w'. execute rt cl i src c (w, ch) = (Inl e, (w', ch')) \<and> w_db w' = w_db w"
  by (rule execute_refused [OF assms])

lemma add_chain_tx_works:
  assumes "no_faults w" and "has_intent (w_db w) i" and "add_chain_tx i action h w = (r, w')"
  shows "if next_ulid w \<in> ct_id ` set (t_chain_txs (w_db w))
     then r = Inl (unique_failed ''chain_txs.id'') \<and> w_db w' = w_db w
     else r = Inr () \<and> (\<exists>tx. tx_row_for i action h tx \<and>
       w_db w' = (w_db w)\<lparr>t_chain_txs := t_chain_txs (w_db w) @ [tx]\<rparr>)"
proof -
  have "if next_ulid w \<in> ct_id ` set (t_chain_txs (w_db w))
     then r = Inl (unique_failed ''chain_txs.id'') \<and> w_db w' = w_db w else r = Inr ()"
    using assms
    by (auto simp: add_chain_tx_def py_bind_def ulid_new_def read_clock_def urandom80_def py_ret_def
        db_write_def Let_def ins_chain_tx_def next_ulid_def no_faults_def split: if_splits)
  with assms(3) add_chain_tx_Inr [of i action h w "()" w'] show ?thesis by (auto split: if_splits)
qed

text \<open>C16. A submission that may have funded an escrow keeps the claim: the payment stays escrowed, so no
  retry can submit it a second time, and the chain is left alone.  When the transaction has a hash,
  that hash is stored for reconciliation and the exception is raised again; the one way this can
  fail without a fault of the database is a new identifier that a stored row already has, and then
  it is that failure which is raised.  Without a hash the exception is raised again and nothing is
  stored.\<close>

theorem execute_unconfirmed:
  assumes "db_ok (w_db w)" and "\<not> cf_dry_run c"
    and "no_faults w" and "intent i (w_db w) = Some r" and "in_status r = Proposed"
    and "escrow_args rt c r (supplier_by_id (in_supplier_id r) (w_db w)) (t_rules (w_db w)) src = Inr a"
    and "ca_create_intent cl a ch = (Inl (ChainSubmittedUnconfirmed h), ch')"
    and "execute rt cl i src c (w, ch) = (x, (w', ch''))"
  shows "ch'' = ch' \<and> intent i (w_db w') = Some (r\<lparr>in_status := Escrowed\<rparr>) \<and>
     (if or_empty h = [] then x = Inl (ChainSubmittedUnconfirmed h) \<and> t_chain_txs (w_db w') = t_chain_txs (w_db w)
      else if next_ulid w \<in> ct_id ` set (t_chain_txs (w_db w))
      then x = Inl (unique_failed ''chain_txs.id'') \<and> t_chain_txs (w_db w') = t_chain_txs (w_db w)
      else x = Inl (ChainSubmittedUnconfirmed h) \<and>
        (\<exists>tx. tx_row_for i (asc ''create_intent'') h tx \<and> t_chain_txs (w_db w') = t_chain_txs (w_db w) @ [tx]))"
proof -
  let ?e = "ChainSubmittedUnconfirmed h"
  from execute_submits [OF assms(1,3,2,4,5), where rt = rt and cl = cl and src = src and ch = ch] obtain w1 where w1: "no_faults w1"
    "next_ulid w1 = next_ulid w" "w_db w1 = upd_intents (claimable i) (set_status Escrowed) (w_db w)"
    and exe: "execute rt cl i src c (w, ch) = py_bind
       (submit_escrow rt c cl i r (supplier_by_id (in_supplier_id r) (w_db w)) (t_rules (w_db w)) src) (\<lambda>res.
       py_bind (confirm_escrow rt cl i r res) (\<lambda>chain_id. py_ret (Some chain_id))) (w1, ch)" by blast
  obtain y w2 where failed: "submit_failed i ?e w1 = (y, w2)" by fastforce
  have raises: "\<exists>e. y = Inl e" using failed
    by (auto simp: submit_failed_def py_when_def py_seq_def py_bind_def py_raise_def py_ret_def
        split: if_splits prod.splits sum.splits)
  have "submit_escrow rt c cl i r (supplier_by_id (in_supplier_id r) (w_db w)) (t_rules (w_db w)) src (w1, ch) =
      (y, (w2, ch'))"
    unfolding submit_escrow_raises [OF assms(6,7)] by (simp add: on_fst_def failed)
  with exe assms(8) raises have res: "ch'' = ch'" "w' = w2" "\<exists>e. y = Inl e \<and> x = Inl e"
    by (auto simp: py_bind_Inl)
  have row1: "intent i (w_db w1) = Some (r\<lparr>in_status := Escrowed\<rparr>)"
    unfolding w1(3) using assms(4,5) intent_id [OF assms(4)]
    by (subst intent_upd) (auto simp: set_status_def claimable_def)
  have txs: "t_chain_txs (w_db w1) = t_chain_txs (w_db w)" by (simp add: w1(3))
  show ?thesis
  proof (cases "or_empty h = []")
    case True
    with failed have "y = Inl ?e \<and> w2 = w1"
      by (simp add: submit_failed_def py_when_def py_seq_def py_bind_def py_raise_def py_ret_def)
    with True res row1 txs show ?thesis by auto
  next
    case False
    obtain q w3 where add: "add_chain_tx i (asc ''create_intent'') h w1 = (q, w3)" by fastforce
    have known: "has_intent (w_db w1) i" using row1 unfolding intent_def has_intent_def
      by (auto dest!: find_Some_mem)
    note stored = add_chain_tx_works [OF w1(1) known add, unfolded w1(2) txs]
    have y: "w2 = w3 \<and> y = (case q of Inl e \<Rightarrow> Inl e | Inr _ \<Rightarrow> Inl ?e)"
      using failed False add
      by (cases q) (auto simp: submit_failed_def py_when_def py_seq_def py_bind_def py_raise_def)
    have "t_intents (w_db w3) = t_intents (w_db w1)" using stored by (auto split: if_splits)
    then have "intent i (w_db w3) = Some (r\<lparr>in_status := Escrowed\<rparr>)"
      using row1 intent_cong [of "w_db w3" "w_db w1" i] by simp
    with False res y stored txs show ?thesis by (auto split: if_splits)
  qed
qed

text \<open>A confirmed escrow whose return value is no number keeps the claim, but nothing points to it:
  the exception of \<open>int\<close> comes before the transaction hash is recorded.\<close>

lemma unreadable_value_unrecorded:
  assumes "db_ok (w_db w)" and "no_faults w" and "\<not> cf_dry_run c"
    and "intent i (w_db w) = Some r" and "in_status r = Proposed"
    and "escrow_args rt c r (supplier_by_id (in_supplier_id r) (w_db w)) (t_rules (w_db w)) src = Inr a"
    and "ca_create_intent cl a ch = (Inr res, ch')" and "ir_value res = JNull"
  shows "\<exists>e w'. execute rt cl i src c (w, ch) = (Inl e, (w', ch')) \<and>
     intent i (w_db w') = Some (r\<lparr>in_status := Escrowed\<rparr>) \<and> t_chain_txs (w_db w') = t_chain_txs (w_db w)"
proof -
  from execute_submits [OF assms(1-5), where rt = rt and cl = cl and src = src and ch = ch] obtain w1 where
    w1: "w_db w1 = upd_intents (claimable i) (set_status Escrowed) (w_db w)"
    and exe: "execute rt cl i src c (w, ch) = py_bind
       (submit_escrow rt c cl i r (supplier_by_id (in_supplier_id r) (w_db w)) (t_rules (w_db w)) src) (\<lambda>res.
       py_bind (confirm_escrow rt cl i r res) (\<lambda>chain_id. py_ret (Some chain_id))) (w1, ch)" by blast
  have "submit_escrow rt c cl i r (supplier_by_id (in_supplier_id r) (w_db w)) (t_rules (w_db w)) src (w1, ch) =
      (Inr res, (w1, ch'))"
    using assms(6,7) by (simp add: submit_escrow_def py_except_def py_bind_def py_lift_def on_snd_def)
  moreover have "confirm_escrow rt cl i r res (w1, ch') = (Inl (TypeError ''int() argument''), (w1, ch'))"
    by (simp add: confirm_escrow_def assms(8) json_int_def py_bind_def py_lift_def)
  ultimately have "execute rt cl i src c (w, ch) = (Inl (TypeError ''int() argument''), (w1, ch'))"
    unfolding exe by (simp add: py_bind_def)
  moreover have "intent i (w_db w1) = Some (r\<lparr>in_status := Escrowed\<rparr>)"
    unfolding w1 using assms(4,5) intent_id [OF assms(4)]
    by (subst intent_upd) (auto simp: set_status_def claimable_def)
  ultimately show ?thesis using w1 by simp
qed

text \<open>A dry run touches neither the store nor the chain, whatever the state.\<close>

lemma dry_run_inert:
  "snd (execute rt cl i src (c\<lparr>cf_dry_run := True\<rparr>) p) = p"
  by (cases p; cases "intent i (w_db (fst p))")
    (auto simp: execute_def py_bind_def from_db_apply py_ret_def py_raise_def)

section \<open>\<open>sync_status\<close>\<close>

text \<open>C20. The chain wins: the status \<open>sync_status\<close> returns is the status the store has afterwards,
  and for a payment with a chain id it is the image of the status the chain reported, unless
  the chain does not know the intent; nothing else of the payment changes.\<close>

theorem sync_follows_chain:
  assumes "sync_status cl i (w, ch) = (Inr st, (w', ch'))"
  shows "\<exists>r. intent i (w_db w) = Some r \<and> intent i (w_db w') = Some (r\<lparr>in_status := st\<rparr>) \<and>
    (case in_chain_id r of None \<Rightarrow> st = in_status r \<and> ch' = ch
     | Some n \<Rightarrow> \<exists>v. ca_get_status cl n ch = (Inr v, ch') \<and>
         (if v = JNull then st = in_status r else rbind (chain_status v) chain_to_local = Inr st))"
  using sync_status_Inr [OF assms] unfolding fst_conv snd_conv set_status_def by blast

section \<open>\<open>release\<close>\<close>

lemma release_check_Inr:
  assumes "release_check rt c r w = (Inr u, w')"
  shows "(cf_require_attestation c \<longrightarrow> shipped_oracles r (w_db w) \<noteq> {}) \<and>
    (1 < cf_k_of_n c \<longrightarrow> cf_k_of_n c \<le> int (card (shipped_oracles r (w_db w)))) \<and>
    events_only (w_db w) (w_db w')"
proof -
  from assms obtain v cs where loop: "guard_loop rt (release_context r) (build_guards c) False False [] w = (Inr (v, cs), w')"
    and v: "v = PASS"
    by (auto simp: release_check_def run_guards_def py_bind_returns py_raise_def py_ret_def split: if_splits)
  from guard_loop_returns [OF loop] obtain rs where rs: "check_results rt (release_context r) (build_guards c) (w_db w) = Inr rs"
    and "v = chain_verdict False False rs" by blast
  with v have pass: "fst y = PASS" if "y \<in> set rs" for y
    using that by (cases "fst y") (auto simp: chain_verdict_def image_iff split: if_splits)
  note chk = rmap_mem(1) [OF rs [unfolded check_results_def]]
  have att: "shipped_oracles r (w_db w) \<noteq> {}" if "cf_require_attestation c"
  proof -
    have "\<lparr>g_kind = AttestationGuard, g_enabled = True\<rparr> \<in> set (filter (active (gc_stage (release_context r))) (build_guards c))"
      using that by (simp add: build_guards_def active_def release_context_def)
    from chk [OF this] obtain y where "y \<in> set rs" "y = attestation_check r (w_db w)"
      by (auto simp: guard_check_def need_def release_context_def)
    with pass [of y] show ?thesis by (auto simp: attestation_check_def split: if_splits)
  qed
  have kofn: "cf_k_of_n c \<le> int (card (shipped_oracles r (w_db w)))" if "1 < cf_k_of_n c"
  proof -
    have "\<lparr>g_kind = KofNOracleGuard (cf_k_of_n c), g_enabled = True\<rparr> \<in>
        set (filter (active (gc_stage (release_context r))) (build_guards c))"
      using that by (simp add: build_guards_def active_def release_context_def)
    from chk [OF this] obtain y where "y \<in> set rs" "y = kofn_check (cf_k_of_n c) r (w_db w)"
      by (auto simp: guard_check_def need_def release_context_def)
    with pass [of y] show ?thesis by (auto simp: kofn_check_def split: if_splits)
  qed
  have "events_only (w_db w) (w_db w')" using evolvesD [OF evo_guard_loop loop] by (simp add: evo.W_def)
  with att kofn show ?thesis by blast
qed

lemma mock_cash_out_Inr:
  assumes "mock_cash_out rt i w = (Inr rc, w')"
  shows "\<exists>r s row. intent i (w_db w) = Some r \<and> in_status r = Released \<and>
    supplier_by_id (in_supplier_id r) (w_db w) = Some s \<and> co_to rc = sp_address s \<and>
    ap_intent_id row = i \<and> ap_amount row = in_amount r \<and> ap_address row = sp_address s \<and>
    w_db w' = (w_db w)\<lparr>t_payouts := t_payouts (w_db w) @ [row]\<rparr>"
proof -
  from assms obtain r where r: "intent i (w_db w) = Some r" "in_status r = Released"
    by (auto simp: mock_cash_out_def py_bind_returns py_raise_def split: option.splits if_splits)
  from assms r obtain u w1 address w2 usdc where u: "ulid_new w = (Inr u, w1)"
    and a: "supplier_address (supplier_by_id (in_supplier_id r) (w_db w)) = Inr address"
    and pay: "add_anchor_payout i (asc ''MOCK-'' @ u) (in_amount r) address w1 = (Inr (), w2)"
    and fin: "w' = w2" "rc = \<lparr>co_id = asc ''MOCK-'' @ u, co_amount = usdc, co_to = address\<rparr>"
    by (auto simp: mock_cash_out_def flow_returns Let_def py_lift_def py_ret_def)
  from a obtain s where s: "supplier_by_id (in_supplier_id r) (w_db w) = Some s" "address = sp_address s"
    by (auto simp: supplier_address_def split: option.splits)
  from pay obtain k w3 now w4 where k: "ulid_new w1 = (Inr k, w3)" "read_clock w3 = (Inr now, w4)"
    and wr: "db_write (ins_payout \<lparr>ap_id = k, ap_intent_id = i, ap_ref = asc ''MOCK-'' @ u,
       ap_amount = in_amount r, ap_address = address, ap_created_at = now\<rparr>) w4 = (Inr (), w2)"
    by (auto simp: add_anchor_payout_def py_bind_returns)
  have "w_db w4 = w_db w" using u k by (simp add: ulid_new_db read_clock_step)
  with db_write_Inr [OF wr] have "w_db w2 = (w_db w)\<lparr>t_payouts := t_payouts (w_db w) @ [\<lparr>ap_id = k, ap_intent_id = i,
       ap_ref = asc ''MOCK-'' @ u, ap_amount = in_amount r, ap_address = address, ap_created_at = now\<rparr>]\<rparr>"
    by (auto simp: ins_payout_def split: if_splits)
  then show ?thesis using r s fin
    by (intro exI [of _ r] exI [of _ s] exI [of _ "\<lparr>ap_id = k, ap_intent_id = i,
       ap_ref = asc ''MOCK-'' @ u, ap_amount = in_amount r, ap_address = address, ap_created_at = now\<rparr>"]) simp
qed

lemma chain_intent_id_Inr:
  "chain_intent_id i w = (Inr n, w') \<Longrightarrow>
     \<exists>r. intent i (w_db w) = Some r \<and> in_chain_id r = Some n \<and> w' = w"
  by (auto simp: chain_intent_id_def flow_returns py_raise_def py_ret_def split: option.splits)

lemma release_Inr:
  assumes "release rt cl i src c (w, ch) = (Inr st, (w', ch'))"
  shows "\<exists>r n res ch1 v. intent i (w_db w) = Some r \<and> in_chain_id r = Some n \<and>
     (cf_require_attestation c \<longrightarrow> shipped_oracles r (w_db w) \<noteq> {}) \<and>
     (1 < cf_k_of_n c \<longrightarrow> cf_k_of_n c \<le> int (card (shipped_oracles r (w_db w)))) \<and>
     ca_release cl n (Some src) ch = (Inr res, ch1) \<and> ca_get_status cl n ch1 = (Inr v, ch') \<and>
     intent i (w_db w') = Some (r\<lparr>in_status := st\<rparr>) \<and>
     (if v = JNull then st = in_status r else rbind (chain_status v) chain_to_local = Inr st) \<and>
     (if st = Released
      then \<exists>s p. s \<in> set (t_suppliers (w_db w)) \<and> sp_id s = in_supplier_id r \<and>
        t_payouts (w_db w') = t_payouts (w_db w) @ [p] \<and> ap_intent_id p = i \<and>
        ap_amount p = in_amount r \<and> ap_address p = sp_address s
      else t_payouts (w_db w') = t_payouts (w_db w))"
proof -
  from assms obtain n r w1 res ch1 w2 q where n: "chain_intent_id i w = (Inr n, w)"
    and r: "intent i (w_db w) = Some r" and chk: "release_check rt c r w = (Inr (), w1)"
    and rel: "ca_release cl n (Some src) ch = (Inr res, ch1)"
    and tx: "add_chain_tx i (asc ''release'') (ir_tx_hash res) w1 = (Inr (), w2)"
    and sync: "sync_status cl i (w2, ch1) = (Inr st, q)"
    and fin: "(if st = Released then \<exists>a rc w3. build_anchor c = Inr a \<and> cash_out rt a i (fst q) = (Inr rc, w3) \<and> (w', ch') = (w3, snd q)
       else (w', ch') = q)"
    using chain_intent_id_Inr
    by (auto simp: release_def flow_returns py_lift_def intent_of_def py_ret_def
        split: option.splits if_splits) (metis (no_types) chain_intent_id_Inr)+
  from chain_intent_id_Inr [OF n] r have cid: "in_chain_id r = Some n" by auto
  from release_check_Inr [OF chk] have att:
    "(cf_require_attestation c \<longrightarrow> shipped_oracles r (w_db w) \<noteq> {}) \<and>
     (1 < cf_k_of_n c \<longrightarrow> cf_k_of_n c \<le> int (card (shipped_oracles r (w_db w))))"
    and ev: "events_only (w_db w) (w_db w1)" by auto
  from add_chain_tx_Inr [OF tx] have db2: "t_intents (w_db w2) = t_intents (w_db w)"
    "t_payouts (w_db w2) = t_payouts (w_db w)" "t_suppliers (w_db w2) = t_suppliers (w_db w)"
    using events_only_frame [OF ev] by auto
  from sync_status_Inr [OF sync] r cid intent_cong [OF db2(1), of i] obtain v where
    row: "intent i (w_db (fst q)) = Some (set_status st r)"
    and v: "ca_get_status cl n ch1 = (Inr v, snd q)"
      "if v = JNull then st = in_status r else rbind (chain_status v) chain_to_local = Inr st"
    and keep: "fst q = w2 \<or> status_set i st (w_db w2) (w_db (fst q))"
    by auto
  have same: "t_payouts (w_db (fst q)) = t_payouts (w_db w)" "t_suppliers (w_db (fst q)) = t_suppliers (w_db w)"
    using keep db2 by (auto simp: status_set_def)
  have "intent i (w_db w') = Some (r\<lparr>in_status := st\<rparr>) \<and> ch' = snd q \<and>
     (if st = Released
      then \<exists>s p. s \<in> set (t_suppliers (w_db w)) \<and> sp_id s = in_supplier_id r \<and>
        t_payouts (w_db w') = t_payouts (w_db w) @ [p] \<and> ap_intent_id p = i \<and>
        ap_amount p = in_amount r \<and> ap_address p = sp_address s
      else t_payouts (w_db w') = t_payouts (w_db w))"
  proof (cases "st = Released")
    case True
    with fin obtain a rc where "cash_out rt a i (fst q) = (Inr rc, w')" and ch: "ch' = snd q" by auto
    then have "mock_cash_out rt i (fst q) = (Inr rc, w')"
      by (cases a) (simp_all add: cash_out_def py_raise_def)
    from mock_cash_out_Inr [OF this] row obtain s pay where
      s: "supplier_by_id (in_supplier_id r) (w_db (fst q)) = Some s"
      and pay: "ap_intent_id pay = i" "ap_amount pay = in_amount r" "ap_address pay = sp_address s"
      and db: "w_db w' = (w_db (fst q))\<lparr>t_payouts := t_payouts (w_db (fst q)) @ [pay]\<rparr>"
      by (auto simp: set_status_def)
    have "intent i (w_db w') = Some (r\<lparr>in_status := st\<rparr>)"
      using row intent_cong [of "w_db w'" "w_db (fst q)" i] by (simp add: db set_status_def)
    with True ch pay supplier_by_id_mem [OF s] db same show ?thesis by auto
  next
    case False
    with fin row same show ?thesis by (auto simp: set_status_def)
  qed
  with r cid att rel v show ?thesis by blast
qed

text \<open>C19. Releasing a payment: the configured attestations are in the store (one Shipped
  attestation with the payment's request hash, and as many distinct oracles as \<open>k_of_n\<close>
  asks for), the chain released the escrow of this payment, the status returned is the
  chain's, and the anchor was asked for one payout of the payment's amount to the supplier's
  address exactly when that status is \<open>released\<close>.\<close>

theorem release_correct:
  assumes "release rt cl i src c (w, ch) = (Inr st, (w', ch'))"
  shows "\<exists>r n res ch1 v. intent i (w_db w) = Some r \<and> in_chain_id r = Some n \<and>
     (cf_require_attestation c \<longrightarrow> shipped_oracles r (w_db w) \<noteq> {}) \<and>
     (1 < cf_k_of_n c \<longrightarrow> cf_k_of_n c \<le> int (card (shipped_oracles r (w_db w)))) \<and>
     ca_release cl n (Some src) ch = (Inr res, ch1) \<and> ca_get_status cl n ch1 = (Inr v, ch') \<and>
     intent i (w_db w') = Some (r\<lparr>in_status := st\<rparr>) \<and>
     (if v = JNull then st = in_status r else rbind (chain_status v) chain_to_local = Inr st) \<and>
     (if st = Released
      then \<exists>s p. s \<in> set (t_suppliers (w_db w)) \<and> sp_id s = in_supplier_id r \<and>
        t_payouts (w_db w') = t_payouts (w_db w) @ [p] \<and> ap_intent_id p = i \<and>
        ap_amount p = in_amount r \<and> ap_address p = sp_address s
      else t_payouts (w_db w') = t_payouts (w_db w))"
  by (rule release_Inr [OF assms])

end
