(* ===== verification/Mock_Chain_Safety.thy ===== *)
theory Mock_Chain_Safety
  imports Chain
begin

text \<open>
  The escrow state machine of the mock chain: every state reachable by its operations, with
  time passing and accounts being funded in between.  Senders and recipients are not the
  vault itself and amounts are positive, as the policy demands.
\<close>

inductive mock_step :: "runtime \<Rightarrow> mock_chain \<Rightarrow> mock_chain \<Rightarrow> bool" for rt where
  create: "mock_create_intent rt a s = (r, s') \<Longrightarrow> cr_sme a \<noteq> vault \<Longrightarrow> cr_supplier a \<noteq> vault \<Longrightarrow>
     0 < cr_amount a \<Longrightarrow> mock_step rt s s'"
| attest: "mock_attest rt i ora k src s = (r, s') \<Longrightarrow> mock_step rt s s'"
| release: "mock_release rt i src s = (r, s') \<Longrightarrow> mock_step rt s s'"
| refund: "mock_refund rt i src s = (r, s') \<Longrightarrow> mock_step rt s s'"
| read: "mock_get_status i s = (r', s') \<Longrightarrow> mock_step rt s s'"
| deploy: "mock_deploy rt s = (r'', s') \<Longrightarrow> mock_step rt s s'"
| deposit: "address \<noteq> vault \<Longrightarrow> mock_step rt s (fund token address n s)"
| tick: "mc_now s \<le> now \<Longrightarrow> mock_step rt s (s\<lparr>mc_now := now\<rparr>)"

inductive mock_reach :: "runtime \<Rightarrow> mock_chain \<Rightarrow> bool" for rt where
  start: "mock_reach rt (mock_new now)"
| step: "mock_reach rt s \<Longrightarrow> mock_step rt s s' \<Longrightarrow> mock_reach rt s'"

section \<open>Sums over dicts\<close>

definition dict_sum :: "('k \<times> 'v \<Rightarrow> int) \<Rightarrow> ('k \<times> 'v) list \<Rightarrow> int" where
  "dict_sum f d = sum_list (map f d)"

lemma dict_sum_put_new: "map_of d k = None \<Longrightarrow> dict_sum f (dict_put k v d) = dict_sum f d + f (k, v)"
  by (induction d) (auto simp: dict_sum_def split: if_splits)

lemma dict_sum_put_old:
  "map_of d k = Some u \<Longrightarrow> dict_sum f (dict_put k v d) = dict_sum f d - f (k, u) + f (k, v)"
  by (induction d) (auto simp: dict_sum_def split: if_splits)

lemma dict_sum_ge: "x \<in> set d \<Longrightarrow> (\<And>y. y \<in> set d \<Longrightarrow> 0 \<le> f y) \<Longrightarrow> f x \<le> dict_sum f d"
proof (induction d)
  case (Cons a d)
  have "0 \<le> dict_sum f d" unfolding dict_sum_def by (rule sum_list_nonneg) (use Cons.prems(2) in auto)
  moreover have "0 \<le> f a" using Cons.prems(2) by simp
  moreover have "x \<in> set d \<Longrightarrow> f x \<le> dict_sum f d" using Cons by simp
  ultimately show ?case using Cons.prems(1) by (auto simp: dict_sum_def)
qed simp

text \<open>All holdings of a token.\<close>

definition token_supply :: "mock_chain \<Rightarrow> pystr \<Rightarrow> int" where
  "token_supply s t = dict_sum (\<lambda>((token, _), n). if token = t then n else 0) (mc_balances s)"

text \<open>The amounts of the escrows still funded in a token.\<close>

definition escrowed :: "mock_chain \<Rightarrow> pystr \<Rightarrow> int" where
  "escrowed s t = dict_sum (\<lambda>(_, m). if mi_token m = t \<and> mi_status m = Funded then mi_amount m else 0)
     (mc_intents s)"

lemma token_supply_put_balance:
  "token_supply (put_balance token a n s) t = token_supply s t + (if token = t then n - balance s token a else 0)"
proof (cases "map_of (mc_balances s) (token, a)")
  case None
  then show ?thesis by (auto simp: token_supply_def put_balance_def balance_def dict_sum_put_new)
next
  case (Some b)
  then show ?thesis by (auto simp: token_supply_def put_balance_def balance_def dict_sum_put_old)
qed

lemma balance_put [simp]:
  "balance (put_balance token a n s) t b = (if token = t \<and> a = b then n else balance s t b)"
  by (simp add: balance_def put_balance_def)

lemma move_funds_Inr:
  assumes "move_funds token src dst n s = (Inr u, s')"
  shows "n \<le> balance s token src \<and>
    (\<exists>s1. s1 = put_balance token src (balance s token src - n) s \<and>
       s' = put_balance token dst (balance s1 token dst + n) s1)"
  using assms by (auto simp: move_funds_def balance_def Let_def split: if_splits option.splits)

lemma move_funds_balance:
  assumes "move_funds token src dst n s = (Inr u, s')" and "src \<noteq> dst"
  shows "balance s' t a = balance s t a + (if t = token \<and> a = dst then n else 0)
      - (if t = token \<and> a = src then n else 0)"
  using move_funds_Inr [OF assms(1)] assms(2) by auto

lemma move_funds_supply:
  assumes "move_funds token src dst n s = (Inr u, s')"
  shows "token_supply s' t = token_supply s t"
  using move_funds_Inr [OF assms] by (auto simp: token_supply_put_balance)

lemma balance_frame: "mc_balances s' = mc_balances s \<Longrightarrow> balance s' t a = balance s t a"
  and token_supply_frame: "mc_balances s' = mc_balances s \<Longrightarrow> token_supply s' t = token_supply s t"
  by (simp_all add: balance_def token_supply_def)

lemma token_supply_intents [simp]:
  "token_supply (s\<lparr>mc_intents := x, mc_tx_count := k\<rparr>) t = token_supply s t"
  by (rule token_supply_frame) simp

lemma mock_attest_cases:
  assumes "mock_attest rt i ora k src s = (r, s')"
  shows "mc_balances s' = mc_balances s \<and> mc_now s' = mc_now s \<and>
    (mc_intents s' = mc_intents s \<or>
     (\<exists>m. map_of (mc_intents s) i = Some m \<and> mi_status m = Funded \<and> mi_attestation m = None \<and>
       mc_intents s' = dict_put i (m\<lparr>mi_attestation := Some k\<rparr>) (mc_intents s)))"
  using assms
  by (auto simp: mock_attest_def py_defs funded_intent_def put_intent_def mock_tx_hash_def Let_def
      split: option.splits sum.splits prod.splits if_splits)

text \<open>C37. The operations of the escrow conserve every token: creating, attesting, releasing,
  refunding and reading move balances without changing the total held, also when they raise.\<close>

theorem mock_conserves_supply:
  "token_supply (snd (mock_create_intent rt a s)) t = token_supply s t \<and>
   token_supply (snd (mock_attest rt i ora k src s)) t = token_supply s t \<and>
   token_supply (snd (mock_release rt i src s)) t = token_supply s t \<and>
   token_supply (snd (mock_refund rt i src s)) t = token_supply s t \<and>
   token_supply (snd (mock_get_status i s)) t = token_supply s t"
proof (intro conjI)
  show "token_supply (snd (mock_create_intent rt a s)) t = token_supply s t"
    using mock_create_cases [of rt a s "fst (mock_create_intent rt a s)" "snd (mock_create_intent rt a s)"]
    by (auto simp: move_funds_supply)
  show "token_supply (snd (mock_release rt i src s)) t = token_supply s t"
    using mock_release_cases [of rt i src s "fst (mock_release rt i src s)" "snd (mock_release rt i src s)"]
    by (auto simp: move_funds_supply)
  show "token_supply (snd (mock_refund rt i src s)) t = token_supply s t"
    using mock_refund_cases [of rt i src s "fst (mock_refund rt i src s)" "snd (mock_refund rt i src s)"]
    by (auto simp: move_funds_supply)
  show "token_supply (snd (mock_get_status i s)) t = token_supply s t"
    using mock_get_status_state [of i s "fst (mock_get_status i s)" "snd (mock_get_status i s)"] by simp
  show "token_supply (snd (mock_attest rt i ora k src s)) t = token_supply s t"
    using mock_attest_cases [of rt i ora k src s "fst (mock_attest rt i ora k src s)" "snd (mock_attest rt i ora k src s)"]
    by (intro token_supply_frame) simp
qed

section \<open>Invariant of the reachable states\<close>

definition row_ok :: "mock_intent \<Rightarrow> bool" where
  "row_ok m \<longleftrightarrow> mi_sme m \<noteq> vault \<and> mi_supplier m \<noteq> vault \<and> 0 < mi_amount m \<and>
     (mi_status m = M_Released \<longrightarrow> mi_attestation m = Some (asc ''Shipped'')) \<and>
     (mi_status m = Refunded \<longrightarrow> mi_attestation m \<noteq> Some (asc ''Shipped''))"

definition mock_inv :: "mock_chain \<Rightarrow> bool" where
  "mock_inv s \<longleftrightarrow> mock_ok s \<and> (\<forall>t. balance s t vault = escrowed s t) \<and>
     (\<forall>i m. map_of (mc_intents s) i = Some m \<longrightarrow> row_ok m)"

lemma escrowed_frame: "mc_intents s' = mc_intents s \<Longrightarrow> escrowed s' t = escrowed s t"
  by (simp add: escrowed_def)

lemma escrowed_put:
  assumes "map_of (mc_intents s) i = Some m" and "mc_intents s' = dict_put i m' (mc_intents s)"
  shows "escrowed s' t = escrowed s t
     - (if mi_token m = t \<and> mi_status m = Funded then mi_amount m else 0)
     + (if mi_token m' = t \<and> mi_status m' = Funded then mi_amount m' else 0)"
  using assms by (simp add: escrowed_def dict_sum_put_old)

lemma mock_inv_frame:
  assumes "mock_inv s" and "mc_intents s' = mc_intents s" and "\<And>t. balance s' t vault = balance s t vault"
  shows "mock_inv s'"
proof -
  have "escrowed s' t = escrowed s t" for t using assms(2) by (rule escrowed_frame)
  then show ?thesis using assms by (simp add: mock_inv_def mock_ok_def)
qed

lemma mock_inv_create:
  assumes inv: "mock_inv s" and cr: "mock_create_intent rt a s = (r, s')"
    and ne: "cr_sme a \<noteq> vault" "cr_supplier a \<noteq> vault" "0 < cr_amount a"
  shows "mock_inv s'"
  using mock_create_cases [OF cr]
proof (elim disjE exE conjE)
  fix s1 h
  let ?i = "int (length (mc_intents s)) + 1"
  let ?m = "\<lparr>mi_sme = cr_sme a, mi_supplier = cr_supplier a, mi_token = cr_token a,
            mi_amount = cr_amount a, mi_request_hash = cr_request_hash a,
            mi_deadline = cr_deadline a, mi_status = Funded, mi_attestation = None\<rparr>"
  assume mv: "move_funds (cr_token a) (cr_sme a) vault (cr_amount a) s = (Inr (), s1)"
    and s': "s' = s1\<lparr>mc_intents := dict_put ?i ?m (mc_intents s), mc_tx_count := mc_tx_count s1 + 1\<rparr>"
  have ok: "mock_ok s" using inv by (simp add: mock_inv_def)
  have new: "map_of (mc_intents s) ?i = None"
    using mock_ok_fresh [OF ok] by (simp add: map_of_eq_None_iff)
  have "balance s' t vault = escrowed s' t" for t
  proof -
    have "balance s' t vault = balance s1 t vault" by (rule balance_frame) (simp add: s')
    also have "\<dots> = balance s t vault + (if t = cr_token a then cr_amount a else 0)"
      using move_funds_balance [OF mv ne(1)] ne(1) by auto
    also have "\<dots> = escrowed s' t"
      using inv new by (simp add: s' escrowed_def mock_inv_def dict_sum_put_new)
    finally show ?thesis .
  qed
  moreover have "row_ok n" if "map_of (mc_intents s') j = Some n" for j n
    using that inv ne by (auto simp: s' mock_inv_def row_ok_def split: if_splits)
  ultimately show ?thesis using mock_create_ok [OF ok cr] by (simp add: mock_inv_def)
qed (use inv in simp_all)

lemma mock_inv_pay_out:
  assumes inv: "mock_inv s" and m: "map_of (mc_intents s) i = Some m" "mi_status m = Funded"
    and mv: "move_funds (mi_token m) vault dst (mi_amount m) s = (Inr (), s1)" and dst: "dst \<noteq> vault"
    and s': "s' = s1\<lparr>mc_intents := dict_put i (m\<lparr>mi_status := st\<rparr>) (mc_intents s), mc_tx_count := k\<rparr>"
    and st: "st \<noteq> Funded" "row_ok (m\<lparr>mi_status := st\<rparr>)"
  shows "mock_inv s'"
proof -
  have put: "mc_intents s' = dict_put i (m\<lparr>mi_status := st\<rparr>) (mc_intents s)" by (simp add: s')
  have "mock_ok s'"
    using row_update_ok [OF pay_out_update [OF mv m(1) s']] inv by (simp add: mock_inv_def)
  moreover have "balance s' t vault = escrowed s' t" for t
  proof -
    have "balance s' t vault = balance s1 t vault" by (rule balance_frame) (simp add: s')
    also have "\<dots> = balance s t vault - (if t = mi_token m then mi_amount m else 0)"
      using move_funds_balance [OF mv] dst by auto
    also have "\<dots> = escrowed s' t"
      using inv m(2) st(1) escrowed_put [OF m(1) put, of t] by (auto simp: mock_inv_def)
    finally show ?thesis .
  qed
  moreover have "row_ok n" if "map_of (mc_intents s') j = Some n" for j n
    using that inv st(2) by (auto simp: put mock_inv_def split: if_splits)
  ultimately show ?thesis by (simp add: mock_inv_def)
qed

lemma mock_inv_attest:
  assumes inv: "mock_inv s" and at: "mock_attest rt i ora k src s = (r, s')"
  shows "mock_inv s'"
proof -
  note c = mock_attest_cases [OF at]
  have "mock_ok s'" using row_update_ok [OF mock_attest_row [OF at]] inv by (simp add: mock_inv_def)
  moreover have "balance s' t vault = escrowed s' t \<and> (\<forall>j n. map_of (mc_intents s') j = Some n \<longrightarrow> row_ok n)" for t
  proof -
    have b: "balance s' t vault = balance s t vault" using c by (intro balance_frame) simp
    from c consider "mc_intents s' = mc_intents s"
      | m where "map_of (mc_intents s) i = Some m" "mi_status m = Funded"
        "mc_intents s' = dict_put i (m\<lparr>mi_attestation := Some k\<rparr>) (mc_intents s)" by blast
    then show ?thesis
    proof cases
      case 1
      then show ?thesis using b inv escrowed_frame [OF 1, of t] by (simp add: mock_inv_def)
    next
      case (2 m)
      have "row_ok m" using inv 2(1) by (simp add: mock_inv_def)
      with 2(2) have "row_ok (m\<lparr>mi_attestation := Some k\<rparr>)" by (simp add: row_ok_def)
      with 2 b inv escrowed_put [OF 2(1,3), of t] show ?thesis
        by (auto simp: mock_inv_def split: if_splits)
    qed
  qed
  ultimately show ?thesis by (simp add: mock_inv_def)
qed

lemma mock_inv_step: "mock_step rt s s' \<Longrightarrow> mock_inv s \<Longrightarrow> mock_inv s'"
proof (induction rule: mock_step.induct)
  case (release i src s r s')
  from mock_release_cases [OF release(1)] show ?case
  proof (elim disjE exE conjE)
    fix m s1 h
    assume m: "map_of (mc_intents s) i = Some m" "mi_status m = Funded"
      "mi_attestation m = Some (asc ''Shipped'')"
      "move_funds (mi_token m) vault (mi_supplier m) (mi_amount m) s = (Inr (), s1)"
      "s' = s1\<lparr>mc_intents := dict_put i (m\<lparr>mi_status := M_Released\<rparr>) (mc_intents s), mc_tx_count := mc_tx_count s1 + 1\<rparr>"
    have "row_ok m" using release(2) m(1) by (simp add: mock_inv_def)
    then show ?case
      using m by (intro mock_inv_pay_out [OF release(2) m(1,2,4) _ m(5)]) (auto simp: row_ok_def)
  qed (use release(2) in simp)
next
  case (refund i src s r s')
  from mock_refund_cases [OF refund(1)] consider "s' = s" | m s1 where
      "map_of (mc_intents s) i = Some m" "mi_status m = Funded" "mi_attestation m \<noteq> Some (asc ''Shipped'')"
      "move_funds (mi_token m) vault (mi_sme m) (mi_amount m) s = (Inr (), s1)"
      "s' = s1\<lparr>mc_intents := dict_put i (m\<lparr>mi_status := Refunded\<rparr>) (mc_intents s), mc_tx_count := mc_tx_count s1 + 1\<rparr>"
    by blast
  then show ?case
  proof cases
    case (2 m s1)
    have "row_ok m" using refund(2) 2(1) by (simp add: mock_inv_def)
    then show ?thesis
      using 2 by (intro mock_inv_pay_out [OF refund(2) 2(1,2,4) _ 2(5)]) (auto simp: row_ok_def)
  qed (use refund(2) in simp)
next
  case (create a s r s')
  show ?case by (rule mock_inv_create [OF create(5,1,2,3,4)])
next
  case (attest i ora k src s r s')
  show ?case by (rule mock_inv_attest [OF attest(2,1)])
next
  case (read i s r' s')
  then show ?case by (auto dest: mock_get_status_state)
next
  case (deploy s r'' s')
  have "mc_intents s' = mc_intents s \<and> mc_balances s' = mc_balances s"
    using deploy(1) unfolding mock_deploy_def Let_def prod.inject by (elim conjE) (drule sym, simp)
  then show ?case by (intro mock_inv_frame [OF deploy(2)] balance_frame) simp_all
next
  case (deposit address s token n)
  show ?case
  proof (rule mock_inv_frame [OF deposit(2)])
    show "mc_intents (fund token address n s) = mc_intents s" by (simp add: fund_def put_balance_def)
    show "balance (fund token address n s) t vault = balance s t vault" for t
      unfolding fund_def balance_put using deposit(1) by simp
  qed
next
  case (tick s now)
  show ?case by (rule mock_inv_frame [OF tick(2)]) (simp_all add: balance_def)
qed

lemma mock_inv_reach: "mock_reach rt s \<Longrightarrow> mock_inv s"
proof (induction rule: mock_reach.induct)
  case (start now)
  show ?case by (simp add: mock_inv_def mock_ok_def mock_new_def balance_def escrowed_def dict_sum_def)
qed (rule mock_inv_step)

section \<open>Properties\<close>

text \<open>C38. The vault is always exactly backed: in every reachable state the vault's balance in a
  token is the sum of the escrows still funded in it, so nothing is paid out twice or to a
  third party.\<close>

theorem mock_vault_backed:
  assumes "mock_reach rt s"
  shows "balance s t vault = escrowed s t"
  using mock_inv_reach [OF assms] by (simp add: mock_inv_def)

text \<open>C39. Attestations decide: in every reachable state a released escrow has a Shipped
  attestation and a refunded one has none.\<close>

theorem mock_outcome_attested:
  assumes "mock_reach rt s" and "map_of (mc_intents s) i = Some m"
  shows "(mi_status m = M_Released \<longrightarrow> mi_attestation m = Some (asc ''Shipped'')) \<and>
     (mi_status m = Refunded \<longrightarrow> mi_attestation m \<noteq> Some (asc ''Shipped''))"
  using mock_inv_reach [OF assms(1)] assms(2) by (auto simp: mock_inv_def row_ok_def)

lemma escrowed_ge:
  assumes "mock_inv s" and "map_of (mc_intents s) i = Some m" and "mi_status m = Funded"
  shows "mi_amount m \<le> escrowed s (mi_token m)"
proof -
  let ?f = "\<lambda>(_ :: int, n). if mi_token n = mi_token m \<and> mi_status n = Funded then mi_amount n else 0"
  have ok: "mock_ok s" and rows: "\<forall>i n. map_of (mc_intents s) i = Some n \<longrightarrow> row_ok n"
    using assms(1) by (simp_all add: mock_inv_def)
  have d: "distinct (map fst (mc_intents s))" using ok by (simp add: mock_ok_def distinct_map inj_on_def)
  have "0 \<le> ?f x" if "x \<in> set (mc_intents s)" for x
  proof -
    obtain j n where x: "x = (j, n)" by (cases x)
    with that d have "map_of (mc_intents s) j = Some n" by simp
    with rows have "row_ok n" by blast
    then show ?thesis by (simp add: x row_ok_def)
  qed
  moreover have "(i, m) \<in> set (mc_intents s)" using assms(2) by (rule map_of_SomeD)
  ultimately have "?f (i, m) \<le> dict_sum ?f (mc_intents s)" by (intro dict_sum_ge)
  then show ?thesis using assms(3) by (simp add: escrowed_def)
qed

lemma move_from_vault:
  assumes "mock_inv s" and "map_of (mc_intents s) i = Some m" and "mi_status m = Funded"
  shows "\<exists>s1. move_funds (mi_token m) vault dst (mi_amount m) s = (Inr (), s1)"
proof -
  have b: "mi_amount m \<le> balance s (mi_token m) vault"
    using escrowed_ge [OF assms] assms(1) by (simp add: mock_inv_def)
  moreover have "0 < mi_amount m" using assms(1,2) by (simp add: mock_inv_def row_ok_def)
  ultimately have "map_of (mc_balances s) (mi_token m, vault) \<noteq> None"
    by (auto simp: balance_def split: option.splits)
  with b show ?thesis by (auto simp: move_funds_def Let_def)
qed

text \<open>C40. Money is never locked: in every reachable state a funded escrow attested Shipped can be
  released, and one not attested Shipped can be refunded once it is attested Failed or its
  deadline has passed.\<close>

theorem mock_never_locked:
  assumes "mock_reach rt s" and "map_of (mc_intents s) i = Some m" and "mi_status m = Funded"
  shows "(if mi_attestation m = Some (asc ''Shipped'') then \<exists>v s'. mock_release rt i src s = (Inr v, s')
     else mi_attestation m = Some (asc ''Failed'') \<or> mi_deadline m \<le> mc_now s \<longrightarrow>
       (\<exists>v s'. mock_refund rt i src s = (Inr v, s')))"
proof -
  have inv: "mock_inv s" by (rule mock_inv_reach [OF assms(1)])
  have f: "funded_intent i s = (Inr m, s)" using assms(2,3) by (simp add: funded_intent_Inr)
  have out: "\<exists>v s'. py_seq (move_funds (mi_token m) vault dst (mi_amount m))
         (py_seq (put_intent i (m\<lparr>mi_status := st\<rparr>))
           (py_bind (mock_tx_hash rt act) (\<lambda>h. py_ret \<lparr>ir_value = JNull, ir_tx_hash = Some h\<rparr>))) s = (Inr v, s')"
    if "list_all is_scalar act" for dst st act
  proof -
    obtain s1 where mv: "move_funds (mi_token m) vault dst (mi_amount m) s = (Inr (), s1)"
      using move_from_vault [OF inv assms(2,3)] by blast
    let ?s2 = "s1\<lparr>mc_intents := dict_put i (m\<lparr>mi_status := st\<rparr>) (mc_intents s1)\<rparr>"
    obtain h where "mock_tx_hash rt act ?s2 = (Inr h, ?s2\<lparr>mc_tx_count := mc_tx_count ?s2 + 1\<rparr>)"
      using mock_tx_hash_Inr [OF \<open>list_all is_scalar act\<close>] by blast
    with mv show ?thesis by (simp add: py_seq_def py_bind_Inr put_intent_def)
  qed
  show ?thesis
    using out [of "asc ''release''"] out [of "asc ''refund''"] f
    by (auto simp: mock_release_def mock_refund_def py_bind_Inr)
qed

end
