(* ===== verification/End_To_End.thy ===== *)
theory End_To_End
  imports Flow_Correct Mock_Chain_Safety
begin

text \<open>
  The payment flow on the mock chain: what \<open>release\<close> and \<open>revert\<close> did to the store, the
  escrow and the balances together.
\<close>

section \<open>Reading the mock chain\<close>

fun local_status :: "mock_status \<Rightarrow> status" where
  "local_status Funded = Escrowed"
| "local_status M_Released = Released"
| "local_status Refunded = Reverted"

lemma mock_status_local:
  assumes "mock_get_status i s = (Inr v, s')" and "map_of (mc_intents s) i = Some m"
  shows "v \<noteq> JNull \<and> rbind (chain_status v) chain_to_local = Inr (local_status (mi_status m))"
  using assms
  by (cases "mi_status m")
    (auto simp: mock_get_status_def rbind_def chain_status_def json_item_def dict_item_def variant_of_def
      chain_to_local_def split: sum.splits)

lemma mock_adapter_sel [simp]:
  "ca_release (mock_adapter rt) = mock_release rt" "ca_refund (mock_adapter rt) = mock_refund rt"
  "ca_get_status (mock_adapter rt) = mock_get_status" "ca_attest (mock_adapter rt) = mock_attest rt"
  "ca_create_intent (mock_adapter rt) = mock_create_intent rt" "ca_deploy (mock_adapter rt) = mock_deploy rt"
  by (simp_all add: mock_adapter_def)

text \<open>C21. Releasing on the mock chain settles the payment on both sides: the escrow was funded and
  attested Shipped, it is now released, the supplier holds its amount more and everybody else
  but the vault as much as before, the store says \<open>released\<close>, and the anchor paid out the
  payment's amount to the supplier's registered address.\<close>

theorem release_pays_supplier:
  assumes "release rt (mock_adapter rt) i src c (w, ch) = (Inr st, (w', ch'))"
  shows "\<exists>r n m. intent i (w_db w) = Some r \<and> in_chain_id r = Some n \<and>
     map_of (mc_intents ch) n = Some m \<and> mi_status m = Funded \<and> mi_attestation m = Some (asc ''Shipped'') \<and>
     map_of (mc_intents ch') n = Some (m\<lparr>mi_status := M_Released\<rparr>) \<and>
     st = Released \<and> intent i (w_db w') = Some (r\<lparr>in_status := Released\<rparr>) \<and>
     (\<exists>s p. s \<in> set (t_suppliers (w_db w)) \<and> sp_id s = in_supplier_id r \<and>
        t_payouts (w_db w') = t_payouts (w_db w) @ [p] \<and> ap_intent_id p = i \<and>
        ap_amount p = in_amount r \<and> ap_address p = sp_address s) \<and>
     (mi_supplier m = vault \<or> (\<forall>t a. balance ch' t a = balance ch t a
        + (if t = mi_token m \<and> a = mi_supplier m then mi_amount m else 0)
        - (if t = mi_token m \<and> a = vault then mi_amount m else 0)))"
proof -
  from release_Inr [OF assms, unfolded mock_adapter_sel] obtain r n res ch1 v where r: "intent i (w_db w) = Some r" "in_chain_id r = Some n"
    and rel: "mock_release rt n (Some src) ch = (Inr res, ch1)"
    and get: "mock_get_status n ch1 = (Inr v, ch')"
    and row: "intent i (w_db w') = Some (r\<lparr>in_status := st\<rparr>)"
    and st: "if v = JNull then st = in_status r else rbind (chain_status v) chain_to_local = Inr st"
    and pay: "if st = Released
      then \<exists>s p. s \<in> set (t_suppliers (w_db w)) \<and> sp_id s = in_supplier_id r \<and>
        t_payouts (w_db w') = t_payouts (w_db w) @ [p] \<and> ap_intent_id p = i \<and>
        ap_amount p = in_amount r \<and> ap_address p = sp_address s
      else t_payouts (w_db w') = t_payouts (w_db w)"
    by (elim exE conjE) (rule that)
  have ch': "ch' = ch1" by (rule mock_get_status_state [OF get])
  from mock_release_cases [OF rel] obtain m s1 h where m: "map_of (mc_intents ch) n = Some m" "mi_status m = Funded"
      "mi_attestation m = Some (asc ''Shipped'')"
    and mv: "move_funds (mi_token m) vault (mi_supplier m) (mi_amount m) ch = (Inr (), s1)"
    and c1: "ch1 = s1\<lparr>mc_intents := dict_put n (m\<lparr>mi_status := M_Released\<rparr>) (mc_intents ch),
       mc_tx_count := mc_tx_count s1 + 1\<rparr>"
    by auto
  have m': "map_of (mc_intents ch1) n = Some (m\<lparr>mi_status := M_Released\<rparr>)" by (simp add: c1)
  from mock_status_local [OF get m'] st have "st = Released" by (auto split: if_splits)
  moreover have "balance ch' t a = balance ch t a + (if t = mi_token m \<and> a = mi_supplier m then mi_amount m else 0)
        - (if t = mi_token m \<and> a = vault then mi_amount m else 0)" if "mi_supplier m \<noteq> vault" for t a
  proof -
    have "balance ch' t a = balance s1 t a" by (rule balance_frame) (simp add: ch' c1)
    then show ?thesis using move_funds_balance [OF mv, of t a] that by simp
  qed
  ultimately show ?thesis using r m m' row pay ch' by auto
qed

text \<open>C22. Refunding on the mock chain gives the money back: the escrow was funded and not attested
  Shipped, it had failed or its deadline had passed, it is now refunded, the payer holds its
  amount more, the store says \<open>reverted\<close> and nothing was paid out.\<close>

theorem revert_refunds_payer:
  assumes "revert (mock_adapter rt) i src (w, ch) = (Inr st, (w', ch'))"
  shows "\<exists>r n m. intent i (w_db w) = Some r \<and> in_chain_id r = Some n \<and>
     map_of (mc_intents ch) n = Some m \<and> mi_status m = Funded \<and> mi_attestation m \<noteq> Some (asc ''Shipped'') \<and>
     (mi_attestation m = Some (asc ''Failed'') \<or> mi_deadline m \<le> mc_now ch) \<and>
     map_of (mc_intents ch') n = Some (m\<lparr>mi_status := Refunded\<rparr>) \<and>
     st = Reverted \<and> intent i (w_db w') = Some (r\<lparr>in_status := Reverted\<rparr>) \<and>
     t_payouts (w_db w') = t_payouts (w_db w) \<and>
     (mi_sme m = vault \<or> (\<forall>t a. balance ch' t a = balance ch t a
        + (if t = mi_token m \<and> a = mi_sme m then mi_amount m else 0)
        - (if t = mi_token m \<and> a = vault then mi_amount m else 0)))"
proof -
  from assms obtain n w0 res ch1 w2 where n0: "chain_intent_id i w = (Inr n, w0)"
    and ref: "mock_refund rt n (Some src) ch = (Inr res, ch1)"
    and tx: "add_chain_tx i (asc ''refund'') (ir_tx_hash res) w0 = (Inr (), w2)"
    and sync: "sync_status (mock_adapter rt) i (w2, ch1) = (Inr st, (w', ch'))"
    by (auto simp: revert_def flow_returns)
  from chain_intent_id_Inr [OF n0] obtain r where r: "intent i (w_db w) = Some r" "in_chain_id r = Some n"
    and w0: "w0 = w" by blast
  from add_chain_tx_Inr [OF tx [unfolded w0]] have db2: "t_intents (w_db w2) = t_intents (w_db w)"
    "t_payouts (w_db w2) = t_payouts (w_db w)" by auto
  from sync_status_Inr [OF sync] r intent_cong [OF db2(1), of i] obtain v where
    row: "intent i (w_db w') = Some (set_status st r)"
    and get: "mock_get_status n ch1 = (Inr v, ch')"
    and st: "if v = JNull then st = in_status r else rbind (chain_status v) chain_to_local = Inr st"
    and keep: "w' = w2 \<or> status_set i st (w_db w2) (w_db w')"
    by auto
  have ch': "ch' = ch1" by (rule mock_get_status_state [OF get])
  from mock_refund_cases [OF ref] obtain m s1 h where m: "map_of (mc_intents ch) n = Some m" "mi_status m = Funded"
      "mi_attestation m \<noteq> Some (asc ''Shipped'')"
      "mi_attestation m = Some (asc ''Failed'') \<or> mi_deadline m \<le> mc_now ch"
    and mv: "move_funds (mi_token m) vault (mi_sme m) (mi_amount m) ch = (Inr (), s1)"
    and c1: "ch1 = s1\<lparr>mc_intents := dict_put n (m\<lparr>mi_status := Refunded\<rparr>) (mc_intents ch),
       mc_tx_count := mc_tx_count s1 + 1\<rparr>"
    by auto
  have m': "map_of (mc_intents ch1) n = Some (m\<lparr>mi_status := Refunded\<rparr>)" by (simp add: c1)
  from mock_status_local [OF get m'] st have "st = Reverted" by (auto split: if_splits)
  moreover have "balance ch' t a = balance ch t a + (if t = mi_token m \<and> a = mi_sme m then mi_amount m else 0)
        - (if t = mi_token m \<and> a = vault then mi_amount m else 0)" if "mi_sme m \<noteq> vault" for t a
  proof -
    have "balance ch' t a = balance s1 t a" by (rule balance_frame) (simp add: ch' c1)
    then show ?thesis using move_funds_balance [OF mv, of t a] that by simp
  qed
  moreover have "t_payouts (w_db w') = t_payouts (w_db w)" using keep db2 by (auto simp: status_set_def)
  ultimately show ?thesis using r m m' row ch' by (auto simp: set_status_def)
qed

end
