(* ===== verification/Mock_Chain_Examples.thy ===== *)
theory Mock_Chain_Examples
  imports Mock_Chain_Safety
begin

text \<open>
  A short life of the mock chain: an account is funded, an escrow of 5 is created, attested
  \<open>Shipped\<close> and released.  The properties of \<open>Mock_Chain_Safety\<close> are applied to its states.
\<close>

definition chain_order :: create_args where
  "chain_order = \<lparr>cr_sme = asc ''S'', cr_supplier = asc ''G'', cr_token = asc ''T'', cr_amount = 5,
     cr_request_hash = asc ''h'', cr_deadline = 100, cr_source = None\<rparr>"

definition chain_created :: mock_chain where
  "chain_created = snd (mock_create_intent plain_runtime chain_order
     (fund (asc ''T'') (asc ''S'') 8 (mock_new 0)))"

definition chain_shipped :: mock_chain where
  "chain_shipped = snd (mock_attest plain_runtime 1 (asc ''O'') (asc ''Shipped'') None chain_created)"

definition chain_released :: mock_chain where
  "chain_released = snd (mock_release plain_runtime 1 None chain_shipped)"

lemma chain_created_reach: "mock_reach plain_runtime chain_created"
proof -
  have "asc ''S'' \<noteq> vault" "asc ''G'' \<noteq> vault" by (simp_all add: vault_def asc_def)
  note ne = this
  have "mock_reach plain_runtime (fund (asc ''T'') (asc ''S'') 8 (mock_new 0))"
    by (rule mock_reach.step [OF mock_reach.start mock_step.deposit [OF ne(1)]])
  then show ?thesis unfolding chain_created_def
    by (rule mock_reach.step)
      (rule mock_step.create [OF surjective_pairing]; simp add: chain_order_def ne)
qed

lemma chain_shipped_reach: "mock_reach plain_runtime chain_shipped"
  unfolding chain_shipped_def
  by (rule mock_reach.step [OF chain_created_reach]) (rule mock_step.attest [OF surjective_pairing])

lemma chain_released_reach: "mock_reach plain_runtime chain_released"
  unfolding chain_released_def
  by (rule mock_reach.step [OF chain_shipped_reach]) (rule mock_step.release [OF surjective_pairing])

theorem mock_vault_backed_witness:
  "balance chain_created (asc ''T'') vault = 5 \<and> balance chain_released (asc ''T'') vault = 0"
proof -
  have "escrowed chain_created (asc ''T'') = 5" "escrowed chain_released (asc ''T'') = 0"
    by code_simp+
  then show ?thesis
    using mock_vault_backed [OF chain_created_reach] mock_vault_backed [OF chain_released_reach] by simp
qed

definition chain_row :: "mock_status \<Rightarrow> pystr option \<Rightarrow> mock_intent" where
  "chain_row st att = \<lparr>mi_sme = asc ''S'', mi_supplier = asc ''G'', mi_token = asc ''T'', mi_amount = 5,
     mi_request_hash = asc ''h'', mi_deadline = 100, mi_status = st, mi_attestation = att\<rparr>"

theorem mock_outcome_attested_witness:
  "\<exists>m. map_of (mc_intents chain_released) 1 = Some m \<and> mi_status m = M_Released \<and>
     mi_attestation m = Some (asc ''Shipped'')"
proof -
  have m: "map_of (mc_intents chain_released) 1 = Some (chain_row M_Released (Some (asc ''Shipped'')))"
    by code_simp
  from mock_outcome_attested [OF chain_released_reach m] m show ?thesis by (simp add: chain_row_def)
qed

theorem mock_never_locked_witness:
  "\<exists>v s'. mock_release plain_runtime 1 None chain_shipped = (Inr v, s')"
proof -
  have m: "map_of (mc_intents chain_shipped) 1 = Some (chain_row Funded (Some (asc ''Shipped'')))"
    by code_simp
  from mock_never_locked [OF chain_shipped_reach m, of None] show ?thesis
    by (simp add: chain_row_def)
qed

end
