(* ===== verification/Flow_Examples.thy ===== *)
theory Flow_Examples
  imports Flow_Safety End_To_End Mock_Chain_Examples Demo
begin

text \<open>
  One proposed and one held payment of 5 to the supplier \<open>A\<close>, on the mock chain of
  \<open>Mock_Chain_Examples\<close>; the properties of the payment flow are applied to them.
\<close>

definition pay_row :: "string \<Rightarrow> string \<Rightarrow> status \<Rightarrow> int option \<Rightarrow> intent_row" where
  "pay_row i h st chain_id = \<lparr>in_id = asc i, in_request_hash = asc h, in_supplier_id = asc ''1'',
     in_amount = asc ''5'', in_token = asc ''T'', in_deadline = 100, in_status = st,
     in_chain_id = chain_id, in_invoice_ref = None, in_created_at = 0\<rparr>"

definition pay_decision :: "string \<Rightarrow> decision \<Rightarrow> string \<Rightarrow> string \<Rightarrow> decision_row" where
  "pay_decision k d i h = \<lparr>de_id = asc k, de_decision = d, de_codes = [OK], de_request_hash = asc h,
     de_intent_id = Some (asc i), de_detail = None, de_created_at = 0\<rparr>"

definition pay_supplier :: supplier where
  "pay_supplier = \<lparr>sp_id = asc ''1'', sp_name = asc ''A'', sp_address = asc ''G''\<rparr>"

definition pay_tables :: "status \<Rightarrow> int option \<Rightarrow> tables" where
  "pay_tables st chain_id = empty_tables\<lparr>t_suppliers := [pay_supplier],
     t_rules := [(asc ''sme_address'', asc ''S'')],
     t_intents := [pay_row ''i'' ''h'' st chain_id, pay_row ''j'' ''k'' Held None],
     t_decisions := [pay_decision ''1'' D_proposed ''i'' ''h'', pay_decision ''2'' D_held ''j'' ''k'']\<rparr>"

definition pay_world :: "status \<Rightarrow> int option \<Rightarrow> unit world" where
  "pay_world st chain_id = demo_world (pay_tables st chain_id)"

abbreviation pay_chain :: mock_chain where
  "pay_chain \<equiv> fund (asc ''T'') (asc ''S'') 8 (mock_new 0)"

section \<open>An interleaving\<close>

lemma pay_stored: "flow_steps plain_runtime (mock_adapter plain_runtime)
   (empty_tables, pay_chain, {#}) (pay_tables Proposed None, pay_chain, {#})"
proof -
  let ?t1 = "empty_tables\<lparr>t_suppliers := [pay_supplier]\<rparr>"
  let ?t2 = "?t1\<lparr>t_rules := [(asc ''sme_address'', asc ''S'')]\<rparr>"
  let ?u = "?t2\<lparr>t_intents := [pay_row ''i'' ''h'' Proposed None]\<rparr>"
  let ?t3 = "?u\<lparr>t_decisions := [pay_decision ''1'' D_proposed ''i'' ''h'']\<rparr>"
  let ?v = "?t3\<lparr>t_intents := [pay_row ''i'' ''h'' Proposed None, pay_row ''j'' ''k'' Held None]\<rparr>"
  have five: "py_str_int 5 = Inr (in_amount (pay_row i h st n))" for i h st n
    unfolding pay_row_def by code_simp
  have "commits empty_tables ?t1"
    by (rule commits.supplier [of pay_supplier]) (simp add: ins_supplier_def empty_tables_def)
  moreover have "commits ?t1 ?t2" by (rule commits.rules)
  moreover have "commits ?t2 ?t3"
  proof (rule commits.draft [OF _ _ _ _ _ five [of "''i''" "''h''" Proposed None]])
    show "ins_intent (pay_row ''i'' ''h'' Proposed None) ?t2 = Inr ?u"
      by (simp add: ins_intent_def has_intent_def empty_tables_def pay_row_def pay_supplier_def)
    show "ins_decision (pay_decision ''1'' D_proposed ''i'' ''h'') ?u = Inr ?t3"
      by (simp add: ins_decision_def has_intent_def empty_tables_def pay_row_def pay_decision_def)
  qed (simp_all add: pay_decision_def pay_row_def)
  moreover have "commits ?t3 (pay_tables Proposed None)"
  proof (rule commits.draft [OF _ _ _ _ _ five [of "''j''" "''k''" Held None]])
    show "ins_intent (pay_row ''j'' ''k'' Held None) ?t3 = Inr ?v"
      by (simp add: ins_intent_def has_intent_def empty_tables_def pay_row_def pay_supplier_def)
    show "ins_decision (pay_decision ''2'' D_held ''j'' ''k'') ?v = Inr (pay_tables Proposed None)"
      by (simp add: ins_decision_def has_intent_def empty_tables_def pay_row_def pay_decision_def
          pay_tables_def)
  qed (simp_all add: pay_decision_def pay_row_def)
  ultimately have "commits\<^sup>*\<^sup>* empty_tables (pay_tables Proposed None)"
    by (meson converse_rtranclp_into_rtranclp r_into_rtranclp)
  then show ?thesis by (rule commits_path)
qed

definition pay_executed :: "int option result \<times> unit world \<times> mock_chain" where
  "pay_executed = execute plain_runtime (mock_adapter plain_runtime) (asc ''i'') (asc ''s'') demo_config
     (pay_world Proposed None, pay_chain)"

lemma pay_executed_value: "fst pay_executed = Inr (Some 1) \<and>
    mock_escrows (snd (snd pay_executed)) = [chain_order]"
  by code_simp

lemma pay_reached: "flow_steps plain_runtime (mock_adapter plain_runtime) (empty_tables, pay_chain, {#})
   (w_db (fst (snd pay_executed)), snd (snd pay_executed), {#})"
proof -
  have "path plain_runtime (mock_adapter plain_runtime) (pay_world Proposed None, pay_chain) (snd pay_executed)"
    using path_execute unfolding pay_executed_def evolves_def by blast
  then have "flow_steps plain_runtime (mock_adapter plain_runtime)
      (pay_tables Proposed None, pay_chain, {#}) (w_db (fst (snd pay_executed)), snd (snd pay_executed), {#})"
    by (simp add: path_def pay_world_def demo_world_def)
  with pay_stored show ?thesis by (rule rtranclp_trans)
qed

lemma pay_start: "mock_ok pay_chain" "mock_escrows pay_chain = []"
  by (simp_all add: fund_def put_balance_def mock_new_def mock_ok_def mock_escrows_def)

theorem no_double_escrow_witness:
  "distinct (map cr_request_hash (mock_escrows (snd (snd pay_executed))))"
  by (rule no_double_escrow [OF mock.escrow_contract_axioms pay_start pay_reached])

theorem escrow_is_payment_witness:
  "\<exists>r. r \<in> set (t_intents (w_db (fst (snd pay_executed)))) \<and> in_request_hash r = asc ''h'' \<and>
     in_token r = asc ''T'' \<and> in_status r \<noteq> Proposed"
proof -
  have "chain_order \<in> set (mock_escrows (snd (snd pay_executed)))" using pay_executed_value by simp
  from escrow_is_payment [OF mock.escrow_contract_axioms pay_start pay_reached this]
  show ?thesis by (auto simp: chain_order_def)
qed

lemma pay_held_rows:
  "pay_decision ''2'' D_held ''j'' ''k'' \<in> set (t_decisions (w_db (fst (snd pay_executed)))) \<and>
   pay_row ''j'' ''k'' Held None \<in> set (t_intents (w_db (fst (snd pay_executed))))"
  by code_simp

lemma pay_held_fields: "de_decision (pay_decision ''2'' D_held ''j'' ''k'') = D_held"
  "de_intent_id (pay_decision ''2'' D_held ''j'' ''k'') = Some (in_id (pay_row ''j'' ''k'' Held None))"
  by (simp_all add: pay_decision_def pay_row_def)

theorem held_never_escrowed_witness:
  "in_request_hash (pay_row ''j'' ''k'' Held None) \<notin>
     set (map cr_request_hash (mock_escrows (snd (snd pay_executed))))"
  by (rule held_never_escrowed [OF mock.escrow_contract_axioms pay_start pay_reached
      pay_held_rows [THEN conjunct1] pay_held_fields(1) pay_held_rows [THEN conjunct2] pay_held_fields(2)])

section \<open>Single operations\<close>

lemma pay_db_ok: "db_ok (pay_tables Proposed None)"
  by (simp add: db_ok_def has_intent_def pay_tables_def empty_tables_def pay_row_def pay_decision_def
      pay_supplier_def)

lemma pay_intent: "intent (asc ''i'') (pay_tables st n) = Some (pay_row ''i'' ''h'' st n)"
  by (simp add: intent_def pay_tables_def pay_row_def)

lemma pay_world_db [simp]: "w_db (pay_world st n) = pay_tables st n"
  by (simp add: pay_world_def demo_world_def)

theorem execute_correct_witness:
  "\<exists>w' ch' a h. execute plain_runtime (mock_adapter plain_runtime) (asc ''i'') (asc ''s'') demo_config
       (pay_world Proposed None, pay_chain) = (Inr (Some 1), (w', ch')) \<and> cr_token a = asc ''T'' \<and>
     approved (asc ''i'') (pay_row ''i'' ''h'' Proposed None) 1 h (pay_tables Proposed None) (w_db w')"
proof -
  obtain w' ch' where e: "execute plain_runtime (mock_adapter plain_runtime) (asc ''i'') (asc ''s'') demo_config
       (pay_world Proposed None, pay_chain) = (Inr (Some 1), (w', ch'))"
    using pay_executed_value unfolding pay_executed_def by (metis prod.collapse)
  have "db_ok (w_db (pay_world Proposed None))" using pay_db_ok by simp
  from execute_correct [OF e this] e show ?thesis
    by (auto simp: pay_intent) (metis create_args.select_convs(3))
qed

abbreviation pay_args :: create_args where
  "pay_args \<equiv> chain_order\<lparr>cr_source := Some (asc ''s'')\<rparr>"

lemma pay_escrow_args:
  "escrow_args plain_runtime demo_config (pay_row ''i'' ''h'' Proposed None)
     (supplier_by_id (in_supplier_id (pay_row ''i'' ''h'' Proposed None)) (pay_tables Proposed None))
     (t_rules (pay_tables Proposed None)) (asc ''s'') = Inr pay_args"
  by code_simp

lemma pay_live: "\<not> cf_dry_run demo_config" "no_faults (pay_world st n)"
  "in_status (pay_row i h st n) = st" "in_chain_id (pay_row i h st n) = n"
  by (simp_all add: demo_config_def default_config_def no_faults_def pay_world_def demo_world_def pay_row_def)

theorem execute_clean_retry_witness:
  "\<exists>w'. execute plain_runtime (mock_adapter plain_runtime) (asc ''i'') (asc ''s'') demo_config
       (pay_world Proposed None, mock_new 0) = (Inl (ChainError ''InsufficientBalance''), (w', mock_new 0)) \<and>
     w_db w' = pay_tables Proposed None"
proof -
  have c: "ca_create_intent (mock_adapter plain_runtime) pay_args (mock_new 0) =
      (Inl (ChainError ''InsufficientBalance''), mock_new 0)"
    by code_simp
  show ?thesis
    using execute_clean_retry [of "pay_world Proposed None", unfolded pay_world_db,
        OF pay_db_ok pay_live(2,1) pay_intent pay_live(3,4) pay_escrow_args c]
    by simp
qed

text \<open>An adapter whose submissions are never confirmed.\<close>

definition silent_adapter :: "mock_chain chain_adapter" where
  "silent_adapter = (mock_adapter plain_runtime)\<lparr>ca_create_intent :=
     \<lambda>a s. (Inl (ChainSubmittedUnconfirmed (Some (asc ''tx''))), s)\<rparr>"

theorem execute_unconfirmed_witness:
  "\<exists>w' tx. execute plain_runtime silent_adapter (asc ''i'') (asc ''s'') demo_config
       (pay_world Proposed None, pay_chain) = (Inl (ChainSubmittedUnconfirmed (Some (asc ''tx''))), (w', pay_chain)) \<and>
     intent (asc ''i'') (w_db w') = Some (pay_row ''i'' ''h'' Escrowed None) \<and>
     t_chain_txs (w_db w') = [tx] \<and> tx_row_for (asc ''i'') (asc ''create_intent'') (Some (asc ''tx'')) tx"
proof -
  obtain x w' ch' where e: "execute plain_runtime silent_adapter (asc ''i'') (asc ''s'') demo_config
       (pay_world Proposed None, pay_chain) = (x, (w', ch'))" by (metis prod.collapse)
  have c: "ca_create_intent silent_adapter pay_args pay_chain =
      (Inl (ChainSubmittedUnconfirmed (Some (asc ''tx''))), pay_chain)"
    by (simp add: silent_adapter_def)
  have "(pay_row ''i'' ''h'' Proposed None)\<lparr>in_status := Escrowed\<rparr> = pay_row ''i'' ''h'' Escrowed None"
    "t_chain_txs (pay_tables Proposed None) = []"
    by (simp_all add: pay_row_def pay_tables_def empty_tables_def)
  moreover have "or_empty (Some (asc ''tx'')) \<noteq> []" by code_simp
  ultimately show ?thesis
    using execute_unconfirmed [of "pay_world Proposed None", unfolded pay_world_db,
        OF pay_db_ok pay_live(1,2) pay_intent pay_live(3) pay_escrow_args c e] e
    by auto
qed

definition pay_synced :: "status result \<times> unit world \<times> mock_chain" where
  "pay_synced = sync_status (mock_adapter plain_runtime) (asc ''i'') (pay_world Escrowed (Some 1), chain_released)"

theorem sync_follows_chain_witness:
  "\<exists>w' ch'. sync_status (mock_adapter plain_runtime) (asc ''i'')
       (pay_world Escrowed (Some 1), chain_released) = (Inr Released, (w', ch')) \<and>
     intent (asc ''i'') (w_db w') = Some (pay_row ''i'' ''h'' Released (Some 1))"
proof -
  have "fst pay_synced = Inr Released" by code_simp
  then obtain w' ch' where s: "sync_status (mock_adapter plain_runtime) (asc ''i'')
       (pay_world Escrowed (Some 1), chain_released) = (Inr Released, (w', ch'))"
    unfolding pay_synced_def by (metis prod.collapse)
  from sync_follows_chain [OF s] s show ?thesis by (auto simp: pay_intent pay_row_def)
qed

definition pay_attested :: "unit world" where
  "pay_attested = demo_world ((pay_tables Escrowed (Some 1))\<lparr>t_attestations :=
     [\<lparr>at_id = asc ''1'', at_intent_id = asc ''i'', at_oracle = asc ''O'', at_kind = asc ''Shipped'',
       at_request_hash = asc ''h'', at_created_at = 0\<rparr>]\<rparr>)"

definition pay_released :: "config \<Rightarrow> status result \<times> unit world \<times> mock_chain" where
  "pay_released c = release plain_runtime (mock_adapter plain_runtime) (asc ''i'') (asc ''s'') c
     (pay_attested, chain_shipped)"

lemma pay_released_value: "fst (pay_released (demo_config\<lparr>cf_require_attestation := True\<rparr>)) = Inr Released"
  by code_simp

lemma pay_attested_db: "intent (asc ''i'') (w_db pay_attested) = Some (pay_row ''i'' ''h'' Escrowed (Some 1))"
  "t_payouts (w_db pay_attested) = []"
  by (simp_all add: pay_attested_def demo_world_def intent_def pay_tables_def pay_row_def empty_tables_def)

theorem release_correct_witness:
  "\<exists>w' ch' p. pay_released (demo_config\<lparr>cf_require_attestation := True\<rparr>) = (Inr Released, (w', ch')) \<and>
     shipped_oracles (pay_row ''i'' ''h'' Escrowed (Some 1)) (w_db pay_attested) \<noteq> {} \<and>
     t_payouts (w_db w') = [p] \<and> ap_amount p = asc ''5''"
proof -
  obtain w' ch' where r: "pay_released (demo_config\<lparr>cf_require_attestation := True\<rparr>) = (Inr Released, (w', ch'))"
    using pay_released_value by (metis prod.collapse)
  from release_correct [OF r [unfolded pay_released_def]] r show ?thesis
    by (auto simp: pay_attested_db pay_row_def)
qed

theorem release_pays_supplier_witness:
  "\<exists>w' ch'. pay_released (demo_config\<lparr>cf_require_attestation := True\<rparr>) = (Inr Released, (w', ch')) \<and>
     intent (asc ''i'') (w_db w') = Some (pay_row ''i'' ''h'' Released (Some 1))"
proof -
  obtain w' ch' where r: "pay_released (demo_config\<lparr>cf_require_attestation := True\<rparr>) = (Inr Released, (w', ch'))"
    using pay_released_value by (metis prod.collapse)
  from release_pays_supplier [OF r [unfolded pay_released_def]] r show ?thesis
    by (auto simp: pay_attested_db pay_row_def)
qed

definition pay_reverted :: "status result \<times> unit world \<times> mock_chain" where
  "pay_reverted = revert (mock_adapter plain_runtime) (asc ''i'') (asc ''s'') (pay_world Escrowed (Some 1),
     snd (mock_attest plain_runtime 1 (asc ''O'') (asc ''Failed'') None chain_created))"

theorem revert_refunds_payer_witness:
  "\<exists>w' ch'. pay_reverted = (Inr Reverted, (w', ch')) \<and>
     intent (asc ''i'') (w_db w') = Some (pay_row ''i'' ''h'' Reverted (Some 1))"
proof -
  have "fst pay_reverted = Inr Reverted" by code_simp
  then obtain w' ch' where r: "pay_reverted = (Inr Reverted, (w', ch'))" by (metis prod.collapse)
  from revert_refunds_payer [OF r [unfolded pay_reverted_def]] r show ?thesis
    by (auto simp: pay_intent pay_row_def)
qed

end
