(* ===== verification/Audit_Trail.thy ===== *)
theory Audit_Trail
  imports Flow
begin

text \<open>
  What no operation of the program ever does to the store, whatever it returns or raises and
  whatever the chain answers: delete or rewrite a logged row, change a term of a payment,
  break the schema, or store a payment without the decision that created it.
\<close>

context db_relation
begin

lemma W_apply: "evolves W m \<Longrightarrow> D (w_db w) (w_db (snd (m w)))"
  by (simp add: evolves_def W_def)

end

context step_relation
begin

lemma F_apply: "evolves F m \<Longrightarrow> D (w_db w) (w_db (fst (snd (m (w, ch)))))"
  by (simp add: evolves_def F_def W_def)

end

text \<open>C23. The audit trail is append-only: for every operation of the pipeline and of the payment
  flow, every table but the rules only grows, and a stored payment keeps its identifier,
  request hash, supplier, amount, token, deadline and reference for ever.\<close>

theorem operations_append_only:
  "audit_le (w_db w) (w_db (snd (run rt text provider c token receipt w))) \<and>
   audit_le (w_db w) (w_db (fst (snd (execute rt cl i src c (w, ch))))) \<and>
   audit_le (w_db w) (w_db (fst (snd (attest rt cl i k oracle_address src ora (w, ch))))) \<and>
   audit_le (w_db w) (w_db (fst (snd (release rt cl i src c (w, ch))))) \<and>
   audit_le (w_db w) (w_db (fst (snd (revert cl i src (w, ch))))) \<and>
   audit_le (w_db w) (w_db (fst (snd (sync_status cl i (w, ch))))) \<and>
   audit_le (w_db w) (w_db (snd (seed w)))"
  by (intro conjI audit.W_apply audit.F_apply audit.W_run audit.F_execute audit.F_attest
      audit.F_release audit.F_revert audit.F_sync_status audit.W_seed)

text \<open>C24. Every operation keeps the schema (keys are unique, every reference resolves, an
  attestation is Shipped or Failed) and the rule that every stored payment has the
  \<open>proposed\<close> or \<open>held\<close> decision that created it: deciding, executing, attesting, releasing, reverting,
  following the chain and seeding, on every path.\<close>

theorem operations_keep_schema:
  "keeps_ok (w_db w) (w_db (snd (run rt text provider c token receipt w))) \<and>
   keeps_ok (w_db w) (w_db (fst (snd (execute rt cl i src c (w, ch))))) \<and>
   keeps_ok (w_db w) (w_db (fst (snd (attest rt cl i k oracle_address src ora (w, ch))))) \<and>
   keeps_ok (w_db w) (w_db (fst (snd (release rt cl i src c (w, ch))))) \<and>
   keeps_ok (w_db w) (w_db (fst (snd (revert cl i src (w, ch))))) \<and>
   keeps_ok (w_db w) (w_db (fst (snd (sync_status cl i (w, ch))))) \<and>
   keeps_ok (w_db w) (w_db (snd (seed w))) \<and>
   keeps_audited (w_db w) (w_db (snd (run rt text provider c token receipt w))) \<and>
   keeps_audited (w_db w) (w_db (fst (snd (execute rt cl i src c (w, ch))))) \<and>
   keeps_audited (w_db w) (w_db (fst (snd (attest rt cl i k oracle_address src ora (w, ch))))) \<and>
   keeps_audited (w_db w) (w_db (fst (snd (release rt cl i src c (w, ch))))) \<and>
   keeps_audited (w_db w) (w_db (fst (snd (revert cl i src (w, ch))))) \<and>
   keeps_audited (w_db w) (w_db (fst (snd (sync_status cl i (w, ch))))) \<and>
   keeps_audited (w_db w) (w_db (snd (seed w)))"
  by (intro conjI ok.W_apply ok.F_apply ok.W_run ok.F_execute ok.F_attest ok.F_release ok.F_revert
      ok.F_sync_status ok.W_seed aud.W_apply aud.F_apply aud.W_run aud.F_execute aud.F_attest
      aud.F_release aud.F_revert aud.F_sync_status aud.W_seed)

end
