(* ===== verification/Json_Roundtrip.thy ===== *)
theory Json_Roundtrip
  imports Json_Parse
begin

text \<open>
  Reading back what \<open>json_text\<close> wrote gives the value with the keys of its objects sorted, so
  the bytes \<open>request_hash\<close> hashes determine the payment.
\<close>

section \<open>Strings and numbers\<close>

definition py_chars :: "pystr \<Rightarrow> bool" where
  "py_chars s \<longleftrightarrow> list_all (\<lambda>c. 0 \<le> c) s"

lemma hex_digit_read: "0 \<le> n \<Longrightarrow> n < 16 \<Longrightarrow> hex_digit_value (hex_digit n) = Some n"
  by (auto simp: hex_digit_def hex_digit_value_def)

lemma str_body_esc_char:
  assumes "0 \<le> c"
  shows "str_body (esc_char c @ r) = rbind (str_body r) (\<lambda>(s, u). Inr (c # s, u))"
proof (cases "c < 32 \<and> c \<noteq> 10 \<and> c \<noteq> 13 \<and> c \<noteq> 9 \<and> c \<noteq> 12 \<and> c \<noteq> 8")
  case True
  with assms have e: "esc_char c = [92, 117, 48, 48, hex_digit (c div 16), hex_digit (c mod 16)]"
    by (simp add: esc_char_def)
  have h: "hex_digit_value (hex_digit (c div 16)) = Some (c div 16)"
    using True assms div_mono_bound [of c 31 16 15]
    by (intro hex_digit_read) (simp_all add: pos_imp_zdiv_nonneg_iff)
  have l: "hex_digit_value (hex_digit (c mod 16)) = Some (c mod 16)"
    by (intro hex_digit_read) simp_all
  have z: "hex_digit_value 48 = Some 0" by (simp add: hex_digit_value_def)
  have "read_hex4 (48 # 48 # hex_digit (c div 16) # hex_digit (c mod 16) # r) = Some (c, r)"
    by (simp add: read_hex4_def h l z mult_div_mod_eq)
  then show ?thesis using True
    by (simp add: e read_escape_def read_unicode_def)
next
  case False
  then show ?thesis using assms
    by (auto simp: esc_char_def read_escape_def simple_escape_def)
qed

lemma str_body_esc_str: "py_chars s \<Longrightarrow> str_body (esc_str s @ 34 # r) = Inr (s, r)"
  by (induction s) (simp_all add: esc_str_def py_chars_def str_body_esc_char)

lemma digits_int_snoc: "digits_int (ds @ [d]) = 10 * digits_int ds + (d - 48)"
  by (simp add: digits_int_def)

lemma digits_int_nat_digits: "digits_int (nat_digits n) = int n"
proof (induction n rule: nat_digits.induct)
  case (1 n)
  then show ?case
    by (subst nat_digits.simps) (simp add: digits_int_snoc digits_int_def [of "[_]"] zmod_int zdiv_int)
qed

lemma nat_digits_hd_nonzero: "0 < n \<Longrightarrow> hd (nat_digits n) \<noteq> 48"
proof (induction n rule: nat_digits.induct)
  case (1 n)
  then show ?case by (subst nat_digits.simps) (auto simp: hd_append)
qed

text \<open>What may follow a value inside a text.\<close>

definition ends :: "pystr \<Rightarrow> bool" where
  "ends r \<longleftrightarrow> r = [] \<or> hd r \<in> {44, 93, 125}"

lemma read_digits_nat_digits: "ends r \<Longrightarrow> read_digits (nat_digits n @ r) = (nat_digits n, r)"
  using nat_digits_ascii [of n]
  by (cases r) (auto simp: read_digits_def takeWhile_append2 dropWhile_append2 takeWhile_append
      dropWhile_append ends_def is_ascii_digit_def takeWhile_eq_all_conv)

lemma number_value_ends:
  "ends r \<Longrightarrow> number_value neg ds r =
     (if max_str_digits < length ds then Inl (ValueError ''str too large for int'')
      else Inr (JInt (if neg then - digits_int ds else digits_int ds), r))"
  by (cases r) (auto simp: number_value_def read_fraction_def read_exponent_def ends_def Let_def
      split: prod.splits)

lemma read_number_nat_digits:
  assumes "ends r" and "length (nat_digits n) \<le> max_str_digits"
  shows "read_number (nat_digits n @ r) = Inr (JInt (int n), r)"
    and "read_number (45 # nat_digits n @ r) = Inr (JInt (- int n), r)"
proof -
  obtain c u where c: "nat_digits n = c # u" by (cases "nat_digits n") auto
  have d: "is_ascii_digit c" using nat_digits_hd [of n] c by simp
  have z: "n = 0" if "c = 48" using nat_digits_hd_nonzero [of n] c that by auto
  have zero: "nat_digits 0 = [48]" by (subst nat_digits.simps) simp
  note nv = number_value_ends [OF assms(1)]
  have both: "read_number (nat_digits n @ r) = Inr (JInt (int n), r) \<and> read_number (45 # nat_digits n @ r) = Inr (JInt (- int n), r)"
  proof (cases "c = 48")
    case True
    then show ?thesis
      using z zero by (simp_all add: read_number_def nv max_str_digits_def digits_int_def)
  next
    case False
    have "read_digits (c # u @ r) = (c # u, r)"
      using read_digits_nat_digits [OF assms(1), of n] c by simp
    then show ?thesis
      using False d assms(2) digits_int_nat_digits [of n] c
      by (auto simp: read_number_def nv is_ascii_digit_def)
  qed
  from both show "read_number (nat_digits n @ r) = Inr (JInt (int n), r)"
    and "read_number (45 # nat_digits n @ r) = Inr (JInt (- int n), r)" by simp_all
qed

section \<open>Values\<close>

lemma json_size_elem: "v \<in> set vs \<Longrightarrow> size v < Suc (size_list size vs)"
  by (simp add: less_Suc_eq_le size_list_estimation')

lemma json_size_entry: "e \<in> set es \<Longrightarrow> size (snd e) < Suc (size_list (size_prod (\<lambda>x. 0) size) es)"
  by (cases e) (simp add: less_Suc_eq_le size_list_estimation' [of e])

text \<open>Values the program builds: no floats, code points for characters, one entry per key.\<close>

function wf_json :: "json \<Rightarrow> bool" where
  "wf_json JNull \<longleftrightarrow> True"
| "wf_json (JBool b) \<longleftrightarrow> True"
| "wf_json (JInt n) \<longleftrightarrow> True"
| "wf_json (JFloat s) \<longleftrightarrow> False"
| "wf_json (JStr s) \<longleftrightarrow> py_chars s"
| "wf_json (JArr vs) \<longleftrightarrow> (\<forall>v \<in> set vs. wf_json v)"
| "wf_json (JObj es) \<longleftrightarrow>
     distinct (map fst es) \<and> (\<forall>e \<in> set es. py_chars (fst e)) \<and> (\<forall>e \<in> set es. wf_json (snd e))"
  by pat_completeness auto

termination
  by (relation "measure size") (simp_all add: json_size_elem json_size_entry)

text \<open>The value that comes back: keys in sorted order, at every level.\<close>

function json_norm :: "json \<Rightarrow> json" where
  "json_norm JNull = JNull"
| "json_norm (JBool b) = JBool b"
| "json_norm (JInt n) = JInt n"
| "json_norm (JFloat s) = JFloat s"
| "json_norm (JStr s) = JStr s"
| "json_norm (JArr vs) = JArr (map json_norm vs)"
| "json_norm (JObj es) = JObj (map (\<lambda>e. (fst e, json_norm (snd e))) (sort_key fst es))"
  by pat_completeness auto

termination
  by (relation "measure size") (simp_all add: json_size_elem json_size_entry)

lemma parse_value_atom:
  "c \<noteq> 34 \<Longrightarrow> c \<noteq> 123 \<Longrightarrow> c \<noteq> 91 \<Longrightarrow> parse_value (c # t) = read_atom (c # t)"
  by (simp add: parse_value.simps [of "c # t"])

lemma read_atom_number:
  assumes "is_ascii_digit c"
  shows "read_atom (c # t) = read_number (c # t)"
    and "read_atom (45 # c # t) = read_number (45 # c # t)"
  using assms
  by (simp_all add: read_atom_def read_constant_def asc_def is_ascii_digit_def numeral_eq_Suc)

lemma parse_value_int:
  assumes "json_text (JInt n) = Inr t" and "ends r"
  shows "parse_value (t @ r) = Inr (JInt n, r)"
proof -
  from assms(1) have t: "t = int_text n" and l: "length (nat_digits (nat \<bar>n\<bar>)) \<le> max_str_digits"
    by (auto simp: py_str_int_def split: if_splits)
  obtain c u where c: "nat_digits (nat \<bar>n\<bar>) = c # u" by (cases "nat_digits (nat \<bar>n\<bar>)") auto
  then have d: "is_ascii_digit c" using nat_digits_hd [of "nat \<bar>n\<bar>"] by simp
  then have ne: "c \<noteq> 34" "c \<noteq> 123" "c \<noteq> 91" by (auto simp: is_ascii_digit_def)
  note nums = read_number_nat_digits [OF assms(2) l]
  show ?thesis
  proof (cases "n < 0")
    case True
    then have "t = 45 # c # u" using t c by (simp add: int_text_def)
    then show ?thesis
      using nums(2) True c by (simp add: parse_value_atom read_atom_number(2) [OF d])
  next
    case False
    then have "t = c # u" using t c by (simp add: int_text_def)
    then show ?thesis
      using nums(1) False c ne by (simp add: parse_value_atom read_atom_number(1) [OF d])
  qed
qed

lemma parse_value_word:
  "parse_value (asc ''null'' @ r) = Inr (JNull, r)"
  "parse_value (asc ''true'' @ r) = Inr (JBool True, r)"
  "parse_value (asc ''false'' @ r) = Inr (JBool False, r)"
  by (simp_all add: asc_def parse_value_atom read_atom_def read_constant_def numeral_eq_Suc)

lemma parse_value_str: "py_chars s \<Longrightarrow> parse_value (quote_str s @ r) = Inr (JStr s, r)"
  by (simp add: parse_value.simps quote_str_def str_body_esc_str)

text \<open>No text of a value starts with white space or a closing bracket.\<close>

definition opens :: "pystr \<Rightarrow> bool" where
  "opens t \<longleftrightarrow> (\<exists>c u. t = c # u \<and> \<not> is_json_ws c \<and> c \<noteq> 93 \<and> c \<noteq> 125 \<and> c \<noteq> 65279)"

lemma opens_append: "opens t \<Longrightarrow> opens (t @ r)"
  by (auto simp: opens_def)

lemma opens_skip_ws: "opens t \<Longrightarrow> skip_ws t = t"
  by (auto simp: opens_def skip_ws_def)

lemma opens_starts: "opens t \<Longrightarrow> \<not> starts 93 t \<and> \<not> starts 125 t \<and> \<not> starts 65279 t"
  by (auto simp: opens_def starts_def)

lemma int_text_opens: "opens (int_text n)"
proof -
  obtain c u where "nat_digits (nat \<bar>n\<bar>) = c # u" by (cases "nat_digits (nat \<bar>n\<bar>)") auto
  then show ?thesis
    using nat_digits_hd [of "nat \<bar>n\<bar>"]
    by (cases "n < 0") (auto simp: int_text_def opens_def is_json_ws_def is_ascii_digit_def)
qed

lemma json_text_opens:
  assumes "json_text v = Inr t" and "wf_json v"
  shows "opens t"
proof (cases v)
  case (JInt n)
  with assms int_text_opens [of n] show ?thesis by (auto simp: py_str_int_def split: if_splits)
qed (use assms in \<open>auto simp: quote_str_def asc_def opens_def is_json_ws_def split: if_splits\<close>)

lemma quote_str_opens: "opens (quote_str s)"
  by (simp add: quote_str_def opens_def is_json_ws_def)

section \<open>The round trip\<close>

text \<open>Arrays: the elements one by one, given that each of them is read back.\<close>

definition reads_back :: "json \<Rightarrow> bool" where
  "reads_back v \<longleftrightarrow> (\<forall>t r. json_text v = Inr t \<longrightarrow> wf_json v \<longrightarrow> ends r \<longrightarrow>
     parse_value (t @ r) = Inr (json_norm v, r))"

lemma reads_backD:
  "reads_back v \<Longrightarrow> json_text v = Inr t \<Longrightarrow> wf_json v \<Longrightarrow> ends r \<Longrightarrow>
     parse_value (t @ r) = Inr (json_norm v, r)"
  by (simp add: reads_back_def)

lemma ends_simps [simp]: "ends (44 # r)" "ends (93 # r)" "ends (125 # r)" "ends []"
  by (simp_all add: ends_def)

lemma skip_ws_end [simp]: "skip_ws (44 # r) = 44 # r" "skip_ws (93 # r) = 93 # r"
  "skip_ws (125 # r) = 125 # r" "skip_ws (58 # r) = 58 # r" "skip_ws (34 # r) = 34 # r"
  "skip_ws [] = []"
  by (simp_all add: skip_ws_def is_json_ws_def)

lemma join_with_Cons: "ts \<noteq> [] \<Longrightarrow> join_with c (t # ts) = t @ c # join_with c ts"
  by (cases ts) simp_all

lemma parse_elems_texts:
  assumes "rmap json_text vs = Inr ts" and "vs \<noteq> []"
    and "\<forall>v \<in> set vs. reads_back v \<and> wf_json v"
  shows "parse_elems (join_with 44 ts @ 93 # r) = Inr (map json_norm vs, r)
    \<and> opens (join_with 44 ts @ 93 # r)"
  using assms
proof (induction vs arbitrary: ts)
  case (Cons v vs)
  from Cons.prems obtain t us where t: "json_text v = Inr t" and us: "rmap json_text vs = Inr us"
    and ts: "ts = t # us"
    by auto
  have v: "reads_back v" "wf_json v" using Cons.prems(3) by simp_all
  note rd = reads_backD [OF v(1) t v(2)]
  have op: "opens (t @ w)" for w using json_text_opens [OF t v(2)] by (rule opens_append)
  show ?case
  proof (cases "vs = []")
    case True
    then show ?thesis using us ts op rd [of "93 # r"] by (simp add: parse_elems.simps)
  next
    case False
    let ?w = "join_with 44 us @ 93 # r"
    have "parse_elems ?w = Inr (map json_norm vs, r) \<and> opens ?w"
      using Cons.IH [OF us False] Cons.prems(3) by simp
    moreover have "us \<noteq> []" using us False by (cases vs) auto
    ultimately show ?thesis
      using ts op rd [of "44 # ?w"]
      by (simp add: join_with_Cons parse_elems.simps [of "t @ 44 # _"] opens_skip_ws)
  qed
qed simp

definition entry_text :: "pystr \<times> json \<Rightarrow> pystr result" where
  "entry_text = (\<lambda>(k, v). rbind (json_text v) (\<lambda>t. Inr (quote_str k @ 58 # t)))"

lemma parse_members_texts:
  assumes "rmap entry_text es = Inr ts" and "es \<noteq> []"
    and "\<forall>e \<in> set es. reads_back (snd e) \<and> wf_json (snd e) \<and> py_chars (fst e)"
  shows "parse_members (join_with 44 ts @ 125 # r) =
      Inr (map (\<lambda>e. (fst e, json_norm (snd e))) es, r)
    \<and> opens (join_with 44 ts @ 125 # r)"
  using assms
proof (induction es arbitrary: ts)
  case (Cons e es)
  obtain k v where e: "e = (k, v)" by (cases e)
  from Cons.prems e obtain t us where t: "json_text v = Inr t" and us: "rmap entry_text es = Inr us"
    and ts: "ts = (quote_str k @ 58 # t) # us"
    by (auto simp: entry_text_def)
  have v: "reads_back v" "wf_json v" "py_chars k" using Cons.prems(3) e by simp_all
  note rd = reads_backD [OF v(1) t v(2)]
  have op: "opens (quote_str k @ w)" for w by (rule opens_append) (rule quote_str_opens)
  have ws: "skip_ws (t @ w) = t @ w" for w
    using json_text_opens [OF t v(2)] by (intro opens_skip_ws opens_append)
  have pm: "parse_members (quote_str k @ 58 # t @ d # w) =
      (if d = 125 then Inr ([(k, json_norm v)], w)
       else rbind (parse_members (skip_ws w)) (\<lambda>(es, r'). Inr ((k, json_norm v) # es, r')))"
    if "d = 44 \<or> d = 125" for d w
  proof -
    have "parse_value (t @ d # w) = Inr (json_norm v, d # w)" using that rd [of "d # w"] by auto
    moreover have "skip_ws (d # w) = d # w" using that by auto
    ultimately show ?thesis
      using that by (auto simp: parse_members.simps [of "34 # _"] expect_def quote_str_def
        str_body_esc_str [OF v(3)] ws)
  qed
  show ?case
  proof (cases "es = []")
    case True
    then show ?thesis using us ts op pm [of 125 r] e by simp
  next
    case False
    let ?w = "join_with 44 us @ 125 # r"
    have "parse_members ?w = Inr (map (\<lambda>e. (fst e, json_norm (snd e))) es, r) \<and> opens ?w"
      using Cons.IH [OF us False] Cons.prems(3) by simp
    moreover have "us \<noteq> []" using us False by (cases es) auto
    ultimately show ?thesis
      using ts op pm [of 44 ?w] e by (simp add: join_with_Cons opens_skip_ws)
  qed
qed simp

lemma dict_of_distinct: "distinct (map fst es) \<Longrightarrow> dict_of es = es"
proof (induction es rule: rev_induct)
  case (snoc e es)
  then show ?case by (cases e) (simp add: dict_of_def dict_put_fresh)
qed (simp add: dict_of_def)

lemma distinct_sorted_keys: "distinct (map fst es) \<Longrightarrow> distinct (map fst (sort_key fst es))"
  by (simp add: distinct_map)

lemma json_text_reads_back: "reads_back v"
proof (induction v rule: json_norm.induct)
  case (6 vs)
  show ?case
    unfolding reads_back_def
  proof (intro allI impI)
    fix t r assume t: "json_text (JArr vs) = Inr t" and wf: "wf_json (JArr vs)"
    from t obtain ts where ts: "rmap json_text vs = Inr ts" and te: "t = 91 # join_with 44 ts @ [93]"
      by auto
    show "parse_value (t @ r) = Inr (json_norm (JArr vs), r)"
    proof (cases "vs = []")
      case True
      with ts te show ?thesis by (simp add: parse_value.simps starts_def)
    next
      case False
      have "\<forall>v \<in> set vs. reads_back v \<and> wf_json v" using 6 wf by simp
      with parse_elems_texts [OF ts False this, of r] te show ?thesis
        by (simp add: parse_value.simps [of "91 # _"] opens_skip_ws opens_starts)
    qed
  qed
next
  case (7 es)
  let ?es = "sort_key fst es"
  show ?case
    unfolding reads_back_def
  proof (intro allI impI)
    fix t r assume t: "json_text (JObj es) = Inr t" and wf: "wf_json (JObj es)"
    from t obtain ts where ts: "rmap entry_text ?es = Inr ts" and te: "t = 123 # join_with 44 ts @ [125]"
      by (auto simp: entry_text_def)
    have d: "dict_of (map (\<lambda>e. (fst e, json_norm (snd e))) ?es) = map (\<lambda>e. (fst e, json_norm (snd e))) ?es"
      using wf distinct_sorted_keys [of es] by (intro dict_of_distinct) (simp add: comp_def)
    show "parse_value (t @ r) = Inr (json_norm (JObj es), r)"
    proof (cases "?es = []")
      case True
      with ts te show ?thesis by (simp add: parse_value.simps starts_def)
    next
      case False
      have "\<forall>e \<in> set ?es. reads_back (snd e) \<and> wf_json (snd e) \<and> py_chars (fst e)"
        using 7 wf by simp
      with parse_members_texts [OF ts False this, of r] te d show ?thesis
        by (simp add: parse_value.simps [of "123 # _"] opens_skip_ws opens_starts)
    qed
  qed
qed (simp_all add: reads_back_def parse_value_int [simplified] parse_value_word parse_value_str)

lemma json_loads_text:
  assumes "json_text v = Inr t" and "wf_json v"
  shows "json_loads t = Inr (json_norm v)"
proof -
  have o: "opens t" by (rule json_text_opens [OF assms])
  have "parse_value (t @ []) = Inr (json_norm v, [])"
    by (rule reads_backD [OF json_text_reads_back assms]) simp
  with o show ?thesis
    by (simp add: json_loads_def opens_skip_ws opens_starts)
qed

lemma canonical_json_determines:
  assumes "canonical_json v = Inr bs" and "canonical_json w = Inr bs" and "wf_json v" and "wf_json w"
  shows "json_norm v = json_norm w"
proof -
  from assms(1,2) obtain t u where "json_text v = Inr t" "json_text w = Inr u"
    and "utf8_encode t = Inr bs" "utf8_encode u = Inr bs"
    by (auto simp: canonical_json_def)
  moreover from this have "t = u" by (intro utf8_encode_inj)
  ultimately show ?thesis
    using json_loads_text [of v t] json_loads_text [of w u] assms(3,4) by simp
qed

end
