(* ===== verification/Hash_Identity.thy ===== *)
theory Hash_Identity
  imports Pipeline Json_Roundtrip
begin

text \<open>
  What the request hash of a payment pins down: two payments hash the same bytes exactly when
  payer, supplier address, token, amount and invoice reference agree.
\<close>

definition payment_object :: "pystr \<Rightarrow> pystr \<Rightarrow> pystr \<Rightarrow> pystr \<Rightarrow> pystr \<Rightarrow> json" where
  "payment_object sme supplier token amount ref = JObj
     [jkey ''sme'' (JStr sme), jkey ''supplier'' (JStr supplier), jkey ''token'' (JStr token),
      jkey ''amount'' (JStr amount), jkey ''invoice_ref'' (JStr ref)]"

text \<open>The bytes \<open>intent_hash\<close> hashes.\<close>

definition intent_bytes :: "(pystr \<times> pystr) list \<Rightarrow> pystr option \<Rightarrow> int option \<Rightarrow> pystr option
    \<Rightarrow> int list result" where
  "intent_bytes rls registry amount ref =
     rbind (dict_item rls ''sme_address'') (\<lambda>sme.
     rbind (dict_item rls ''token_address'') (\<lambda>token.
     rbind (py_str_int (case amount of None \<Rightarrow> 0 | Some n \<Rightarrow> n)) (\<lambda>amt.
     canonical_json (payment_object sme (or_empty registry) token amt (or_empty ref)))))"

lemma intent_hash_bytes:
  "intent_hash rt rls reg amt ref =
     rbind (intent_bytes rls reg amt ref) (\<lambda>b. Inr (rt_sha256 rt b))"
  by (simp add: intent_hash_def intent_bytes_def payment_object_def request_hash_def rbind_def
      split: sum.split)

lemma is_scalar_esc: "list_all is_scalar (esc_str s) \<Longrightarrow> py_chars s"
proof (induction s)
  case (Cons c s)
  then have "0 \<le> c" by (cases "c < 0") (auto simp: esc_str_def esc_char_def is_scalar_def)
  with Cons show ?case by (simp add: esc_str_def py_chars_def)
qed (simp add: py_chars_def)

lemma payment_object_sorted:
  "sort_key fst [jkey ''sme'' s, jkey ''supplier'' u, jkey ''token'' t, jkey ''amount'' a,
     jkey ''invoice_ref'' r] =
   [jkey ''amount'' a, jkey ''invoice_ref'' r, jkey ''sme'' s, jkey ''supplier'' u, jkey ''token'' t]"
  by (simp add: asc_def)

lemma payment_object_norm:
  "json_norm (payment_object s u t a r) = JObj [jkey ''amount'' (JStr a), jkey ''invoice_ref'' (JStr r),
     jkey ''sme'' (JStr s), jkey ''supplier'' (JStr u), jkey ''token'' (JStr t)]"
  unfolding payment_object_def json_norm.simps payment_object_sorted by simp

lemma payment_object_wf:
  assumes "canonical_json (payment_object s u t a r) = Inr b"
  shows "wf_json (payment_object s u t a r)"
proof -
  have "py_chars s \<and> py_chars u \<and> py_chars t \<and> py_chars a \<and> py_chars r"
    using assms unfolding canonical_json_def payment_object_def json_text.simps payment_object_sorted
    by (auto simp: utf8_encode_Inr quote_str_def intro!: is_scalar_esc)
  then show ?thesis by (simp add: payment_object_def asc_def py_chars_def)
qed

lemma py_str_int_inj:
  assumes "py_str_int n = Inr t" and "py_str_int m = Inr t"
  shows "n = m"
  using parse_value_int [of n t "[]"] parse_value_int [of m t "[]"] assms by simp

lemma canonical_payment_eq_iff:
  assumes "canonical_json (payment_object s u t a r) = Inr b"
    and "canonical_json (payment_object s' u' t' a' r') = Inr b'"
  shows "b = b' \<longleftrightarrow> s = s' \<and> u = u' \<and> t = t' \<and> a = a' \<and> r = r'"
proof
  assume "b = b'"
  with assms have "json_norm (payment_object s u t a r) = json_norm (payment_object s' u' t' a' r')"
    by (intro canonical_json_determines [of _ b] payment_object_wf [of _ _ _ _ _ b]) simp_all
  then show "s = s' \<and> u = u' \<and> t = t' \<and> a = a' \<and> r = r'" by (simp add: payment_object_norm)
next
  assume "s = s' \<and> u = u' \<and> t = t' \<and> a = a' \<and> r = r'"
  with assms show "b = b'" by simp
qed

text \<open>C13. The request hash identifies the payment: the bytes under the hash are the same for two
  payments exactly when payer account, registered supplier address, token, amount and invoice
  reference (an absent value counting as the empty one) are all the same.  So the duplicate check on
  the hash refuses a second request for the same payment, and two different payments collide only
  where SHA-256 does.\<close>

theorem intent_hash_identifies:
  assumes "intent_bytes rls reg amt ref = Inr b" and "intent_bytes rls' reg' amt' ref' = Inr b'"
  shows "intent_hash rt rls reg amt ref = Inr (rt_sha256 rt b) \<and>
    intent_hash rt rls' reg' amt' ref' = Inr (rt_sha256 rt b') \<and>
    (b = b' \<longleftrightarrow> dict_item rls ''sme_address'' = dict_item rls' ''sme_address'' \<and>
      dict_item rls ''token_address'' = dict_item rls' ''token_address'' \<and>
      or_empty reg = or_empty reg' \<and> or_empty ref = or_empty ref' \<and>
      (case amt of None \<Rightarrow> 0 | Some n \<Rightarrow> n) = (case amt' of None \<Rightarrow> 0 | Some n \<Rightarrow> n))"
proof -
  have h: "intent_hash rt rls reg amt ref = Inr (rt_sha256 rt b)"
    "intent_hash rt rls' reg' amt' ref' = Inr (rt_sha256 rt b')"
    using assms by (simp_all add: intent_hash_bytes)
  from assms(1) obtain s t a where 1: "dict_item rls ''sme_address'' = Inr s"
    "dict_item rls ''token_address'' = Inr t" "py_str_int (case amt of None \<Rightarrow> 0 | Some n \<Rightarrow> n) = Inr a"
    "canonical_json (payment_object s (or_empty reg) t a (or_empty ref)) = Inr b"
    by (auto simp: intent_bytes_def)
  from assms(2) obtain s' t' a' where 2: "dict_item rls' ''sme_address'' = Inr s'"
    "dict_item rls' ''token_address'' = Inr t'"
    "py_str_int (case amt' of None \<Rightarrow> 0 | Some n \<Rightarrow> n) = Inr a'"
    "canonical_json (payment_object s' (or_empty reg') t' a' (or_empty ref')) = Inr b'"
    by (auto simp: intent_bytes_def)
  have a: "a = a' \<longleftrightarrow> (case amt of None \<Rightarrow> 0 | Some n \<Rightarrow> n) = (case amt' of None \<Rightarrow> 0 | Some n \<Rightarrow> (n :: int))"
    using 1(3) 2(3) py_str_int_inj by (metis sum.inject(2))
  show ?thesis
    using h unfolding canonical_payment_eq_iff [OF 1(4) 2(4)] 1(1,2) 2(1,2) a [symmetric] by auto
qed

lemma not_isl_iff: "\<not> isl r \<longleftrightarrow> (\<exists>x. r = Inr x)"
  by (cases r) simp_all

definition hash_rules :: "(pystr \<times> pystr) list" where
  "hash_rules = [(asc ''sme_address'', asc ''GSME''), (asc ''token_address'', asc ''CTOKEN'')]"

lemma hash_rules_bytes:
  "\<exists>b. intent_bytes hash_rules (Some (asc ''GSUP'')) (Some 5) None = Inr b"
  "\<exists>b. intent_bytes hash_rules (Some (asc ''GSUP'')) (Some 7) None = Inr b"
proof -
  have "\<not> isl (intent_bytes hash_rules (Some (asc ''GSUP'')) (Some 5) None)"
    "\<not> isl (intent_bytes hash_rules (Some (asc ''GSUP'')) (Some 7) None)"
    by code_simp+
  then show "\<exists>b. intent_bytes hash_rules (Some (asc ''GSUP'')) (Some 5) None = Inr b"
    "\<exists>b. intent_bytes hash_rules (Some (asc ''GSUP'')) (Some 7) None = Inr b"
    by (auto simp: not_isl_iff)
qed

theorem intent_hash_identifies_witness:
  "\<exists>b b'. intent_hash plain_runtime hash_rules (Some (asc ''GSUP'')) (Some 5) None = Inr (rt_sha256 plain_runtime b) \<and>
     intent_hash plain_runtime hash_rules (Some (asc ''GSUP'')) (Some 7) None = Inr (rt_sha256 plain_runtime b') \<and> b \<noteq> b'"
proof -
  obtain b b' where b: "intent_bytes hash_rules (Some (asc ''GSUP'')) (Some 5) None = Inr b"
    "intent_bytes hash_rules (Some (asc ''GSUP'')) (Some 7) None = Inr b'"
    using hash_rules_bytes by auto
  from intent_hash_identifies [OF b, of plain_runtime] show ?thesis by auto
qed

end
