(* ===== verification/Json_Dumps.thy ===== *)
theory Json_Dumps
  imports Json
begin

text \<open>
  \<open>json.dumps\<close> in its default form: keys in insertion order, every character beyond printable
  ASCII escaped, with the separators \<open>", "\<close> and \<open>": "\<close> unless given.
\<close>

definition unicode_escape :: "int \<Rightarrow> pystr" where
  "unicode_escape c = [92, 117, hex_digit (c div 4096), hex_digit (c div 256 mod 16),
     hex_digit (c div 16 mod 16), hex_digit (c mod 16)]"

definition ascii_char :: "int \<Rightarrow> pystr" where
  "ascii_char c =
     (if c < 127 then [c]
      else if c < 65536 then unicode_escape c
      else unicode_escape (55296 + (c - 65536) div 1024) @ unicode_escape (56320 + (c - 65536) mod 1024))"

definition ascii_text :: "pystr \<Rightarrow> pystr" where
  "ascii_text s = concat (map ascii_char s)"

fun join_text :: "pystr \<Rightarrow> pystr list \<Rightarrow> pystr" where
  "join_text sep [] = []"
| "join_text sep [s] = s"
| "join_text sep (s # t # ss) = s @ sep @ join_text sep (t # ss)"

function json_dump :: "pystr \<Rightarrow> pystr \<Rightarrow> json \<Rightarrow> pystr result" where
  "json_dump item_sep key_sep JNull = Inr (asc ''null'')"
| "json_dump item_sep key_sep (JBool b) = Inr (asc (if b then ''true'' else ''false''))"
| "json_dump item_sep key_sep (JInt n) = py_str_int n"
| "json_dump item_sep key_sep (JFloat s) = Inr s"
| "json_dump item_sep key_sep (JStr s) = Inr (ascii_text (quote_str s))"
| "json_dump item_sep key_sep (JArr vs) =
     rbind (rmap (json_dump item_sep key_sep) vs) (\<lambda>ts. Inr (91 # join_text item_sep ts @ [93]))"
| "json_dump item_sep key_sep (JObj es) =
     rbind (rmap (\<lambda>(k, v). rbind (json_dump item_sep key_sep v) (\<lambda>t.
         Inr (ascii_text (quote_str k) @ key_sep @ t))) es)
       (\<lambda>ts. Inr (123 # join_text item_sep ts @ [125]))"
  by pat_completeness auto
termination
proof (relation "measure (\<lambda>(i, k, v). size v)", simp_all)
  fix vs :: "json list" and v
  assume "v \<in> set vs"
  then show "size v < Suc (size_list size vs)"
    by (simp add: less_Suc_eq_le size_list_estimation')
next
  fix es :: "(pystr \<times> json) list" and e k v
  assume e: "e \<in> set es" "(k, v) = e"
  then have "size v \<le> size_prod (\<lambda>x. 0) size e" by auto
  with e(1) show "size v < Suc (size_list (size_prod (\<lambda>x. 0) size) es)"
    by (simp add: less_Suc_eq_le size_list_estimation')
qed

definition json_dumps :: "json \<Rightarrow> pystr result" where
  "json_dumps v = json_dump (asc '', '') (asc '': '') v"

definition json_dumps_compact :: "json \<Rightarrow> pystr result" where
  "json_dumps_compact v = json_dump (asc '','') (asc '':'') v"

end
