(* ===== verification/Soroban.thy ===== *)
theory Soroban
  imports Flow Json_Dumps
begin

text \<open>
  The client of the \<open>stellar\<close> command line (\<open>lumo/chain/soroban_client.py\<close>) and the adapter
  over it (\<open>lumo/chain/adapter.py\<close>).  \<open>subprocess.run\<close> is the parameter \<open>cli\<close>: it takes the
  argument vector, may change the network \<open>'n\<close>, and returns the exit code and the two streams
  or raises, \<open>TimeoutExpired\<close> for instance.  Nothing is assumed of it.
\<close>

section \<open>Commands\<close>

record completed =
  cp_returncode :: int
  cp_stdout :: pystr
  cp_stderr :: pystr

type_synonym 'n cli = "pystr list \<Rightarrow> ('n, completed) py"

definition tx_hash_rx :: rx where
  "tx_hash_rx = rx_seq [WordB, Rep (one_of [CR 48 57, CR 97 102]) 64 (Some 64) True, WordB]"

definition encode_i128 :: "int \<Rightarrow> pystr result" where
  "encode_i128 amount = py_str_int amount"

definition encode_enum :: "pystr \<Rightarrow> json option \<Rightarrow> pystr result" where
  "encode_enum variant val =
     (case val of None \<Rightarrow> json_dumps (JStr variant)
      | Some v \<Rightarrow> json_dumps_compact (JObj [(variant, v)]))"

definition flag_args :: "(pystr \<times> pystr) list \<Rightarrow> pystr list" where
  "flag_args args = concat (map (\<lambda>(name, v). [asc ''--'' @ name, v]) args)"

definition build_invoke_cmd :: "pystr \<Rightarrow> pystr \<Rightarrow> pystr \<Rightarrow> pystr \<Rightarrow> (pystr \<times> pystr) list
    \<Rightarrow> pystr option \<Rightarrow> pystr list" where
  "build_invoke_cmd contract_id source network func args send =
     [asc ''stellar'', asc ''contract'', asc ''invoke'', asc ''--id'', contract_id,
      asc ''--source-account'', source, asc ''--network'', network] @
     (if or_empty send \<noteq> [] then [asc ''--send'', or_empty send] else []) @
     [asc ''--'', func] @ flag_args args"

section \<open>\<open>SorobanClient\<close>\<close>

record soroban_client =
  sc_escrow_id :: pystr
  sc_network :: pystr
  sc_source :: "pystr option"

text \<open>\<open>a or b\<close> on optional texts; a \<open>None\<close> left in the argument vector is a \<open>TypeError\<close> of
  \<open>subprocess.run\<close>.\<close>

definition or_str :: "pystr option \<Rightarrow> pystr option \<Rightarrow> pystr option" where
  "or_str a b = (if or_empty a \<noteq> [] then a else b)"

definition last_tx_hash :: "runtime \<Rightarrow> pystr \<Rightarrow> pystr option" where
  "last_tx_hash rt err =
     (let matches = rx_findall rt False tx_hash_rx err
      in if matches = [] then None else Some (last matches))"

definition read_completed :: "runtime \<Rightarrow> completed \<Rightarrow> invoke_result result" where
  "read_completed rt p =
     (if cp_returncode p \<noteq> 0 then Inl (SorobanError ''failed'')
      else let out = py_strip (cp_stdout p)
           in rbind (if out \<noteq> [] then json_loads out else Inr JNull) (\<lambda>v.
                Inr \<lparr>ir_value = v, ir_tx_hash = last_tx_hash rt (cp_stderr p)\<rparr>))"

definition invoke :: "runtime \<Rightarrow> 'n cli \<Rightarrow> soroban_client \<Rightarrow> pystr \<Rightarrow> (pystr \<times> pystr) list
    \<Rightarrow> pystr option \<Rightarrow> pystr option \<Rightarrow> pystr option \<Rightarrow> ('n, invoke_result) py" where
  "invoke rt cli cl func args source contract_id send =
     (case or_str source (sc_source cl) of
        None \<Rightarrow> py_raise (TypeError ''expected str, bytes or os.PathLike object, not NoneType'')
      | Some src \<Rightarrow>
          py_bind (cli (build_invoke_cmd
              (if or_empty contract_id \<noteq> [] then or_empty contract_id else sc_escrow_id cl)
              src (sc_network cl) func args send))
            (\<lambda>p. py_lift (read_completed rt p)))"

text \<open>The six arguments, in \<open>CREATE_INTENT_ARG_ORDER\<close>.\<close>

definition create_intent_args :: "create_args \<Rightarrow> (pystr \<times> pystr) list result" where
  "create_intent_args a =
     rbind (encode_i128 (cr_amount a)) (\<lambda>amount.
     rbind (py_str_int (cr_deadline a)) (\<lambda>deadline. Inr
       [(asc ''sme'', cr_sme a), (asc ''supplier'', cr_supplier a), (asc ''token'', cr_token a),
        (asc ''amount'', amount), (asc ''request_hash'', cr_request_hash a),
        (asc ''deadline'', deadline)]))"

definition cli_create_intent :: "runtime \<Rightarrow> 'n cli \<Rightarrow> soroban_client \<Rightarrow> create_args \<Rightarrow> ('n, invoke_result) py" where
  "cli_create_intent rt cli cl a =
     py_bind (py_lift (create_intent_args a)) (\<lambda>args.
       invoke rt cli cl (asc ''create_intent'') args (cr_source a) None None)"

definition cli_attest :: "runtime \<Rightarrow> 'n cli \<Rightarrow> soroban_client \<Rightarrow> int \<Rightarrow> pystr \<Rightarrow> pystr \<Rightarrow> pystr option
    \<Rightarrow> ('n, invoke_result) py" where
  "cli_attest rt cli cl i oracle_address kind source =
     py_bind (py_lift (rbind (py_str_int i) (\<lambda>n. rbind (encode_enum kind None) (\<lambda>k. Inr
         [(asc ''intent_id'', n), (asc ''oracle'', oracle_address), (asc ''kind'', k)])))) (\<lambda>args.
       invoke rt cli cl (asc ''attest'') args source None None)"

definition intent_call :: "runtime \<Rightarrow> 'n cli \<Rightarrow> soroban_client \<Rightarrow> string \<Rightarrow> int \<Rightarrow> pystr option
    \<Rightarrow> pystr option \<Rightarrow> ('n, invoke_result) py" where
  "intent_call rt cli cl func i source send =
     py_bind (py_lift (rbind (py_str_int i) (\<lambda>n. Inr [(asc ''intent_id'', n)]))) (\<lambda>args.
       invoke rt cli cl (asc func) args source None send)"

definition cli_release :: "runtime \<Rightarrow> 'n cli \<Rightarrow> soroban_client \<Rightarrow> int \<Rightarrow> pystr option \<Rightarrow> ('n, invoke_result) py" where
  "cli_release rt cli cl i source = intent_call rt cli cl ''release'' i source None"

definition cli_refund :: "runtime \<Rightarrow> 'n cli \<Rightarrow> soroban_client \<Rightarrow> int \<Rightarrow> pystr option \<Rightarrow> ('n, invoke_result) py" where
  "cli_refund rt cli cl i source = intent_call rt cli cl ''refund'' i source None"

definition cli_add_oracle :: "runtime \<Rightarrow> 'n cli \<Rightarrow> soroban_client \<Rightarrow> pystr \<Rightarrow> pystr option \<Rightarrow> ('n, invoke_result) py" where
  "cli_add_oracle rt cli cl oracle_address source =
     invoke rt cli cl (asc ''add_oracle'') [(asc ''oracle'', oracle_address)] source None None"

definition cli_get_intent :: "runtime \<Rightarrow> 'n cli \<Rightarrow> soroban_client \<Rightarrow> int \<Rightarrow> ('n, json) py" where
  "cli_get_intent rt cli cl i =
     py_bind (intent_call rt cli cl ''get_intent'' i None (Some (asc ''no''))) (\<lambda>r. py_ret (ir_value r))"

definition cli_balance :: "runtime \<Rightarrow> 'n cli \<Rightarrow> soroban_client \<Rightarrow> pystr \<Rightarrow> pystr \<Rightarrow> ('n, int) py" where
  "cli_balance rt cli cl token_id address =
     py_bind (invoke rt cli cl (asc ''balance'') [(asc ''id'', address)] None (Some token_id)
         (Some (asc ''no'')))
       (\<lambda>r. py_lift (json_int rt (ir_value r)))"

section \<open>Adapters\<close>

text \<open>\<open>SorobanAdapter(client, smart_account_client)\<close>; the second client, when there is one, takes
  \<open>create_intent\<close>.\<close>

definition soroban_adapter :: "runtime \<Rightarrow> 'n cli \<Rightarrow> soroban_client
    \<Rightarrow> (create_args \<Rightarrow> ('n, invoke_result) py) option \<Rightarrow> 'n chain_adapter" where
  "soroban_adapter rt cli cl smart = \<lparr>
     ca_deploy = py_raise (NotImplementedError ''soroban deploy is scripted''),
     ca_create_intent = (case smart of None \<Rightarrow> cli_create_intent rt cli cl | Some f \<Rightarrow> f),
     ca_attest = cli_attest rt cli cl, ca_release = cli_release rt cli cl,
     ca_refund = cli_refund rt cli cl, ca_get_status = cli_get_intent rt cli cl\<rparr>"

definition evm_adapter :: "'n chain_adapter" where
  "evm_adapter = (let roadmap = NotImplementedError ''roadmap: EVM/x402'' in \<lparr>
     ca_deploy = py_raise roadmap, ca_create_intent = (\<lambda>a. py_raise roadmap),
     ca_attest = (\<lambda>i ora k src. py_raise roadmap), ca_release = (\<lambda>i src. py_raise roadmap),
     ca_refund = (\<lambda>i src. py_raise roadmap), ca_get_status = (\<lambda>i. py_raise roadmap)\<rparr>)"

section \<open>What the command line fixes\<close>

lemma create_intent_args_Inr:
  "create_intent_args a = Inr args \<longleftrightarrow>
     (\<exists>n d. py_str_int (cr_amount a) = Inr n \<and> py_str_int (cr_deadline a) = Inr d \<and>
       args = [(asc ''sme'', cr_sme a), (asc ''supplier'', cr_supplier a), (asc ''token'', cr_token a),
         (asc ''amount'', n), (asc ''request_hash'', cr_request_hash a), (asc ''deadline'', d)])"
  by (auto simp: create_intent_args_def encode_i128_def)

lemma cli_create_intent_runs:
  assumes "or_str (cr_source a) (sc_source cl) = Some src" and "create_intent_args a = Inr args"
  shows "cli_create_intent rt cli cl a =
    py_bind (cli (build_invoke_cmd (sc_escrow_id cl) src (sc_network cl) (asc ''create_intent'') args None))
      (\<lambda>p. py_lift (read_completed rt p))"
  using assms by (simp add: cli_create_intent_def invoke_def or_empty_def py_defs)

end
