(* ===== verification/Json_Errors.thy ===== *)
theory Json_Errors
  imports Json_Parse
begin

text \<open>
  What \<open>json.loads\<close> can raise: every failure of the decoder is a \<open>ValueError\<close>.
\<close>

text \<open>\<open>ValueError\<close> and its subclasses.\<close>

fun is_ValueError :: "exn \<Rightarrow> bool" where
  "is_ValueError (ValueError _) = True"
| "is_ValueError UnicodeEncodeError = True"
| "is_ValueError (WebhookURLError _) = True"
| "is_ValueError _ = False"

lemma rbind_eq_Inl: "rbind r f = Inl e \<longleftrightarrow> r = Inl e \<or> (\<exists>x. r = Inr x \<and> f x = Inl e)"
  by (cases r) simp_all

lemma decode_error_ValueError: "decode_error = Inl e \<Longrightarrow> is_ValueError e"
  by (auto simp: decode_error_def)

lemma str_body_ValueError: "str_body s = Inl e \<Longrightarrow> is_ValueError e"
proof (induction s rule: str_body.induct)
  case (2 c t)
  then show ?case
    by (auto simp: rbind_eq_Inl dest: decode_error_ValueError split: if_splits option.splits prod.splits)
qed (auto dest: decode_error_ValueError)

lemma number_ValueError: "number_value neg ds s = Inl e \<Longrightarrow> is_ValueError e"
  by (auto simp: number_value_def split: prod.splits if_splits)

lemma read_atom_ValueError: "read_atom s = Inl e \<Longrightarrow> is_ValueError e"
  by (auto simp: read_atom_def read_number_def Let_def split: option.splits list.splits if_splits prod.splits
      dest: number_ValueError decode_error_ValueError)

lemma expect_ValueError: "expect c s = Inl e \<Longrightarrow> is_ValueError e"
  by (auto simp: expect_def dest: decode_error_ValueError split: list.splits if_splits)

lemma parse_ValueError:
  "parse_value s = Inl e \<Longrightarrow> is_ValueError e"
  "parse_elems s = Inl e \<Longrightarrow> is_ValueError e"
  "parse_members s = Inl e \<Longrightarrow> is_ValueError e"
proof (induction s and s and s arbitrary: e and e and e rule: parse_value_parse_elems_parse_members.induct)
  case (1 s)
  show ?case
  proof (cases s)
    case Nil
    then show ?thesis using 1(3) decode_error_ValueError by (auto simp: parse_value.simps [of "[]"])
  next
    case (Cons c t)
    note IH = 1(1,2) [OF Cons]
    note pv = 1(3) [unfolded parse_value.simps [of s], unfolded Cons list.case]
    show ?thesis
      using pv IH Cons
      by (auto simp: rbind_eq_Inl split: if_splits dest: str_body_ValueError read_atom_ValueError)
  qed
next
  case (2 s)
  show ?case
  proof (cases "parse_value s")
    case (Inl x)
    then show ?thesis using 2(1) 2(3) by (auto simp: parse_elems.simps [of s])
  next
    case (Inr vr)
    obtain v r where vr: "vr = (v, r)" by (cases vr) simp
    show ?thesis
    proof (cases "skip_ws r")
      case Nil
      then show ?thesis using 2(3) Inr vr decode_error_ValueError by (auto simp: parse_elems.simps [of s])
    next
      case (Cons d u)
      then show ?thesis using 2(3) Inr vr 2(2) [OF Inr vr [symmetric] Cons] decode_error_ValueError
        by (auto simp: parse_elems.simps [of s] rbind_eq_Inl split: if_splits)
    qed
  qed
next
  case (3 s)
  show ?case
  proof (cases "expect 34 s")
    case (Inl x)
    then show ?thesis using 3(3) expect_ValueError by (auto simp: parse_members.simps [of s])
  next
    case t: (Inr t)
    show ?thesis
    proof (cases "str_body t")
      case (Inl x)
      then show ?thesis using 3(3) t str_body_ValueError by (auto simp: parse_members.simps [of s])
    next
      case (Inr kr)
      obtain k r where k: "str_body t = Inr (k, r)" using Inr by (cases kr) simp
      show ?thesis
      proof (cases "expect 58 (skip_ws r)")
        case (Inl x)
        then show ?thesis using 3(3) t k expect_ValueError by (auto simp: parse_members.simps [of s])
      next
        case u: (Inr u)
        show ?thesis
        proof (cases "parse_value (skip_ws u)")
          case (Inl x)
          then show ?thesis using 3(3) 3(1) [OF t k refl u] t k u by (auto simp: parse_members.simps [of s])
        next
          case (Inr vr)
          obtain v r2 where v: "parse_value (skip_ws u) = Inr (v, r2)" using Inr by (cases vr) simp
          show ?thesis
          proof (cases "skip_ws r2")
            case Nil
            then show ?thesis using 3(3) t k u v decode_error_ValueError by (auto simp: parse_members.simps [of s])
          next
            case (Cons d w)
            then show ?thesis using 3(3) t k u v 3(2) [OF t k refl u v refl Cons] decode_error_ValueError
              by (auto simp: parse_members.simps [of s] rbind_eq_Inl split: if_splits)
          qed
        qed
      qed
    qed
  qed
qed

lemma json_loads_ValueError: "json_loads s = Inl e \<Longrightarrow> is_ValueError e"
  by (auto simp: json_loads_def rbind_eq_Inl dest: decode_error_ValueError parse_ValueError(1)
      split: if_splits)

end
