(* ===== verification/Soroban_Safety.thy ===== *)
theory Soroban_Safety
  imports Soroban Flow_Correct Json_Errors
begin

text \<open>
  What the command-line client gives the payment flow: the command of \<open>create_intent\<close> carries
  the order unambiguously, the transaction hash is a 64-digit word of the error stream, and
  every failure of the command reopens the payment, whatever it did to the network.
\<close>

section \<open>The command carries the order\<close>

lemma create_cmd_args_inj:
  assumes "build_invoke_cmd e s n f args None = build_invoke_cmd e' s' n' f' args' None"
    and "map fst args = map fst args'"
  shows "e = e' \<and> s = s' \<and> n = n' \<and> f = f' \<and> args = args'"
proof -
  have "args = args'" if "flag_args args = flag_args args'" "map fst args = map fst args'" for args args' :: "(pystr \<times> pystr) list"
    using that by (induction args arbitrary: args') (auto simp: flag_args_def split: prod.splits)
  then show ?thesis using assms by (auto simp: build_invoke_cmd_def or_empty_def)
qed

text \<open>The argument vector of \<open>create_intent\<close>.\<close>

definition create_cmd :: "soroban_client \<Rightarrow> create_args \<Rightarrow> pystr list result" where
  "create_cmd cl a =
     rbind (create_intent_args a) (\<lambda>args.
       case or_str (cr_source a) (sc_source cl) of
         None \<Rightarrow> Inl (TypeError ''expected str, bytes or os.PathLike object, not NoneType'')
       | Some src \<Rightarrow> Inr (build_invoke_cmd (sc_escrow_id cl) src (sc_network cl)
           (asc ''create_intent'') args None))"

lemma cli_create_intent_cmd:
  "cli_create_intent rt cli cl a =
     py_bind (py_lift (create_cmd cl a)) (\<lambda>cmd. py_bind (cli cmd) (\<lambda>p. py_lift (read_completed rt p)))"
  by (rule ext)
    (simp add: cli_create_intent_def create_cmd_def invoke_def or_empty_def py_bind_def py_lift_def
      py_raise_def rbind_def split: sum.split option.split)

lemma py_str_int_eq:
  assumes "py_str_int n = Inr t" and "py_str_int m = Inr t"
  shows "n = m"
  using assms int_text_inj by (auto simp: py_str_int_def split: if_splits)

text \<open>The command line is unambiguous: two orders that are sent with the same argument vector
  by the same client are the same order for the same signer, with amount and deadline read back
  exactly from their decimal texts.\<close>

theorem create_cmd_inj:
  assumes "create_cmd cl a = Inr cmd" and "create_cmd cl b = Inr cmd"
  shows "a\<lparr>cr_source := None\<rparr> = b\<lparr>cr_source := None\<rparr> \<and>
    or_str (cr_source a) (sc_source cl) = or_str (cr_source b) (sc_source cl)"
proof -
  from assms(1) obtain x src where x: "create_intent_args a = Inr x"
    "or_str (cr_source a) (sc_source cl) = Some src"
    "cmd = build_invoke_cmd (sc_escrow_id cl) src (sc_network cl) (asc ''create_intent'') x None"
    by (auto simp: create_cmd_def split: option.splits)
  from assms(2) obtain y src' where y: "create_intent_args b = Inr y"
    "or_str (cr_source b) (sc_source cl) = Some src'"
    "cmd = build_invoke_cmd (sc_escrow_id cl) src' (sc_network cl) (asc ''create_intent'') y None"
    by (auto simp: create_cmd_def split: option.splits)
  have "map fst x = map fst y" using x(1) y(1) by (auto simp: create_intent_args_Inr)
  with x(3) y(3) have "src = src' \<and> x = y" using create_cmd_args_inj by metis
  with x(1,2) y(1,2) have "cr_sme a = cr_sme b" "cr_supplier a = cr_supplier b" "cr_token a = cr_token b"
    "cr_amount a = cr_amount b" "cr_request_hash a = cr_request_hash b" "cr_deadline a = cr_deadline b"
    "or_str (cr_source a) (sc_source cl) = or_str (cr_source b) (sc_source cl)"
    by (auto simp: create_intent_args_Inr dest: py_str_int_eq)
  then show ?thesis by (cases a; cases b) simp
qed

definition cmd_order :: create_args where
  "cmd_order = \<lparr>cr_sme = asc ''GA'', cr_supplier = asc ''GB'', cr_token = asc ''CT'', cr_amount = 5,
     cr_request_hash = asc ''ab'', cr_deadline = 9, cr_source = None\<rparr>"

definition cmd_client :: soroban_client where
  "cmd_client = \<lparr>sc_escrow_id = asc ''CE'', sc_network = asc ''local'', sc_source = Some (asc ''me'')\<rparr>"

theorem create_cmd_inj_witness:
  "\<exists>cmd. create_cmd cmd_client cmd_order = Inr cmd \<and>
     create_cmd cmd_client (cmd_order\<lparr>cr_amount := 6\<rparr>) \<noteq> Inr cmd"
proof -
  have "\<not> isl (create_cmd cmd_client cmd_order)" by code_simp
  then obtain cmd where c: "create_cmd cmd_client cmd_order = Inr cmd"
    by (cases "create_cmd cmd_client cmd_order") auto
  from create_cmd_inj [OF c, of "cmd_order\<lparr>cr_amount := 6\<rparr>"]
  have "create_cmd cmd_client (cmd_order\<lparr>cr_amount := 6\<rparr>) \<noteq> Inr cmd" by (auto simp: cmd_order_def)
  with c show ?thesis by blast
qed

section \<open>The transaction hash\<close>

definition is_tx_hash :: "pystr \<Rightarrow> bool" where
  "is_tx_hash m \<longleftrightarrow> length m = 64 \<and> list_all (\<lambda>c. (48 \<le> c \<and> c \<le> 57) \<or> (97 \<le> c \<and> c \<le> 102)) m"

lemma is_tx_hash_word:
  assumes "is_tx_hash m"
  shows "word_at rt (m @ a)" and "word_at rt (rev m @ b)"
proof -
  have w: "is_word rt c" if "(48 \<le> c \<and> c \<le> 57) \<or> (97 \<le> c \<and> c \<le> 102)" for c
    using that by (auto simp: is_word_def is_ascii_digit_def is_ascii_lower_def)
  have all: "\<forall>c \<in> set m. is_word rt c" using assms w unfolding is_tx_hash_def list_all_iff by blast
  have "m \<noteq> []" using assms by (auto simp: is_tx_hash_def)
  then obtain c u v d where m: "m = c # u" "m = v @ [d]" by (metis list.exhaust rev_exhaust)
  show "word_at rt (m @ a)" using all unfolding m(1) by (simp add: word_at_def)
  show "word_at rt (rev m @ b)" using all unfolding m(2) by (simp add: word_at_def)
qed

lemma tx_hash_rx_lang:
  "rx_lang rt False tx_hash_rx b m a \<longleftrightarrow> is_tx_hash m \<and> \<not> word_at rt b \<and> \<not> word_at rt a"
proof -
  have c: "in_cset rt False (one_of [CR 48 57, CR 97 102]) = (\<lambda>c. (48 \<le> c \<and> c \<le> 57) \<or> (97 \<le> c \<and> c \<le> 102))"
    by (rule ext) (simp add: in_range_def)
  show ?thesis
    using is_tx_hash_word [of m rt a] is_tx_hash_word [of m rt b]
    by (auto simp: tx_hash_rx_def rx_seq_def c is_tx_hash_def)
qed

text \<open>After the last match of a pattern without empty matches nothing matches any more.\<close>

lemma finditer_last:
  assumes "\<And>m. m \<in> set (rx_finditer_from rt ic r b a) \<Longrightarrow> m_text m \<noteq> []"
    and "rx_finditer_from rt ic r b a \<noteq> []"
  shows "\<exists>pre. rev b @ a = pre @ m_text (last (rx_finditer_from rt ic r b a)) @
      m_after (last (rx_finditer_from rt ic r b a)) \<and>
    rx_lang rt ic r (rev pre) (m_text (last (rx_finditer_from rt ic r b a)))
      (m_after (last (rx_finditer_from rt ic r b a))) \<and>
    rx_search_from rt ic r (rev (pre @ m_text (last (rx_finditer_from rt ic r b a))))
      (m_after (last (rx_finditer_from rt ic r b a))) = None"
  using assms
proof (induction rt ic r b a rule: rx_finditer_from.induct)
  case (1 rt ic r b a)
  show ?case
  proof (cases "rx_search_from rt ic r b a")
    case None
    with "1.prems"(2) show ?thesis by (subst (asm) rx_finditer_from.simps) simp
  next
    case (Some m)
    from rx_search_from_Some [OF Some] obtain pre where
      p: "a = pre @ m_text m @ m_after m" "m_before m = rev (m_text m) @ rev pre @ b"
      "rx_lang rt ic r (rev pre @ b) (m_text m) (m_after m)" by blast
    let ?rest = "rx_finditer_from rt ic r (m_before m) (m_after m)"
    have "m \<in> set (rx_finditer_from rt ic r b a)"
      using Some by (subst rx_finditer_from.simps) (auto split: list.splits)
    then have ne: "m_text m \<noteq> []" by (rule "1.prems"(1))
    then have eq: "rx_finditer_from rt ic r b a = m # ?rest"
      using Some by (subst rx_finditer_from.simps) simp
    show ?thesis
    proof (cases "?rest = []")
      case True
      then have "rx_search_from rt ic r (m_before m) (m_after m) = None"
        by (subst (asm) rx_finditer_from.simps) (auto split: option.splits list.splits if_splits)
      with True p show ?thesis unfolding eq by (intro exI [of _ "rev b @ pre"]) simp
    next
      case False
      from "1.IH"(1) [OF Some ne _ False] "1.prems"(1) p False show ?thesis unfolding eq by auto
    qed
  qed
qed

text \<open>C35. The transaction hash taken from the error stream is its last word of 64 lower-case
  hexadecimal digits: none is found exactly when there is no such word, and behind the one that
  is returned there is none.\<close>

theorem last_tx_hash_correct:
  "case last_tx_hash rt err of
     None \<Rightarrow> \<nexists>pre h post. err = pre @ h @ post \<and> is_tx_hash h \<and> \<not> word_at rt (rev pre) \<and> \<not> word_at rt post
   | Some h \<Rightarrow> \<exists>pre post. err = pre @ h @ post \<and> is_tx_hash h \<and> \<not> word_at rt (rev pre) \<and>
       \<not> word_at rt post \<and>
       (\<nexists>p g q. post = p @ g @ q \<and> is_tx_hash g \<and> \<not> word_at rt (rev (pre @ h @ p)) \<and> \<not> word_at rt q)"
proof (cases "rx_finditer rt False tx_hash_rx err = []")
  case True
  then have "rx_search rt False tx_hash_rx err = None" using rx_finditer_nonempty_iff by metis
  then have "\<not> (\<exists>pre m post. err = pre @ m @ post \<and> rx_lang rt False tx_hash_rx (rev pre) m post)"
    using rx_search_iff by metis
  then show ?thesis using True by (auto simp: last_tx_hash_def rx_findall_def tx_hash_rx_lang)
next
  case False
  let ?ms = "rx_finditer_from rt False tx_hash_rx [] err"
  have "m_text m \<noteq> []" if m: "m \<in> set ?ms" for m
    using rx_finditer_from_sound [OF m] by (auto simp: tx_hash_rx_lang is_tx_hash_def)
  then have "\<exists>pre. rev [] @ err = pre @ m_text (last ?ms) @ m_after (last ?ms) \<and>
      rx_lang rt False tx_hash_rx (rev pre) (m_text (last ?ms)) (m_after (last ?ms)) \<and>
      rx_search_from rt False tx_hash_rx (rev (pre @ m_text (last ?ms))) (m_after (last ?ms)) = None"
    using False unfolding rx_finditer_def by (rule finditer_last)
  then obtain pre where
    pre: "err = pre @ m_text (last ?ms) @ m_after (last ?ms)"
    "rx_lang rt False tx_hash_rx (rev pre) (m_text (last ?ms)) (m_after (last ?ms))"
    "rx_search_from rt False tx_hash_rx (rev (pre @ m_text (last ?ms))) (m_after (last ?ms)) = None"
    by auto
  have "last_tx_hash rt err = Some (m_text (last ?ms))"
    using False by (simp add: last_tx_hash_def rx_findall_def rx_finditer_def last_map)
  moreover have "\<nexists>p g q. m_after (last ?ms) = p @ g @ q \<and>
      rx_lang rt False tx_hash_rx (rev p @ rev (pre @ m_text (last ?ms))) g q"
    using pre(3) rx_search_from_iff by metis
  ultimately show ?thesis using pre(1,2) by (auto simp: tx_hash_rx_lang)
qed

section \<open>A failing command\<close>

text \<open>How a run of the command fails: \<open>subprocess.run\<close> raises, the exit code is not zero, or the output is
  no JSON.\<close>

definition command_failed :: "completed result \<Rightarrow> bool" where
  "command_failed out \<longleftrightarrow>
     (case out of Inl _ \<Rightarrow> True
      | Inr p \<Rightarrow> cp_returncode p \<noteq> 0 \<or>
          py_strip (cp_stdout p) \<noteq> [] \<and> (\<exists>x. json_loads (py_strip (cp_stdout p)) = Inl x))"

text \<open>What the client raises then: the exception itself, \<open>SorobanError\<close>, or the decoder's \<open>ValueError\<close>.\<close>

definition failure_raised :: "completed result \<Rightarrow> exn \<Rightarrow> bool" where
  "failure_raised out e \<longleftrightarrow>
     (case out of Inl x \<Rightarrow> e = x
      | Inr p \<Rightarrow> if cp_returncode p \<noteq> 0 then \<exists>m. e = SorobanError m else is_ValueError e)"

lemma read_completed_fails:
  assumes "command_failed out"
  obtains e where "rbind out (read_completed rt) = Inl e" and "failure_raised out e"
proof (cases out)
  case (Inl x)
  then show thesis by (intro that [of x]) (simp_all add: failure_raised_def)
next
  case (Inr p)
  show thesis
  proof (cases "cp_returncode p = 0")
    case True
    with assms Inr obtain x where x: "py_strip (cp_stdout p) \<noteq> []" "json_loads (py_strip (cp_stdout p)) = Inl x"
      by (auto simp: command_failed_def)
    then show thesis using Inr True json_loads_ValueError [OF x(2)]
      by (intro that [of x]) (simp_all add: read_completed_def failure_raised_def)
  next
    case False
    then show thesis using Inr
      by (intro that [of "SorobanError ''failed''"]) (simp_all add: read_completed_def failure_raised_def)
  qed
qed

text \<open>C18. However running the command fails, by an exception of \<open>subprocess.run\<close> such as its timeout, by
  a nonzero exit code or by an output that is no JSON, the client never reports the submission as
  unconfirmed: \<open>execute\<close> raises that exception, a \<open>SorobanError\<close> or a \<open>ValueError\<close>, and the store is what it
  was, so the payment can be executed again, whatever the command did to the network.  The one
  assumption on \<open>subprocess.run\<close> is that it does not raise the program's own
  \<open>ChainSubmittedUnconfirmed\<close>.\<close>

theorem cli_failure_reopens:
  assumes "db_ok (w_db w)" and "no_faults w" and "\<not> cf_dry_run c"
    and "intent i (w_db w) = Some r" and "in_status r = Proposed" and "in_chain_id r = None"
    and "escrow_args rt c r (supplier_by_id (in_supplier_id r) (w_db w)) (t_rules (w_db w)) src = Inr a"
    and "create_cmd cl a = Inr cmd" and "cli cmd n = (out, n')"
    and "command_failed out" and "\<And>h. out \<noteq> Inl (ChainSubmittedUnconfirmed h)"
  shows "\<exists>e w'. execute rt (soroban_adapter rt cli cl None) i src c (w, n) = (Inl e, (w', n')) \<and>
     w_db w' = w_db w \<and> failure_raised out e \<and> (\<nexists>h. e = ChainSubmittedUnconfirmed h)"
proof -
  obtain e where e: "rbind out (read_completed rt) = Inl e" "failure_raised out e"
    using read_completed_fails [OF assms(10)] .
  then have nu: "\<nexists>h. e = ChainSubmittedUnconfirmed h"
    using assms(11) by (auto simp: failure_raised_def split: sum.splits if_splits)
  have "ca_create_intent (soroban_adapter rt cli cl None) a n = (Inl e, n')"
    using assms(8,9) e(1) by (cases out) (simp_all add: soroban_adapter_def cli_create_intent_cmd py_bind_def py_lift_def)
  from execute_refused [OF assms(1-7) this nu] e(2) nu show ?thesis by blast
qed

end
