(* ===== verification/Soroban_Examples.thy ===== *)
theory Soroban_Examples
  imports Soroban_Safety Flow_Examples
begin

text \<open>
  A network behind the command line that counts the escrows it has created: its first
  \<open>create_intent\<close> is submitted but the command times out, the following ones answer.  The
  proposed payment of \<open>Flow_Examples\<close> is executed on it.
\<close>

definition funded_text :: pystr where
  "funded_text = (case json_text (JObj [jkey ''request_hash'' (JStr (asc ''h'')), jkey ''status'' (JStr (asc ''Funded''))])
     of Inl _ \<Rightarrow> [] | Inr t \<Rightarrow> t)"

definition slow_cli :: "nat cli" where
  "slow_cli cmd n =
     (if asc ''create_intent'' \<in> set cmd then
        (if n = 0 then Inl TimeoutExpired
         else Inr \<lparr>cp_returncode = 0, cp_stdout = nat_digits n, cp_stderr = []\<rparr>, n + 1)
      else (Inr \<lparr>cp_returncode = 0, cp_stdout = funded_text, cp_stderr = []\<rparr>, n))"

definition slow_adapter :: "nat chain_adapter" where
  "slow_adapter = soroban_adapter plain_runtime slow_cli cmd_client None"

definition slow_execute :: "unit world \<times> nat \<Rightarrow> int option result \<times> unit world \<times> nat" where
  "slow_execute = execute plain_runtime slow_adapter (asc ''i'') (asc ''s'') demo_config"

theorem cli_failure_reopens_witness:
  "\<exists>w'. slow_execute (pay_world Proposed None, 0) = (Inl TimeoutExpired, (w', 1)) \<and>
     w_db w' = pay_tables Proposed None"
proof -
  have "\<not> isl (create_cmd cmd_client pay_args)" by code_simp
  then obtain cmd where cmd: "create_cmd cmd_client pay_args = Inr cmd"
    by (cases "create_cmd cmd_client pay_args") auto
  then have "asc ''create_intent'' \<in> set cmd"
    by (auto simp: create_cmd_def build_invoke_cmd_def or_empty_def split: option.splits)
  then have out: "slow_cli cmd 0 = (Inl TimeoutExpired, 1)" by (simp add: slow_cli_def)
  have "command_failed (Inl TimeoutExpired)" by (simp add: command_failed_def)
  then show ?thesis
    using cli_failure_reopens [where w = "pay_world Proposed None" and cli = slow_cli and n = 0
          and n' = 1 and out = "Inl TimeoutExpired", unfolded pay_world_db,
        OF pay_db_ok pay_live(2,1) pay_intent pay_live(3,4) pay_escrow_args cmd out]
    by (simp add: slow_execute_def slow_adapter_def failure_raised_def)
qed

text \<open>The retry creates a second escrow for the same request.\<close>

lemma timeout_double_escrow:
  "let w1 = snd (slow_execute (pay_world Proposed None, 0)) in
     snd w1 = 1 \<and> fst (slow_execute w1) = Inr (Some 1) \<and> snd (snd (slow_execute w1)) = 2"
  by code_simp

end
