(* ===== verification/Smart_Account.thy ===== *)
theory Smart_Account
  imports Soroban
begin

text \<open>
  \<open>SmartAccountClient\<close> (\<open>lumo/chain/smart_account.py\<close>): \<open>create_intent\<close> submitted through
  stellar-sdk and signed by the owner of the policy account.  The package is the record
  \<open>sdk\<close>: its pure functions on keys, transactions, authorisation entries and values, and the
  four calls to the RPC server, which may change the network \<open>'n\<close> and may raise.
\<close>

section \<open>stellar-sdk\<close>

datatype send_status = ERROR | PENDING | DUPLICATE | TRY_AGAIN_LATER
datatype poll_status = NOT_FOUND | SUCCESS | FAILED

record simulation =
  si_error :: "pystr option"
  si_auth :: "pystr list option list option"
  si_data :: pystr
  si_fee :: int

record ('n, 'k, 'acct, 'tx, 'entry, 'pre, 'sv, 'meta) sdk =
  sd_passphrase :: pystr
  sd_keypair :: "pystr \<Rightarrow> 'k result"
  sd_public :: "'k \<Rightarrow> pystr"
  sd_raw_public :: "'k \<Rightarrow> int list"
  sd_sign :: "'k \<Rightarrow> int list \<Rightarrow> int list"
  sd_digest :: "int list \<Rightarrow> int list"
  sd_pre_bytes :: "'pre \<Rightarrow> int list"
  sd_struct :: "(string \<times> 'sv) list \<Rightarrow> 'sv"
  sd_address :: "pystr \<Rightarrow> 'sv result"
  sd_int128 :: "int \<Rightarrow> 'sv result"
  sd_bytes :: "int list \<Rightarrow> 'sv"
  sd_uint64 :: "int \<Rightarrow> 'sv result"
  sd_native :: "'sv \<Rightarrow> json result"
  sd_build :: "'acct \<Rightarrow> pystr \<Rightarrow> int \<Rightarrow> int \<Rightarrow> pystr \<Rightarrow> string \<Rightarrow> 'sv list \<Rightarrow> 'tx result"
  sd_entry_of :: "pystr \<Rightarrow> 'entry result"
  sd_entry_address :: "'entry \<Rightarrow> pystr option result"
  sd_authorize :: "'entry \<Rightarrow> ('pre \<Rightarrow> 'sv) \<Rightarrow> int \<Rightarrow> pystr \<Rightarrow> 'entry result"
  sd_set_auth :: "'entry list \<Rightarrow> 'tx \<Rightarrow> 'tx"
  sd_set_data :: "pystr \<Rightarrow> 'tx \<Rightarrow> 'tx result"
  sd_add_fee :: "int \<Rightarrow> 'tx \<Rightarrow> 'tx"
  sd_sign_tx :: "'k \<Rightarrow> 'tx \<Rightarrow> 'tx"
  sd_meta_of :: "pystr \<Rightarrow> 'meta result"
  sd_meta_v :: "'meta \<Rightarrow> int"
  sd_v4_return :: "'meta \<Rightarrow> 'sv result"
  sd_v3_return :: "'meta \<Rightarrow> 'sv result"
  sd_load_account :: "pystr \<Rightarrow> pystr \<Rightarrow> ('n, 'acct) py"
  sd_simulate :: "pystr \<Rightarrow> 'tx \<Rightarrow> ('n, simulation) py"
  sd_latest_ledger :: "pystr \<Rightarrow> ('n, int) py"
  sd_send :: "pystr \<Rightarrow> 'tx \<Rightarrow> ('n, send_status \<times> pystr) py"
  sd_poll :: "pystr \<Rightarrow> pystr \<Rightarrow> int \<Rightarrow> ('n, poll_status \<times> pystr) py"

text \<open>\<open>si_auth\<close> is the list of results, each with its \<open>auth\<close>; \<open>sd_entry_address\<close> is the address
  of an entry whose credentials are of the address kind.  The \<open>pystr\<close> the server calls start
  with is the RPC address; \<open>sd_build\<close> takes account, passphrase, base fee, timeout, contract,
  function and parameters.\<close>

section \<open>The client\<close>

record smart_account =
  sa_escrow_id :: pystr
  sa_smart_account :: pystr
  sa_owner_source :: pystr
  sa_network :: pystr

definition rpc_of :: "pystr \<Rightarrow> pystr option" where
  "rpc_of network =
     (if network = asc ''testnet'' then Some (asc ''https://soroban-testnet.stellar.org'') else None)"

definition secret :: "'n cli \<Rightarrow> pystr \<Rightarrow> ('n, pystr) py" where
  "secret cli identity =
     py_bind (cli [asc ''stellar'', asc ''keys'', asc ''show'', identity]) (\<lambda>p.
       if cp_returncode p \<noteq> 0 then py_raise (RuntimeError ''could not load key'')
       else py_ret (py_strip (cp_stdout p)))"

text \<open>\<open>bytes.fromhex\<close>: pairs of digits, with ASCII white space between the pairs.\<close>

fun bytes_fromhex :: "pystr \<Rightarrow> int list result" where
  "bytes_fromhex [] = Inr []"
| "bytes_fromhex [c] =
     (if c = 32 \<or> (9 \<le> c \<and> c \<le> 13) then Inr [] else Inl (ValueError ''non-hexadecimal number''))"
| "bytes_fromhex (c # d # s) =
     (if c = 32 \<or> (9 \<le> c \<and> c \<le> 13) then bytes_fromhex (d # s)
      else case (hex_digit_value c, hex_digit_value d) of
        (Some x, Some y) \<Rightarrow> rbind (bytes_fromhex s) (\<lambda>bs. Inr ((16 * x + y) # bs))
      | _ \<Rightarrow> Inl (ValueError ''non-hexadecimal number''))"

definition owner_signature ::
    "('n, 'k, 'acct, 'tx, 'entry, 'pre, 'sv, 'meta) sdk \<Rightarrow> 'k \<Rightarrow> 'pre \<Rightarrow> 'sv" where
  "owner_signature sd owner preimage =
     (let payload = sd_digest sd (sd_pre_bytes sd preimage)
      in sd_struct sd [(''public_key'', sd_bytes sd (sd_raw_public sd owner)),
           (''signature'', sd_bytes sd (sd_sign sd owner payload))])"

definition smart_params ::
    "('n, 'k, 'acct, 'tx, 'entry, 'pre, 'sv, 'meta) sdk \<Rightarrow> create_args \<Rightarrow> 'sv list result" where
  "smart_params sd a =
     rbind (sd_address sd (cr_sme a)) (\<lambda>sme.
     rbind (sd_address sd (cr_supplier a)) (\<lambda>supplier.
     rbind (sd_address sd (cr_token a)) (\<lambda>token.
     rbind (sd_int128 sd (cr_amount a)) (\<lambda>amount.
     rbind (bytes_fromhex (cr_request_hash a)) (\<lambda>rhash.
     rbind (sd_uint64 sd (cr_deadline a)) (\<lambda>deadline.
     Inr [sme, supplier, token, amount, sd_bytes sd rhash, deadline]))))))"

text \<open>The recorded authorisation entries, those of the smart account signed by the owner.\<close>

definition signed_auth :: "('n, 'k, 'acct, 'tx, 'entry, 'pre, 'sv, 'meta) sdk \<Rightarrow> smart_account
    \<Rightarrow> 'k \<Rightarrow> int \<Rightarrow> simulation \<Rightarrow> 'entry list result" where
  "signed_auth sd cl owner valid_until recorded =
     (case si_auth recorded of Some (Some xdrs # _) \<Rightarrow>
        rmap (\<lambda>xdr. rbind (sd_entry_of sd xdr) (\<lambda>entry.
          rbind (sd_entry_address sd entry) (\<lambda>address.
            if address = Some (sa_smart_account cl)
            then sd_authorize sd entry (owner_signature sd owner) valid_until (sd_passphrase sd)
            else Inr entry))) xdrs
      | _ \<Rightarrow> Inl (TypeError ''NoneType object is not iterable''))"

text \<open>Everything before the transaction is sent.\<close>

definition smart_prepare :: "'n cli \<Rightarrow> ('n, 'k, 'acct, 'tx, 'entry, 'pre, 'sv, 'meta) sdk \<Rightarrow> smart_account
    \<Rightarrow> pystr \<Rightarrow> create_args \<Rightarrow> ('n, 'tx) py" where
  "smart_prepare cli sd cl rpc a =
     py_bind (secret cli (sa_owner_source cl)) (\<lambda>key.
     py_bind (py_lift (sd_keypair sd key)) (\<lambda>owner.
     py_bind (sd_load_account sd rpc (sd_public sd owner)) (\<lambda>account.
     py_bind (py_lift (rbind (smart_params sd a)
         (sd_build sd account (sd_passphrase sd) 1000000 120 (sa_escrow_id cl) ''create_intent''))) (\<lambda>tx.
     py_bind (sd_simulate sd rpc tx) (\<lambda>recorded.
     if or_empty (si_error recorded) \<noteq> [] \<or> si_auth recorded = None \<or> si_auth recorded = Some []
     then py_raise (RuntimeError ''create_intent simulate failed'')
     else py_bind (sd_latest_ledger sd rpc) (\<lambda>sequence.
     py_bind (py_lift (signed_auth sd cl owner (sequence + 100) recorded)) (\<lambda>auth.
     let tx1 = sd_set_auth sd auth tx in
     py_bind (sd_simulate sd rpc tx1) (\<lambda>enforced.
     if or_empty (si_error enforced) \<noteq> [] then py_raise (RuntimeError ''create_intent re-simulate failed'')
     else py_bind (py_lift (sd_set_data sd (si_data enforced) tx1)) (\<lambda>tx2.
       py_ret (sd_sign_tx sd owner (sd_add_fee sd (si_fee enforced) tx2)))))))))))"

definition returned_id :: "runtime \<Rightarrow> ('n, 'k, 'acct, 'tx, 'entry, 'pre, 'sv, 'meta) sdk \<Rightarrow> pystr \<Rightarrow> int result" where
  "returned_id rt sd xdr =
     rbind (sd_meta_of sd xdr) (\<lambda>meta.
     rbind (if sd_meta_v sd meta = 4 then sd_v4_return sd meta else sd_v3_return sd meta) (\<lambda>v.
     rbind (sd_native sd v) (json_int rt)))"

definition smart_submit :: "runtime \<Rightarrow> ('n, 'k, 'acct, 'tx, 'entry, 'pre, 'sv, 'meta) sdk \<Rightarrow> pystr \<Rightarrow> 'tx
    \<Rightarrow> ('n, invoke_result) py" where
  "smart_submit rt sd rpc tx =
     py_bind (sd_send sd rpc tx) (\<lambda>(status, hash).
       if status = ERROR then py_raise (RuntimeError ''create_intent submit rejected'')
       else py_bind (py_except (sd_poll sd rpc hash 40)
           (\<lambda>_. py_raise (ChainSubmittedUnconfirmed (Some hash)))) (\<lambda>(outcome, xdr).
         if outcome = NOT_FOUND then py_raise (ChainSubmittedUnconfirmed (Some hash))
         else if outcome \<noteq> SUCCESS then py_raise (RuntimeError ''create_intent rejected on-chain'')
         else case returned_id rt sd xdr of
             Inl _ \<Rightarrow> py_raise (ChainSubmittedUnconfirmed (Some hash))
           | Inr n \<Rightarrow> py_ret \<lparr>ir_value = JInt n, ir_tx_hash = Some hash\<rparr>))"

definition smart_create :: "runtime \<Rightarrow> 'n cli \<Rightarrow> ('n, 'k, 'acct, 'tx, 'entry, 'pre, 'sv, 'meta) sdk
    \<Rightarrow> smart_account \<Rightarrow> create_args \<Rightarrow> ('n, invoke_result) py" where
  "smart_create rt cli sd cl a =
     (case rpc_of (sa_network cl) of
        None \<Rightarrow> py_raise (RuntimeError ''smart-account mode is testnet-only'')
      | Some rpc \<Rightarrow> py_bind (smart_prepare cli sd cl rpc a) (smart_submit rt sd rpc))"

section \<open>What an RPC server promises\<close>

text \<open>\<open>escrows\<close> lists the parameters of the \<open>create_intent\<close> calls that took effect, \<open>params\<close>
  those of a transaction.  Loading, simulating and reading have no effect.  A transaction
  the server refuses never takes effect.  One whose submission raises (the connection may be lost
  before or after the server took it) takes effect at most once.  So does one that was sent, and the
  answer of the poll tells whether it did: \<open>SUCCESS\<close> that it did, \<open>FAILED\<close> that it did not,
  anything else neither.\<close>

definition no_effect :: "('n \<Rightarrow> 'e) \<Rightarrow> ('n, 'a) py \<Rightarrow> bool" where
  "no_effect escrows m \<longleftrightarrow> (\<forall>n r n'. m n = (r, n') \<longrightarrow> escrows n' = escrows n)"

definition sending_effect :: "('n \<Rightarrow> 'sv list list) \<Rightarrow> ('tx \<Rightarrow> 'sv list)
    \<Rightarrow> ('n, 'k, 'acct, 'tx, 'entry, 'pre, 'sv, 'meta) sdk \<Rightarrow> bool" where
  "sending_effect escrows params sd \<longleftrightarrow>
     (\<forall>rpc tx n st h n1 r n2. sd_send sd rpc tx n = (Inr (st, h), n1) \<and> st \<noteq> ERROR \<and>
        sd_poll sd rpc h 40 n1 = (r, n2) \<longrightarrow>
        (case r of Inr (SUCCESS, _) \<Rightarrow> escrows n2 = escrows n @ [params tx]
         | Inr (FAILED, _) \<Rightarrow> escrows n2 = escrows n
         | _ \<Rightarrow> escrows n2 = escrows n \<or> escrows n2 = escrows n @ [params tx]))"

definition refusal_effect :: "('n \<Rightarrow> 'sv list list)
    \<Rightarrow> ('n, 'k, 'acct, 'tx, 'entry, 'pre, 'sv, 'meta) sdk \<Rightarrow> bool" where
  "refusal_effect escrows sd \<longleftrightarrow>
     (\<forall>rpc tx n h n1. sd_send sd rpc tx n = (Inr (ERROR, h), n1) \<longrightarrow> escrows n1 = escrows n)"

definition raising_effect :: "('n \<Rightarrow> 'sv list list) \<Rightarrow> ('tx \<Rightarrow> 'sv list)
    \<Rightarrow> ('n, 'k, 'acct, 'tx, 'entry, 'pre, 'sv, 'meta) sdk \<Rightarrow> bool" where
  "raising_effect escrows params sd \<longleftrightarrow>
     (\<forall>rpc tx n e n1. sd_send sd rpc tx n = (Inl e, n1) \<longrightarrow>
        escrows n1 = escrows n \<or> escrows n1 = escrows n @ [params tx])"

definition keeps_params :: "('tx \<Rightarrow> 'sv list)
    \<Rightarrow> ('n, 'k, 'acct, 'tx, 'entry, 'pre, 'sv, 'meta) sdk \<Rightarrow> bool" where
  "keeps_params params sd \<longleftrightarrow>
     (\<forall>acc p f t c ps tx. sd_build sd acc p f t c ''create_intent'' ps = Inr tx \<longrightarrow> params tx = ps) \<and>
     (\<forall>es tx. params (sd_set_auth sd es tx) = params tx) \<and>
     (\<forall>d tx tx'. sd_set_data sd d tx = Inr tx' \<longrightarrow> params tx' = params tx) \<and>
     (\<forall>f tx. params (sd_add_fee sd f tx) = params tx) \<and> (\<forall>k tx. params (sd_sign_tx sd k tx) = params tx)"

definition quiet_reads :: "('n \<Rightarrow> 'sv list list) \<Rightarrow> 'n cli
    \<Rightarrow> ('n, 'k, 'acct, 'tx, 'entry, 'pre, 'sv, 'meta) sdk \<Rightarrow> bool" where
  "quiet_reads escrows cli sd \<longleftrightarrow>
     (\<forall>i. no_effect escrows (cli [asc ''stellar'', asc ''keys'', asc ''show'', i])) \<and>
     (\<forall>rpc k. no_effect escrows (sd_load_account sd rpc k)) \<and>
     (\<forall>rpc tx. no_effect escrows (sd_simulate sd rpc tx)) \<and>
     (\<forall>rpc. no_effect escrows (sd_latest_ledger sd rpc))"

section \<open>The outcomes of \<open>create_intent\<close>\<close>

lemma no_effect_intros:
  "no_effect esc (py_ret x)" "no_effect esc (py_raise e)" "no_effect esc (py_lift r)"
  "no_effect esc m \<Longrightarrow> (\<And>x. no_effect esc (f x)) \<Longrightarrow> no_effect esc (py_bind m f)"
  "no_effect esc m1 \<Longrightarrow> no_effect esc m2 \<Longrightarrow> no_effect esc (if b then m1 else m2)"
  by (auto simp: no_effect_def py_bind_def split: prod.splits sum.splits)

lemma no_effect_prepare:
  assumes "quiet_reads esc cli sd"
  shows "no_effect esc (smart_prepare cli sd cl rpc a)"
  using assms unfolding smart_prepare_def secret_def quiet_reads_def Let_def
  by (intro no_effect_intros allI) blast+

lemma smart_prepare_params:
  assumes "keeps_params params sd" and "smart_prepare cli sd cl rpc a n = (Inr tx, n')"
  shows "smart_params sd a = Inr (params tx)"
  using assms unfolding smart_prepare_def keeps_params_def
  by (auto simp: py_bind_returns Let_def split: if_splits) 

lemma smart_submit_cases:
  assumes "smart_submit rt sd rpc tx n = (r, n')"
  shows "(\<exists>e. sd_send sd rpc tx n = (Inl e, n') \<and> r = Inl e) \<or>
    (\<exists>h. sd_send sd rpc tx n = (Inr (ERROR, h), n') \<and> r = Inl (RuntimeError ''create_intent submit rejected'')) \<or>
    (\<exists>st h n1 p. sd_send sd rpc tx n = (Inr (st, h), n1) \<and> st \<noteq> ERROR \<and> sd_poll sd rpc h 40 n1 = (p, n') \<and>
      (case p of Inr (SUCCESS, x) \<Rightarrow> (case returned_id rt sd x of
              Inl _ \<Rightarrow> r = Inl (ChainSubmittedUnconfirmed (Some h))
            | Inr k \<Rightarrow> r = Inr \<lparr>ir_value = JInt k, ir_tx_hash = Some h\<rparr>)
       | Inr (FAILED, _) \<Rightarrow> r = Inl (RuntimeError ''create_intent rejected on-chain'')
       | _ \<Rightarrow> r = Inl (ChainSubmittedUnconfirmed (Some h))))"
  using assms
  by (auto simp: smart_submit_def py_bind_def py_except_def split: prod.splits sum.splits if_splits
      poll_status.splits)

text \<open>C17. Against an RPC server that answers truthfully, whose refused submissions have no effect and
  whose lost ones have at most their own, the outcome of the smart account's \<open>create_intent\<close> tells
  what happened to the ledger: returning means that exactly the ordered escrow was created; submitted
  but unconfirmed means at most that one; any other exception means none, unless it is the very
  exception that \<open>send_transaction\<close> raised for the prepared transaction, where again at most the
  ordered escrow was created.\<close>

theorem smart_create_outcomes:
  assumes "quiet_reads escrows cli sd" and "keeps_params params sd"
    and "sending_effect escrows params sd" and "refusal_effect escrows sd"
    and "raising_effect escrows params sd"
    and "smart_create rt cli sd cl a n = (r, n')"
  shows "case r of
      Inr v \<Rightarrow> \<exists>ps. smart_params sd a = Inr ps \<and> escrows n' = escrows n @ [ps]
    | Inl (ChainSubmittedUnconfirmed h) \<Rightarrow>
        escrows n' = escrows n \<or> (\<exists>ps. smart_params sd a = Inr ps \<and> escrows n' = escrows n @ [ps])
    | Inl e \<Rightarrow> escrows n' = escrows n \<or>
        (\<exists>rpc tx n1. rpc_of (sa_network cl) = Some rpc \<and> smart_prepare cli sd cl rpc a n = (Inr tx, n1) \<and>
           sd_send sd rpc tx n1 = (Inl e, n') \<and> smart_params sd a = Inr (params tx) \<and>
           escrows n' = escrows n @ [params tx])"
proof (cases "rpc_of (sa_network cl)")
  case None
  then show ?thesis using assms(6) by (auto simp: smart_create_def)
next
  case (Some rpc)
  obtain p n1 where p: "smart_prepare cli sd cl rpc a n = (p, n1)" by (metis surj_pair)
  have n1: "escrows n1 = escrows n"
    using no_effect_prepare [OF assms(1)] p unfolding no_effect_def by blast
  show ?thesis
  proof (cases p)
    case (Inl e)
    then have "r = Inl e \<and> n' = n1" using assms(6) Some p by (simp add: smart_create_def py_bind_def)
    then show ?thesis using n1 by (cases e) auto
  next
    case (Inr tx)
    have ps: "smart_params sd a = Inr (params tx)"
      using smart_prepare_params [OF assms(2)] p Inr by blast
    have sub: "smart_submit rt sd rpc tx n1 = (r, n')"
      using assms(6) Some p Inr by (simp add: smart_create_def py_bind_def)
    show ?thesis
      using smart_submit_cases [OF sub]
    proof (elim disjE exE conjE)
      fix e assume "sd_send sd rpc tx n1 = (Inl e, n')" "r = Inl e"
      moreover from this have "escrows n' = escrows n \<or> escrows n' = escrows n @ [params tx]"
        using assms(5) n1 unfolding raising_effect_def by metis
      ultimately show ?thesis using Some p Inr ps by (cases e) auto
    next
      fix h assume "sd_send sd rpc tx n1 = (Inr (ERROR, h), n')"
        "r = Inl (RuntimeError ''create_intent submit rejected'')"
      then show ?thesis using assms(4) n1 unfolding refusal_effect_def by auto
    next
      fix st h n2 q
      assume s: "sd_send sd rpc tx n1 = (Inr (st, h), n2)" "st \<noteq> ERROR" "sd_poll sd rpc h 40 n2 = (q, n')"
        and q: "case q of Inr (SUCCESS, x) \<Rightarrow> (case returned_id rt sd x of
              Inl _ \<Rightarrow> r = Inl (ChainSubmittedUnconfirmed (Some h))
            | Inr k \<Rightarrow> r = Inr \<lparr>ir_value = JInt k, ir_tx_hash = Some h\<rparr>)
          | Inr (FAILED, _) \<Rightarrow> r = Inl (RuntimeError ''create_intent rejected on-chain'')
          | _ \<Rightarrow> r = Inl (ChainSubmittedUnconfirmed (Some h))"
      have "case q of Inr (SUCCESS, _) \<Rightarrow> escrows n' = escrows n @ [params tx]
         | Inr (FAILED, _) \<Rightarrow> escrows n' = escrows n
         | _ \<Rightarrow> escrows n' = escrows n \<or> escrows n' = escrows n @ [params tx]"
        using assms(3) s n1 unfolding sending_effect_def by metis
      note out = this
      show ?thesis
      proof (cases q)
        case (Inl e)
        with q out ps show ?thesis by simp
      next
        case (Inr y)
        obtain o' x where y: "y = (o', x)" by (cases y)
        show ?thesis
        proof (cases o')
          case SUCCESS
          with Inr y q out ps show ?thesis by (cases "returned_id rt sd x") simp_all
        qed (use Inr y q out ps in simp_all)
      qed
    qed
  qed
qed

text \<open>The submission itself may raise after the server has taken the transaction, as a lost
  connection does; its exception passes through as one that is not \<open>ChainSubmittedUnconfirmed\<close>.\<close>

lemma send_failure_passes:
  assumes "sd_send sd rpc tx n = (Inl e, n')"
  shows "smart_submit rt sd rpc tx n = (Inl e, n')"
  using assms by (simp add: smart_submit_def py_bind_def)

section \<open>\<open>build_chain_adapter\<close>\<close>

text \<open>\<open>mock\<close> is the state of the new \<open>MockChainAdapter\<close>; the adapters for a network work on
  \<open>'n\<close>, the mock one on its own state, so the two are kept side by side.\<close>

definition on_mock :: "mock_chain chain_adapter \<Rightarrow> ('n \<times> mock_chain) chain_adapter" where
  "on_mock m = \<lparr>ca_deploy = on_snd (ca_deploy m), ca_create_intent = (\<lambda>a. on_snd (ca_create_intent m a)),
     ca_attest = (\<lambda>i ora k src. on_snd (ca_attest m i ora k src)),
     ca_release = (\<lambda>i src. on_snd (ca_release m i src)), ca_refund = (\<lambda>i src. on_snd (ca_refund m i src)),
     ca_get_status = (\<lambda>i. on_snd (ca_get_status m i))\<rparr>"

definition on_network :: "'n chain_adapter \<Rightarrow> ('n \<times> mock_chain) chain_adapter" where
  "on_network m = \<lparr>ca_deploy = on_fst (ca_deploy m), ca_create_intent = (\<lambda>a. on_fst (ca_create_intent m a)),
     ca_attest = (\<lambda>i ora k src. on_fst (ca_attest m i ora k src)),
     ca_release = (\<lambda>i src. on_fst (ca_release m i src)), ca_refund = (\<lambda>i src. on_fst (ca_refund m i src)),
     ca_get_status = (\<lambda>i. on_fst (ca_get_status m i))\<rparr>"

definition build_chain_adapter :: "runtime \<Rightarrow> 'n cli
    \<Rightarrow> ('n, 'k, 'acct, 'tx, 'entry, 'pre, 'sv, 'meta) sdk \<Rightarrow> config \<Rightarrow> ('n \<times> mock_chain) chain_adapter result" where
  "build_chain_adapter rt cli sd c =
     (if cf_chain_adapter c = asc ''soroban'' then
        (let client = \<lparr>sc_escrow_id = cf_escrow_id c, sc_network = cf_network c,
               sc_source = Some (cf_sme_source c)\<rparr>;
             smart = (if cf_sme_smart_account c \<noteq> [] then Some (smart_create rt cli sd
               \<lparr>sa_escrow_id = cf_escrow_id c, sa_smart_account = cf_sme_smart_account c,
                sa_owner_source = cf_sme_source c, sa_network = cf_network c\<rparr>) else None)
         in Inr (on_network (soroban_adapter rt cli client smart)))
      else if cf_chain_adapter c = asc ''mock'' then Inr (on_mock (mock_adapter rt))
      else if cf_chain_adapter c = asc ''evm'' then Inr (on_network evm_adapter)
      else Inl (ValueError ''unknown chain_adapter''))"

section \<open>A ledger that accepts every transaction\<close>

definition open_sdk :: "(int list list list, unit, unit, int list list, unit, unit, int list, unit) sdk" where
  "open_sdk = \<lparr>sd_passphrase = [], sd_keypair = (\<lambda>s. Inr ()), sd_public = (\<lambda>k. []),
     sd_raw_public = (\<lambda>k. []), sd_sign = (\<lambda>k b. b), sd_digest = (\<lambda>b. b), sd_pre_bytes = (\<lambda>p. []),
     sd_struct = (\<lambda>es. []), sd_address = Inr, sd_int128 = (\<lambda>n. Inr [n]), sd_bytes = (\<lambda>b. b),
     sd_uint64 = (\<lambda>n. Inr [n]), sd_native = (\<lambda>v. Inr (JInt 1)),
     sd_build = (\<lambda>acc p f t c g ps. Inr ps), sd_entry_of = (\<lambda>x. Inr ()),
     sd_entry_address = (\<lambda>e. Inr None), sd_authorize = (\<lambda>e f n p. Inr e),
     sd_set_auth = (\<lambda>es tx. tx), sd_set_data = (\<lambda>d tx. Inr tx), sd_add_fee = (\<lambda>f tx. tx),
     sd_sign_tx = (\<lambda>k tx. tx), sd_meta_of = (\<lambda>x. Inr ()), sd_meta_v = (\<lambda>m. 4),
     sd_v4_return = (\<lambda>m. Inr []), sd_v3_return = (\<lambda>m. Inr []),
     sd_load_account = (\<lambda>rpc k n. (Inr (), n)),
     sd_simulate = (\<lambda>rpc tx n. (Inr \<lparr>si_error = None, si_auth = Some [Some []], si_data = [], si_fee = 0\<rparr>, n)),
     sd_latest_ledger = (\<lambda>rpc n. (Inr 0, n)),
     sd_send = (\<lambda>rpc tx n. (Inr (PENDING, [1]), n @ [tx])),
     sd_poll = (\<lambda>rpc h k n. (Inr (SUCCESS, []), n))\<rparr>"

definition open_cli :: "int list list list cli" where
  "open_cli cmd n = (Inr \<lparr>cp_returncode = 0, cp_stdout = [], cp_stderr = []\<rparr>, n)"

definition open_account :: smart_account where
  "open_account = \<lparr>sa_escrow_id = asc ''CE'', sa_smart_account = asc ''CS'',
     sa_owner_source = asc ''me'', sa_network = asc ''testnet''\<rparr>"

definition open_order :: create_args where
  "open_order = \<lparr>cr_sme = asc ''CS'', cr_supplier = asc ''GB'', cr_token = asc ''CT'', cr_amount = 5,
     cr_request_hash = asc ''ab'', cr_deadline = 9, cr_source = None\<rparr>"

lemma open_sdk_honest:
  "quiet_reads (\<lambda>n. n) open_cli open_sdk" "keeps_params (\<lambda>tx. tx) open_sdk"
  "sending_effect (\<lambda>n. n) (\<lambda>tx. tx) open_sdk" "refusal_effect (\<lambda>n. n) open_sdk"
  "raising_effect (\<lambda>n. n) (\<lambda>tx. tx) open_sdk"
  by (simp_all add: quiet_reads_def no_effect_def keeps_params_def sending_effect_def refusal_effect_def
      raising_effect_def open_sdk_def open_cli_def)

theorem smart_create_outcomes_witness:
  "\<exists>v ps. smart_create plain_runtime open_cli open_sdk open_account open_order [] = (Inr v, [ps]) \<and>
     smart_params open_sdk open_order = Inr ps"
proof -
  obtain r n' where e: "smart_create plain_runtime open_cli open_sdk open_account open_order [] = (r, n')"
    by (metis surj_pair)
  have "\<not> isl (fst (smart_create plain_runtime open_cli open_sdk open_account open_order []))" by code_simp
  then obtain v where "r = Inr v" using e by (cases r) auto
  with smart_create_outcomes [OF open_sdk_honest e] e show ?thesis by auto
qed

text \<open>The same ledger behind a connection that is lost once the server has taken the transaction: the
  escrow exists, and the exception is not the one that says so.\<close>

definition lost_sdk :: "(int list list list, unit, unit, int list list, unit, unit, int list, unit) sdk" where
  "lost_sdk = open_sdk\<lparr>sd_send := (\<lambda>rpc tx n. (Inl (OtherException ''ConnectionError''), n @ [tx]))\<rparr>"

lemma lost_sdk_honest:
  "quiet_reads (\<lambda>n. n) open_cli lost_sdk" "keeps_params (\<lambda>tx. tx) lost_sdk"
  "sending_effect (\<lambda>n. n) (\<lambda>tx. tx) lost_sdk" "refusal_effect (\<lambda>n. n) lost_sdk"
  "raising_effect (\<lambda>n. n) (\<lambda>tx. tx) lost_sdk"
  by (simp_all add: quiet_reads_def no_effect_def keeps_params_def sending_effect_def refusal_effect_def
      raising_effect_def lost_sdk_def open_sdk_def open_cli_def)

lemma lost_connection_creates:
  "\<exists>ps. smart_create plain_runtime open_cli lost_sdk open_account open_order [] =
     (Inl (OtherException ''ConnectionError''), [ps])"
proof -
  have "case smart_prepare open_cli lost_sdk open_account (asc ''https://soroban-testnet.stellar.org'')
      open_order [] of (Inr tx, []) \<Rightarrow> True | _ \<Rightarrow> False"
    by code_simp
  then obtain tx where "smart_prepare open_cli lost_sdk open_account
      (asc ''https://soroban-testnet.stellar.org'') open_order [] = (Inr tx, [])"
    by (auto split: prod.splits sum.splits list.splits)
  then show ?thesis
    by (simp add: smart_create_def rpc_of_def open_account_def py_bind_def smart_submit_def lost_sdk_def)
qed

end
