(* ===== verification/Webhooks.thy ===== *)
theory Webhooks
  imports Oracle_Anchor Json_Dumps
begin

text \<open>
  \<open>lumo/monitor/webhooks.py\<close>: which URLs may be called and how an event is delivered.
  \<open>urlparse\<close> is written out as far as scheme, host and port go.  The network \<open>'n\<close> and the
  tables of the \<open>ipaddress\<close> module are the parameter record \<open>net\<close>: the resolver, the
  classification of an address, the check of a bracketed host, and the sink's \<open>post\<close>.
\<close>

section \<open>\<open>urlparse\<close>\<close>

definition until :: "(int \<Rightarrow> bool) \<Rightarrow> pystr \<Rightarrow> pystr" where
  "until p s = takeWhile (\<lambda>c. \<not> p c) s"

text \<open>\<open>s.partition(c)\<close>: the text before the first \<open>c\<close>, whether there is one, and the rest.\<close>

definition partition_at :: "int \<Rightarrow> pystr \<Rightarrow> pystr \<times> bool \<times> pystr" where
  "partition_at c s = (let p = until (\<lambda>d. d = c) s in (p, c \<in> set s, drop (Suc (length p)) s))"

definition is_scheme_char :: "int \<Rightarrow> bool" where
  "is_scheme_char c \<longleftrightarrow> is_ascii_digit c \<or> is_ascii_upper c \<or> is_ascii_lower c \<or> c = 43 \<or> c = 45 \<or> c = 46"

text \<open>Leading controls and spaces go, tab, CR and LF go everywhere.\<close>

definition clean_url :: "pystr \<Rightarrow> pystr" where
  "clean_url url = filter (\<lambda>c. c \<noteq> 9 \<and> c \<noteq> 10 \<and> c \<noteq> 13) (dropWhile (\<lambda>c. 0 \<le> c \<and> c \<le> 32) url)"

definition url_scheme :: "pystr \<Rightarrow> pystr \<times> pystr" where
  "url_scheme s =
     (case partition_at 58 s of (p, found, r) \<Rightarrow>
        if found \<and> p \<noteq> [] \<and> (is_ascii_upper (hd p) \<or> is_ascii_lower (hd p)) \<and> list_all is_scheme_char p
        then (map ascii_lower p, r) else ([], s))"

definition url_netloc :: "pystr \<Rightarrow> pystr" where
  "url_netloc r =
     (if take 2 r = [47, 47] then until (\<lambda>c. c = 47 \<or> c = 63 \<or> c = 35) (drop 2 r) else [])"

record ip =
  ip_private :: bool
  ip_loopback :: bool
  ip_link_local :: bool
  ip_multicast :: bool
  ip_reserved :: bool
  ip_unspecified :: bool

record 'n net =
  nt_bracket_ok :: "pystr \<Rightarrow> bool"
  nt_getaddrinfo :: "pystr \<Rightarrow> int option \<Rightarrow> ('n, pystr list) py"
  nt_ip_address :: "pystr \<Rightarrow> ip result"
  nt_post :: "pystr \<Rightarrow> json \<Rightarrow> ('n, unit) py"

definition check_netloc :: "runtime \<Rightarrow> 'n net \<Rightarrow> pystr \<Rightarrow> unit result" where
  "check_netloc rt net netloc =
     (if (91 \<in> set netloc) \<noteq> (93 \<in> set netloc) then Inl (ValueError ''Invalid IPv6 URL'')
      else if 91 \<in> set netloc \<and> \<not> nt_bracket_ok net netloc then Inl (ValueError ''Invalid IPv6 URL'')
      else if list_all (\<lambda>c. c < 128) netloc then Inr ()
      else let n = filter (\<lambda>c. c \<noteq> 64 \<and> c \<noteq> 58 \<and> c \<noteq> 35 \<and> c \<noteq> 63) netloc; n2 = rt_nfkc rt n
           in if n \<noteq> n2 \<and> list_ex (\<lambda>c. c \<in> {47, 63, 35, 64, 58}) n2
              then Inl (ValueError ''netloc contains invalid characters under NFKC normalization'')
              else Inr ())"

text \<open>Host and port of the text behind the last \<open>@\<close>.\<close>

definition host_info :: "pystr \<Rightarrow> pystr \<times> pystr" where
  "host_info netloc =
     (let info = (if 64 \<in> set netloc then rev (until (\<lambda>c. c = 64) (rev netloc)) else netloc)
      in case partition_at 91 info of (_, open, bracketed) \<Rightarrow>
        if open then (case partition_at 93 bracketed of (h, _, p) \<Rightarrow>
          (h, snd (snd (partition_at 58 p))))
        else (case partition_at 58 info of (h, _, p) \<Rightarrow> (h, p)))"

definition url_hostname :: "runtime \<Rightarrow> pystr \<Rightarrow> pystr option" where
  "url_hostname rt netloc =
     (case fst (host_info netloc) of [] \<Rightarrow> None
      | h \<Rightarrow> (case partition_at 37 h of (name, found, zone) \<Rightarrow>
          Some (py_lower rt name @ (if found then 37 # zone else []))))"

definition url_port :: "runtime \<Rightarrow> pystr \<Rightarrow> int option result" where
  "url_port rt netloc =
     (case snd (host_info netloc) of [] \<Rightarrow> Inr None
      | p \<Rightarrow> if list_all is_ascii_digit p then rbind (py_int_of_str rt p) (\<lambda>n.
            if n \<le> 65535 then Inr (Some n) else Inl (ValueError ''Port out of range 0-65535''))
          else Inl (ValueError ''Port could not be cast to integer value''))"

section \<open>\<open>_validate_url\<close>\<close>

definition gaierror :: exn where
  "gaierror = OtherException ''gaierror''"

definition is_public :: "ip \<Rightarrow> bool" where
  "is_public a \<longleftrightarrow> \<not> (ip_private a \<or> ip_loopback a \<or> ip_link_local a \<or> ip_multicast a \<or>
     ip_reserved a \<or> ip_unspecified a)"

fun check_addresses :: "'n net \<Rightarrow> pystr list \<Rightarrow> unit result" where
  "check_addresses net [] = Inr ()"
| "check_addresses net (info # infos) =
     rbind (nt_ip_address net (until (\<lambda>c. c = 37) info)) (\<lambda>a.
       if is_public a then check_addresses net infos
       else Inl (WebhookURLError ''non-public address''))"

definition resolve :: "'n net \<Rightarrow> pystr \<Rightarrow> int option \<Rightarrow> ('n, pystr list) py" where
  "resolve net host port = py_except
     (nt_getaddrinfo net host (case port of Some n \<Rightarrow> if n = 0 then None else port | None \<Rightarrow> None))
     (\<lambda>e. py_raise (if e = gaierror then WebhookURLError ''cannot resolve host'' else e))"

definition validate_url :: "runtime \<Rightarrow> 'n net \<Rightarrow> pystr \<Rightarrow> ('n, unit) py" where
  "validate_url rt net url =
     (case url_scheme (clean_url url) of (scheme, rest) \<Rightarrow>
      let netloc = url_netloc rest in
      py_seq (py_lift (check_netloc rt net netloc))
       (if scheme \<noteq> asc ''http'' \<and> scheme \<noteq> asc ''https'' then py_raise (WebhookURLError ''unsupported scheme'')
        else case url_hostname rt netloc of
            None \<Rightarrow> py_raise (WebhookURLError ''no host in url'')
          | Some host \<Rightarrow>
              if host = [] then py_raise (WebhookURLError ''no host in url'')
              else py_bind (py_lift (url_port rt netloc)) (\<lambda>port.
                py_bind (resolve net host port) (\<lambda>infos. py_lift (check_addresses net infos)))))"

section \<open>Delivery\<close>

definition ATTEMPTS :: nat where
  "ATTEMPTS = 3"

fun post_attempts :: "'n net \<Rightarrow> pystr \<Rightarrow> json \<Rightarrow> nat \<Rightarrow> ('n, unit) py" where
  "post_attempts net url body 0 = py_ret ()"
| "post_attempts net url body (Suc k) =
     py_except (nt_post net url body) (\<lambda>_. post_attempts net url body k)"

text \<open>The body of the loop over the URLs: \<open>continue\<close> on a refused URL, other exceptions of the
  check leave the loop.\<close>

fun is_WebhookURLError :: "exn \<Rightarrow> bool" where
  "is_WebhookURLError (WebhookURLError _) = True"
| "is_WebhookURLError _ = False"

definition deliver :: "runtime \<Rightarrow> 'n net \<Rightarrow> json \<Rightarrow> pystr \<Rightarrow> ('n, unit) py" where
  "deliver rt net body url = py_bind
     (py_except (py_seq (validate_url rt net url) (py_ret True))
       (\<lambda>e. if is_WebhookURLError e then py_ret False else py_raise e))
     (\<lambda>allowed. if allowed then post_attempts net url body ATTEMPTS else py_ret ())"

definition event_body :: "event \<Rightarrow> json" where
  "event_body e = JObj [jkey ''name'' (JStr (asc (ev_name e))), jkey ''payload'' (JObj (ev_payload e)),
     jkey ''at'' (JInt (ev_at e))]"

definition webhook_call :: "runtime \<Rightarrow> 'n net \<Rightarrow> pystr list \<Rightarrow> event \<Rightarrow> ('n, unit) py" where
  "webhook_call rt net urls e = py_for urls (deliver rt net (event_body e))"

text \<open>\<open>register\<close> works on the list of the dispatcher.\<close>

definition webhook_register :: "runtime \<Rightarrow> 'n net \<Rightarrow> pystr \<Rightarrow> (pystr list \<times> 'n, unit) py" where
  "webhook_register rt net url = py_seq (on_snd (validate_url rt net url))
     (py_modify (\<lambda>(urls, n). (urls @ [url], n)))"

definition build_webhooks :: "runtime \<Rightarrow> 'n net \<Rightarrow> config \<Rightarrow> ('n, pystr list option) py" where
  "build_webhooks rt net c =
     (let urls = comma_items (cf_webhook_urls c)
      in if urls = [] then py_ret None
         else py_seq (py_for urls (validate_url rt net)) (py_ret (Some urls)))"

section \<open>\<open>MockSink\<close>\<close>

record mock_sink =
  ms_fail_times :: int
  ms_attempts :: nat
  ms_deliveries :: "(pystr \<times> json) list"

definition mock_post :: "pystr \<Rightarrow> json \<Rightarrow> (mock_sink, unit) py" where
  "mock_post url body s =
     (let s1 = s\<lparr>ms_attempts := Suc (ms_attempts s)\<rparr>
      in if 0 < ms_fail_times s1
         then (Inl (OtherException ''ConnectionError''), s1\<lparr>ms_fail_times := ms_fail_times s1 - 1\<rparr>)
         else (Inr (), s1\<lparr>ms_deliveries := ms_deliveries s1 @ [(url, body)]\<rparr>))"

end
