(* ===== verification/Metrics.thy ===== *)
theory Metrics
  imports Repo_Frames Json_Parse Json_Roundtrip
begin

text \<open>
  \<open>lumo/monitor/metrics.py\<close>: the counters a subscriber keeps in memory, the snapshot that
  reads counters and gauges from the store, and its rendering.  \<open>CAST(... AS INTEGER)\<close> and
  \<open>sum\<close> are SQLite's: the longest numeric prefix, saturated at 64 bits, and an error when the
  sum leaves 64 bits.
\<close>

definition COUNTERS :: "(string \<times> string) list" where
  "COUNTERS = [(''proposed'', ''intent.proposed''), (''refused'', ''intent.refused''),
     (''injection_blocked'', ''injection.blocked''), (''held'', ''intent.held''),
     (''released'', ''intent.released''), (''reverted'', ''intent.reverted''),
     (''refunded'', ''intent.refunded'')]"

definition event_to_counter :: "string \<Rightarrow> string option" where
  "event_to_counter event = map_of (map (\<lambda>(counter, event). (event, counter)) COUNTERS) event"

type_synonym counters = "(string \<times> nat) list"

definition new_metrics :: counters where
  "new_metrics = map (\<lambda>(counter, _). (counter, 0)) COUNTERS"

definition metrics_call :: "event \<Rightarrow> (counters, unit) py" where
  "metrics_call e =
     (case event_to_counter (ev_name e) of None \<Rightarrow> py_ret ()
      | Some counter \<Rightarrow> py_modify (map (\<lambda>(k, n). (k, if k = counter then n + 1 else n))))"

section \<open>\<open>snapshot\<close>\<close>

record snapshot =
  sn_counters :: counters
  sn_escrowed_value :: int
  sn_intents_open :: nat

definition clamp64 :: "int \<Rightarrow> int" where
  "clamp64 n = max (- (2 ^ 63)) (min (2 ^ 63 - 1) n)"

definition sql_cast_int :: "pystr \<Rightarrow> int" where
  "sql_cast_int s =
     (let t = dropWhile (\<lambda>c. c = 32 \<or> (9 \<le> c \<and> c \<le> 13)) s;
          neg = (take 1 t = [45]);
          u = (if neg \<or> take 1 t = [43] then tl t else t);
          n = digits_int (takeWhile is_ascii_digit u)
      in clamp64 (if neg then - n else n))"

fun sql_sum :: "int \<Rightarrow> int list \<Rightarrow> int result" where
  "sql_sum acc [] = Inr acc"
| "sql_sum acc (n # ns) = (if clamp64 (acc + n) = acc + n then sql_sum (acc + n) ns else Inl OperationalError)"

definition event_count :: "tables \<Rightarrow> string \<Rightarrow> nat" where
  "event_count t event = length (filter (\<lambda>r. er_name r = event) (t_events t))"

definition take_snapshot :: "tables \<Rightarrow> snapshot result" where
  "take_snapshot t =
     rbind (sql_sum 0 (map (\<lambda>r. sql_cast_int (in_amount r))
         (filter (\<lambda>r. in_status r = Escrowed) (t_intents t)))) (\<lambda>escrowed_value. Inr
       \<lparr>sn_counters = map (\<lambda>(counter, event). (counter, event_count t event)) COUNTERS,
        sn_escrowed_value = escrowed_value,
        sn_intents_open = length (filter (\<lambda>r. in_status r = Proposed \<or> in_status r = Held \<or>
          in_status r = Escrowed) (t_intents t))\<rparr>)"

definition snapshot_json :: "snapshot \<Rightarrow> json" where
  "snapshot_json s = JObj
     [jkey ''counters'' (JObj (map (\<lambda>(k, n). (asc k, JInt (int n))) (sn_counters s))),
      jkey ''gauges'' (JObj [jkey ''escrowed_value'' (JInt (sn_escrowed_value s)),
        jkey ''intents_open'' (JInt (int (sn_intents_open s)))])]"

section \<open>\<open>render_prometheus\<close>\<close>

definition PROM_COUNTERS :: "(string \<times> string) list" where
  "PROM_COUNTERS = [(''proposed'', ''lumo_intents_proposed_total''),
     (''refused'', ''lumo_intents_refused_total''),
     (''injection_blocked'', ''lumo_injection_blocked_total''),
     (''held'', ''lumo_intents_held_total''), (''released'', ''lumo_intents_released_total''),
     (''reverted'', ''lumo_intents_reverted_total''),
     (''refunded'', ''lumo_intents_refunded_total'')]"

definition PROM_GAUGES :: "(string \<times> string) list" where
  "PROM_GAUGES = [(''escrowed_value'', ''lumo_escrowed_value_stroops''),
     (''intents_open'', ''lumo_intents_open'')]"

definition gauge_value :: "snapshot \<Rightarrow> string \<Rightarrow> int result" where
  "gauge_value s gauge =
     (if gauge = ''escrowed_value'' then Inr (sn_escrowed_value s)
      else if gauge = ''intents_open'' then Inr (int (sn_intents_open s))
      else Inl (KeyError (asc gauge)))"

definition counter_value :: "snapshot \<Rightarrow> string \<Rightarrow> int result" where
  "counter_value s counter =
     (case map_of (sn_counters s) counter of None \<Rightarrow> Inl (KeyError (asc counter)) | Some n \<Rightarrow> Inr (int n))"

text \<open>The three lines of one metric.\<close>

definition metric_lines :: "string \<Rightarrow> string \<Rightarrow> string \<Rightarrow> int result \<Rightarrow> pystr list result" where
  "metric_lines metric kind help v =
     rbind (rbind v py_str_int) (\<lambda>n. Inr
       [asc (''# HELP '' @ metric @ '' '' @ help), asc (''# TYPE '' @ metric @ '' '' @ kind),
        asc (metric @ '' '') @ n])"

definition counter_lines :: "snapshot \<Rightarrow> string \<times> string \<Rightarrow> pystr list result" where
  "counter_lines s = (\<lambda>(counter, metric).
     metric_lines metric ''counter''
       (''Total '' @ (case map_of COUNTERS counter of None \<Rightarrow> [] | Some e \<Rightarrow> e) @ '' events.'')
       (counter_value s counter))"

definition gauge_lines :: "snapshot \<Rightarrow> string \<times> string \<Rightarrow> pystr list result" where
  "gauge_lines s = (\<lambda>(gauge, metric).
     metric_lines metric ''gauge''
       (''Current '' @ map (\<lambda>c. if c = CHR ''_'' then CHR '' '' else c) gauge @ ''.'')
       (gauge_value s gauge))"

definition render_prometheus :: "snapshot \<Rightarrow> pystr result" where
  "render_prometheus s =
     rbind (rmap (counter_lines s) PROM_COUNTERS) (\<lambda>cs.
     rbind (rmap (gauge_lines s) PROM_GAUGES) (\<lambda>gs.
     Inr (join_with 10 (concat cs @ concat gs) @ [10])))"

section \<open>Counters in memory and counters in the store\<close>

definition row_event :: "event_row \<Rightarrow> event" where
  "row_event r = \<lparr>ev_name = er_name r, ev_payload = er_payload r, ev_at = er_created_at r\<rparr>"

lemma event_to_counter_iff: "event_to_counter e = Some counter \<longleftrightarrow> (counter, e) \<in> set COUNTERS"
proof -
  have "distinct (map fst (map (\<lambda>(counter, event). (event, counter)) COUNTERS))"
    by (simp add: COUNTERS_def)
  from map_of_eq_Some_iff [OF this, of e counter] show ?thesis
    unfolding event_to_counter_def by auto
qed

lemma counters_inj:
  assumes "(c, e) \<in> set COUNTERS" and "(c', e') \<in> set COUNTERS"
  shows "c = c' \<longleftrightarrow> e = e'"
proof -
  have "distinct (map fst COUNTERS)" "distinct (map snd COUNTERS)" by (simp_all add: COUNTERS_def)
  then show ?thesis using assms by (metis distinct_map inj_on_eq_iff fst_conv snd_conv)
qed

lemma metrics_call_counts:
  "metrics_call e (map (\<lambda>(counter, event). (counter, f event)) COUNTERS) =
     (Inr (), map (\<lambda>(counter, event). (counter, if ev_name e = event then f event + 1 else f event)) COUNTERS)"
proof (cases "event_to_counter (ev_name e)")
  case None
  have "ev_name e \<noteq> event" if "(counter, event) \<in> set COUNTERS" for counter event
    using that None event_to_counter_iff [of "ev_name e" counter] by auto
  then have "map (\<lambda>(counter, event). (counter, if ev_name e = event then f event + 1 else f event)) COUNTERS
      = map (\<lambda>(counter, event). (counter, f event)) COUNTERS"
    by (intro map_cong) auto
  with None show ?thesis by (simp add: metrics_call_def py_ret_def)
next
  case (Some c)
  then have m: "(c, ev_name e) \<in> set COUNTERS" by (simp add: event_to_counter_iff)
  have eq: "k = c \<longleftrightarrow> ev_name e = ev" if "(k, ev) \<in> set COUNTERS" for k ev
    using counters_inj [OF m that] by auto
  have "map ((\<lambda>(k, n). (k, if k = c then n + 1 else n)) \<circ> (\<lambda>(counter, event). (counter, f event))) COUNTERS
      = map (\<lambda>(counter, event). (counter, if ev_name e = event then f event + 1 else f event)) COUNTERS"
    by (intro map_cong) (auto simp: eq)
  with Some show ?thesis by (simp add: metrics_call_def py_modify_def)
qed

lemma metrics_loop:
  "py_for es metrics_call (map (\<lambda>(counter, event). (counter, f event)) COUNTERS) =
     (Inr (), map (\<lambda>(counter, event). (counter, f event + length (filter (\<lambda>e. ev_name e = event) es))) COUNTERS)"
proof (induction es arbitrary: f)
  case (Cons e es)
  show ?case
    using Cons.IH [of "\<lambda>event. if ev_name e = event then f event + 1 else f event"]
    by (simp add: py_seq_def py_bind_def metrics_call_counts) auto
qed (simp add: py_ret_def)

text \<open>The counters a subscriber has kept in memory since the first event are the counters a
  snapshot reads from the store: one per kind of event, with the number of its rows.\<close>

theorem metrics_agree:
  "py_for (map row_event (t_events t)) metrics_call new_metrics =
     (Inr (), map (\<lambda>(counter, event). (counter, event_count t event)) COUNTERS)"
  using metrics_loop [of "map row_event (t_events t)" "\<lambda>_. 0"]
  by (simp add: new_metrics_def event_count_def filter_map comp_def row_event_def)

section \<open>The gauges\<close>

lemma takeWhile_nat_digits: "takeWhile is_ascii_digit (nat_digits n) = nat_digits n"
  using nat_digits_ascii [of n] by (simp add: takeWhile_eq_all_conv)

lemma sql_cast_int_text: "sql_cast_int (int_text n) = clamp64 n"
proof (cases "n < 0")
  case True
  then show ?thesis
    by (simp add: sql_cast_int_def int_text_def takeWhile_nat_digits digits_int_nat_digits)
next
  case False
  obtain c u where c: "nat_digits (nat n) = c # u" by (cases "nat_digits (nat n)") auto
  then have d: "48 \<le> c" "c \<le> 57" using nat_digits_hd [of "nat n"] by (simp_all add: is_ascii_digit_def)
  have "takeWhile is_ascii_digit (c # u) = nat_digits (nat n)" "digits_int (nat_digits (nat n)) = n"
    using takeWhile_nat_digits [of "nat n"] c digits_int_nat_digits [of "nat n"] False by simp_all
  then show ?thesis using False d c by (simp add: sql_cast_int_def int_text_def Let_def)
qed

lemma clamp64_id: "0 \<le> n \<Longrightarrow> n < 2 ^ 63 \<Longrightarrow> clamp64 n = n"
  by (simp add: clamp64_def)

lemma sql_sum_exact:
  "(\<forall>n \<in> set ns. 0 \<le> n) \<Longrightarrow> 0 \<le> acc \<Longrightarrow> acc + sum_list ns < 2 ^ 63 \<Longrightarrow> sql_sum acc ns = Inr (acc + sum_list ns)"
proof (induction ns arbitrary: acc)
  case (Cons n ns)
  then have "0 \<le> sum_list ns" by (intro sum_list_nonneg) simp
  then have "clamp64 (acc + n) = acc + n" using Cons.prems by (intro clamp64_id) auto
  with Cons show ?case by simp
qed simp

text \<open>As long as the escrowed total fits 64 bits, a snapshot never fails, its value at stake is
  exactly the sum of the amounts of the escrowed payments, and the number of open payments counts
  those that are proposed, held or escrowed.\<close>

theorem snapshot_exact:
  assumes "\<forall>r \<in> set (t_intents t). in_amount r = int_text (amount r) \<and> 0 \<le> amount r"
    and "sum_list (map amount (filter (\<lambda>r. in_status r = Escrowed) (t_intents t))) < 2 ^ 63"
  shows "\<exists>s. take_snapshot t = Inr s \<and>
    sn_escrowed_value s = sum_list (map amount (filter (\<lambda>r. in_status r = Escrowed) (t_intents t))) \<and>
    int (sn_intents_open s) = int (length (t_intents t)) -
      int (length (filter (\<lambda>r. in_status r = Released \<or> in_status r = Reverted) (t_intents t)))"
proof -
  let ?es = "filter (\<lambda>r. in_status r = Escrowed) (t_intents t)"
  have "amount r < 2 ^ 63" if r: "r \<in> set ?es" for r
  proof -
    have "amount r \<le> sum_list (map amount ?es)"
      using r assms(1) by (intro member_le_sum_list) auto
    with assms(2) show ?thesis by simp
  qed
  then have cast: "map (\<lambda>r. sql_cast_int (in_amount r)) ?es = map amount ?es"
    using assms(1) by (auto simp: sql_cast_int_text clamp64_id)
  have sum: "sql_sum 0 (map amount ?es) = Inr (0 + sum_list (map amount ?es))"
    using assms by (intro sql_sum_exact) auto
  have opn: "length (filter (\<lambda>r. in_status r = Proposed \<or> in_status r = Held \<or> in_status r = Escrowed) rs) +
      length (filter (\<lambda>r. in_status r = Released \<or> in_status r = Reverted) rs) = length rs" for rs
  proof (induction rs)
    case (Cons r rs)
    then show ?case by (cases "in_status r") simp_all
  qed simp
  have cnt: "int (length (filter (\<lambda>r. in_status r = Proposed \<or> in_status r = Held \<or> in_status r = Escrowed) (t_intents t)))
      = int (length (t_intents t)) - int (length (filter (\<lambda>r. in_status r = Released \<or> in_status r = Reverted) (t_intents t)))"
    using opn [of "t_intents t"] by linarith
  show ?thesis unfolding take_snapshot_def cast sum by (simp add: cnt)
qed

definition gauge_row :: "status \<Rightarrow> string \<Rightarrow> intent_row" where
  "gauge_row st amount = \<lparr>in_id = [], in_request_hash = [], in_supplier_id = [],
     in_amount = asc amount, in_token = [], in_deadline = 0, in_status = st, in_chain_id = None,
     in_invoice_ref = None, in_created_at = 0\<rparr>"

definition gauge_tables :: tables where
  "gauge_tables = empty_tables\<lparr>t_intents := [gauge_row Escrowed ''5'', gauge_row Held ''7'',
     gauge_row Released ''9'', gauge_row Escrowed ''20'']\<rparr>"

theorem snapshot_exact_witness:
  "\<exists>s. take_snapshot gauge_tables = Inr s \<and> sn_escrowed_value s = 25 \<and> sn_intents_open s = 3"
proof -
  let ?amount = "\<lambda>r. digits_int (in_amount r)"
  have rows: "set (t_intents gauge_tables) = {gauge_row Escrowed ''5'', gauge_row Held ''7'',
      gauge_row Released ''9'', gauge_row Escrowed ''20''}"
    by (simp add: gauge_tables_def empty_tables_def)
  have "\<forall>r \<in> set (t_intents gauge_tables). in_amount r = int_text (?amount r) \<and> 0 \<le> ?amount r"
    unfolding rows ball_simps by (intro conjI) (code_simp+)
  moreover have "sum_list (map ?amount (filter (\<lambda>r. in_status r = Escrowed) (t_intents gauge_tables))) < 2 ^ 63"
    by code_simp
  moreover have "sum_list (map ?amount (filter (\<lambda>r. in_status r = Escrowed) (t_intents gauge_tables))) = 25"
    by code_simp
  moreover have "length (t_intents gauge_tables) = 4"
    "length (filter (\<lambda>r. in_status r = Released \<or> in_status r = Reverted) (t_intents gauge_tables)) = 1"
    by code_simp+
  ultimately show ?thesis using snapshot_exact [of gauge_tables ?amount] by auto
qed

end
