(* ===== verification/Sdk.thy ===== *)
theory Sdk
  imports Webhooks Metrics Mock_LLM
begin

text \<open>
  \<open>LumoClient\<close> (\<open>lumo/sdk.py\<close>) and the JSON its callers send out.  The client is the
  configuration, the extractor and the world; the subscribers' state is the pair of the
  caller's own state \<open>'u\<close> and the network \<open>'n\<close> the configured webhooks work on.
\<close>

section \<open>Rows and results as JSON\<close>

fun status_name :: "status \<Rightarrow> string" where
  "status_name Proposed = ''proposed''"
| "status_name Held = ''held''"
| "status_name Escrowed = ''escrowed''"
| "status_name Released = ''released''"
| "status_name Reverted = ''reverted''"

fun verdict_name :: "verdict \<Rightarrow> string" where
  "verdict_name V_proposed = ''proposed''"
| "verdict_name V_held = ''held''"
| "verdict_name V_refused = ''refused''"

text \<open>\<open>strftime('%Y-%m-%dT%H:%M:%fZ')\<close> of a time in milliseconds, proleptic Gregorian.\<close>

definition civil_date :: "int \<Rightarrow> int \<times> int \<times> int" where
  "civil_date days =
     (let z = days + 719468; era = z div 146097; doe = z mod 146097;
          yoe = (doe - doe div 1460 + doe div 36524 - doe div 146096) div 365;
          doy = doe - (365 * yoe + yoe div 4 - yoe div 100);
          mp = (5 * doy + 2) div 153;
          d = doy - (153 * mp + 2) div 5 + 1;
          m = (if mp < 10 then mp + 3 else mp - 9)
      in (yoe + era * 400 + (if m \<le> 2 then 1 else 0), m, d))"

definition pad :: "nat \<Rightarrow> int \<Rightarrow> pystr" where
  "pad k n = (let ds = nat_digits (nat n) in replicate (k - length ds) 48 @ ds)"

definition iso_time :: "int \<Rightarrow> pystr" where
  "iso_time ms =
     (case civil_date (ms div 86400000) of (y, m, d) \<Rightarrow>
        let t = ms mod 86400000
        in pad 4 y @ [45] @ pad 2 m @ [45] @ pad 2 d @ [84] @ pad 2 (t div 3600000) @ [58] @
           pad 2 (t div 60000 mod 60) @ [58] @ pad 2 (t div 1000 mod 60) @ [46] @ pad 3 (t mod 1000) @ [90])"

text \<open>\<open>dict(row)\<close> of an intent.\<close>

definition intent_json :: "intent_row \<Rightarrow> json" where
  "intent_json r = JObj
     [jkey ''id'' (JStr (in_id r)), jkey ''request_hash'' (JStr (in_request_hash r)),
      jkey ''supplier_id'' (JStr (in_supplier_id r)), jkey ''amount'' (JStr (in_amount r)),
      jkey ''token'' (JStr (in_token r)), jkey ''deadline'' (JInt (in_deadline r)),
      jkey ''status'' (JStr (asc (status_name (in_status r)))),
      jkey ''chain_intent_id'' (case in_chain_id r of None \<Rightarrow> JNull | Some n \<Rightarrow> JInt n),
      jkey ''invoice_ref'' (json_opt (in_invoice_ref r)),
      jkey ''created_at'' (JStr (iso_time (in_created_at r)))]"

text \<open>\<open>PipelineResult.model_dump()\<close>\<close>

definition plan_json :: "tx_plan \<Rightarrow> json" where
  "plan_json p = JObj
     [jkey ''function'' (JStr (asc (tp_function p))),
      jkey ''args'' (let a = tp_args p in JObj
        [jkey ''sme'' (JStr (ta_sme a)), jkey ''supplier'' (JStr (ta_supplier a)),
         jkey ''token'' (JStr (ta_token a)), jkey ''amount'' (JStr (ta_amount a)),
         jkey ''request_hash'' (JStr (ta_request_hash a)), jkey ''deadline'' (JInt (ta_deadline a))])]"

definition result_json :: "pipeline_result \<Rightarrow> json" where
  "result_json r = JObj
     [jkey ''decision'' (JStr (asc (verdict_name (res_decision r)))),
      jkey ''codes'' (json_codes (res_codes r)),
      jkey ''flags'' (JArr (map (\<lambda>f. JStr (asc f)) (res_flags r))),
      jkey ''request_hash'' (JStr (res_request_hash r)),
      jkey ''tx_plan'' (case res_tx_plan r of None \<Rightarrow> JNull | Some p \<Rightarrow> plan_json p),
      jkey ''intent_id'' (json_opt (res_intent_id r))]"

section \<open>\<open>LumoClient\<close>\<close>

definition attest_kinds :: "string list" where
  "attest_kinds = [''Shipped'', ''Failed'']"

text \<open>\<open>on_event\<close>: a subscriber more.\<close>

definition sdk_on_event :: "(event \<Rightarrow> ('s, unit) py) \<Rightarrow> ('s world, unit) py" where
  "sdk_on_event subscriber = py_modify (\<lambda>w. w\<lparr>w_subscribers := w_subscribers w @ [subscriber]\<rparr>)"

text \<open>The constructor on a migrated database: the rules are seeded once, the bus and the configured
  webhooks are set up, and the extractor is returned.\<close>

definition sdk_init :: "runtime \<Rightarrow> 'n net \<Rightarrow> config \<Rightarrow> provider \<Rightarrow> (('u \<times> 'n) world, provider) py" where
  "sdk_init rt net c exchange =
     py_bind (db_read (\<lambda>t. t_rules t = [])) (\<lambda>fresh.
     py_seq (py_when fresh seed)
     (py_seq (py_modify (\<lambda>w. w\<lparr>w_bus_enabled := cf_monitoring c, w_subscribers := [], w_recent := []\<rparr>))
     (py_bind (on_subs (on_snd (build_webhooks rt net c))) (\<lambda>hooks.
     py_seq (case hooks of None \<Rightarrow> py_ret ()
        | Some urls \<Rightarrow> sdk_on_event (\<lambda>e. on_snd (webhook_call rt net urls e)))
     (py_lift (build_provider rt c exchange))))))"

definition sdk_propose :: "runtime \<Rightarrow> provider \<Rightarrow> config \<Rightarrow> pystr \<Rightarrow> ('s world, pipeline_result) py" where
  "sdk_propose rt provider c invoice = run rt invoice provider c None None"

definition sdk_status :: "pystr \<Rightarrow> ('s world, json option) py" where
  "sdk_status intent_id = db_read (\<lambda>t. map_option intent_json (intent intent_id t))"

definition sdk_attest :: "config \<Rightarrow> pystr \<Rightarrow> pystr \<Rightarrow> ('s world, pystr list) py" where
  "sdk_attest c intent_id kind =
     (if kind \<notin> asc ` set attest_kinds then py_raise (ValueError ''unknown attestation kind'')
      else py_bind (db_read (intent intent_id)) (\<lambda>row.
        case row of None \<Rightarrow> py_raise (ValueError ''unknown intent'')
        | Some r \<Rightarrow> py_bind (py_lift (build_oracle c)) (\<lambda>ora.
            oracle_submit (case ora of Some o' \<Rightarrow> o'
              | None \<Rightarrow> LocalSignerSet [if cf_oracle_address c \<noteq> [] then cf_oracle_address c else asc ''local-oracle''])
              intent_id kind (in_request_hash r))))"

definition sdk_metrics :: "('s world, json) py" where
  "sdk_metrics = py_bind (db_read take_snapshot) (\<lambda>s. py_lift (rbind s (\<lambda>x. Inr (snapshot_json x))))"

section \<open>Frames\<close>

context step_relation
begin

lemma W_on_event: "evolves W (sdk_on_event f)"
  unfolding sdk_on_event_def by (rule W_same_db) (simp add: evolves_def same_db_def)

lemma W_on_subs: "evolves W (on_subs m)"
  by (rule W_same_db) (auto simp: evolves_def same_db_def on_subs_def split: prod.splits)

lemma W_sdk_init: "evolves W (sdk_init rt net c exchange)"
  unfolding sdk_init_def
  by (auto intro!: W_step W_seed W_on_subs W_on_event W_same_db [of "py_modify _"]
      simp: evolves_def [of same_db] same_db_def split: option.split)

lemma W_sdk_propose: "evolves W (sdk_propose rt provider c text)"
  unfolding sdk_propose_def by (rule W_run)

lemma W_sdk_status: "evolves W (sdk_status i)"
  unfolding sdk_status_def by (rule W_read)

lemma W_sdk_attest: "evolves W (sdk_attest c i k)"
  unfolding sdk_attest_def by (auto intro!: W_step W_oracle_submit split: option.split)

lemma W_sdk_metrics: "evolves W sdk_metrics"
  unfolding sdk_metrics_def by (auto intro!: W_step)

lemmas W_sdk = W_sdk_init W_sdk_propose W_sdk_status W_sdk_attest W_sdk_metrics W_on_event W_on_subs

end

end
