(* ===== verification/Cli.thy ===== *)
theory Cli
  imports Sdk Flow
begin

text \<open>
  The command line (\<open>lumo/cli.py\<close>) and the end-to-end run of the test page
  (\<open>lumo/testtool.py\<close>).  \<open>argparse\<close> has turned the arguments into a \<open>command\<close>; the invoice
  file is its text or the error of reading it.  The chain is any adapter on \<open>'c\<close>, or the error of
  \<open>build_chain_adapter\<close>.
\<close>

type_synonym ('u, 'n, 'c, 'a) app = "(('u \<times> 'n) world \<times> 'c, 'a) py"

datatype command =
    Init
  | Propose "pystr result"
  | Execute pystr
  | Attest pystr pystr
  | Release pystr
  | Revert pystr
  | Sync pystr

definition EXIT_PROPOSED :: int where "EXIT_PROPOSED = 0"
definition EXIT_REFUSED :: int where "EXIT_REFUSED = 2"
definition EXIT_ERROR :: int where "EXIT_ERROR = 3"

record 'n run_env =
  su_rt :: runtime
  su_net :: "'n net"
  su_config :: config
  su_exchange :: provider

section \<open>\<open>main\<close>\<close>

text \<open>The event bus, with the configured webhooks.\<close>

definition open_bus :: "'n run_env \<Rightarrow> (('u \<times> 'n) world, unit) py" where
  "open_bus su =
     py_seq (py_modify (\<lambda>w. w\<lparr>w_bus_enabled := cf_monitoring (su_config su), w_subscribers := [], w_recent := []\<rparr>))
     (py_bind (on_subs (on_snd (build_webhooks (su_rt su) (su_net su) (su_config su)))) (\<lambda>hooks.
      case hooks of None \<Rightarrow> py_ret ()
      | Some urls \<Rightarrow> sdk_on_event (\<lambda>e. on_snd (webhook_call (su_rt su) (su_net su) urls e))))"

definition status_reply :: "pystr \<Rightarrow> status \<Rightarrow> json" where
  "status_reply i st = JObj [jkey ''intent_id'' (JStr i), jkey ''status'' (JStr (asc (status_name st)))]"

definition cli_chain_command :: "'n run_env \<Rightarrow> 'c chain_adapter \<Rightarrow> command \<Rightarrow> ('u, 'n, 'c, json option) app" where
  "cli_chain_command su cl cmd =
     (let rt = su_rt su; c = su_config su
      in case cmd of
        Execute i \<Rightarrow> py_bind (execute rt cl i (cf_sme_source c) c) (\<lambda>chain_id. py_ret (Some (JObj
          [jkey ''intent_id'' (JStr i),
           jkey ''chain_intent_id'' (case chain_id of None \<Rightarrow> JNull | Some n \<Rightarrow> JInt n)])))
      | Attest i kind \<Rightarrow> py_bind (py_lift (build_oracle c)) (\<lambda>ora.
          py_seq (attest rt cl i kind (cf_oracle_address c) (cf_oracle_source c) ora) (py_ret (Some (JObj
            [jkey ''intent_id'' (JStr i), jkey ''attested'' (JStr kind)]))))
      | Release i \<Rightarrow> py_bind (release rt cl i (cf_sme_source c) c) (\<lambda>st. py_ret (Some (status_reply i st)))
      | Revert i \<Rightarrow> py_bind (revert cl i (cf_sme_source c)) (\<lambda>st. py_ret (Some (status_reply i st)))
      | Sync i \<Rightarrow> py_bind (sync_status cl i) (\<lambda>st. py_ret (Some (status_reply i st)))
      | _ \<Rightarrow> py_ret None)"

definition cli_propose :: "'n run_env \<Rightarrow> pystr result \<Rightarrow> (('u \<times> 'n) world, int \<times> json option) py" where
  "cli_propose su invoice =
     py_bind (py_lift invoice) (\<lambda>text.
     py_bind (py_lift (build_provider (su_rt su) (su_config su) (su_exchange su))) (\<lambda>provider.
     py_bind (run (su_rt su) text provider (su_config su) None None) (\<lambda>r.
     py_ret (if res_decision r = V_proposed then EXIT_PROPOSED else EXIT_REFUSED, Some (result_json r)))))"

text \<open>What is printed is a JSON value, or nothing for \<open>init\<close> and for an error.\<close>

definition cli_run :: "'n run_env \<Rightarrow> 'c chain_adapter result \<Rightarrow> command \<Rightarrow> ('u, 'n, 'c, int \<times> json option) app" where
  "cli_run su adapter cmd =
     (case cmd of
        Init \<Rightarrow> py_seq (on_fst seed) (py_ret (EXIT_PROPOSED, None))
      | Propose invoice \<Rightarrow> py_seq (on_fst (open_bus su)) (on_fst (cli_propose su invoice))
      | _ \<Rightarrow> py_seq (on_fst (open_bus su)) (py_bind (py_lift adapter) (\<lambda>cl.
          py_bind (cli_chain_command su cl cmd) (\<lambda>out.
          py_seq (py_lift (case out of None \<Rightarrow> Inr [] | Some v \<Rightarrow> json_dumps v))
            (py_ret (EXIT_PROPOSED, out))))))"

definition cli_main :: "'n run_env \<Rightarrow> 'c chain_adapter result \<Rightarrow> command \<Rightarrow> ('u, 'n, 'c, int \<times> json option) app" where
  "cli_main su adapter cmd = py_except (cli_run su adapter cmd) (\<lambda>_. py_ret (EXIT_ERROR, None))"

section \<open>\<open>testtool.run_invoice\<close>\<close>

definition explorer_tx :: pystr where
  "explorer_tx = asc ''https://stellar.expert/explorer/testnet/tx/''"

definition step_of_action :: "(string \<times> string) list" where
  "step_of_action = [(''create_intent'', ''create_intent''), (''attest_shipped'', ''attest''),
     (''release'', ''release'')]"

text \<open>\<open>{r["action"]: r["tx_hash"] for r in ...}\<close>: the last hash of an action.\<close>

definition action_hashes :: "chain_tx_row list \<Rightarrow> (pystr \<times> pystr option) list" where
  "action_hashes rs = foldl (\<lambda>d r. dict_put (ct_action r) (ct_tx_hash r) d) [] rs"

definition tx_steps :: "chain_tx_row list \<Rightarrow> json list" where
  "tx_steps rs = List.map_filter (\<lambda>(action, step).
     (case map_of (action_hashes rs) (asc action) of
        Some (Some h) \<Rightarrow> if h = [] then None else Some (JObj
          [jkey ''step'' (JStr (asc step)), jkey ''hash'' (JStr h), jkey ''url'' (JStr (explorer_tx @ h))])
      | _ \<Rightarrow> None)) step_of_action"

definition run_out :: "pipeline_result \<Rightarrow> json list \<Rightarrow> (pystr \<times> json) list" where
  "run_out r txs =
     [jkey ''decision'' (JStr (asc (verdict_name (res_decision r)))),
      jkey ''codes'' (json_codes (res_codes r)),
      jkey ''flags'' (JArr (map (\<lambda>f. JStr (asc f)) (res_flags r))),
      jkey ''request_hash'' (JStr (res_request_hash r)), jkey ''txs'' (JArr txs)]"

definition settle :: "'n run_env \<Rightarrow> 'c chain_adapter \<Rightarrow> pystr \<Rightarrow> ('u, 'n, 'c, unit) app" where
  "settle su cl i =
     (let rt = su_rt su; c = su_config su
      in py_bind (execute rt cl i (cf_sme_source c) c) (\<lambda>_.
         py_seq (attest rt cl i (asc ''Shipped'') (cf_oracle_address c) (cf_oracle_source c) None)
           (py_bind (release rt cl i (cf_sme_source c) c) (\<lambda>_. py_ret ()))))"

definition run_invoice :: "'n run_env \<Rightarrow> 'c chain_adapter result \<Rightarrow> pystr \<Rightarrow> ('u, 'n, 'c, json) app" where
  "run_invoice su adapter text =
     py_bind (on_fst (sdk_init (su_rt su) (su_net su) (su_config su) (su_exchange su))) (\<lambda>provider.
     py_bind (on_fst (sdk_propose (su_rt su) provider (su_config su) text)) (\<lambda>r.
     if res_decision r \<noteq> V_proposed then py_ret (JObj (run_out r []))
     else py_bind (py_lift adapter) (\<lambda>cl.
       let i = or_empty (res_intent_id r)
       in py_seq (settle su cl i) (py_bind (from_db (chain_txs i)) (\<lambda>rs.
            py_ret (JObj (run_out r (tx_steps rs) @ [jkey ''intent_id'' (json_opt (res_intent_id r))])))))))"

section \<open>Frames\<close>

context repo_relation
begin

lemma W_open_bus: "evolves W (open_bus su)"
  unfolding open_bus_def
  by (auto intro!: W_step W_sdk W_same_db [of "py_modify _"] simp: evolves_def [of same_db] same_db_def
      split: option.split)

lemma W_cli_propose: "evolves W (cli_propose su invoice)"
  unfolding cli_propose_def by (auto intro!: W_step W_run)

lemma F_chain_command: "evolves F (cli_chain_command su cl cmd)"
  unfolding cli_chain_command_def Let_def
  by (auto intro!: F_intros F_execute F_attest F_release F_revert F_sync_status split: command.split)

lemma F_cli_main: "evolves F (cli_main su adapter cmd)"
  unfolding cli_main_def cli_run_def
  by (auto intro!: F_intros F_fst W_seed W_open_bus W_cli_propose F_chain_command split: command.split)

lemma F_run_invoice: "evolves F (run_invoice su adapter text)"
  unfolding run_invoice_def settle_def Let_def
  by (auto intro!: F_intros F_fst F_execute F_attest F_release W_read W_sdk)

end

end
