(* ===== verification/Api.thy ===== *)
theory Api
  imports Sdk Json_Errors
begin

text \<open>
  The HTTP front end (\<open>lumo/api.py\<close>): routes, body limit and status codes over the client of
  \<open>Sdk\<close>.  The server's class attributes are the record \<open>api\<close>: the client's extractor once it
  has been created, and the world, whose subscribers' state holds the URL list of the API's own
  webhook dispatcher.  A request carries its path, its \<open>Content-Length\<close> and, per length read,
  its decoded body or the decoding error.  \<open>str(exc)\<close> is the parameter \<open>exc_text\<close>; sending a
  finished response is not modelled.
\<close>

section \<open>State\<close>

record 'n api =
  ap_provider :: "provider option"
  ap_world :: "(pystr list option \<times> 'n) world"

record request =
  rq_path :: pystr
  rq_length :: "pystr option"
  rq_body :: "int \<Rightarrow> pystr result"

record 'n server =
  sv_rt :: runtime
  sv_net :: "'n net"
  sv_config :: config
  sv_exchange :: provider
  sv_exc_text :: "exn \<Rightarrow> pystr"
  sv_decision_schema :: json

type_synonym response = "int \<times> pystr"

definition on_world :: "((pystr list option \<times> 'n) world, 'a) py \<Rightarrow> ('n api, 'a) py" where
  "on_world m = (\<lambda>s. case m (ap_world s) of (r, w) \<Rightarrow> (r, s\<lparr>ap_world := w\<rparr>))"

definition MAX_BODY_BYTES :: int where
  "MAX_BODY_BYTES = 1024 * 1024"

definition payload_too_large :: exn where
  "payload_too_large = OtherException ''_PayloadTooLarge''"

definition openapi :: "json \<Rightarrow> json" where
  "openapi decision_schema =
    JObj
    [jkey ''openapi'' (JStr (asc ''3.0.3'')),
     jkey ''info'' (JObj
      [jkey ''title'' (JStr (asc ''Lumo API'')),
       jkey ''version'' (JStr (asc ''0.1.0'')),
       jkey ''description'' (JStr (asc ''Propose invoice payments through the Lumo guard chain.''))]),
     jkey ''paths'' (JObj
      [jkey ''/v1/intents'' (JObj
        [jkey ''post'' (JObj
          [jkey ''summary'' (JStr (asc ''Run an invoice through the pipeline and record a decision'')),
           jkey ''requestBody'' (JObj
            [jkey ''required'' (JBool True),
             jkey ''content'' (JObj
              [jkey ''application/json'' (JObj
                [jkey ''schema'' (JObj
                  [jkey ''type'' (JStr (asc ''object'')),
                   jkey ''properties'' (JObj
                    [jkey ''invoice'' (JObj
                      [jkey ''type'' (JStr (asc ''string''))])]),
                   jkey ''required'' (JArr [JStr (asc ''invoice'')])])])])]),
           jkey ''responses'' (JObj
            [jkey ''200'' (JObj
              [jkey ''description'' (JStr (asc ''Decision (proposed, held, or refused)'')),
               jkey ''content'' (JObj
                [jkey ''application/json'' (JObj
                  [jkey ''schema'' (JObj
                    [jkey ''$ref'' (JStr (asc ''#/components/schemas/Decision''))])])])])])])]),
       jkey ''/v1/intents/{intent_id}'' (JObj
        [jkey ''get'' (JObj
          [jkey ''summary'' (JStr (asc ''Fetch a stored intent'')),
           jkey ''parameters'' (JArr
            [JObj
             [jkey ''name'' (JStr (asc ''intent_id'')),
              jkey ''in'' (JStr (asc ''path'')),
              jkey ''required'' (JBool True),
              jkey ''schema'' (JObj
               [jkey ''type'' (JStr (asc ''string''))])]]),
           jkey ''responses'' (JObj
            [jkey ''200'' (JObj
              [jkey ''description'' (JStr (asc ''Intent row''))]),
             jkey ''404'' (JObj
              [jkey ''description'' (JStr (asc ''Unknown intent''))])])])]),
       jkey ''/v1/intents/{intent_id}/attest'' (JObj
        [jkey ''post'' (JObj
          [jkey ''summary'' (JStr (asc ''Record an oracle attestation for an intent'')),
           jkey ''requestBody'' (JObj
            [jkey ''required'' (JBool True),
             jkey ''content'' (JObj
              [jkey ''application/json'' (JObj
                [jkey ''schema'' (JObj
                  [jkey ''type'' (JStr (asc ''object'')),
                   jkey ''properties'' (JObj
                    [jkey ''kind'' (JObj
                      [jkey ''type'' (JStr (asc ''string'')),
                       jkey ''enum'' (JArr [JStr (asc ''Shipped''), JStr (asc ''Failed'')])])]),
                   jkey ''required'' (JArr [JStr (asc ''kind'')])])])])]),
           jkey ''responses'' (JObj
            [jkey ''200'' (JObj
              [jkey ''description'' (JStr (asc ''Attestation recorded''))]),
             jkey ''404'' (JObj
              [jkey ''description'' (JStr (asc ''Unknown intent''))])])])]),
       jkey ''/v1/metrics'' (JObj
        [jkey ''get'' (JObj
          [jkey ''summary'' (JStr (asc ''Counters and gauges snapshot'')),
           jkey ''responses'' (JObj
            [jkey ''200'' (JObj
              [jkey ''description'' (JStr (asc ''Metrics''))])])])]),
       jkey ''/v1/webhooks'' (JObj
        [jkey ''post'' (JObj
          [jkey ''summary'' (JStr (asc ''Register a webhook URL for pipeline events'')),
           jkey ''requestBody'' (JObj
            [jkey ''required'' (JBool True),
             jkey ''content'' (JObj
              [jkey ''application/json'' (JObj
                [jkey ''schema'' (JObj
                  [jkey ''type'' (JStr (asc ''object'')),
                   jkey ''properties'' (JObj
                    [jkey ''url'' (JObj
                      [jkey ''type'' (JStr (asc ''string''))])]),
                   jkey ''required'' (JArr [JStr (asc ''url'')])])])])]),
           jkey ''responses'' (JObj
            [jkey ''200'' (JObj
              [jkey ''description'' (JStr (asc ''Registered URLs''))])])])])]),
     jkey ''components'' (JObj
      [jkey ''schemas'' (JObj
        [jkey ''Decision'' (decision_schema)])])]"

text \<open>\<open>_client()\<close> and \<open>_dispatcher()\<close> create on first use; the dispatcher's list exists before the
  client is asked for.\<close>

definition api_client :: "'n server \<Rightarrow> ('n api, provider) py" where
  "api_client sv = py_bind (py_gets ap_provider) (\<lambda>p.
     case p of Some provider \<Rightarrow> py_ret provider
     | None \<Rightarrow> py_bind (on_world (sdk_init (sv_rt sv) (sv_net sv) (sv_config sv) (sv_exchange sv)))
         (\<lambda>provider. py_seq (py_modify (\<lambda>s. s\<lparr>ap_provider := Some provider\<rparr>)) (py_ret provider)))"

definition api_subscriber :: "'n server \<Rightarrow> event \<Rightarrow> (pystr list option \<times> 'n, unit) py" where
  "api_subscriber sv e = (\<lambda>(urls, n).
     case webhook_call (sv_rt sv) (sv_net sv) (case urls of None \<Rightarrow> [] | Some us \<Rightarrow> us) e n of
       (r, n') \<Rightarrow> (r, (urls, n')))"

definition api_urls :: "'n api \<Rightarrow> pystr list option" where
  "api_urls s = fst (w_subs (ap_world s))"

definition set_api_urls :: "pystr list \<Rightarrow> ('n api, unit) py" where
  "set_api_urls us = on_world (on_subs (py_modify (\<lambda>(_, n). (Some us, n))))"

definition api_dispatcher :: "'n server \<Rightarrow> ('n api, unit) py" where
  "api_dispatcher sv = py_bind (py_gets api_urls) (\<lambda>urls.
     case urls of Some _ \<Rightarrow> py_ret ()
     | None \<Rightarrow> py_seq (set_api_urls []) (py_bind (api_client sv) (\<lambda>_.
         on_world (sdk_on_event (api_subscriber sv)))))"

definition api_register :: "'n server \<Rightarrow> pystr \<Rightarrow> ('n api, unit) py" where
  "api_register sv url = on_world (on_subs (\<lambda>(urls, n).
     case webhook_register (sv_rt sv) (sv_net sv) url (case urls of None \<Rightarrow> [] | Some us \<Rightarrow> us, n) of
       (r, (us, n')) \<Rightarrow> (r, (if urls = None then None else Some us, n'))))"

section \<open>Bodies and responses\<close>

definition reply :: "int \<Rightarrow> json \<Rightarrow> response result" where
  "reply code data = rbind (json_dumps data) (\<lambda>t. Inr (code, t))"

definition error_json :: "pystr \<Rightarrow> json" where
  "error_json message = JObj [jkey ''error'' (JStr message)]"

definition reply_error :: "int \<Rightarrow> string \<Rightarrow> response result" where
  "reply_error code message = reply code (error_json (asc message))"

definition read_body :: "runtime \<Rightarrow> request \<Rightarrow> (pystr \<times> json) list result" where
  "read_body rt rq =
     (case rq_length rq of None \<Rightarrow> Inl (ValueError ''Content-Length header is required'')
      | Some raw_length \<Rightarrow>
          (case py_int_of_str rt raw_length of Inl _ \<Rightarrow> Inl (ValueError ''Content-Length must be an integer'')
           | Inr n \<Rightarrow>
               if n < 0 then Inl (ValueError ''Content-Length must not be negative'')
               else if MAX_BODY_BYTES < n then Inl payload_too_large
               else rbind (rq_body rq n) (\<lambda>raw.
                 rbind (if raw \<noteq> [] then json_loads raw else Inr (JObj [])) (\<lambda>body.
                   case body of JObj d \<Rightarrow> Inr d | _ \<Rightarrow> Inl (ValueError ''body must be a JSON object'')))))"

definition body_str :: "(pystr \<times> json) list \<Rightarrow> string \<Rightarrow> pystr option" where
  "body_str d key = (case dict_get d key of Some (JStr s) \<Rightarrow> if s \<noteq> [] then Some s else None | _ \<Rightarrow> None)"

text \<open>\<open>INTENT_PATH\<close> and \<open>ATTEST_PATH\<close>; a request path contains no line end.\<close>

definition intents_prefix :: pystr where
  "intents_prefix = asc ''/v1/intents/''"

definition segment :: "pystr \<Rightarrow> pystr option" where
  "segment s = (if s \<noteq> [] \<and> 47 \<notin> set s then Some s else None)"

definition intent_path :: "pystr \<Rightarrow> pystr option" where
  "intent_path p =
     (if take (length intents_prefix) p = intents_prefix then segment (drop (length intents_prefix) p) else None)"

definition attest_path :: "pystr \<Rightarrow> pystr option" where
  "attest_path p =
     (let k = length p - 7
      in if drop k p = asc ''/attest'' then intent_path (take k p) else None)"

section \<open>\<open>do_GET\<close>\<close>

definition do_get :: "'n server \<Rightarrow> request \<Rightarrow> ('n api, response) py" where
  "do_get sv rq =
     (if rq_path rq = asc ''/v1/metrics'' then
        py_seq (api_client sv) (py_bind (on_world sdk_metrics) (\<lambda>m. py_lift (reply 200 m)))
      else if rq_path rq = asc ''/v1/openapi.json'' then
        py_lift (reply 200 (openapi (sv_decision_schema sv)))
      else case intent_path (rq_path rq) of
          Some i \<Rightarrow> py_seq (api_client sv) (py_bind (on_world (sdk_status i)) (\<lambda>row.
            py_lift (case row of None \<Rightarrow> reply_error 404 ''unknown intent'' | Some r \<Rightarrow> reply 200 r)))
        | None \<Rightarrow> py_lift (reply_error 404 ''not found''))"

section \<open>\<open>do_POST\<close>\<close>

definition post_intents :: "'n server \<Rightarrow> (pystr \<times> json) list \<Rightarrow> ('n api, response) py" where
  "post_intents sv body =
     (case body_str body ''invoice'' of None \<Rightarrow> py_lift (reply_error 400 ''invoice (string) is required'')
      | Some invoice \<Rightarrow> py_bind (api_client sv) (\<lambda>provider.
          py_bind (on_world (sdk_propose (sv_rt sv) provider (sv_config sv) invoice)) (\<lambda>decision.
            py_lift (reply 200 (result_json decision)))))"

definition urls_reply :: "('n api, response) py" where
  "urls_reply = py_bind (py_gets api_urls) (\<lambda>urls. py_lift (reply 200 (JObj
     [jkey ''urls'' (JArr (map JStr (case urls of None \<Rightarrow> [] | Some us \<Rightarrow> us)))])))"

definition post_webhooks :: "'n server \<Rightarrow> (pystr \<times> json) list \<Rightarrow> ('n api, response) py" where
  "post_webhooks sv body =
     (case body_str body ''url'' of None \<Rightarrow> py_lift (reply_error 400 ''url (string) is required'')
      | Some url \<Rightarrow> py_seq (api_dispatcher sv) (py_bind (py_gets api_urls) (\<lambda>urls.
          if url \<in> set (case urls of None \<Rightarrow> [] | Some us \<Rightarrow> us) then urls_reply
          else py_bind (py_except (py_seq (api_register sv url) (py_ret True))
              (\<lambda>e. if is_WebhookURLError e then py_ret False else py_raise e))
            (\<lambda>registered. if registered then urls_reply
               else py_lift (reply_error 400 ''invalid or disallowed webhook url'')))))"

definition post_attest :: "'n server \<Rightarrow> pystr \<Rightarrow> (pystr \<times> json) list \<Rightarrow> ('n api, response) py" where
  "post_attest sv intent_id body =
     (case dict_get body ''kind'' of
        Some (JStr kind) \<Rightarrow>
          if kind \<notin> asc ` set attest_kinds
          then py_lift (reply_error 400 ''kind must be one of ['Shipped', 'Failed']'')
          else py_seq (api_client sv) (py_bind (on_world (sdk_status intent_id)) (\<lambda>row.
            if row = None then py_lift (reply_error 404 ''unknown intent'')
            else py_bind (on_world (sdk_attest (sv_config sv) intent_id kind)) (\<lambda>_. py_lift (reply 200 (JObj
              [jkey ''intent_id'' (JStr intent_id), jkey ''attested'' (JStr kind)])))))
      | _ \<Rightarrow> py_lift (reply_error 400 ''kind must be one of ['Shipped', 'Failed']''))"

definition post_routes :: "'n server \<Rightarrow> pystr \<Rightarrow> (pystr \<times> json) list \<Rightarrow> ('n api, response) py" where
  "post_routes sv path body =
     (if path = asc ''/v1/intents'' then post_intents sv body
      else if path = asc ''/v1/webhooks'' then post_webhooks sv body
      else case attest_path path of Some i \<Rightarrow> post_attest sv i body
        | None \<Rightarrow> py_lift (reply_error 404 ''not found''))"

text \<open>\<open>ValueError\<close> and its subclasses are caught while the body is read; \<open>Exception\<close> around the
  routes.\<close>

definition do_post :: "'n server \<Rightarrow> request \<Rightarrow> ('n api, response) py" where
  "do_post sv rq =
     (case read_body (sv_rt sv) rq of
        Inl e \<Rightarrow>
          if e = payload_too_large then py_lift (reply 413 (error_json (sv_exc_text sv e)))
          else if is_ValueError e then py_lift (reply 400 (error_json (sv_exc_text sv e)))
          else py_raise e
      | Inr body \<Rightarrow> py_except (post_routes sv (rq_path rq) body)
          (\<lambda>_. py_lift (reply_error 500 ''internal server error'')))"

end
