(* ===== verification/Ui_State.thy ===== *)
theory Ui_State
  imports Cli Api
begin

text \<open>
  The views of the dashboard server (\<open>lumo/ui/server.py\<close>): the trust settings, the dump of the whole
  store and the other read-only pages.  The creation time of a supplier, which no code but this dump
  reads and the model's rows do not carry, is the argument \<open>since\<close>.
\<close>

section \<open>Trust settings\<close>

definition trust_flags :: "config \<Rightarrow> json" where
  "trust_flags c = JObj
     [jkey ''injection_scan'' (JBool (cf_injection_scan c)), jkey ''policy_engine'' (JBool (cf_policy_engine c)),
      jkey ''policy_signer'' (JBool (cf_policy_signer c)),
      jkey ''require_attestation'' (JBool (cf_require_attestation c)), jkey ''k_of_n'' (JInt (cf_k_of_n c)),
      jkey ''human_cosign_threshold'' (JInt (cf_human_cosign_threshold c)),
      jkey ''proof_of_compute'' (JBool (cf_proof_of_compute c))]"

text \<open>The first profile all of whose settings are the current ones.\<close>

definition current_profile :: "config \<Rightarrow> string" where
  "current_profile c =
     (case find (\<lambda>(_, p). trust_flags (p c) = trust_flags c) profiles of Some (name, _) \<Rightarrow> name | None \<Rightarrow> ''custom'')"

definition trust_state :: "config \<Rightarrow> json" where
  "trust_state c = JObj
     [jkey ''flags'' (trust_flags c), jkey ''profile'' (JStr (asc (current_profile c))),
      jkey ''profiles'' (JObj (map (\<lambda>(name, p). jkey name (trust_flags (p c))) profiles))]"

section \<open>The dump of the store\<close>

fun decision_name :: "decision \<Rightarrow> pystr" where
  "decision_name D_proposed = asc ''proposed''"
| "decision_name D_held = asc ''held''"
| "decision_name D_approved = asc ''approved''"
| "decision_name D_refused = asc ''refused''"
| "decision_name D_reverted = asc ''reverted''"
| "decision_name (OtherDecision s) = s"

definition supplier_view :: "(pystr \<Rightarrow> pystr) \<Rightarrow> supplier \<Rightarrow> json" where
  "supplier_view since s = JObj
     [jkey ''id'' (JStr (sp_id s)), jkey ''name'' (JStr (sp_name s)), jkey ''address'' (JStr (sp_address s)),
      jkey ''created_at'' (JStr (since (sp_id s)))]"

text \<open>A row of the join: the columns of the payment, then the name of its supplier.\<close>

definition joined_view :: "intent_row \<Rightarrow> supplier \<Rightarrow> json" where
  "joined_view r s =
     (case intent_json r of JObj columns \<Rightarrow> JObj (columns @ [jkey ''supplier_name'' (JStr (sp_name s))])
      | v \<Rightarrow> v)"

definition intents_joined :: "tables \<Rightarrow> (intent_row \<times> supplier) list" where
  "intents_joined t = concat (map (\<lambda>r. map (Pair r) (filter (\<lambda>s. sp_id s = in_supplier_id r) (t_suppliers t)))
     (sort_key in_created_at (t_intents t)))"

text \<open>The codes are stored as JSON text.\<close>

definition decision_view :: "decision_row \<Rightarrow> json result" where
  "decision_view d = rbind (json_dumps (json_codes (de_codes d))) (\<lambda>codes. Inr (JObj
     [jkey ''id'' (JStr (de_id d)), jkey ''decision'' (JStr (decision_name (de_decision d))),
      jkey ''codes'' (JStr codes), jkey ''request_hash'' (JStr (de_request_hash d)),
      jkey ''intent_id'' (json_opt (de_intent_id d)), jkey ''detail'' (json_opt (de_detail d)),
      jkey ''created_at'' (JStr (iso_time (de_created_at d)))]))"

definition chain_tx_view :: "chain_tx_row \<Rightarrow> json" where
  "chain_tx_view c = JObj
     [jkey ''id'' (JStr (ct_id c)), jkey ''intent_id'' (JStr (ct_intent_id c)),
      jkey ''action'' (JStr (ct_action c)), jkey ''tx_hash'' (json_opt (ct_tx_hash c)),
      jkey ''created_at'' (JStr (iso_time (ct_created_at c)))]"

definition payout_view :: "payout_row \<Rightarrow> json" where
  "payout_view p = JObj
     [jkey ''id'' (JStr (ap_id p)), jkey ''intent_id'' (JStr (ap_intent_id p)), jkey ''ref'' (JStr (ap_ref p)),
      jkey ''amount'' (JStr (ap_amount p)), jkey ''address'' (JStr (ap_address p)),
      jkey ''status'' (JStr (asc ''completed'')), jkey ''created_at'' (JStr (iso_time (ap_created_at p)))]"

definition read_state :: "(pystr \<Rightarrow> pystr) \<Rightarrow> config result \<Rightarrow> tables \<Rightarrow> json result" where
  "read_state since environment t =
     rbind (rmap decision_view (sort_key de_created_at (t_decisions t))) (\<lambda>decisions.
     rbind environment (\<lambda>c. Inr (JObj
       [jkey ''suppliers'' (JArr (map (supplier_view since) (t_suppliers t))),
        jkey ''rules'' (JObj (map (\<lambda>(k, v). (k, JStr v)) (t_rules t))),
        jkey ''intents'' (JArr (map (\<lambda>(r, s). joined_view r s) (intents_joined t))),
        jkey ''decisions'' (JArr decisions),
        jkey ''chain_txs'' (JArr (map chain_tx_view (sort_key ct_created_at (t_chain_txs t)))),
        jkey ''anchor_payouts'' (JArr (map payout_view (sort_key ap_created_at (t_payouts t)))),
        jkey ''trust'' (trust_state c)])))"

section \<open>The other pages\<close>

definition event_view :: "event_row \<Rightarrow> json" where
  "event_view r = JObj
     [jkey ''name'' (JStr (asc (er_name r))), jkey ''payload'' (JObj (er_payload r)),
      jkey ''created_at'' (JStr (iso_time (er_created_at r)))]"

definition read_events :: "tables \<Rightarrow> nat \<Rightarrow> json" where
  "read_events t limit = JArr (map event_view (recent_events limit t))"

definition read_metrics :: "tables \<Rightarrow> snapshot result" where
  "read_metrics t = take_snapshot t"

definition rule_or_empty :: "tables \<Rightarrow> string \<Rightarrow> json" where
  "rule_or_empty t key = JStr (or_empty (dict_get (t_rules t) key))"

definition read_testnet_info :: "tables \<Rightarrow> config \<Rightarrow> json" where
  "read_testnet_info t c = JObj
     [jkey ''network'' (JStr (cf_network c)), jkey ''chain_adapter'' (JStr (cf_chain_adapter c)),
      jkey ''escrow_id'' (JStr (cf_escrow_id c)), jkey ''token'' (rule_or_empty t ''token_address''),
      jkey ''sme_address'' (rule_or_empty t ''sme_address''), jkey ''cap_per_tx'' (rule_or_empty t ''cap_per_tx''),
      jkey ''suppliers'' (JArr (map (\<lambda>s. JObj
        [jkey ''name'' (JStr (sp_name s)), jkey ''address'' (JStr (sp_address s))])
          (sort_key sp_name (t_suppliers t))))]"

section \<open>Nothing is missing from the dump\<close>

lemma the_row: "distinct (map f xs) \<Longrightarrow> x \<in> set xs \<Longrightarrow> filter (\<lambda>y. f y = f x) xs = [x]"
  by (induction xs) (auto simp: filter_empty_conv rev_image_eqI)

text \<open>Under the schema's constraints the join loses and repeats no payment, and the dump shows each
  with the name of its own supplier.\<close>

lemma intents_joined_complete:
  assumes "db_ok t"
  shows "map fst (intents_joined t) = sort_key in_created_at (t_intents t)"
    and "\<forall>(r, s) \<in> set (intents_joined t). s \<in> set (t_suppliers t) \<and> sp_id s = in_supplier_id r"
proof -
  have "map fst (concat (map (\<lambda>r. map (Pair r) (filter (\<lambda>s. sp_id s = in_supplier_id r) (t_suppliers t))) rs)) = rs"
    if "set rs \<subseteq> set (t_intents t)" for rs
    using that
  proof (induction rs)
    case (Cons r rs)
    with assms obtain s where "s \<in> set (t_suppliers t)" "in_supplier_id r = sp_id s"
      by (auto simp: db_ok_def)
    moreover from this assms have "filter (\<lambda>s. sp_id s = in_supplier_id r) (t_suppliers t) = [s]"
      by (simp add: db_ok_def the_row)
    ultimately show ?case using Cons by simp
  qed simp
  then show "map fst (intents_joined t) = sort_key in_created_at (t_intents t)"
    by (simp add: intents_joined_def)
  show "\<forall>(r, s) \<in> set (intents_joined t). s \<in> set (t_suppliers t) \<and> sp_id s = in_supplier_id r"
    by (auto simp: intents_joined_def)
qed

lemma rmap_Inr_length: "rmap f xs = Inr ys \<Longrightarrow> length ys = length xs"
  by (induction xs arbitrary: ys) auto

lemma read_state_complete:
  assumes "db_ok t" and "read_state since environment t = Inr (JObj d)"
  shows "\<exists>is ds. dict_get d ''intents'' = Some (JArr is) \<and> length is = length (t_intents t) \<and>
     dict_get d ''decisions'' = Some (JArr ds) \<and> length ds = length (t_decisions t)"
proof -
  from assms(2) obtain ds where ds: "rmap decision_view (sort_key de_created_at (t_decisions t)) = Inr ds"
    and d: "dict_get d ''intents'' = Some (JArr (map (\<lambda>(r, s). joined_view r s) (intents_joined t)))"
      "dict_get d ''decisions'' = Some (JArr ds)"
    by (auto simp: read_state_def dict_get_def)
  have "length (intents_joined t) = length (t_intents t)"
    using intents_joined_complete(1) [OF assms(1)] by (metis length_map length_sort)
  with d rmap_Inr_length [OF ds] show ?thesis by simp
qed

end
