(* ===== verification/Ui.thy ===== *)
theory Ui
  imports Ui_State
begin

text \<open>
  The handler of the dashboard server (\<open>lumo/ui/server.py\<close>): the read-only pages of \<open>Ui_State\<close>, static
  files, and the test run.  Opening the database read-only yields its tables or SQLite's error;
  \<open>ui_environment\<close> is the outcome of \<open>Config.from_env\<close>, \<open>ui_since\<close> the creation time of a supplier, and
  the bytes of the static files are the parameter \<open>ui_file\<close>.
\<close>

section \<open>\<open>do_GET\<close>\<close>

record ui =
  ui_override :: "config option"
  ui_db_path :: pystr
  ui_environment :: "config result"
  ui_since :: "pystr \<Rightarrow> pystr"
  ui_file :: "string \<Rightarrow> pystr result"

text \<open>\<open>StateHandler._config\<close>\<close>

definition handler_config :: "ui \<Rightarrow> config result" where
  "handler_config u =
     (case ui_override u of Some c \<Rightarrow> Inr c
      | None \<Rightarrow> rbind (ui_environment u) (\<lambda>c. Inr (c\<lparr>cf_db_path := ui_db_path u\<rparr>)))"

type_synonym page = "int \<times> string \<times> pystr"

definition json_page :: "int \<Rightarrow> json \<Rightarrow> page result" where
  "json_page code v = rbind (json_dumps v) (\<lambda>t. Inr (code, ''application/json'', t))"

definition error_page :: "int \<Rightarrow> string \<Rightarrow> page result" where
  "error_page code message = json_page code (error_json (asc message))"

definition not_found :: page where
  "not_found = (404, ''text/plain'', asc ''not found'')"

definition file_page :: "ui \<Rightarrow> string \<Rightarrow> string \<Rightarrow> page result" where
  "file_page u ctype name = rbind (ui_file u name) (\<lambda>b. Inr (200, ctype, b))"

definition html :: string where
  "html = ''text/html; charset=utf-8''"

definition ui_routes :: "ui \<Rightarrow> tables result \<Rightarrow> pystr \<Rightarrow> page result" where
  "ui_routes u db path =
     (if path = asc ''/api/state'' then
        rbind db (\<lambda>t. rbind (read_state (ui_since u) (ui_environment u) t) (json_page 200))
      else if path = asc ''/api/events'' then rbind db (\<lambda>t. json_page 200 (read_events t 100))
      else if path = asc ''/api/metrics'' then
        rbind db (\<lambda>t. rbind (read_metrics t) (\<lambda>s. json_page 200 (snapshot_json s)))
      else if path = asc ''/metrics'' then
        rbind db (\<lambda>t. rbind (read_metrics t) (\<lambda>s. rbind (render_prometheus s) (\<lambda>b.
          Inr (200, ''text/plain; version=0.0.4; charset=utf-8'', b))))
      else if path = asc ''/'' \<or> path = asc ''/index.html'' then file_page u html ''site/index.html''
      else if path = asc ''/dashboard'' \<or> path = asc ''/dashboard.html'' then file_page u html ''index.html''
      else if path = asc ''/testnet'' then file_page u html ''testnet.html''
      else if path = asc ''/lumo-bg.js'' then file_page u ''application/javascript; charset=utf-8'' ''lumo-bg.js''
      else if path = asc ''/lumo-mark.png'' then file_page u ''image/png'' ''lumo-mark.png''
      else if path = asc ''/testnet/info'' then
        rbind (handler_config u) (\<lambda>c. rbind db (\<lambda>t. json_page 200 (read_testnet_info t c)))
      else Inr not_found)"

text \<open>Only SQLite's errors are answered; others end the request without a response.\<close>

fun is_sqlite_error :: "exn \<Rightarrow> bool" where
  "is_sqlite_error OperationalError = True"
| "is_sqlite_error (IntegrityError _) = True"
| "is_sqlite_error _ = False"

definition ui_get :: "ui \<Rightarrow> tables result \<Rightarrow> pystr \<Rightarrow> page result" where
  "ui_get u db path =
     (case ui_routes u db path of Inr p \<Rightarrow> Inr p
      | Inl e \<Rightarrow> if is_sqlite_error e then error_page 500 ''internal error'' else Inl e)"

section \<open>\<open>do_POST\<close>\<close>

definition MAX_BODY :: int where
  "MAX_BODY = 2 ^ 20"

text \<open>The text of the invoice, or the response to a body without one.  Of the decoding errors only
  \<open>JSONDecodeError\<close> is caught.\<close>

definition ui_body :: "runtime \<Rightarrow> request \<Rightarrow> (page result + pystr) result" where
  "ui_body rt rq =
     (case (case rq_length rq of None \<Rightarrow> Inr 0 | Some s \<Rightarrow> py_int_of_str rt s) of
        Inl _ \<Rightarrow> Inr (Inl (error_page 400 ''invalid Content-Length''))
      | Inr n \<Rightarrow>
          if n < 0 \<or> MAX_BODY < n then Inr (Inl (error_page 400 ''request too large''))
          else rbind (rq_body rq n) (\<lambda>raw.
            case (if raw \<noteq> [] then json_loads raw else Inr (JObj [])) of
              Inl e \<Rightarrow> if e = ValueError ''JSONDecodeError'' then Inr (Inl (error_page 400 ''invalid JSON'')) else Inl e
            | Inr body \<Rightarrow>
                (case (case body of JObj d \<Rightarrow> dict_get d ''invoice_text'' | _ \<Rightarrow> None) of
                   Some (JStr s) \<Rightarrow>
                     if py_strip s = [] then Inr (Inl (error_page 400 ''invoice_text (string) is required''))
                     else Inr (Inr s)
                 | _ \<Rightarrow> Inr (Inl (error_page 400 ''invoice_text (string) is required'')))))"

definition ui_post :: "'n run_env \<Rightarrow> 'c chain_adapter result \<Rightarrow> request \<Rightarrow> ('u, 'n, 'c, page) app" where
  "ui_post su adapter rq =
     (if rq_path rq \<noteq> asc ''/testnet/run'' then py_ret not_found
      else py_bind (py_lift (ui_body (su_rt su) rq)) (\<lambda>b.
        case b of Inl p \<Rightarrow> py_lift p
        | Inr text \<Rightarrow> py_except
            (py_bind (run_invoice su adapter text) (\<lambda>v. py_lift (json_page 200 v)))
            (\<lambda>e. py_lift (if is_ChainError e then error_page 502 ''chain error''
                           else error_page 500 ''internal error''))))"

section \<open>Frames\<close>

context repo_relation
begin

lemma F_ui_post: "evolves F (ui_post su adapter rq)"
  unfolding ui_post_def by (auto intro!: F_intros F_run_invoice split: sum.split)

end

section \<open>A body that is no text\<close>

text \<open>\<open>UnicodeDecodeError\<close> is a \<open>ValueError\<close> but no \<open>JSONDecodeError\<close>: it leaves the handler, and the
  caller gets no response.\<close>

lemma ui_post_undecodable:
  assumes "rq_path rq = asc ''/testnet/run''" and "rq_length rq = Some s" and "py_int_of_str rt s = Inr n"
    and "0 \<le> n" and "n \<le> MAX_BODY" and "rq_body rq n = Inl (ValueError ''UnicodeDecodeError'')" and "su_rt su = rt"
  shows "ui_post su adapter rq w = (Inl (ValueError ''UnicodeDecodeError''), w)"
  using assms by (simp add: ui_post_def ui_body_def)

end
