(* ===== verification/Mcp.thy ===== *)
theory Mcp
  imports Sdk
begin

text \<open>
  The JSON-RPC front end over standard input (\<open>lumo/mcp.py\<close>): three tools over the client of
  \<open>Sdk\<close>.  \<open>repr\<close> and \<open>str(exc)\<close> are the parameters \<open>fr_repr\<close> and \<open>fr_exc_text\<close>.
\<close>

record front =
  fr_rt :: runtime
  fr_config :: config
  fr_provider :: provider
  fr_repr :: "json \<Rightarrow> pystr"
  fr_exc_text :: "exn \<Rightarrow> pystr"

definition protocol_version :: string where
  "protocol_version = ''2024-11-05''"

definition tools :: json where
  "tools =
    JArr
    [JObj
     [jkey ''name'' (JStr (asc ''lumo.propose_payment'')),
      jkey ''description'' (JStr (asc ''Run an invoice through Lumo's guard chain (injection scan, policy engine, caps). Returns a decision: proposed, held, or refused, with reason codes. Money can only move to registered suppliers within caps.'')),
      jkey ''inputSchema'' (JObj
       [jkey ''type'' (JStr (asc ''object'')),
        jkey ''properties'' (JObj
         [jkey ''invoice_text'' (JObj
           [jkey ''type'' (JStr (asc ''string'')),
            jkey ''description'' (JStr (asc ''Raw invoice text to evaluate''))])]),
        jkey ''required'' (JArr [JStr (asc ''invoice_text'')])])],
     JObj
     [jkey ''name'' (JStr (asc ''lumo.get_status'')),
      jkey ''description'' (JStr (asc ''Fetch the current status of a payment intent by id.'')),
      jkey ''inputSchema'' (JObj
       [jkey ''type'' (JStr (asc ''object'')),
        jkey ''properties'' (JObj
         [jkey ''intent_id'' (JObj
           [jkey ''type'' (JStr (asc ''string'')),
            jkey ''description'' (JStr (asc ''Intent id returned by lumo.propose_payment''))])]),
        jkey ''required'' (JArr [JStr (asc ''intent_id'')])])],
     JObj
     [jkey ''name'' (JStr (asc ''lumo.attest'')),
      jkey ''description'' (JStr (asc ''Record an oracle attestation (Shipped or Failed) for a payment intent. Shipped gates release to the supplier; Failed gates refund to the SME.'')),
      jkey ''inputSchema'' (JObj
       [jkey ''type'' (JStr (asc ''object'')),
        jkey ''properties'' (JObj
         [jkey ''intent_id'' (JObj
           [jkey ''type'' (JStr (asc ''string'')),
            jkey ''description'' (JStr (asc ''Intent id to attest''))]),
          jkey ''kind'' (JObj
           [jkey ''type'' (JStr (asc ''string'')),
            jkey ''enum'' (JArr [JStr (asc ''Shipped''), JStr (asc ''Failed'')]),
            jkey ''description'' (JStr (asc ''Attestation kind''))])]),
        jkey ''required'' (JArr [JStr (asc ''intent_id''), JStr (asc ''kind'')])])]]"

definition tool_names :: "string list" where
  "tool_names = [''lumo.propose_payment'', ''lumo.get_status'', ''lumo.attest'']"

section \<open>Tools\<close>

definition str_arg :: "(pystr \<times> json) list \<Rightarrow> string \<Rightarrow> pystr result" where
  "str_arg arguments key =
     (case dict_get arguments key of Some (JStr s) \<Rightarrow> Inr s
      | _ \<Rightarrow> Inl (ValueError (key @ '' must be a string'')))"

definition call_tool :: "front \<Rightarrow> pystr \<Rightarrow> (pystr \<times> json) list \<Rightarrow> ('s world, json option) py" where
  "call_tool fr name arguments =
     (if name = asc ''lumo.propose_payment'' then
        py_bind (py_lift (str_arg arguments ''invoice_text'')) (\<lambda>text.
        py_bind (sdk_propose (fr_rt fr) (fr_provider fr) (fr_config fr) text) (\<lambda>r.
        py_ret (Some (result_json r))))
      else if name = asc ''lumo.get_status'' then
        py_bind (py_lift (str_arg arguments ''intent_id'')) sdk_status
      else if name = asc ''lumo.attest'' then
        py_bind (py_lift (str_arg arguments ''intent_id'')) (\<lambda>intent_id.
        py_bind (py_lift (str_arg arguments ''kind'')) (\<lambda>kind.
        py_seq (sdk_attest (fr_config fr) intent_id kind) (py_ret (Some (JObj
          [jkey ''intent_id'' (JStr intent_id), jkey ''attested'' (JStr kind)])))))
      else py_ret None)"

section \<open>\<open>handle\<close>\<close>

definition rpc_reply :: "json \<Rightarrow> json \<Rightarrow> json" where
  "rpc_reply request_id result = JObj
     [jkey ''jsonrpc'' (JStr (asc ''2.0'')), jkey ''id'' request_id, jkey ''result'' result]"

definition rpc_error :: "json \<Rightarrow> int \<Rightarrow> pystr \<Rightarrow> json" where
  "rpc_error request_id code message = JObj
     [jkey ''jsonrpc'' (JStr (asc ''2.0'')), jkey ''id'' request_id,
      jkey ''error'' (JObj [jkey ''code'' (JInt code), jkey ''message'' (JStr message)])]"

definition tool_text :: "pystr \<Rightarrow> bool \<Rightarrow> json" where
  "tool_text text is_error = JObj
     [jkey ''content'' (JArr [JObj [jkey ''type'' (JStr (asc ''text'')), jkey ''text'' (JStr text)]]),
      jkey ''isError'' (JBool is_error)]"

definition server_info :: json where
  "server_info = JObj
     [jkey ''protocolVersion'' (JStr (asc protocol_version)),
      jkey ''capabilities'' (JObj [jkey ''tools'' (JObj [])]),
      jkey ''serverInfo'' (JObj [jkey ''name'' (JStr (asc ''lumo'')), jkey ''version'' (JStr (asc ''0.1.0''))])]"

definition get_or :: "(pystr \<times> json) list \<Rightarrow> string \<Rightarrow> json \<Rightarrow> json" where
  "get_or d key fallback = (case dict_get d key of None \<Rightarrow> fallback | Some v \<Rightarrow> v)"

text \<open>\<open>name not in {...}\<close>: a list or a dict cannot be hashed.\<close>

definition known_tool :: "json \<Rightarrow> pystr option result" where
  "known_tool name =
     (case name of JArr _ \<Rightarrow> Inl (TypeError ''unhashable type'') | JObj _ \<Rightarrow> Inl (TypeError ''unhashable type'')
      | JStr s \<Rightarrow> Inr (if s \<in> asc ` set tool_names then Some s else None)
      | _ \<Rightarrow> Inr None)"

definition run_tool :: "front \<Rightarrow> json \<Rightarrow> pystr \<Rightarrow> (pystr \<times> json) list \<Rightarrow> ('s world, json) py" where
  "run_tool fr request_id name arguments =
     py_bind (py_except (py_bind (call_tool fr name arguments) (\<lambda>r. py_ret (Inr r)))
         (\<lambda>e. py_ret (Inl (fr_exc_text fr e)))) (\<lambda>outcome.
       case outcome of Inl text \<Rightarrow> py_ret (rpc_reply request_id (tool_text text True))
       | Inr None \<Rightarrow> py_ret (rpc_reply request_id (tool_text (asc ''unknown intent'') True))
       | Inr (Some result) \<Rightarrow> py_bind (py_lift (json_dumps result)) (\<lambda>text.
           py_ret (rpc_reply request_id (tool_text text False))))"

definition tools_call :: "front \<Rightarrow> json \<Rightarrow> (pystr \<times> json) list \<Rightarrow> ('s world, json) py" where
  "tools_call fr request_id request =
     (case get_or request ''params'' (JObj []) of
        JObj params \<Rightarrow>
          (let name = get_or params ''name'' JNull
           in py_bind (py_lift (known_tool name)) (\<lambda>known.
             case known of
               None \<Rightarrow> py_ret (rpc_error request_id (- 32602) (asc ''unknown tool '' @ fr_repr fr name))
             | Some tool \<Rightarrow>
                 (case get_or params ''arguments'' (JObj []) of
                    JObj arguments \<Rightarrow> run_tool fr request_id tool arguments
                  | _ \<Rightarrow> py_ret (rpc_reply request_id (tool_text (asc ''arguments must be an object'') True)))))
      | _ \<Rightarrow> py_ret (rpc_error request_id (- 32602) (asc ''params must be an object'')))"

definition handle :: "front \<Rightarrow> json \<Rightarrow> ('s world, json option) py" where
  "handle fr request =
     (case request of
        JObj d \<Rightarrow>
          (let method = get_or d ''method'' (JStr []); request_id = get_or d ''id'' JNull
           in if request_id = JNull then py_ret None
              else py_bind
                (if method = JStr (asc ''initialize'') then py_ret (rpc_reply request_id server_info)
                 else if method = JStr (asc ''tools/list'')
                 then py_ret (rpc_reply request_id (JObj [jkey ''tools'' tools]))
                 else if method = JStr (asc ''tools/call'') then tools_call fr request_id d
                 else py_ret (rpc_error request_id (- 32601)
                   (asc ''method '' @ fr_repr fr method @ asc '' not found'')))
                (\<lambda>r. py_ret (Some r)))
      | _ \<Rightarrow> py_raise (AttributeError ''get''))"

text \<open>The loop over the lines of standard input; the lines written are collected.\<close>

fun serve_lines :: "front \<Rightarrow> pystr list \<Rightarrow> pystr list \<Rightarrow> ('s world, pystr list) py" where
  "serve_lines fr out [] = py_ret out"
| "serve_lines fr out (line # lines) =
     (let text = py_strip line
      in if text = [] then serve_lines fr out lines
         else case json_loads text of
             Inl (ValueError m) \<Rightarrow>
               if m = ''JSONDecodeError'' then serve_lines fr out lines else py_raise (ValueError m)
           | Inl e \<Rightarrow> py_raise e
           | Inr request \<Rightarrow> py_bind (handle fr request) (\<lambda>response.
               case response of None \<Rightarrow> serve_lines fr out lines
               | Some r \<Rightarrow> py_bind (py_lift (json_dumps r)) (\<lambda>t. serve_lines fr (out @ [t]) lines)))"

end
