(* ===== verification/Webhooks_Safety.thy ===== *)
theory Webhooks_Safety
  imports Webhooks
begin

text \<open>
  What a webhook dispatch may do: only hosts that resolved to public addresses are posted to, at
  most three times per URL, and no failing delivery reaches the caller.
\<close>

text \<open>A network that writes down every URL posted to.\<close>

definition log_net :: "'n net \<Rightarrow> ('n \<times> pystr list) net" where
  "log_net net = \<lparr>nt_bracket_ok = nt_bracket_ok net,
     nt_getaddrinfo = (\<lambda>h p. on_fst (nt_getaddrinfo net h p)), nt_ip_address = nt_ip_address net,
     nt_post = (\<lambda>url body (n, log). case nt_post net url body n of (r, n') \<Rightarrow> (r, (n', log @ [url])))\<rparr>"

definition public_target :: "runtime \<Rightarrow> 'n net \<Rightarrow> pystr \<Rightarrow> bool" where
  "public_target rt net url \<longleftrightarrow>
     (\<exists>scheme rest host port infos m m'. url_scheme (clean_url url) = (scheme, rest) \<and>
        (scheme = asc ''http'' \<or> scheme = asc ''https'') \<and>
        url_hostname rt (url_netloc rest) = Some host \<and> host \<noteq> [] \<and>
        resolve net host port m = (Inr infos, m') \<and>
        list_all (\<lambda>i. \<exists>a. nt_ip_address net (until (\<lambda>c. c = 37) i) = Inr a \<and> is_public a) infos)"

lemma check_addresses_Inr: "check_addresses net infos = Inr () \<longleftrightarrow>
    list_all (\<lambda>i. \<exists>a. nt_ip_address net (until (\<lambda>c. c = 37) i) = Inr a \<and> is_public a) infos"
proof (induction infos)
  case (Cons i infos)
  then show ?case by (cases "nt_ip_address net (until (\<lambda>c. c = 37) i)") (auto split: if_splits)
qed simp

lemma log_net_sel [simp]: "nt_bracket_ok (log_net net) = nt_bracket_ok net"
  "nt_getaddrinfo (log_net net) h p = on_fst (nt_getaddrinfo net h p)"
  "nt_ip_address (log_net net) = nt_ip_address net"
  "nt_post (log_net net) u b (n, log) = (case nt_post net u b n of (r, n') \<Rightarrow> (r, (n', log @ [u])))"
  by (simp_all add: log_net_def)

lemma check_addresses_log [simp]: "check_addresses (log_net net) infos = check_addresses net infos"
  by (induction infos) (simp_all cong: if_cong)

lemma resolve_log: "resolve (log_net net) h p (n, log) = (case resolve net h p n of (r, n') \<Rightarrow> (r, (n', log)))"
  by (auto simp: resolve_def py_except_def on_fst_def split: prod.splits sum.splits)

text \<open>The check posts nothing, does not depend on what is written down, and succeeds only on a public
  target.\<close>

lemma validate_url_log:
  assumes "validate_url rt (log_net net) url (n, log) = (r, s)"
  shows "snd s = log \<and> validate_url rt net url n = (r, fst s) \<and> (r = Inr () \<longrightarrow> public_target rt net url)"
proof -
  obtain scheme rest where sr: "url_scheme (clean_url url) = (scheme, rest)" by (metis surj_pair)
  have cn: "check_netloc rt (log_net net) = check_netloc rt net" by (rule ext) (simp add: check_netloc_def)
  show ?thesis
  proof (cases "check_netloc rt net (url_netloc rest) = Inr () \<and> (scheme = asc ''http'' \<or> scheme = asc ''https'')")
    case False
    then show ?thesis using assms sr cn
      by (cases "check_netloc rt net (url_netloc rest)")
        (auto simp: validate_url_def py_seq_def py_bind_def py_lift_def Let_def split: sum.splits)
  next
    case True
    show ?thesis
    proof (cases "url_hostname rt (url_netloc rest)")
      case None
      then show ?thesis using assms sr cn True by (auto simp: validate_url_def py_seq_def py_bind_def py_lift_def Let_def split: sum.splits)
    next
      case (Some host)
      note hostname = Some
      show ?thesis
      proof (cases "url_port rt (url_netloc rest)")
        case (Inl e)
        then show ?thesis using assms sr cn True hostname
          by (auto simp: validate_url_def py_seq_def py_bind_def py_lift_def Let_def split: if_splits)
      next
        case (Inr port)
        obtain q n' where q: "resolve net host port n = (q, n')" by (metis surj_pair)
        show ?thesis using assms sr cn True hostname Inr q
          by (auto simp: validate_url_def py_seq_def py_bind_def py_lift_def Let_def resolve_log public_target_def
              check_addresses_Inr split: if_splits sum.splits) blast+
      qed
    qed
  qed
qed

lemma post_attempts_log:
  "post_attempts (log_net net) url body k (n, log) = (r, s) \<Longrightarrow>
     r = Inr () \<and> (\<exists>j \<le> k. snd s = log @ replicate j url)"
proof (induction k arbitrary: n log r s)
  case (Suc k)
  obtain p n' where p: "nt_post net url body n = (p, n')" by (metis surj_pair)
  show ?case
  proof (cases p)
    case (Inl e)
    with Suc.prems p have "post_attempts (log_net net) url body k (n', log @ [url]) = (r, s)"
      by (simp add: py_except_def)
    from Suc.IH [OF this] obtain j where "r = Inr ()" "j \<le> k" "snd s = (log @ [url]) @ replicate j url"
      by blast
    then show ?thesis by (intro conjI exI [of _ "Suc j"]) simp_all
  next
    case (Inr u)
    with Suc.prems p have "r = Inr ()" "snd s = log @ replicate 1 url" by (auto simp: py_except_def)
    then show ?thesis by (intro conjI exI [of _ 1]) simp_all
  qed
qed simp

text \<open>An exception that a check of one of the URLs raised, and that the loop lets through.\<close>

definition check_raised :: "runtime \<Rightarrow> 'n net \<Rightarrow> pystr list \<Rightarrow> exn \<Rightarrow> bool" where
  "check_raised rt net urls x \<longleftrightarrow> \<not> is_WebhookURLError x \<and>
     (\<exists>url \<in> set urls. \<exists>m m'. validate_url rt net url m = (Inl x, m'))"

lemma deliver_log:
  assumes "deliver rt (log_net net) body url (n, log) = (r, s)"
  shows "(\<exists>j \<le> 3. snd s = log @ replicate j url \<and> (0 < j \<longrightarrow> public_target rt net url)) \<and>
    (r = Inr () \<or> (\<exists>x. r = Inl x \<and> check_raised rt net [url] x))"
proof -
  obtain v s1 where v: "validate_url rt (log_net net) url (n, log) = (v, s1)" by (metis surj_pair)
  obtain n1 where s1: "s1 = (n1, log)" using validate_url_log [OF v] by (cases s1) simp
  show ?thesis
  proof (cases v)
    case (Inl e)
    with validate_url_log [OF v] have "validate_url rt net url n = (Inl e, fst s1)" by simp
    then have "\<not> is_WebhookURLError e \<Longrightarrow> check_raised rt net [url] e"
      unfolding check_raised_def by auto
    then have "snd s = log @ replicate 0 url \<and> (r = Inr () \<or> (\<exists>x. r = Inl x \<and> check_raised rt net [url] x))"
      using assms v s1 Inl by (auto simp: deliver_def py_bind_def py_except_def py_seq_def split: if_splits)
    then show ?thesis by fastforce
  next
    case (Inr u)
    with assms v s1 have "post_attempts (log_net net) url body ATTEMPTS (n1, log) = (r, s)"
      by (simp add: deliver_def py_bind_def py_except_def py_seq_def)
    from post_attempts_log [OF this] validate_url_log [OF v] Inr show ?thesis
      by (auto simp: ATTEMPTS_def)
  qed
qed

lemma py_for_log:
  "py_for urls (deliver rt (log_net net) body) (n, log) = (r, s) \<Longrightarrow>
     (\<exists>ext. snd s = log @ ext \<and> (\<forall>u \<in> set ext. u \<in> set urls \<and> public_target rt net u) \<and>
        (\<forall>u. count_list ext u \<le> 3 * count_list urls u)) \<and>
     (r = Inr () \<or> (\<exists>x. r = Inl x \<and> check_raised rt net urls x))"
proof (induction urls arbitrary: n log r s)
  case (Cons url urls)
  obtain p s1 where p: "deliver rt (log_net net) body url (n, log) = (p, s1)" by (metis surj_pair)
  obtain n1 l1 where s1: "s1 = (n1, l1)" by (metis surj_pair)
  from deliver_log [OF p] s1 obtain j where j: "j \<le> 3" "l1 = log @ replicate j url"
    "0 < j \<longrightarrow> public_target rt net url" and e: "p = Inr () \<or> (\<exists>x. p = Inl x \<and> check_raised rt net [url] x)"
    by auto
  have mono: "check_raised rt net [url] x \<Longrightarrow> check_raised rt net (url # urls) x"
    "check_raised rt net urls x \<Longrightarrow> check_raised rt net (url # urls) x" for x
    unfolding check_raised_def by auto
  have c: "count_list (replicate j url) u = (if u = url then j else 0)" for u
    by (induction j) auto
  show ?case
  proof (cases p)
    case (Inl x)
    with Cons.prems p s1 have "r = Inl x" "snd s = log @ replicate j url"
      using j(2) by (auto simp: py_seq_def py_bind_def)
    with e mono Inl j c show ?thesis by (intro conjI exI [of _ "replicate j url"]) auto
  next
    case (Inr u)
    with Cons.prems p s1 have "py_for urls (deliver rt (log_net net) body) (n1, l1) = (r, s)"
      by (simp add: py_seq_def py_bind_def)
    from Cons.IH [OF this] obtain ext where x: "snd s = l1 @ ext"
      "\<forall>u \<in> set ext. u \<in> set urls \<and> public_target rt net u" "\<forall>u. count_list ext u \<le> 3 * count_list urls u"
      "r = Inr () \<or> (\<exists>x. r = Inl x \<and> check_raised rt net urls x)" by blast
    have "count_list (replicate j url @ ext) u \<le> 3 * count_list (url # urls) u" for u
      using x(3) [rule_format, of u] j(1) c [of u] by (auto simp: count_list_append)
    with x j mono show ?thesis by (intro conjI exI [of _ "replicate j url @ ext"]) auto
  qed
qed auto

text \<open>C26. Delivering an event posts only to registered URLs with an http scheme whose host resolved to
  public addresses, at most three times for each of them, and raises nothing that the sink raised:
  an exception that gets out is one that the check of a registered URL raised on its own, and no
  \<open>WebhookURLError\<close>.\<close>

theorem webhooks_only_public:
  assumes "webhook_call rt (log_net net) urls e (n, []) = (r, (n', log))"
  shows "(\<forall>u \<in> set log. u \<in> set urls \<and> public_target rt net u) \<and>
    (\<forall>u. count_list log u \<le> 3 * count_list urls u) \<and>
    (r = Inr () \<or> (\<exists>x. r = Inl x \<and> \<not> is_WebhookURLError x \<and>
       (\<exists>url \<in> set urls. \<exists>m m'. validate_url rt net url m = (Inl x, m'))))"
  using py_for_log [OF assms [unfolded webhook_call_def]] unfolding check_raised_def by auto

text \<open>One public and one loopback URL, and a sink that always fails.\<close>

definition demo_ip :: "bool \<Rightarrow> ip" where
  "demo_ip l = \<lparr>ip_private = l, ip_loopback = l, ip_link_local = False, ip_multicast = False,
     ip_reserved = False, ip_unspecified = False\<rparr>"

definition demo_net :: "unit net" where
  "demo_net = \<lparr>nt_bracket_ok = (\<lambda>s. True), nt_getaddrinfo = (\<lambda>h p n. (Inr [h], n)),
     nt_ip_address = (\<lambda>s. Inr (demo_ip (s = asc ''127.0.0.1''))),
     nt_post = (\<lambda>u b n. (Inl (OtherException ''ConnectionError''), n))\<rparr>"

definition demo_event :: event where
  "demo_event = \<lparr>ev_name = ''intent.proposed'', ev_payload = [], ev_at = 0\<rparr>"

theorem webhooks_only_public_witness:
  "webhook_call plain_runtime (log_net demo_net) [asc ''http://127.0.0.1/hook'', asc ''http://8.8.8.8/hook'']
     demo_event ((), []) = (Inr (), ((), replicate 3 (asc ''http://8.8.8.8/hook''))) \<and>
   public_target plain_runtime demo_net (asc ''http://8.8.8.8/hook'')"
proof -
  have c: "webhook_call plain_runtime (log_net demo_net) [asc ''http://127.0.0.1/hook'', asc ''http://8.8.8.8/hook'']
     demo_event ((), []) = (Inr (), ((), replicate 3 (asc ''http://8.8.8.8/hook'')))"
    by code_simp
  from webhooks_only_public [OF c] have "public_target plain_runtime demo_net (asc ''http://8.8.8.8/hook'')"
    by simp
  with c show ?thesis by blast
qed

text \<open>A sink that fails fewer than three times receives the event exactly once.\<close>

lemma mock_sink_retry:
  assumes "ms_fail_times s = int k" and "k < 3"
  shows "\<exists>s'. post_attempts \<lparr>nt_bracket_ok = b, nt_getaddrinfo = g, nt_ip_address = i, nt_post = mock_post\<rparr>
      url body ATTEMPTS s = (Inr (), s') \<and> ms_deliveries s' = ms_deliveries s @ [(url, body)] \<and>
      ms_attempts s' = ms_attempts s + Suc k"
proof -
  have "k = 0 \<or> k = 1 \<or> k = 2" using assms(2) by auto
  then show ?thesis using assms(1)
    by (auto simp: ATTEMPTS_def numeral_eq_Suc py_except_def mock_post_def Let_def)
qed

text \<open>A port out of range is a \<open>ValueError\<close> and no \<open>WebhookURLError\<close>, so the callers that reject bad URLs
  do not catch it.\<close>

lemma bad_port_escapes:
  "validate_url plain_runtime demo_net (asc ''http://8.8.8.8:99999/'') () =
     (Inl (ValueError ''Port out of range 0-65535''), ())"
  by code_simp

end
