(* ===== verification/Api_Safety.thy ===== *)
theory Api_Safety
  imports Api Webhooks_Safety Json_Errors
begin

text \<open>
  Every POST is answered, and whatever a request asks for, the store only moves by the steps of
  the components below.
\<close>

section \<open>Frames\<close>

context step_relation
begin

definition A :: "'n api \<Rightarrow> 'n api \<Rightarrow> bool" where
  "A s s' \<longleftrightarrow> W (ap_world s) (ap_world s')"

lemma frame_A: "frame_relation A"
  by unfold_locales (auto simp: A_def intro: wr.frefl wr.ftrans)

lemmas A_intros = frame_relation.evo_intros [OF frame_A]

lemma A_world: "evolves W m \<Longrightarrow> evolves A (on_world m)"
  by (auto simp: evolves_def A_def on_world_def split: prod.splits) (metis snd_conv)

lemma A_provider: "evolves A (py_modify (\<lambda>s. s\<lparr>ap_provider := p\<rparr>))"
  by (simp add: evolves_def A_def wr.frefl)

lemma A_client: "evolves A (api_client sv)"
  unfolding api_client_def by (auto intro!: A_intros A_world A_provider W_sdk split: option.split)

lemma A_set_urls: "evolves A (set_api_urls us)"
  unfolding set_api_urls_def by (intro A_world W_sdk)

lemma A_dispatcher: "evolves A (api_dispatcher sv)"
  unfolding api_dispatcher_def by (auto intro!: A_intros A_world A_set_urls A_client W_sdk split: option.split)

lemma A_register: "evolves A (api_register sv url)"
  unfolding api_register_def by (intro A_world W_sdk)

lemma A_post_intents: "evolves A (post_intents sv body)"
  unfolding post_intents_def by (auto intro!: A_intros A_world A_client W_sdk split: option.split)

lemma A_post_webhooks: "evolves A (post_webhooks sv body)"
  unfolding post_webhooks_def urls_reply_def
  by (auto intro!: A_intros A_dispatcher A_register split: option.split)

lemma A_post_attest: "evolves A (post_attest sv i body)"
  unfolding post_attest_def
  by (auto intro!: A_intros A_world A_client W_sdk split: option.split json.split)

lemma A_do_post: "evolves A (do_post sv rq)"
  unfolding do_post_def post_routes_def
  by (auto intro!: A_intros A_post_intents A_post_webhooks A_post_attest split: option.split sum.split)

lemma A_do_get: "evolves A (do_get sv rq)"
  unfolding do_get_def by (auto intro!: A_intros A_world A_client W_sdk split: option.split)

lemma A_apply: "evolves A m \<Longrightarrow> D (w_db (ap_world s)) (w_db (ap_world (snd (m s))))"
  by (simp add: evolves_def A_def W_def)

end

section \<open>Every POST is answered\<close>

lemma reply_error_Inr: "\<exists>t. reply_error code m = Inr (code, t)"
  by (simp add: reply_error_def reply_def error_json_def json_dumps_def)

lemma reply_text_Inr: "\<exists>t. reply code (error_json m) = Inr (code, t)"
  by (simp add: reply_def error_json_def json_dumps_def)

lemma read_body_raises:
  assumes "read_body rt rq = Inl e" and "\<And>n x. rq_body rq n = Inl x \<Longrightarrow> is_ValueError x"
  shows "e = payload_too_large \<or> is_ValueError e"
  using assms
  by (auto simp: read_body_def rbind_eq_Inl dest: json_loads_ValueError
      split: option.splits sum.splits if_splits json.splits)
    (metis json.exhaust)

definition http_codes :: "int set" where
  "http_codes = {200, 400, 404, 413, 500}"

lemma reply_code: "reply code j = Inr (k, t) \<Longrightarrow> k = code"
  by (auto simp: reply_def)

lemma reply_error_code: "reply_error code m = Inr (k, t) \<Longrightarrow> k = code"
  unfolding reply_error_def by (rule reply_code)

lemma routes_code:
  assumes "post_routes sv path body s = (Inr (k, t), s')"
  shows "k \<in> {200, 400, 404}"
proof -
  have "k \<in> {200, 400, 404}" if "post_intents sv body s = (Inr (k, t), s')"
    using that by (auto simp: post_intents_def py_bind_returns dest: reply_code reply_error_code split: option.splits)
  moreover have "k = 200" if "urls_reply v = (Inr (k, t), s')" for v
    using that by (auto simp: urls_reply_def py_bind_returns dest: reply_code)
  then have "k \<in> {200, 400, 404}" if "post_webhooks sv body s = (Inr (k, t), s')"
    using that by (fastforce simp: post_webhooks_def py_bind_returns py_seq_returns
        dest: reply_code reply_error_code split: option.splits if_splits)
  moreover have "k \<in> {200, 400, 404}" if "post_attest sv i body s = (Inr (k, t), s')" for i
    using that by (auto simp: post_attest_def py_bind_returns py_seq_returns
        dest: reply_code reply_error_code split: option.splits if_splits json.splits)
  ultimately show ?thesis using assms
    by (auto simp: post_routes_def dest: reply_error_code split: if_splits option.splits)
qed

text \<open>C27. Every POST is answered, with exactly one of the statuses 200, 400, 404, 413 and 500: no exception
  of the client, of a subscriber or of the database gets out.  A body that is too long, missing,
  malformed or no JSON object is refused with 413 or 400 and changes nothing.\<close>

theorem api_post_answers:
  assumes "\<And>n x. rq_body rq n = Inl x \<Longrightarrow> is_ValueError x"
  shows "\<exists>code text s'. do_post sv rq s = (Inr (code, text), s') \<and> code \<in> http_codes \<and>
    (isl (read_body (sv_rt sv) rq) \<longrightarrow> s' = s \<and>
       code = (if read_body (sv_rt sv) rq = Inl payload_too_large then 413 else 400))"
proof (cases "read_body (sv_rt sv) rq")
  case (Inl e)
  obtain t4 where t4: "reply 413 (error_json (sv_exc_text sv e)) = Inr (413, t4)"
    using reply_text_Inr by blast
  obtain t5 where t5: "reply 400 (error_json (sv_exc_text sv e)) = Inr (400, t5)"
    using reply_text_Inr by blast
  have "e = payload_too_large \<or> is_ValueError e" by (rule read_body_raises [OF Inl assms])
  with Inl t4 t5 show ?thesis by (auto simp: do_post_def http_codes_def)
next
  case (Inr body)
  obtain r s1 where r: "post_routes sv (rq_path rq) body s = (r, s1)" by (metis surj_pair)
  obtain t5 where t5: "reply_error 500 ''internal server error'' = Inr (500, t5)"
    using reply_error_Inr by blast
  show ?thesis
  proof (cases r)
    case (Inl x)
    with Inr r t5 show ?thesis by (simp add: do_post_def py_except_def http_codes_def)
  next
    case (Inr kt)
    obtain k t where kt: "kt = (k, t)" by (cases kt) simp
    from routes_code [of sv "rq_path rq" body s k t s1] r Inr kt have "k \<in> http_codes"
      by (auto simp: http_codes_def)
    with r Inr kt \<open>read_body (sv_rt sv) rq = Inr body\<close> show ?thesis by (simp add: do_post_def py_except_def)
  qed
qed

definition demo_server :: "unit server" where
  "demo_server = \<lparr>sv_rt = plain_runtime, sv_net = demo_net, sv_config = default_config,
     sv_exchange = (\<lambda>t. Inr empty_extraction), sv_exc_text = (\<lambda>e. asc ''error''), sv_decision_schema = JNull\<rparr>"

text \<open>A body of two megabytes, and one that is an array.\<close>

definition big_request :: request where
  "big_request = \<lparr>rq_path = asc ''/v1/intents'', rq_length = Some (asc ''2097152''), rq_body = (\<lambda>n. Inr [])\<rparr>"

definition array_request :: request where
  "array_request = \<lparr>rq_path = asc ''/v1/intents'', rq_length = Some (asc ''2''), rq_body = (\<lambda>n. Inr (asc ''[]''))\<rparr>"

theorem api_post_answers_witness:
  "\<forall>s. \<exists>t u. do_post demo_server big_request s = (Inr (413, t), s) \<and>
     do_post demo_server array_request s = (Inr (400, u), s)"
proof
  fix s :: "unit api"
  have b: "read_body (sv_rt demo_server) big_request = Inl payload_too_large" by code_simp
  have a: "read_body (sv_rt demo_server) array_request = Inl (ValueError ''body must be a JSON object'')"
    by code_simp
  have "\<exists>t. do_post demo_server big_request s = (Inr (413, t), s)"
    using api_post_answers [of big_request demo_server s] b by (auto simp: big_request_def)
  moreover have "\<exists>u. do_post demo_server array_request s = (Inr (400, u), s)"
    using api_post_answers [of array_request demo_server s] a
    by (auto simp: array_request_def payload_too_large_def)
  ultimately show "\<exists>t u. do_post demo_server big_request s = (Inr (413, t), s) \<and>
     do_post demo_server array_request s = (Inr (400, u), s)" by blast
qed

end
