(* ===== verification/Mcp_Safety.thy ===== *)
theory Mcp_Safety
  imports Mcp Api_Safety
begin

text \<open>
  What a JSON-RPC request may do: well-formed requests are answered with their own identifier,
  notifications do nothing, and two kinds of malformed ones end the server.
\<close>

context step_relation
begin

lemma W_call_tool: "evolves W (call_tool fr name arguments)"
  unfolding call_tool_def by (auto intro!: W_step W_sdk)

lemma W_run_tool: "evolves W (run_tool fr i name arguments)"
  unfolding run_tool_def by (auto intro!: W_step W_call_tool split: sum.split option.split)

lemma W_tools_call: "evolves W (tools_call fr i d)"
  unfolding tools_call_def Let_def
  by (auto intro!: W_step W_run_tool split: json.split option.split)

lemma W_handle: "evolves W (handle fr request)"
  unfolding handle_def Let_def by (auto intro!: W_step W_tools_call split: json.split)

lemma W_serve_lines: "evolves W (serve_lines fr out lines)"
  by (induction lines arbitrary: out)
    (auto simp: Let_def intro!: W_step W_handle split: sum.split exn.split option.split)

end

section \<open>Answers\<close>

text \<open>The tool name of a call can be hashed.\<close>

definition hashable_name :: "(pystr \<times> json) list \<Rightarrow> bool" where
  "hashable_name d \<longleftrightarrow>
     (case get_or d ''params'' (JObj []) of
        JObj params \<Rightarrow> (case get_or params ''name'' JNull of JArr _ \<Rightarrow> False | JObj _ \<Rightarrow> False | _ \<Rightarrow> True)
      | _ \<Rightarrow> True)"

text \<open>A JSON-RPC response: the identifier of the request, and a result or an error.\<close>

definition answers :: "json \<Rightarrow> json \<Rightarrow> bool" where
  "answers request_id response \<longleftrightarrow> (\<exists>r. response = JObj r \<and>
     dict_get r ''jsonrpc'' = Some (JStr (asc ''2.0'')) \<and> dict_get r ''id'' = Some request_id \<and>
     (dict_get r ''result'' = None \<longleftrightarrow> dict_get r ''error'' \<noteq> None))"

lemma rpc_answers [simp]: "answers i (rpc_reply i r)" "answers i (rpc_error i c m)"
  by (auto simp: answers_def rpc_reply_def rpc_error_def dict_get_def)

lemma rmap_Inl: "rmap f xs = Inl e \<Longrightarrow> \<exists>x \<in> set xs. f x = Inl e"
  by (induction xs) (auto simp: rbind_eq_Inl)

definition too_large :: exn where
  "too_large = ValueError ''int too large for str''"

lemma json_dump_raises: "json_dump i k v = Inl e \<Longrightarrow> e = too_large"
proof (induction i k v rule: json_dump.induct)
  case (3 i k n)
  then show ?case by (auto simp: py_str_int_def too_large_def split: if_splits)
next
  case (6 i k vs)
  then show ?case by (auto simp: rbind_eq_Inl dest!: rmap_Inl)
next
  case (7 i k es)
  from 7(2) obtain a v where "(a, v) \<in> set es" "json_dump i k v = Inl e"
    by (auto simp: rbind_eq_Inl dest!: rmap_Inl)
  with 7(1) show ?case by blast
qed simp_all

definition settled :: "json \<Rightarrow> (json result) \<Rightarrow> bool" where
  "settled i r \<longleftrightarrow> (case r of Inr response \<Rightarrow> answers i response | Inl e \<Rightarrow> e = too_large)"

lemma run_tool_settled: "settled i (fst (run_tool fr i name arguments w))"
  by (auto simp: run_tool_def settled_def py_bind_def py_except_def py_ret_def py_lift_def json_dumps_def
      dest: json_dump_raises split: prod.splits sum.splits option.splits)

lemma tools_call_settled:
  assumes "hashable_name d"
  shows "settled i (fst (tools_call fr i d w))"
proof -
  have ok: "settled i (Inr (rpc_error i c m))" "settled i (Inr (rpc_reply i r))" for c m r
    by (simp_all add: settled_def)
  show ?thesis
  proof (cases "get_or d ''params'' (JObj [])")
    case (JObj params)
    with assms obtain k where k: "known_tool (get_or params ''name'' JNull) = Inr k"
      by (auto simp: hashable_name_def known_tool_def split: json.splits)
    show ?thesis
    proof (cases k)
      case None
      with JObj k show ?thesis by (simp add: tools_call_def ok)
    next
      case (Some tool)
      with JObj k show ?thesis
        by (cases "get_or params ''arguments'' (JObj [])") (simp_all add: tools_call_def ok run_tool_settled)
    qed
  qed (simp_all add: tools_call_def ok)
qed

text \<open>Every JSON-RPC request object whose tool name, if any, is hashable is answered by a response
  with its own identifier and either a result or an error: whatever the client or a tool raises
  becomes a tool error, and only a number of more than 4300 digits could not be written.  A
  notification, which has no identifier, is not answered and does nothing.\<close>

lemma mcp_handle_answers:
  assumes "hashable_name d" and "handle fr (JObj d) w = (r, w')"
  shows "case r of
      Inr None \<Rightarrow> get_or d ''id'' JNull = JNull \<and> w' = w
    | Inr (Some response) \<Rightarrow> get_or d ''id'' JNull \<noteq> JNull \<and> answers (get_or d ''id'' JNull) response
    | Inl e \<Rightarrow> e = too_large"
proof (cases "get_or d ''id'' JNull = JNull")
  case True
  then show ?thesis using assms(2) by (auto simp: handle_def)
next
  case False
  obtain q w1 where q: "tools_call fr (get_or d ''id'' JNull) d w = (q, w1)" by (metis surj_pair)
  then have "settled (get_or d ''id'' JNull) q" using tools_call_settled [OF assms(1)] by (metis fst_conv)
  with False q assms(2) show ?thesis
    by (auto simp: handle_def Let_def py_bind_def py_ret_def settled_def split: if_splits sum.splits)
qed

text \<open>A line that is no object, or a call whose tool name is a list, raises out of \<open>handle\<close> and ends
  the loop.\<close>

lemma handle_not_object: "handle fr (JArr []) w = (Inl (AttributeError ''get''), w)"
  by (simp add: handle_def)

lemma handle_unhashable_tool:
  "handle fr (JObj [jkey ''id'' (JInt 1), jkey ''method'' (JStr (asc ''tools/call'')),
     jkey ''params'' (JObj [jkey ''name'' (JArr [])])]) w = (Inl (TypeError ''unhashable type''), w)"
  by (simp add: handle_def get_or_def dict_get_def tools_call_def known_tool_def py_bind_def py_lift_def)

section \<open>The stdio loop\<close>

text \<open>What \<open>main\<close> makes of a line: nothing (blank, or no JSON), or the outcome of decoding it.\<close>

definition decoded :: "pystr \<Rightarrow> json result option" where
  "decoded line =
     (if py_strip line = [] then None
      else case json_loads (py_strip line) of
          Inl e \<Rightarrow> if e = ValueError ''JSONDecodeError'' then None else Some (Inl e)
        | Inr v \<Rightarrow> Some (Inr v))"

text \<open>Lines on which \<open>handle\<close> cannot raise, and the requests among them that ask for an answer.\<close>

definition sound_line :: "pystr \<Rightarrow> bool" where
  "sound_line line =
     (case decoded line of None \<Rightarrow> True | Some (Inr (JObj d)) \<Rightarrow> hashable_name d | _ \<Rightarrow> False)"

definition asked :: "pystr \<Rightarrow> (pystr \<times> json) list list" where
  "asked line =
     (case decoded line of Some (Inr (JObj d)) \<Rightarrow> if get_or d ''id'' JNull = JNull then [] else [d] | _ \<Rightarrow> [])"

text \<open>A written line is the text of an answer to the request.\<close>

definition written :: "(pystr \<times> json) list \<Rightarrow> pystr \<Rightarrow> bool" where
  "written d t \<longleftrightarrow> (\<exists>v. json_dumps v = Inr t \<and> answers (get_or d ''id'' JNull) v)"

lemma serve_skipped:
  assumes "decoded line = None"
  shows "serve_lines fr out (line # lines) = serve_lines fr out lines"
  using assms by (auto simp: decoded_def Let_def split: if_splits sum.splits)

lemma serve_request:
  assumes "decoded line = Some (Inr v)"
  shows "serve_lines fr out (line # lines) = py_bind (handle fr v) (\<lambda>response.
     case response of None \<Rightarrow> serve_lines fr out lines
     | Some r \<Rightarrow> py_bind (py_lift (json_dumps r)) (\<lambda>t. serve_lines fr (out @ [t]) lines))"
  using assms by (auto simp: decoded_def Let_def split: if_splits sum.splits)

text \<open>C28. The server outlives its requests: when every line of its input is blank, no JSON, or a request
  object whose tool name, if any, is hashable, the loop runs to the end of the input and has written,
  in order, exactly one response for each request with an identifier, carrying that identifier and
  either a result or an error, whatever the client or a tool raised on the way.  The one exception
  is a number of more than 4300 digits, whose text Python refuses to make.\<close>

theorem serve_answers_all:
  assumes "list_all sound_line lines" and "serve_lines fr out lines w = (r, w')"
  shows "case r of Inr out' \<Rightarrow> (\<exists>new. out' = out @ new \<and> list_all2 written (concat (map asked lines)) new)
    | Inl e \<Rightarrow> e = too_large"
  using assms
proof (induction lines arbitrary: out w)
  case Nil
  then show ?case by (auto simp: py_ret_def)
next
  case (Cons line lines)
  from Cons.prems(1) have rest: "list_all sound_line lines" and line: "sound_line line" by simp_all
  show ?case
  proof (cases "decoded line")
    case None
    with Cons.prems(2) have "serve_lines fr out lines w = (r, w')" by (simp only: serve_skipped)
    from Cons.IH [OF rest this] None show ?thesis by (simp add: asked_def split: sum.splits)
  next
    case (Some u)
    with line obtain d where d: "decoded line = Some (Inr (JObj d))" and ok: "hashable_name d"
      by (auto simp: sound_line_def split: sum.splits json.splits)
    obtain q w1 where q: "handle fr (JObj d) w = (q, w1)" by (metis surj_pair)
    note handled = mcp_handle_answers [OF ok q]
    note served = Cons.prems(2) [unfolded serve_request [OF d] py_bind_def q prod.case]
    show ?thesis
    proof (cases q)
      case (Inl e)
      with handled served show ?thesis by auto
    next
      case (Inr response)
      show ?thesis
      proof (cases response)
        case None
        with Inr served have "serve_lines fr out lines w1 = (r, w')" by simp
        from Cons.IH [OF rest this] None Inr handled d show ?thesis by (simp add: asked_def split: sum.splits)
      next
        case (Some v)
        with Inr handled have v: "get_or d ''id'' JNull \<noteq> JNull" "answers (get_or d ''id'' JNull) v" by auto
        show ?thesis
        proof (cases "json_dumps v")
          case (Inl e)
          with Inr Some served show ?thesis
            by (auto simp: py_bind_def py_lift_def json_dumps_def dest: json_dump_raises)
        next
          case (Inr t)
          with \<open>q = Inr response\<close> Some served have "serve_lines fr (out @ [t]) lines w1 = (r, w')"
            by (simp add: py_bind_def py_lift_def)
          note ih = Cons.IH [OF rest this]
          have a: "asked line = [d]" using d v(1) by (simp add: asked_def)
          have "written d t" using Inr v by (auto simp: written_def)
          then have step: "list_all2 written (asked line @ ds) (t # new)" if "list_all2 written ds new" for ds new
            using that by (simp add: a)
          show ?thesis
          proof (cases r)
            case (Inl e)
            with ih show ?thesis by simp
          next
            case (Inr out')
            with ih obtain new where "out' = (out @ [t]) @ new" "list_all2 written (concat (map asked lines)) new"
              by auto
            with step Inr show ?thesis by (auto intro!: exI [of _ "t # new"])
          qed
        qed
      qed
    qed
  qed
qed

definition demo_front :: front where
  "demo_front = \<lparr>fr_rt = plain_runtime, fr_config = default_config, fr_provider = (\<lambda>t. Inr empty_extraction),
     fr_repr = (\<lambda>v. []), fr_exc_text = (\<lambda>e. asc ''error'')\<rparr>"

text \<open>An attestation of an unknown payment is answered with a tool error.\<close>

definition demo_call :: "(pystr \<times> json) list" where
  "demo_call = [jkey ''id'' (JInt 7), jkey ''method'' (JStr (asc ''tools/call'')),
     jkey ''params'' (JObj [jkey ''name'' (JStr (asc ''lumo.attest'')), jkey ''arguments'' (JObj [])])]"

definition demo_reply :: json where
  "demo_reply = rpc_reply (JInt 7) (tool_text (asc ''error'') True)"

lemma demo_handled: "handle demo_front (JObj demo_call) w = (Inr (Some demo_reply), w)"
  by (simp add: handle_def demo_call_def demo_front_def demo_reply_def get_or_def dict_get_def tools_call_def
      known_tool_def tool_names_def run_tool_def call_tool_def str_arg_def py_bind_def py_except_def
      py_lift_def py_ret_def py_raise_def)

definition demo_line :: pystr where
  "demo_line = asc ''{\"id\":7,\"method\":\"tools/call\",\"params\":{\"name\":\"lumo.attest\",\"arguments\":{}}}''"

definition demo_lines :: "pystr list" where
  "demo_lines = [asc ''hello'', demo_line, []]"

lemma demo_lines_decoded: "map decoded demo_lines = [None, Some (Inr (JObj demo_call)), None]"
  by code_simp

lemma demo_lines_sound: "list_all sound_line demo_lines" "concat (map asked demo_lines) = [demo_call]"
  by code_simp+

lemma demo_reply_dumped: "\<not> isl (json_dumps demo_reply)"
  by code_simp

theorem serve_answers_all_witness:
  "\<forall>w. \<exists>t. fst (serve_lines demo_front [] demo_lines w) = Inr [t] \<and> written demo_call t"
proof
  fix w :: "'s world"
  obtain t where t: "json_dumps demo_reply = Inr t"
    using demo_reply_dumped by (metis isl_def sum.exhaust)
  have d: "decoded (asc ''hello'') = None" "decoded demo_line = Some (Inr (JObj demo_call))" "decoded [] = None"
    using demo_lines_decoded by (simp_all add: demo_lines_def)
  have run: "serve_lines demo_front [] demo_lines w = (Inr [t], w)"
    unfolding demo_lines_def serve_skipped [OF d(1)] serve_request [OF d(2)] serve_skipped [OF d(3)]
    by (simp add: py_bind_def demo_handled t py_lift_def py_ret_def)
  from serve_answers_all [OF demo_lines_sound(1) run] run
  show "\<exists>t. fst (serve_lines demo_front [] demo_lines w) = Inr [t] \<and> written demo_call t"
    by (simp add: demo_lines_sound(2))
qed

end
