(* ===== verification/Front_Ends.thy ===== *)
theory Front_Ends
  imports Ui Mcp_Safety Audit_Trail
begin

text \<open>
  Whatever comes in through the HTTP interface, the JSON-RPC server, the command line or the test
  page, the store only moves by the steps of the pipeline and of the payment flow.
\<close>

text \<open>The log only grows, the schema is kept, and so is the decision behind every payment.\<close>

definition trail_kept :: "tables \<Rightarrow> tables \<Rightarrow> bool" where
  "trail_kept t t' \<longleftrightarrow> audit_le t t' \<and> keeps_ok t t' \<and> keeps_audited t t'"

text \<open>C25. No request to any front end can rewrite the audit trail: every table but the rules only grows,
  a stored payment keeps its terms for ever, the schema is kept, and no payment appears without
  the decision that created it.  This holds for every POST and every GET of the HTTP interface, every
  session of the JSON-RPC server, every command of the command line and every POST of the dashboard,
  whatever the request holds and whatever is returned or raised.  (A GET of the dashboard
  is modelled as a function of the tables.)\<close>

theorem front_ends_append_only:
  "trail_kept (w_db (ap_world s)) (w_db (ap_world (snd (do_post sv rq s)))) \<and>
   trail_kept (w_db (ap_world s)) (w_db (ap_world (snd (do_get sv rq s)))) \<and>
   trail_kept (w_db w) (w_db (snd (serve_lines fr out lines w))) \<and>
   trail_kept (w_db v) (w_db (fst (snd (cli_main su adapter cmd (v, ch))))) \<and>
   trail_kept (w_db v) (w_db (fst (snd (ui_post su adapter rq (v, ch)))))"
  unfolding trail_kept_def
  by (intro conjI audit.A_apply audit.A_do_post audit.A_do_get audit.W_apply audit.W_serve_lines
      audit.F_apply audit.F_cli_main audit.F_ui_post ok.A_apply ok.A_do_post ok.A_do_get ok.W_apply
      ok.W_serve_lines ok.F_apply ok.F_cli_main ok.F_ui_post aud.A_apply aud.A_do_post aud.A_do_get
      aud.W_apply aud.W_serve_lines aud.F_apply aud.F_cli_main aud.F_ui_post)

end
