(* ===== verification/Migrate.thy ===== *)
theory Migrate
  imports Json
begin

text \<open>
  \<open>lumo/db/migrate.py\<close> with the scripts of \<open>lumo/db/migrations\<close>.  The state is the list of
  ids in \<open>schema_migrations\<close> and the schema \<open>'d\<close> the scripts work on.  \<open>executescript\<close> commits
  on its own, so the effect of a script survives an exception, its own included, while the row
  of \<open>schema_migrations\<close> is written only behind it.
\<close>

record 'd store =
  mg_applied :: "pystr list"
  mg_schema :: 'd

text \<open>\<open>script mig True\<close> reads and runs \<open>mig.up.sql\<close>, \<open>script mig False\<close> \<open>mig.down.sql\<close>.\<close>

type_synonym 'd script = "pystr \<Rightarrow> bool \<Rightarrow> ('d, unit) py"

definition on_schema :: "('d, 'a) py \<Rightarrow> ('d store, 'a) py" where
  "on_schema m = (\<lambda>w. case m (mg_schema w) of (r, d) \<Rightarrow> (r, w\<lparr>mg_schema := d\<rparr>))"

definition applied :: "'d store \<Rightarrow> pystr list" where
  "applied w = sort (mg_applied w)"

definition up_suffix :: pystr where
  "up_suffix = asc ''.up.sql''"

text \<open>The names in the directory that end in \<open>.up.sql\<close>, without it, sorted.\<close>

definition available :: "pystr list \<Rightarrow> pystr list" where
  "available files =
     sort (map (\<lambda>n. take (length n - length up_suffix) n)
       (filter (\<lambda>n. drop (length n - length up_suffix) n = up_suffix \<and> length up_suffix \<le> length n) files))"

definition record_up :: "pystr \<Rightarrow> ('d store, unit) py" where
  "record_up mig = (\<lambda>w.
     if mig \<in> set (mg_applied w)
     then (Inl (IntegrityError ''UNIQUE constraint failed: schema_migrations.id''), w)
     else (Inr (), w\<lparr>mg_applied := mg_applied w @ [mig]\<rparr>))"

definition record_down :: "pystr \<Rightarrow> ('d store, unit) py" where
  "record_down mig = py_modify (\<lambda>w. w\<lparr>mg_applied := filter (\<lambda>m. m \<noteq> mig) (mg_applied w)\<rparr>)"

fun up_loop :: "'d script \<Rightarrow> pystr set \<Rightarrow> pystr list \<Rightarrow> ('d store, pystr list) py" where
  "up_loop script done_set [] = py_ret []"
| "up_loop script done_set (mig # migs) =
     (if mig \<in> done_set then up_loop script done_set migs
      else py_seq (on_schema (script mig True)) (py_seq (record_up mig)
        (py_bind (up_loop script done_set migs) (\<lambda>rs. py_ret (mig # rs)))))"

definition up :: "'d script \<Rightarrow> pystr list \<Rightarrow> ('d store, pystr list) py" where
  "up script files = py_bind (py_gets (\<lambda>w. set (applied w))) (\<lambda>done_set.
     up_loop script done_set (available files))"

text \<open>\<open>applied[-steps:] if steps else []\<close>, from the last one.\<close>

definition to_revert :: "int \<Rightarrow> pystr list \<Rightarrow> pystr list" where
  "to_revert steps ms =
     rev (if steps = 0 then [] else if 0 < steps then drop (length ms - nat steps) ms
          else drop (nat (- steps)) ms)"

fun down_loop :: "'d script \<Rightarrow> pystr list \<Rightarrow> ('d store, pystr list) py" where
  "down_loop script [] = py_ret []"
| "down_loop script (mig # migs) =
     py_seq (on_schema (script mig False)) (py_seq (record_down mig)
       (py_bind (down_loop script migs) (\<lambda>rs. py_ret (mig # rs))))"

definition down :: "'d script \<Rightarrow> int \<Rightarrow> ('d store, pystr list) py" where
  "down script steps = py_bind (py_gets (\<lambda>w. to_revert steps (applied w))) (down_loop script)"

section \<open>The scripts of the repository\<close>

text \<open>A schema as its tables, each with the version of its CHECK constraints: version 2 of
  \<open>intents\<close> and \<open>decisions\<close> admits \<open>held\<close>.\<close>

type_synonym schema = "(string \<times> nat) list"

definition create_table :: "string \<Rightarrow> nat \<Rightarrow> (schema, unit) py" where
  "create_table name v = (\<lambda>s. if name \<in> fst ` set s then (Inl OperationalError, s) else (Inr (), s @ [(name, v)]))"

definition drop_table :: "string \<Rightarrow> (schema, unit) py" where
  "drop_table name = (\<lambda>s. if name \<in> fst ` set s then (Inr (), filter (\<lambda>(n, v). n \<noteq> name) s)
     else (Inl OperationalError, s))"

text \<open>Create under a new name, copy, drop the old table, rename.\<close>

definition set_version :: "string \<Rightarrow> nat \<Rightarrow> schema \<Rightarrow> schema" where
  "set_version name v s = map (\<lambda>(n, u). if n = name then (n, v) else (n, u)) s"

definition rebuild_table :: "string \<Rightarrow> nat \<Rightarrow> (schema, unit) py" where
  "rebuild_table name v = (\<lambda>s. if name \<in> fst ` set s then (Inr (), set_version name v s)
     else (Inl OperationalError, s))"

definition migration_files :: "pystr list" where
  "migration_files = map asc
     [''0001_registry.up.sql'', ''0001_registry.down.sql'',
      ''0002_intents_audit.up.sql'', ''0002_intents_audit.down.sql'',
      ''0003_chain_anchor.up.sql'', ''0003_chain_anchor.down.sql'',
      ''0004_trust_pipeline.up.sql'', ''0004_trust_pipeline.down.sql'',
      ''0005_events.up.sql'', ''0005_events.down.sql'']"

definition lumo_script :: "schema script" where
  "lumo_script mig upward =
     (if mig = asc ''0001_registry'' then
        (if upward then py_seq (create_table ''suppliers'' 1) (create_table ''policy_rules'' 1)
         else py_seq (drop_table ''policy_rules'') (drop_table ''suppliers''))
      else if mig = asc ''0002_intents_audit'' then
        (if upward then py_seq (create_table ''intents'' 1) (create_table ''decisions'' 1)
         else py_seq (drop_table ''decisions'') (drop_table ''intents''))
      else if mig = asc ''0003_chain_anchor'' then
        (if upward then py_seq (create_table ''chain_txs'' 1) (create_table ''anchor_payouts'' 1)
         else py_seq (drop_table ''anchor_payouts'') (drop_table ''chain_txs''))
      else if mig = asc ''0004_trust_pipeline'' then
        (if upward then py_seq (create_table ''attestations'' 1)
             (py_seq (rebuild_table ''intents'' 2) (rebuild_table ''decisions'' 2))
         else py_seq (drop_table ''attestations'')
             (py_seq (rebuild_table ''intents'' 1) (rebuild_table ''decisions'' 1)))
      else if mig = asc ''0005_events'' then
        (if upward then create_table ''events'' 1 else drop_table ''events'')
      else py_raise (OtherException ''FileNotFoundError''))"

section \<open>What a migration leaves\<close>

lemma up_loop_Inr:
  "up_loop script D migs w = (Inr rs, w') \<Longrightarrow>
     rs = filter (\<lambda>m. m \<notin> D) migs \<and> mg_applied w' = mg_applied w @ rs"
proof (induction migs arbitrary: w rs w')
  case (Cons m migs)
  show ?case
  proof (cases "m \<in> D")
    case True
    with Cons show ?thesis by simp
  next
    case False
    with Cons.prems obtain w1 w2 r where 1: "on_schema (script m True) w = (Inr (), w1)"
      "record_up m w1 = (Inr (), w2)" "up_loop script D migs w2 = (Inr r, w')" "rs = m # r"
      by (auto simp: py_seq_returns py_bind_returns)
    from 1(1) have "mg_applied w1 = mg_applied w" by (auto simp: on_schema_def split: prod.splits)
    with 1(2) have "mg_applied w2 = mg_applied w @ [m]" by (auto simp: record_up_def split: if_splits)
    with Cons.IH [OF 1(3)] 1(4) False show ?thesis by simp
  qed
qed simp

lemma up_Inr:
  assumes "up script files w = (Inr rs, w')"
  shows "rs = filter (\<lambda>m. m \<notin> set (mg_applied w)) (available files)"
    and "mg_applied w' = mg_applied w @ rs"
  using up_loop_Inr [of script "set (mg_applied w)" "available files" w rs w'] assms
  by (auto simp: up_def applied_def)

lemma up_loop_done: "set migs \<subseteq> D \<Longrightarrow> up_loop script D migs w = (Inr [], w)"
  by (induction migs) (auto simp: py_ret_def)

text \<open>Running \<open>up\<close> executes exactly the missing migrations, in the order of their names, and records
  them; a second run executes nothing and changes nothing.\<close>

theorem up_idempotent:
  assumes "up script files w = (Inr rs, w')"
  shows "rs = filter (\<lambda>m. m \<notin> set (mg_applied w)) (available files) \<and> sorted rs \<and>
    mg_applied w' = mg_applied w @ rs \<and> set (available files) \<subseteq> set (mg_applied w') \<and>
    up script files w' = (Inr [], w')"
proof -
  note r = up_Inr [OF assms]
  have sub: "set (available files) \<subseteq> set (mg_applied w')" unfolding r(2) using r(1) by auto
  then have "up script files w' = (Inr [], w')"
    using up_loop_done [of "available files" "set (mg_applied w')"] by (simp add: up_def applied_def)
  moreover have "sorted rs" unfolding r(1) available_def by (intro sorted_filter [where f = id, simplified]) simp
  ultimately show ?thesis using r sub by blast
qed

lemma on_schema_Inr: "on_schema m w = (Inr u, w') \<longleftrightarrow>
    (\<exists>d. m (mg_schema w) = (Inr u, d) \<and> w' = w\<lparr>mg_schema := d\<rparr>)"
  by (auto simp: on_schema_def split: prod.splits)

text \<open>Undoing the migrations of a run, the last first.\<close>

lemma down_loop_undoes:
  assumes inv: "\<And>m d d'. P d \<Longrightarrow> script m True d = (Inr (), d') \<Longrightarrow> P d' \<and> script m False d' = (Inr (), d)"
  shows "up_loop script D migs w = (Inr rs, w') \<Longrightarrow> P (mg_schema w) \<Longrightarrow>
     down_loop script (rev rs) w' = (Inr (rev rs), w)"
proof (induction migs arbitrary: w rs)
  case Nil
  then show ?case by (simp add: py_ret_def)
next
  case (Cons m migs)
  have snoc: "down_loop script (ms @ [m]) v = py_bind (down_loop script ms) (\<lambda>rs.
      py_bind (down_loop script [m]) (\<lambda>qs. py_ret (rs @ qs))) v" for ms m v
    by (induction ms arbitrary: v)
      (auto simp: py_seq_def py_bind_def py_ret_def split: prod.splits sum.splits)
  show ?case
  proof (cases "m \<in> D")
    case True
    with Cons show ?thesis by simp
  next
    case False
    with Cons.prems obtain w1 w2 r where 1: "on_schema (script m True) w = (Inr (), w1)"
      "record_up m w1 = (Inr (), w2)" "up_loop script D migs w2 = (Inr r, w')" "rs = m # r"
      by (auto simp: py_seq_returns py_bind_returns)
    from 1(1) obtain d where d: "script m True (mg_schema w) = (Inr (), d)" "w1 = w\<lparr>mg_schema := d\<rparr>"
      by (auto simp: on_schema_Inr)
    have w2: "w2 = w1\<lparr>mg_applied := mg_applied w @ [m]\<rparr>" and new: "m \<notin> set (mg_applied w)"
      using 1(2) d(2) by (auto simp: record_up_def split: if_splits)
    have "down_loop script (rev r) w' = (Inr (rev r), w2)"
      using Cons.IH [OF 1(3)] inv [OF Cons.prems(2) d(1)] d(2) w2 by simp
    moreover have "down_loop script [m] w2 = (Inr [m], w)"
    proof -
      have "filter (\<lambda>k. k \<noteq> m) (mg_applied w) = mg_applied w"
        using new by (auto simp: filter_id_conv)
      then show ?thesis
        using inv [OF Cons.prems(2) d(1)] d(2) w2
        by (simp add: py_seq_def py_bind_def py_ret_def py_modify_def on_schema_def record_down_def)
    qed
    ultimately show ?thesis unfolding 1(4) by (simp add: snoc py_bind_def)
  qed
qed

text \<open>C29. When every down script undoes its up script on the schemas that occur, reverting the migrations
  of a fresh database restores it completely: \<open>down\<close> with the number of migrations that \<open>up\<close> ran
  returns them in reverse order and leaves the state that \<open>up\<close> started from.\<close>

theorem down_undoes_up:
  assumes "\<And>m d d'. P d \<Longrightarrow> script m True d = (Inr (), d') \<Longrightarrow> P d' \<and> script m False d' = (Inr (), d)"
    and "P (mg_schema w)" and "mg_applied w = []" and "up script files w = (Inr rs, w')"
  shows "down script (int (length rs)) w' = (Inr (rev rs), w)"
proof -
  note r = up_Inr [OF assms(4)]
  have loop: "up_loop script {} (available files) w = (Inr rs, w')"
    using assms(3,4) by (simp add: up_def applied_def)
  have "sort rs = rs" using r(1) assms(3) by (simp add: available_def sorted_sort_id)
  then have "to_revert (int (length rs)) (applied w') = rev rs"
    using r(2) assms(3) by (cases rs) (simp_all add: to_revert_def applied_def)
  with down_loop_undoes [where P = P and script = script, OF assms(1) loop assms(2)] show ?thesis
    by (simp add: down_def)
qed

definition lumo_schema :: "schema \<Rightarrow> bool" where
  "lumo_schema d \<longleftrightarrow> (''attestations'' \<notin> fst ` set d \<longrightarrow> (\<forall>t \<in> set d. snd t = 1))"

lemma create_table_Inr: "create_table n v d = (Inr u, d') \<longleftrightarrow> n \<notin> fst ` set d \<and> d' = d @ [(n, v)]"
  by (auto simp: create_table_def)

lemma drop_created: "n \<notin> fst ` set d \<Longrightarrow> filter (\<lambda>(k, v). k \<noteq> n) d = d"
  by (induction d) auto

lemma drop_table_last: "n \<notin> fst ` set d \<Longrightarrow> drop_table n (d @ [(n, v)]) = (Inr (), d)"
  by (simp add: drop_table_def drop_created)

lemma set_version_names [simp]: "fst ` set (set_version a v d) = fst ` set d"
  unfolding set_version_def by force

lemma versions_back:
  "\<forall>t \<in> set d. snd t = 1 \<Longrightarrow>
     set_version b 1 (set_version a 1 (set_version b 2 (set_version a 2 d))) = d"
  by (induction d) (auto simp: set_version_def)

lemma two_tables:
  assumes "a \<noteq> b" and "py_seq (create_table a 1) (create_table b 1) d = (Inr (), d')"
  shows "d' = d @ [(a, 1), (b, 1)] \<and> py_seq (drop_table b) (drop_table a) d' = (Inr (), d)"
proof -
  from assms have d': "d' = (d @ [(a, 1)]) @ [(b, 1)]" and fresh: "a \<notin> fst ` set d" "b \<notin> fst ` set (d @ [(a, 1)])"
    by (auto simp: py_seq_returns create_table_Inr)
  with drop_table_last [OF fresh(2)] drop_table_last [OF fresh(1)] show ?thesis
    by (simp add: py_seq_def py_bind_def)
qed

lemma trust_pipeline_back:
  assumes "lumo_schema d" and "py_seq (create_table ''attestations'' 1)
      (py_seq (rebuild_table ''intents'' 2) (rebuild_table ''decisions'' 2)) d = (Inr (), d')"
  shows "lumo_schema d' \<and> py_seq (drop_table ''attestations'')
      (py_seq (rebuild_table ''intents'' 1) (rebuild_table ''decisions'' 1)) d' = (Inr (), d)"
proof -
  let ?d = "set_version ''decisions'' 2 (set_version ''intents'' 2 d)"
  from assms(2) have fresh: "''attestations'' \<notin> fst ` set d"
    and has: "''intents'' \<in> fst ` set d" "''decisions'' \<in> fst ` set d"
    and d': "d' = set_version ''decisions'' 2 (set_version ''intents'' 2 (d @ [(''attestations'', 1)]))"
    by (auto simp: py_seq_returns create_table_Inr rebuild_table_def split: if_splits)
  then have d'': "d' = ?d @ [(''attestations'', 1)]" by (simp add: set_version_def)
  have ones: "\<forall>t \<in> set d. snd t = 1" using assms(1) fresh by (simp add: lumo_schema_def)
  have "drop_table ''attestations'' d' = (Inr (), ?d)"
    unfolding d'' by (rule drop_table_last) (simp add: fresh)
  then show ?thesis
    using has versions_back [OF ones] unfolding d''
    by (simp add: py_seq_Inr rebuild_table_def lumo_schema_def)
qed

lemma lumo_scripts_undo:
  assumes "lumo_schema d" and "lumo_script m True d = (Inr (), d')"
  shows "lumo_schema d' \<and> lumo_script m False d' = (Inr (), d)"
proof -
  have app: "lumo_schema (d @ [(a, 1), (b, 1)])" "lumo_schema (d @ [(a, 1)])" for a b
    using assms(1) by (auto simp: lumo_schema_def)
  consider "m = asc ''0001_registry''" | "m = asc ''0002_intents_audit''" | "m = asc ''0003_chain_anchor''"
    | "m = asc ''0004_trust_pipeline''" | "m = asc ''0005_events''"
    using assms(2) by (auto simp: lumo_script_def py_raise_def split: if_splits)
  then show ?thesis
  proof cases
    case 4
    then show ?thesis using trust_pipeline_back assms by (simp add: lumo_script_def)
  next
    case 5
    then have "''events'' \<notin> fst ` set d" "d' = d @ [(''events'', 1)]"
      using assms(2) by (auto simp: lumo_script_def create_table_Inr)
    then show ?thesis using 5 app(2) drop_table_last by (simp add: lumo_script_def)
  next
    case 1
    then show ?thesis using two_tables [of "''suppliers''" "''policy_rules''" d d'] assms(2) app(1)
      by (auto simp: lumo_script_def)
  next
    case 2
    then show ?thesis using two_tables [of "''intents''" "''decisions''" d d'] assms(2) app(1)
      by (auto simp: lumo_script_def)
  next
    case 3
    then show ?thesis using two_tables [of "''chain_txs''" "''anchor_payouts''" d d'] assms(2) app(1)
      by (auto simp: lumo_script_def)
  qed
qed

definition migrated :: "pystr list result \<times> schema store" where
  "migrated = up lumo_script migration_files \<lparr>mg_applied = [], mg_schema = []\<rparr>"

lemma migrated_value: "migrated = (Inr (map asc [''0001_registry'', ''0002_intents_audit'', ''0003_chain_anchor'',
    ''0004_trust_pipeline'', ''0005_events'']), \<lparr>mg_applied = map asc [''0001_registry'', ''0002_intents_audit'',
      ''0003_chain_anchor'', ''0004_trust_pipeline'', ''0005_events''],
    mg_schema = [(''suppliers'', 1), (''policy_rules'', 1), (''intents'', 2), (''decisions'', 2),
      (''chain_txs'', 1), (''anchor_payouts'', 1), (''attestations'', 1), (''events'', 1)]\<rparr>)"
  by code_simp

theorem up_idempotent_witness: "up lumo_script migration_files (snd migrated) = (Inr [], snd migrated)"
  unfolding migrated_value snd_conv
  using up_idempotent [OF migrated_value [unfolded migrated_def]] by blast

theorem down_undoes_up_witness:
  "\<exists>rs. length rs = 5 \<and> down lumo_script 5 (snd migrated) = (Inr rs, \<lparr>mg_applied = [], mg_schema = []\<rparr>)"
proof -
  have s: "lumo_schema (mg_schema \<lparr>mg_applied = [], mg_schema = []\<rparr>)" by (simp add: lumo_schema_def)
  from down_undoes_up [where P = lumo_schema, OF lumo_scripts_undo s _ migrated_value [unfolded migrated_def]]
  show ?thesis unfolding migrated_value by auto
qed

end
