(* ===== verification/Fail_Closed.thy ===== *)
theory Fail_Closed
  imports Llama Pipeline_Safety Demo
begin

text \<open>
  What \<open>run\<close> does when something is missing: an extraction that fails is refused under every
  configuration, and what leaves \<open>run\<close> as an exception instead of a refusal.  Whatever happens
  before \<open>record_decision\<close> leaves the payments alone, on the raising paths too.
\<close>

section \<open>Payments\<close>

definition same_payments :: "tables \<Rightarrow> tables \<Rightarrow> bool" where
  "same_payments t t' \<longleftrightarrow> t_intents t' = t_intents t \<and> t_decisions t' = t_decisions t"

interpretation paid: db_relation same_payments
  by unfold_locales (simp_all add: same_payments_def)

definition same_intents :: "tables \<Rightarrow> tables \<Rightarrow> bool" where
  "same_intents t t' \<longleftrightarrow> t_intents t' = t_intents t"

interpretation sint: db_relation same_intents
  by unfold_locales (simp_all add: same_intents_def)

lemma paid_prepare: "evolves paid.W (prepare rt text provider c token receipt)"
  unfolding prepare_def make_policy_def Let_def intents_today_def
  by (intro paid.wr.evo_intros paid.W_pure paid.W_read)

lemma paid_guards: "evolves paid.W (run_guards rt gs ctx)"
proof (rule evolvesI)
  fix w :: "'a world"
  obtain r w' where g: "run_guards rt gs ctx w = (r, w')" by (cases "run_guards rt gs ctx w")
  then show "paid.W w (snd (run_guards rt gs ctx w))"
    using events_only_frame [OF run_guards_db [OF g]] by (simp add: paid.W_def same_payments_def)
qed

lemma ins_decision_intents: "ins_decision r t = Inr t' \<Longrightarrow> t_intents t' = t_intents t"
  by (auto simp: ins_decision_def split: if_splits)

lemma sint_refusal: "evolves sint.W (record_decision D_refused codes rhash None None detail)"
proof -
  have "evolves sint.W (transaction (decision_tx D_refused codes rhash None None detail did))"
    for did :: pystr
    by (intro sint.W_transaction) (auto dest!: decision_tx_other ins_decision_intents simp: same_intents_def)
  moreover have "evolves sint.W (emit n p)" for n p
    unfolding emit_def
    by (auto intro!: sint.wr.evo_intros sint.W_pure sint.W_write simp: ins_event_def same_intents_def split: if_splits)
  ultimately show ?thesis
    unfolding record_decision_def by (intro sint.wr.evo_intros sint.W_pure)
qed

section \<open>Runs that can only refuse\<close>

lemma run_only_refuses:
  assumes refuses: "\<And>p w1 v codes w2. prepare rt text provider c token receipt w = (Inr p, w1) \<Longrightarrow>
      run_guards rt (propose_guards c) (pp_context p) w1 = (Inr (v, codes), w2) \<Longrightarrow> v = REFUSE"
  shows "t_intents (w_db (snd (run rt text provider c token receipt w))) = t_intents (w_db w)"
proof -
  obtain r w1 where prep: "prepare rt text provider c token receipt w = (r, w1)" by (metis surj_pair)
  have db1: "t_intents (w_db w1) = t_intents (w_db w)"
    using evolvesD [OF paid_prepare prep] by (simp add: paid.W_def same_payments_def)
  show ?thesis
  proof (cases r)
    case (Inl e)
    with prep db1 show ?thesis by (simp add: run_def py_bind_def)
  next
    case (Inr p)
    obtain g w2 where guards: "run_guards rt (propose_guards c) (pp_context p) w1 = (g, w2)" by (metis surj_pair)
    have db2: "t_intents (w_db w2) = t_intents (w_db w)"
      using evolvesD [OF paid_guards guards] db1 by (simp add: paid.W_def same_payments_def)
    show ?thesis
    proof (cases g)
      case (Inl e)
      with prep Inr guards db2 show ?thesis by (simp add: run_def py_bind_def)
    next
      case (Inr vc)
      obtain codes where vc: "vc = (REFUSE, codes)"
        using refuses prep guards \<open>r = Inr p\<close> Inr by (cases vc) auto
      obtain d w3 where d: "record_decision D_refused codes (pp_rhash p) None None
          (x_invoice_ref (pp_extracted p)) w2 = (d, w3)" by (metis surj_pair)
      have "t_intents (w_db w3) = t_intents (w_db w)"
        using evolvesD [OF sint_refusal d] db2 by (simp add: sint.W_def same_intents_def)
      with prep guards \<open>r = Inr p\<close> Inr vc d show ?thesis
        by (cases d) (simp_all add: run_def py_bind_def conclude_def py_seq_def py_ret_def)
    qed
  qed
qed

text \<open>Without an amount the cross-check refuses, whatever else is configured.\<close>

lemma no_amount_refuses:
  assumes prep: "prepare rt text provider c token receipt w = (Inr p, w1)" and amt: "pp_amount p = None"
    and guards: "run_guards rt (propose_guards c) (pp_context p) w1 = (Inr (v, codes), w2)"
  shows "v = REFUSE"
proof (rule ccontr)
  assume "v \<noteq> REFUSE"
  from guard_passed [OF prep guards this propose_guards_mem(1)]
  obtain r where r: "guard_check rt AmountCrossCheckGuard (pp_context p) (w_db w1) = Inr r" "fst r \<noteq> REFUSE"
    by auto
  obtain req where "gc_request (pp_context p) = Some req" "pr_amount_stroops req = None"
    using prepare_Inr [OF prep] amt by (auto simp: make_context_def make_request_def)
  with r show False by (auto simp: guard_check_def need_def amount_check_def)
qed

lemma to_stroops_none [simp]: "to_stroops rt None = None"
  by (simp add: to_stroops_def)

text \<open>C11. A model server that fails, by a transport error, an HTTP error, an answer that is not JSON, of
  the wrong shape or rejected by the schema, never leads to a payment: under every configuration the
  run adds and changes no payment, whether it returns or raises, and when it returns it returns a
  refusal.\<close>

theorem broken_model_refused:
  assumes "llama_exchange srv text = Inl e" and "llama_caught e"
  shows "case run rt text (llama_extract (llama_exchange srv)) c token receipt w of (r, w') \<Rightarrow>
     t_intents (w_db w') = t_intents (w_db w) \<and>
     (case r of Inl _ \<Rightarrow> True | Inr res \<Rightarrow> res_decision res = V_refused)"
proof -
  let ?prov = "llama_extract (llama_exchange srv)"
  have empty: "?prov text = Inr empty_extraction" by (simp add: llama_extract_def assms)
  have refuses: "v = REFUSE"
    if prep: "prepare rt text ?prov c token receipt w = (Inr p, w1)"
      and g: "run_guards rt (propose_guards c) (pp_context p) w1 = (Inr (v, codes), w2)" for p w1 v codes w2
  proof (rule no_amount_refuses [OF prep _ g])
    have "pp_extracted p = empty_extraction" using prepare_Inr [OF prep] empty by simp
    with prepare_Inr [OF prep] show "pp_amount p = None" by (simp add: empty_extraction_def)
  qed
  have "res_decision res = V_refused"
    if run: "run rt text ?prov c token receipt w = (Inr res, w')" for res w'
    by (rule run_Inr [OF run]) (use refuses conclude_Inr in fastforce)
  moreover have "t_intents (w_db (snd (run rt text ?prov c token receipt w))) = t_intents (w_db w)"
    by (rule run_only_refuses) (rule refuses)
  ultimately show ?thesis by (auto split: prod.splits sum.splits)
qed

section \<open>Exceptions instead of refusals\<close>

text \<open>Without the two guards that ask for a registered supplier, a payment to an unknown one that passes
  the others ends in \<open>TypeError\<close> at \<open>supplier["id"]\<close>: no decision is recorded.\<close>

lemma unknown_supplier_raises:
  assumes prep: "prepare rt text provider c token receipt w = (Inr p, w1)" and "pp_supplier p = None"
    and guards: "run_guards rt (propose_guards c) (pp_context p) w1 = (Inr (v, codes), w2)" and "v \<noteq> REFUSE"
  shows "\<exists>w' m. run rt text provider c token receipt w = (Inl (TypeError m), w') \<and>
     same_payments (w_db w) (w_db w')"
proof -
  have "run rt text provider c token receipt w = (Inl (TypeError ''NoneType object is not subscriptable''), w2)"
    using assms by (simp add: run_def py_bind_def conclude_def make_draft_def py_lift_def)
  moreover have "same_payments (w_db w) (w_db w2)"
    using evolvesD [OF paid_prepare prep] evolvesD [OF paid_guards guards]
    by (simp add: paid.W_def same_payments_def)
  ultimately show ?thesis by blast
qed

text \<open>An amount of more than 4300 digits cannot be turned into the text that is hashed.\<close>

lemma unprintable_amount_raises:
  assumes "provider text = Inr x" and "to_stroops rt (x_amount x) = Some n" and "py_str_int n = Inl e"
    and "dict_item (t_rules (w_db w)) ''sme_address'' = Inr sme"
    and "dict_item (t_rules (w_db w)) ''token_address'' = Inr tok"
  shows "\<exists>w'. run rt text provider c token receipt w = (Inl e, w') \<and> same_payments (w_db w) (w_db w')"
proof -
  have h: "intent_hash rt (t_rules (w_db w)) reg (Some n) ref = Inl e" for reg ref
    by (simp add: intent_hash_def assms rbind_def)
  obtain r w1 where clk: "read_clock w = (r, w1)" by (metis surj_pair)
  show ?thesis
  proof (cases r)
    case (Inl e')
    with clk show ?thesis by (simp add: read_clock_def)
  next
    case (Inr now)
    with clk have "w_db w1 = w_db w" using read_clock_step by blast
    moreover have "run rt text provider c token receipt w = (Inl e, w1)"
      using clk Inr assms(1,2) h
      by (simp add: run_def prepare_def Let_def py_bind_def py_lift_def db_read_def py_gets_def rules_def)
    ultimately show ?thesis by (auto simp: same_payments_def)
  qed
qed

lemma scale_power:
  assumes "0 \<le> e" "e \<le> 900000"
  shows "scale_to_stroops (Fin False 1 e) = Some (10 ^ nat (e + 7))"
proof (subst scale_to_stroops_exact)
  show "exact_amount (Fin False 1 e)"
    using assms ndigits_le [of 1 21] by (simp add: exact_amount_def)
  have "(10::rat) ^ nat (e + 7) = 10 ^ nat e * 10 ^ 7"
    using assms by (simp add: nat_add_distrib power_add)
  then show "dec_val (Fin False 1 e) * of_int STROOP = of_int (10 ^ nat (e + 7))"
    using assms by (simp add: STROOP_def signed_def power_int_def)
qed

lemma power_unprintable:
  assumes "max_str_digits \<le> k"
  shows "py_str_int (10 ^ k) = Inl (ValueError ''int too large for str'')"
  by (rule py_str_int_Inl) (simp add: assms power_increasing)

text \<open>\<open>1E5000\<close> is such an amount.\<close>

lemma huge_amount_unprintable:
  "\<exists>n e. to_stroops plain_runtime (Some (asc ''1E5000'')) = Some n \<and> py_str_int n = Inl e"
proof -
  have "dec_of_str plain_runtime (asc ''1E5000'') = Inr (Fin False 1 5000)" by code_simp
  then have "to_stroops plain_runtime (Some (asc ''1E5000'')) = scale_to_stroops (Fin False 1 5000)"
    by (simp only: to_stroops_def try_candidate_def option.case sum.case)
  also have "\<dots> = Some (10 ^ nat (5000 + 7))" by (rule scale_power) simp_all
  finally have "to_stroops plain_runtime (Some (asc ''1E5000'')) = Some (10 ^ nat (5000 + 7))" .
  moreover have "py_str_int (10 ^ nat (5000 + 7)) = Inl (ValueError ''int too large for str'')"
    by (rule power_unprintable) (simp add: max_str_digits_def)
  ultimately show ?thesis by blast
qed

section \<open>Examples\<close>

definition down_server :: llama_server where
  "down_server = \<lparr>ls_post = (\<lambda>u b. Inl (OtherException ''HTTPError'')),
     ls_validate = (\<lambda>v. Inl (OtherException ''ValidationError''))\<rparr>"

definition quiet_config :: config where
  "quiet_config = demo_config\<lparr>cf_injection_scan := False\<rparr>"

definition down_run :: "pipeline_result result \<times> unit world" where
  "down_run = run plain_runtime (asc ''5'') (llama_extract (llama_exchange down_server)) quiet_config None None
     (demo_world demo_tables)"

lemma down_run_returns: "\<not> isl (fst down_run)"
  by code_simp

theorem broken_model_refused_witness:
  "\<exists>res w'. down_run = (Inr res, w') \<and> res_decision res = V_refused \<and> t_intents (w_db w') = []"
proof -
  obtain res w' where r: "down_run = (Inr res, w')"
    using down_run_returns by (metis isl_def prod.collapse sum.exhaust)
  have "llama_exchange down_server (asc ''5'') = Inl (OtherException ''HTTPError'')"
    by (simp add: llama_exchange_def down_server_def rbind_def)
  moreover have "llama_caught (OtherException ''HTTPError'')" by simp
  ultimately have "case down_run of (r, w') \<Rightarrow> t_intents (w_db w') = t_intents (w_db (demo_world demo_tables)) \<and>
     (case r of Inl _ \<Rightarrow> True | Inr res \<Rightarrow> res_decision res = V_refused)"
    unfolding down_run_def by (rule broken_model_refused)
  from this [unfolded r prod.case sum.case] have "res_decision res = V_refused" "t_intents (w_db w') = []"
    by (simp_all add: demo_world_def demo_tables_def empty_tables_def)
  with r show ?thesis by blast
qed

text \<open>With both guards off, the invoice \<open>5\<close> of an unknown supplier raises.\<close>

definition unguarded_config :: config where
  "unguarded_config = quiet_config\<lparr>cf_policy_engine := False, cf_policy_signer := False\<rparr>"

definition stranger_run :: "pipeline_result result \<times> unit world" where
  "stranger_run = run plain_runtime (asc ''5'')
     (\<lambda>text. Inr (demo_extraction\<lparr>x_supplier_name := Some (asc ''B'')\<rparr>)) unguarded_config None None
     (demo_world demo_tables)"

lemma stranger_raises:
  "fst stranger_run = Inl (TypeError ''NoneType object is not subscriptable'') \<and>
   t_decisions (w_db (snd stranger_run)) = []"
  by code_simp

end
