(* ===== verification/Scripts.thy ===== *)
theory Scripts
  imports Cli Smart_Account
begin

text \<open>
  The two scripts: \<open>scripts/seed_demo_db.py\<close>, the whole story of the program in one run on the mock
  chain, and \<open>scripts/verify_policy_enforcement.py\<close>, which asks the RPC server what the deployed policy
  account would authorise.  The invoice files are their texts or the error of reading them; the
  database of the first script is a migrated one; stellar-sdk is the record \<open>sdk\<close> of \<open>Smart_Account\<close>.
\<close>

definition py_assert :: "bool \<Rightarrow> ('w, unit) py" where
  "py_assert b = py_when (\<not> b) (py_raise (OtherException ''AssertionError''))"

section \<open>\<open>seed_demo_db.py\<close>\<close>

definition seed_demo_config :: "pystr \<Rightarrow> config result" where
  "seed_demo_config db = post_init (default_config\<lparr>cf_db_path := db, cf_provider := asc ''mock'',
     cf_chain_adapter := asc ''mock''\<rparr>)"

definition demo_propose :: "runtime \<Rightarrow> config \<Rightarrow> (string \<Rightarrow> pystr result) \<Rightarrow> string
    \<Rightarrow> ('s, 'c, pipeline_result) flow" where
  "demo_propose rt c invoice name =
     py_bind (py_lift (invoice name)) (\<lambda>text.
       on_fst (run rt text (mock_extract rt (asc ''honest'')) c None None))"

definition demo_happy :: "runtime \<Rightarrow> config \<Rightarrow> (string \<Rightarrow> pystr result) \<Rightarrow> ('s, mock_chain, unit) flow" where
  "demo_happy rt c invoice =
     py_bind (demo_propose rt c invoice ''clean_in_policy.txt'') (\<lambda>happy.
     let i = or_empty (res_intent_id happy); cl = mock_adapter rt in
     py_seq (py_assert (res_decision happy = V_proposed))
     (py_bind (execute rt cl i (cf_sme_source c) c) (\<lambda>_.
      py_seq (attest rt cl i (asc ''Shipped'') (cf_oracle_address c) (cf_oracle_source c) None)
      (py_bind (release rt cl i (cf_sme_source c) c) (\<lambda>st. py_assert (st = Released))))))"

definition demo_poisoned :: "runtime \<Rightarrow> config \<Rightarrow> (string \<Rightarrow> pystr result) \<Rightarrow> ('s, 'c, unit) flow" where
  "demo_poisoned rt c invoice =
     py_bind (demo_propose rt c invoice ''inject_address_swap.txt'') (\<lambda>poisoned.
     py_seq (py_assert (res_decision poisoned = V_refused))
       (py_assert (INJECTION_SUSPECTED \<in> set (res_codes poisoned))))"

text \<open>The second escrow lapses: the clock of the mock chain is set far past the deadline.\<close>

definition demo_lapse :: "runtime \<Rightarrow> config \<Rightarrow> (string \<Rightarrow> pystr result) \<Rightarrow> ('s, mock_chain, unit) flow" where
  "demo_lapse rt c invoice =
     py_bind (demo_propose rt c invoice ''clean_control.txt'') (\<lambda>lapse.
     let i = or_empty (res_intent_id lapse); cl = mock_adapter rt in
     py_seq (py_assert (res_decision lapse = V_proposed))
     (py_bind (execute rt cl i (cf_sme_source c) c) (\<lambda>_.
      py_seq (on_snd (py_modify (\<lambda>s. s\<lparr>mc_now := 2 ^ 62\<rparr>)))
      (py_bind (revert cl i (cf_sme_source c)) (\<lambda>st. py_assert (st = Reverted))))))"

definition demo_open_chain :: "('s, mock_chain, unit) flow" where
  "demo_open_chain =
     py_bind (on_fst read_clock) (\<lambda>now.
     py_seq (on_snd (py_modify (\<lambda>_. mock_new (now div 1000))))
     (py_bind (from_db rules) (\<lambda>rls.
      py_bind (py_lift (rbind (dict_item rls ''token_address'') (\<lambda>token.
          rbind (dict_item rls ''sme_address'') (\<lambda>sme. Inr (token, sme))))) (\<lambda>(token, sme).
        on_snd (py_modify (fund token sme (10000 * 10000000)))))))"

definition seed_demo :: "runtime \<Rightarrow> pystr \<Rightarrow> (string \<Rightarrow> pystr result) \<Rightarrow> ('s, mock_chain, pystr) flow" where
  "seed_demo rt db invoice =
     py_bind (py_lift (seed_demo_config db)) (\<lambda>c.
     py_seq (on_fst seed)
     (py_seq demo_open_chain
     (py_seq (demo_happy rt c invoice)
     (py_seq (demo_poisoned rt c invoice)
     (py_seq (demo_lapse rt c invoice)
     (py_bind (from_db take_snapshot) (\<lambda>s.
        py_lift (rbind s (\<lambda>x. json_dumps (snapshot_json x))))))))))"

context repo_relation
begin

lemma F_demo_propose: "evolves F (demo_propose rt c invoice name)"
  unfolding demo_propose_def by (auto intro!: F_intros F_fst W_run)

lemma F_seed_demo: "evolves F (seed_demo rt db invoice)"
  unfolding seed_demo_def demo_open_chain_def demo_happy_def demo_poisoned_def demo_lapse_def py_assert_def Let_def
  by (auto intro!: F_intros F_fst F_snd F_demo_propose F_execute F_attest F_release F_revert W_seed W_pure W_read)

end

section \<open>\<open>verify_policy_enforcement.py\<close>\<close>

record policy_env =
  pv_rpc :: pystr
  pv_policy :: pystr
  pv_usdc :: pystr
  pv_escrow :: pystr
  pv_cap :: int
  pv_non_escrow :: pystr

definition env_or :: "(pystr \<Rightarrow> pystr option) \<Rightarrow> string \<Rightarrow> string \<Rightarrow> pystr" where
  "env_or env name fallback = (case env (asc name) of Some v \<Rightarrow> v | None \<Rightarrow> asc fallback)"

definition policy_env_of :: "runtime \<Rightarrow> (pystr \<Rightarrow> pystr option) \<Rightarrow> policy_env result" where
  "policy_env_of rt env =
     rbind (py_int_of_str rt (env_or env ''POLICY_CAP'' ''20000000000'')) (\<lambda>cap. Inr
       \<lparr>pv_rpc = env_or env ''LUMO_RPC'' ''https://soroban-testnet.stellar.org'',
        pv_policy = env_or env ''POLICY_ID'' ''CD2EIG3V4TBGHSGLZYCIZRHVFVQFUA3NL2KG7SZFF3SIEGL7MMV4PF5L'',
        pv_usdc = env_or env ''USDC_SAC'' ''CDWS5VFOIDNU7X3O4CXNF2I5TMGT5RKLB4GDHU24VOO7FRGGI3XYTQC7'',
        pv_escrow = env_or env ''ESCROW_ID'' ''CARKYFTVFVUX2Y3OZJUPYBBZKTVVIHC3APSFAQOVL6DGKWU6D6ZGJJMK'',
        pv_cap = cap,
        pv_non_escrow = env_or env ''NON_ESCROW'' ''CBY6WBJTUVEOGZVP65AUIUZFKYS5LKMH7MMD2TQX2HZXP67XVW6T7MGS''\<rparr>)"

definition policy_errors :: "(string \<times> string) list" where
  "policy_errors = [(''1'', ''FnNotAllowed''), (''2'', ''OverCap''), (''3'', ''SupplierNotApproved''),
     (''4'', ''BadSignature''), (''5'', ''InvalidArgs''), (''6'', ''RecipientNotAllowed'')]"

text \<open>\<open>sub in text\<close>\<close>

definition occurs :: "pystr \<Rightarrow> pystr \<Rightarrow> bool" where
  "occurs sub text \<longleftrightarrow> list_ex (\<lambda>k. take (length sub) (drop k text) = sub) [0 ..< Suc (length text)]"

definition verdict_of :: "simulation \<Rightarrow> pystr" where
  "verdict_of enforced =
     (case or_empty (si_error enforced) of [] \<Rightarrow> asc ''AUTHORIZED''
      | e \<Rightarrow> (case find (\<lambda>(code, _). occurs (asc ('', #'' @ code @ '')'')) e) policy_errors of
            Some (_, name) \<Rightarrow> asc name
          | None \<Rightarrow> asc ''rejected: '' @ e))"

definition policy_account :: "policy_env \<Rightarrow> smart_account" where
  "policy_account pv = \<lparr>sa_escrow_id = pv_escrow pv, sa_smart_account = pv_policy pv, sa_owner_source = [],
     sa_network = []\<rparr>"

definition transfer_params :: "('n, 'k, 'acct, 'tx, 'entry, 'pre, 'sv, 'meta) sdk \<Rightarrow> policy_env \<Rightarrow> pystr \<Rightarrow> int
    \<Rightarrow> 'sv list result" where
  "transfer_params sd pv to_addr amount =
     rbind (sd_address sd (pv_policy pv)) (\<lambda>from. rbind (sd_address sd to_addr) (\<lambda>recipient.
     rbind (sd_int128 sd amount) (\<lambda>n. Inr [from, recipient, n])))"

definition check_auth_verdict :: "('n, 'k, 'acct, 'tx, 'entry, 'pre, 'sv, 'meta) sdk \<Rightarrow> policy_env \<Rightarrow> 'k \<Rightarrow> 'k
    \<Rightarrow> pystr \<Rightarrow> int \<Rightarrow> ('n, pystr) py" where
  "check_auth_verdict sd pv owner source to_addr amount =
     (let rpc = pv_rpc pv in
      py_bind (sd_load_account sd rpc (sd_public sd source)) (\<lambda>account.
      py_bind (py_lift (rbind (transfer_params sd pv to_addr amount)
          (sd_build sd account (sd_passphrase sd) 1000000 120 (pv_usdc pv) ''transfer''))) (\<lambda>tx.
      py_bind (sd_simulate sd rpc tx) (\<lambda>recorded.
      if or_empty (si_error recorded) \<noteq> [] \<or> si_auth recorded = None \<or> si_auth recorded = Some []
      then py_raise (OtherException ''SystemExit'')
      else py_bind (sd_latest_ledger sd rpc) (\<lambda>sequence.
      py_bind (py_lift (signed_auth sd (policy_account pv) owner (sequence + 100) recorded)) (\<lambda>auth.
      py_bind (sd_simulate sd rpc (sd_set_auth sd auth tx)) (\<lambda>enforced.
      py_ret (verdict_of enforced))))))))"

definition policy_cases :: "policy_env \<Rightarrow> (pystr \<times> int \<times> pystr) list" where
  "policy_cases pv =
     [(pv_non_escrow pv, pv_cap pv div 2, asc ''RecipientNotAllowed''),
      (pv_escrow pv, pv_cap pv + 1, asc ''OverCap''),
      (pv_escrow pv, 100000000, asc ''AUTHORIZED'')]"

fun count_failures :: "(pystr \<Rightarrow> int \<Rightarrow> ('n, pystr) py) \<Rightarrow> nat \<Rightarrow> (pystr \<times> int \<times> pystr) list \<Rightarrow> ('n, nat) py" where
  "count_failures check failures [] = py_ret failures"
| "count_failures check failures ((to_addr, amount, expected) # cases) =
     py_bind (check to_addr amount) (\<lambda>verdict.
       count_failures check (if verdict = expected then failures else Suc failures) cases)"

definition verify_policy :: "runtime \<Rightarrow> ('n, 'k, 'acct, 'tx, 'entry, 'pre, 'sv, 'meta) sdk
    \<Rightarrow> (pystr \<Rightarrow> pystr option) \<Rightarrow> ('n, int) py" where
  "verify_policy rt sd env =
     py_bind (py_lift (policy_env_of rt env)) (\<lambda>pv.
     py_bind (py_lift (rbind (case env (asc ''SME_SECRET'') of None \<Rightarrow> Inl (KeyError (asc ''SME_SECRET'')) | Some s \<Rightarrow> Inr s)
        (sd_keypair sd))) (\<lambda>owner.
     py_bind (py_lift (rbind (case env (asc ''DEPLOYER_SECRET'') of None \<Rightarrow> Inl (KeyError (asc ''DEPLOYER_SECRET'')) | Some s \<Rightarrow> Inr s)
        (sd_keypair sd))) (\<lambda>source.
     py_bind (count_failures (check_auth_verdict sd pv owner source) 0 (policy_cases pv)) (\<lambda>failures.
     py_ret (if failures = 0 then 0 else 1)))))"

text \<open>An authorised transfer is never mistaken for a rejected one, whatever the server's message.\<close>

lemma verdict_authorized: "verdict_of enforced = asc ''AUTHORIZED'' \<longleftrightarrow> or_empty (si_error enforced) = []"
proof (cases "or_empty (si_error enforced)")
  case (Cons ch e)
  have "name \<noteq> ''AUTHORIZED''" if "(code, name) \<in> set policy_errors" for code name
    using that by (auto simp: policy_errors_def)
  moreover have "asc ''rejected: '' @ s \<noteq> asc ''AUTHORIZED''" for s by (simp add: asc_Cons)
  ultimately show ?thesis
    using Cons by (auto simp: verdict_of_def split: option.splits dest!: find_Some_mem)
qed (simp add: verdict_of_def)

text \<open>Exit code 0 means that every case got the verdict expected of it.\<close>

inductive verdicts :: "(pystr \<Rightarrow> int \<Rightarrow> ('n, pystr) py) \<Rightarrow> 'n \<Rightarrow> (pystr \<times> int \<times> pystr) list \<Rightarrow> pystr list \<Rightarrow> bool"
  for check where
  none: "verdicts check n [] []"
| more: "check to_addr amount n = (Inr v, n1) \<Longrightarrow> verdicts check n1 cases vs \<Longrightarrow>
    verdicts check n ((to_addr, amount, expected) # cases) (v # vs)"

lemma count_failures_verdicts:
  "count_failures check k cases n = (Inr m, n') \<Longrightarrow>
     \<exists>vs. verdicts check n cases vs \<and> k \<le> m \<and> (m = k \<longleftrightarrow> vs = map (\<lambda>(_, _, expected). expected) cases)"
proof (induction check k cases arbitrary: n rule: count_failures.induct)
  case (1 check failures)
  then show ?case by (auto simp: py_ret_def intro: verdicts.none)
next
  case (2 check failures to_addr amount expected cases)
  from 2(2) obtain v n1 where v: "check to_addr amount n = (Inr v, n1)"
    and rest: "count_failures check (if v = expected then failures else Suc failures) cases n1 = (Inr m, n')"
    by (auto simp: py_bind_returns)
  from 2(1) [OF rest] obtain vs where vs: "verdicts check n1 cases vs"
    "(if v = expected then failures else Suc failures) \<le> m"
    "m = (if v = expected then failures else Suc failures) \<longleftrightarrow> vs = map (\<lambda>(_, _, expected). expected) cases"
    by blast
  with verdicts.more [OF v vs(1)] show ?case
    by (intro exI [of _ "v # vs"]) (auto split: if_splits)
qed

lemma verify_policy_exit:
  assumes "verify_policy rt sd env n = (Inr 0, n')"
  shows "\<exists>pv owner source n1 vs. policy_env_of rt env = Inr pv \<and>
     verdicts (check_auth_verdict sd pv owner source) n1 (policy_cases pv)
       [asc ''RecipientNotAllowed'', asc ''OverCap'', asc ''AUTHORIZED'']"
proof -
  from assms obtain pv owner source n1 where pv: "policy_env_of rt env = Inr pv"
    and c: "count_failures (check_auth_verdict sd pv owner source) 0 (policy_cases pv) n1 = (Inr 0, n')"
    by (auto simp: verify_policy_def py_bind_returns py_lift_def py_ret_def split: if_splits)
  from count_failures_verdicts [OF c] pv show ?thesis
    by (auto simp: policy_cases_def)
qed

end
