(* ===== verification/Spec2Isabelle.thy ===== *)
theory Spec2Isabelle
  imports Pipeline_Examples Mock_LLM Flow_Examples Audit_Trail Hash_Identity Soroban_Examples
    Smart_Account Front_Ends Migrate Webhooks_Safety Fail_Closed Scripts
begin

text \<open>
  Lumo, a payment agent: it reads a supplier's invoice with a language model, decides by
  deterministic guards whether to propose the payment, and moves the money through an escrow on a
  chain.  This library models the Python package \<open>lumo\<close> and proves what its decisions and its payments
  guarantee, whatever the model extracts, whatever the chain answers and wherever a statement fails.

  \<^bold>\<open>How the program works.\<close>  \<open>pipeline.run\<close> scans the invoice text (\<open>security\<close>), lets an extractor
  (\<open>llm\<close>) fill five fields, looks the supplier up in the registry, converts the amount, hashes the
  payment (\<open>chain/request_hash.py\<close>) and sends it through the guards; \<open>Repo.record_decision\<close> stores the
  outcome in SQLite (\<open>db\<close>) and publishes it on the event bus (\<open>monitor/events.py\<close>), to which the
  counters and the webhooks subscribe.  \<open>flow.execute\<close> claims a proposed payment, submits one escrow
  through a chain adapter (\<open>chain\<close>: mock chain, \<open>stellar\<close> command line, smart account) and confirms it;
  \<open>attest\<close>, \<open>release\<close> and \<open>revert\<close> end it, \<open>mapper.sync_status\<close> lets the store follow the chain, and a
  released payment is cashed out by an anchor.  Four front ends (\<open>api.py\<close>, \<open>mcp.py\<close>, \<open>cli.py\<close>,
  \<open>ui/server.py\<close>) call these operations, two of them through \<open>LumoClient\<close> (\<open>sdk.py\<close>).

  \<^bold>\<open>Conventions.\<close>  Text is a list of code points (\<open>pystr\<close>).  An exception is a value of \<open>exn\<close>; a pure
  function that may raise returns \<open>exn + 'a\<close>, a statement is a function \<open>'w \<Rightarrow> (exn + 'a) \<times> 'w\<close>
  (\<open>('w, 'a) py\<close>, in \<open>Prelude\<close>), so that effects survive an exception unless a transaction undoes them.
  The state of the store side is the record \<open>world\<close>: the tables, the event bus, the clock and the
  random bytes as streams, and a stream of faults that lets any committed statement fail.  The payment
  flow works on the pair of a \<open>world\<close> and a chain state \<open>'c\<close>.  Python integers are \<open>int\<close>.

  \<^bold>\<open>Python itself.\<close>  \<open>Py_Text\<close> models \<open>strip\<close>, \<open>int\<close> and \<open>str\<close> with the limit of 4300 digits, \<open>Py_Decimal\<close>
  the decimal context of 28 digits, \<open>Py_Regex\<close> the backtracking matcher of \<open>re\<close> with its priorities and
  proves it sound and complete for the language of a pattern, \<open>Json\<close>, \<open>Json_Dumps\<close> and \<open>Json_Parse\<close> the
  \<open>json\<close> module with UTF-8; \<open>Json_Roundtrip\<close> proves that decoding gives back what was encoded, and
  \<open>Json_Errors\<close> that a text that is no JSON is always a \<open>ValueError\<close>.  NFKC, the
  Unicode classification beyond ASCII and SHA-256 are the parameter record \<open>runtime\<close>.

  \<^bold>\<open>Theories and sources.\<close>
  \<^item> \<open>Codes\<close>, \<open>Models\<close>: \<open>lumo/models.py\<close> and the reason codes.
  \<^item> \<open>Ulid\<close>, \<open>Repo\<close>, \<open>Repo_Frames\<close>: \<open>lumo/db/ulid.py\<close>, \<open>repo.py\<close>, \<open>seed.py\<close> and the schema of
    \<open>db/migrations\<close>; tables are lists of rows, an insert checks keys, CHECK and REFERENCES clauses.
    \<open>Migrate\<close>: \<open>lumo/db/migrate.py\<close> with the commits \<open>executescript\<close> makes on its own.
  \<^item> \<open>Config\<close>: \<open>lumo/config.py\<close>.  \<open>Policy_Engine\<close>: \<open>lumo/policy/engine.py\<close>.  \<open>Injection\<close>: \<open>lumo/security\<close>.
  \<^item> \<open>Amounts\<close>, \<open>Guards\<close>, \<open>Decisions\<close>, \<open>Pipeline\<close>: \<open>lumo/pipeline.py\<close> with \<open>record_decision\<close>.
    \<open>Mock_LLM\<close> and \<open>Llama\<close>: the extractors of \<open>lumo/llm\<close> and their prompts.
  \<^item> \<open>Chain\<close>: \<open>lumo/chain/adapter.py\<close> and \<open>mock_chain.py\<close>.  \<open>Soroban\<close>: \<open>soroban_client.py\<close> and the adapters
    over it.  \<open>Smart_Account\<close>: \<open>smart_account.py\<close> and the choice of the adapter.
  \<^item> \<open>Oracle_Anchor\<close>: \<open>lumo/oracle\<close>, \<open>lumo/anchor\<close>.  \<open>Flow\<close>: \<open>lumo/flow.py\<close> and \<open>chain/mapper.py\<close>.
  \<^item> \<open>Metrics\<close>, \<open>Webhooks\<close>: \<open>lumo/monitor\<close>.
  \<^item> \<open>Sdk\<close>, \<open>Api\<close>, \<open>Mcp\<close>, \<open>Cli\<close>, \<open>Ui_State\<close> and \<open>Ui\<close>: \<open>lumo/sdk.py\<close>, \<open>api.py\<close>, \<open>mcp.py\<close>, \<open>cli.py\<close> with
    \<open>testtool.py\<close>, and \<open>ui/server.py\<close>.  \<open>Scripts\<close>: the two scripts of \<open>scripts\<close>.

  \<^bold>\<open>Interfaces.\<close>  \<open>frame_relation\<close> (\<open>Prelude\<close>) says once how a reflexive and transitive relation between
  states is kept by sequencing, branches, loops and handlers; \<open>db_relation\<close>, \<open>step_relation\<close> and
  \<open>repo_relation\<close> (\<open>Repo_Frames\<close>) lift a relation between tables to every operation of the program, and each
  component proves its operations inside them.  The interpretations on the model give the schema
  invariant, the append-only log, the audited payments and the amounts, the events-only frame of the
  guards, and the steps of the interleaving semantics.  \<open>escrow_contract\<close> (\<open>Chain\<close>) is what the payment
  flow needs of a chain, as the docstrings of \<open>chain\<close> and \<open>flow.py\<close> state it: an exception other than
  \<open>ChainSubmittedUnconfirmed\<close> means that no escrow was created.  It is interpreted on the mock chain; the
  clients for the network do not always keep it, as \<open>Soroban_Safety\<close> and \<open>Smart_Account\<close> show.

  \<^bold>\<open>What is proved.\<close>
  \<^item> Decisions (\<open>Pipeline_Safety\<close>, \<open>Decisions\<close>, \<open>Guards\<close>, \<open>Fail_Closed\<close>): whatever the extractor returns, an
    accepted payment goes to a registered supplier, its amount is exact and printed on the invoice, it
    is within policy, the daily cap included, and cosigned when large; flagged texts and failing extractors are refused;
    recording is one transaction, a proposal is stored once with its terms, a refusal changes nothing.
  \<^item> Money (\<open>Interleaving\<close>, \<open>Flow_Paths\<close>, \<open>Flow_Safety\<close>, \<open>Flow_Correct\<close>, \<open>End_To_End\<close>): the operations refine
    the step relation \<open>flow_step\<close>, in which any number of processes interleave, lose answers and crash;
    for a chain that keeps \<open>escrow_contract\<close>, in every reachable state there is at most one escrow per
    payment, with the payment's terms, and none for a held one.  The functional behaviour of every branch of \<open>execute\<close>, of \<open>release\<close>, \<open>revert\<close> and
    \<open>sync_status\<close> follows, down to the balances on the mock chain.
  \<^item> Chains (\<open>Mock_Chain_Safety\<close>, \<open>Soroban_Safety\<close>, \<open>Smart_Account\<close>): the mock chain conserves its supply, is
    always backed and never locks funds; which outcomes of the two clients mean that an escrow exists,
    and which of them break the premise under which a retry is safe.
  \<^item> Store (\<open>Audit_Trail\<close>, \<open>Front_Ends\<close>): every operation and every request keeps the schema and only appends
    to the audit trail.
  \<^item> Data (\<open>Hash_Identity\<close>, \<open>Amounts\<close>, \<open>Injection\<close>, \<open>Ulid\<close>, \<open>Migrate\<close>): the hashed bytes determine the payment,
    amounts are exact, the phrase filter is exactly a language, identifiers carry and sort by time,
    migrations undo each other.
  \<^item> Front ends (\<open>Api_Safety\<close>, \<open>Mcp_Safety\<close>, \<open>Webhooks_Safety\<close>, \<open>Ui_State\<close>): every POST and every JSON-RPC request
    is answered, the stdio loop outlives its requests, webhooks reach public hosts only and at most
    three times, the dump of the store is complete.

  The theories \<open>Demo\<close> and \<open>*_Examples\<close> evaluate the definitions on concrete payments and apply the
  properties there.

  \<^bold>\<open>Loops and bounds.\<close>  No definition runs on fuel.  Loops over lists are structural recursion; the digit
  loops, \<open>finditer\<close> and the JSON decoder are \<open>function\<close>s whose termination is proved from a measure on the
  rest of the text.  The guards in the decoder that make this possible never fire, because every value
  that is read is shorter than its text (\<open>parse_lengths\<close>).  Repetition in the matcher never repeats an
  empty match, as in Python.

  \<^bold>\<open>Parameters.\<close>  \<open>runtime\<close> (see above); the extractor of \<open>run\<close>, an arbitrary function; \<open>llama_server\<close> (httpx and
  pydantic's validation); the chain adapter of the flow; \<open>cli\<close>, the running of the \<open>stellar\<close> command; \<open>sdk\<close>
  (stellar-sdk and the RPC server); \<open>net\<close> (resolver, \<open>ipaddress\<close>, HTTP posts); \<open>repr\<close> and \<open>str\<close> of an exception
  in the front ends; the faults of SQLite.  Where a property needs more of them it says so by a named
  hypothesis, such as the truthfulness of the RPC server in \<open>Smart_Account\<close> (\<open>quiet_reads\<close>,
  \<open>sending_effect\<close>, \<open>refusal_effect\<close>, and \<open>raising_effect\<close>: a submission that raises may have taken
  effect, at most once).

  \<^bold>\<open>Not modelled.\<close>  The two files of \<open>examples\<close>, which only call the client; \<open>argparse\<close>, printing and the HTTP server's
  socket handling; TOML syntax; opening, pragmas and closing of SQLite connections; the recursion
  limit of the JSON decoder; static files; the Rust contracts, which are seen only through the
  adapters.  SQLite's order of rows with equal creation times is taken to be insertion order.
\<close>

end
